(* ===== verification/Prelude.thy ===== *)
theory Prelude
  imports Main "HOL-Library.Char_ord" "HOL-Library.Sublist"
begin

text \<open>
  Shared vocabulary of the development: Go error values and formatted text, the two
  control-flow shapes of the provider's handlers (a chain of checks that returns the first
  error, a sequence of fallible computations), the interface of a validator, and generic
  lemmas on lists and maps.
\<close>

section \<open>Collections\<close>

named_theorems check_iffs \<open>characterisations of validators: no error iff the declarative predicate\<close>
named_theorems go_strings \<open>equations of the modelled functions of Go's strings and strconv\<close>
named_theorems frames \<open>fields an operation leaves unchanged\<close>

section \<open>Errors and text\<close>

text \<open>
  What a call to the Kubernetes API returns instead of a value, sorted the way the code sorts
  it: \<open>apierrors.IsNotFound\<close>, \<open>apierrors.IsAlreadyExists\<close>, \<open>meta.IsNoMatchError\<close>, or
  any other error.
\<close>

datatype api_err = NotFound | AlreadyExists | NoMatch | ApiOther string

text \<open>
  Error values. \<open>Errorf f as\<close> is \<open>fmt.Errorf(f, as...)\<close> with the format string of the
  source, \<open>Wrap f as e\<close> the same with a final \<open>%w\<close> for \<open>e\<close>. \<open>WaitFor\<close> and
  \<open>BackupConfigError\<close> are the runtime's two special errors. \<open>Panic\<close> is a nil pointer
  dereference, which Go turns into a run-time panic. Arguments are kept unformatted
  (\<open>S\<close> a string, \<open>I\<close> a number, \<open>E\<close> an error, \<open>L\<close> a list, \<open>K\<close> the value of a named
  constant of the API), so that the text of a message is its format string and its arguments.
\<close>

datatype err =
    Errorf string "fmt_arg list"
  | Wrap string "fmt_arg list" err
  | Api api_err
  | WaitFor string "fmt_arg list"
  | BackupConfigError string string "fmt_arg list"
  | Panic string
and fmt_arg = S string | I int | E err | L "string list" | K string

text \<open>
  \<open>Raw\<close> is text the code passes through or concatenates itself, \<open>Fmt\<close> is \<open>fmt.Sprintf\<close>,
  \<open>Joined\<close> is \<open>strings.Join\<close> of messages with a separator.
\<close>

datatype msg = Raw string | Fmt string "fmt_arg list" | Joined string "msg list"

type_synonym 'a result = "err + 'a"

text \<open>A field holding data the code only copies, by its serialised form.\<close>

type_synonym opaque = string

text \<open>A Go map with string keys.\<close>

type_synonym 'v gomap = "string \<rightharpoonup> 'v"

section \<open>Control flow\<close>

text \<open>\<open>if err := a; err != nil { return err }\<close> followed by \<open>b\<close>.\<close>

fun or_else :: "'e option \<Rightarrow> 'e option \<Rightarrow> 'e option" where
  "or_else (Some e) b = Some e"
| "or_else None b = b"

lemma or_else_None [simp]: "or_else a b = None \<longleftrightarrow> a = None \<and> b = None"
  by (cases a) auto

lemma or_else_None_right [simp]: "or_else a None = a"
  by (cases a) auto

text \<open>A loop that returns the first error of its body.\<close>

fun first_error :: "('a \<Rightarrow> 'e option) \<Rightarrow> 'a list \<Rightarrow> 'e option" where
  "first_error f [] = None"
| "first_error f (x # xs) = or_else (f x) (first_error f xs)"

lemma first_error_None [simp]: "first_error f xs = None \<longleftrightarrow> (\<forall>x\<in>set xs. f x = None)"
  by (induction xs) auto

lemma first_error_SomeD:
  "first_error f xs = Some e \<Longrightarrow> \<exists>ys x zs. xs = ys @ x # zs \<and> f x = Some e \<and> (\<forall>y\<in>set ys. f y = None)"
proof (induction xs)
  case Nil
  then show ?case by simp
next
  case (Cons a as)
  show ?case
  proof (cases "f a")
    case None
    with Cons obtain ys x zs where
      "as = ys @ x # zs" "f x = Some e" "\<forall>y\<in>set ys. f y = None" by auto
    with None show ?thesis
      by (intro exI [of _ "a # ys"] exI [of _ x] exI [of _ zs]) auto
  next
    case (Some b)
    with Cons.prems show ?thesis
      by (intro exI [of _ "[]"] exI [of _ a] exI [of _ as]) auto
  qed
qed

text \<open>Sequencing of computations that return a value or an error.\<close>

fun bind_result :: "'a result \<Rightarrow> ('a \<Rightarrow> 'b result) \<Rightarrow> 'b result" where
  "bind_result (Inl e) f = Inl e"
| "bind_result (Inr a) f = f a"

lemma bind_result_Inr [simp]: "bind_result m f = Inr b \<longleftrightarrow> (\<exists>a. m = Inr a \<and> f a = Inr b)"
  by (cases m) auto

lemma bind_result_Inl: "bind_result m f = Inl e \<longleftrightarrow> m = Inl e \<or> (\<exists>a. m = Inr a \<and> f a = Inl e)"
  by (cases m) auto

text \<open>Handlers read and write an API server: computations that pass its state along.\<close>

type_synonym ('w, 'a) eff = "'w \<Rightarrow> 'a result \<times> 'w"

definition ret :: "'a \<Rightarrow> ('w, 'a) eff" where
  "ret a w = (Inr a, w)"

definition fail :: "err \<Rightarrow> ('w, 'a) eff" where
  "fail e w = (Inl e, w)"

definition bind_eff :: "('w, 'a) eff \<Rightarrow> ('a \<Rightarrow> ('w, 'b) eff) \<Rightarrow> ('w, 'b) eff" where
  "bind_eff m f w = (case m w of (Inl e, w') \<Rightarrow> (Inl e, w') | (Inr a, w') \<Rightarrow> f a w')"

text \<open>A computation that only reads.\<close>

definition reads :: "('w \<Rightarrow> 'a result) \<Rightarrow> ('w, 'a) eff" where
  "reads f w = (f w, w)"

lemma eff_simps [simp]:
  "ret a w = (Inr a, w)" "fail e w = (Inl e, w)" "reads g w = (g w, w)"
  by (simp_all add: ret_def fail_def reads_def)

section \<open>Validators\<close>

text \<open>
  The interface of a validator: a check that returns an error, and the declarative predicate
  it decides. Components are validated by chains and loops of such checks.
\<close>

locale checker =
  fixes check :: "'a \<Rightarrow> err option"
    and good :: "'a \<Rightarrow> bool"
  assumes check_iff: "check x = None \<longleftrightarrow> good x"
begin

lemma rejects: "\<not> good x \<Longrightarrow> \<exists>e. check x = Some e"
  using check_iff [of x] by auto

lemma rejected_not_good: "check x = Some e \<Longrightarrow> \<not> good x"
  using check_iff [of x] by auto

lemma all_good: "first_error check xs = None \<longleftrightarrow> list_all good xs"
  by (simp add: check_iff list_all_iff)

lemma on_pointer: "(case p of None \<Rightarrow> None | Some x \<Rightarrow> check x) = None \<longleftrightarrow> pred_option good p"
  by (cases p) (simp_all add: check_iff)

end

section \<open>Lists and maps\<close>

lemma find_None_ex: "List.find P xs = None \<longleftrightarrow> (\<forall>x\<in>set xs. \<not> P x)"
  by (auto simp: find_None_iff)

lemma find_SomeD: "List.find P xs = Some x \<Longrightarrow> x \<in> set xs \<and> P x"
  by (auto simp: find_Some_iff)

lemma list_ex_mem: "list_ex P xs \<longleftrightarrow> (\<exists>x\<in>set xs. P x)"
  by (simp add: list_ex_iff)

text \<open>\<open>slices.Contains\<close> guarded append: \<open>if !slices.Contains(xs, x) { xs = append(xs, x) }\<close>.\<close>

definition append_new :: "'a list \<Rightarrow> 'a \<Rightarrow> 'a list" where
  "append_new xs x = (if x \<in> set xs then xs else xs @ [x])"

lemma set_append_new [simp]: "set (append_new xs x) = insert x (set xs)"
  by (auto simp: append_new_def)

lemma distinct_append_new [simp]: "distinct (append_new xs x) \<longleftrightarrow> distinct xs"
  by (auto simp: append_new_def)

lemma append_new_absorb: "x \<in> set xs \<Longrightarrow> append_new xs x = xs"
  by (simp add: append_new_def)

lemma append_new_prefix: "prefix xs (append_new xs x)"
  by (auto simp: append_new_def)

lemma set_foldl_append_new: "set (foldl append_new xs ys) = set xs \<union> set ys"
  by (induction ys arbitrary: xs) auto

lemma foldl_append_new_absorb: "set ys \<subseteq> set xs \<Longrightarrow> foldl append_new xs ys = xs"
proof (induction ys arbitrary: xs)
  case Nil
  then show ?case by simp
next
  case (Cons y ys)
  then show ?case by (simp add: append_new_absorb)
qed

lemma foldl_append_new_prefix: "prefix xs (foldl append_new xs ys)"
proof (induction ys arbitrary: xs)
  case Nil
  then show ?case by simp
next
  case (Cons y ys)
  have "prefix (append_new xs y) (foldl append_new (append_new xs y) ys)"
    by (rule Cons.IH)
  with append_new_prefix have "prefix xs (foldl append_new (append_new xs y) ys)"
    by (rule prefix_order.trans)
  then show ?case by simp
qed

end
