(* ===== verification/Go_Strings.thy ===== *)
theory Go_Strings
  imports Prelude
begin

text \<open>
  The functions of Go's \<open>strings\<close> and \<open>strconv\<close> packages that the provider calls, on
  byte strings (a Go string is a sequence of bytes, and \<^typ>\<open>char\<close> is a byte), with the
  facts the components use: lengths, round trips of split and join, what trimming removes.
\<close>

section \<open>Splitting at a character: strings.Cut, strings.Split, strings.Join\<close>

text \<open>\<open>before, _, _ := strings.Cut(s, sep)\<close> for a one-byte separator.\<close>

definition cut_before :: "char \<Rightarrow> string \<Rightarrow> string" where
  "cut_before c s = takeWhile (\<lambda>x. x \<noteq> c) s"

fun split_on :: "char \<Rightarrow> string \<Rightarrow> string list" where
  "split_on c [] = [[]]"
| "split_on c (x # xs) =
     (if x = c then [] # split_on c xs
      else case split_on c xs of [] \<Rightarrow> [[x]] | h # t \<Rightarrow> (x # h) # t)"

fun join :: "string \<Rightarrow> string list \<Rightarrow> string" where
  "join sep [] = []"
| "join sep [x] = x"
| "join sep (x # y # zs) = x @ sep @ join sep (y # zs)"

lemma split_on_not_Nil [simp]: "split_on c s \<noteq> []"
  by (induction s) (auto split: list.splits)

lemma join_Cons: "xs \<noteq> [] \<Longrightarrow> join sep (x # xs) = x @ sep @ join sep xs"
  by (cases xs) auto

lemma join_split_on: "join [c] (split_on c s) = s"
proof (induction s)
  case Nil
  then show ?case by simp
next
  case (Cons x xs)
  obtain h t where ht: "split_on c xs = h # t"
    by (cases "split_on c xs") auto
  show ?case
  proof (cases "x = c")
    case True
    then show ?thesis using Cons ht by (simp add: join_Cons)
  next
    case False
    then show ?thesis using Cons ht by (cases t) (auto simp: join_Cons)
  qed
qed

lemma split_on_no_sep: "t \<in> set (split_on c s) \<Longrightarrow> c \<notin> set t"
  by (induction s arbitrary: t) (auto split: list.splits if_splits)

lemma split_on_hd: "hd (split_on c s) = cut_before c s"
  by (induction s) (auto simp: cut_before_def split: list.splits)

lemma split_on_free: "c \<notin> set s \<Longrightarrow> split_on c s = [s]"
  by (induction s) auto

section \<open>Trimming: strings.TrimRight, strings.TrimSpace, strings.Fields\<close>

text \<open>\<open>strings.TrimRight(s, cutset)\<close> for an ASCII cutset.\<close>

definition trim_right :: "string \<Rightarrow> string \<Rightarrow> string" where
  "trim_right cutset s = rev (dropWhile (\<lambda>x. x \<in> set cutset) (rev s))"

lemma trim_right_prefix: "prefix (trim_right cs s) s"
  unfolding trim_right_def
  by (metis prefix_def rev_append rev_rev_ident takeWhile_dropWhile_id)

lemma trim_right_length: "length (trim_right cs s) \<le> length s"
  by (rule prefix_length_le [OF trim_right_prefix])

lemma trim_right_last: "trim_right cs s \<noteq> [] \<Longrightarrow> last (trim_right cs s) \<notin> set cs"
  unfolding trim_right_def by (metis hd_dropWhile last_rev rev_is_Nil_conv)

lemma trim_right_empty: "trim_right cs s = [] \<longleftrightarrow> set s \<subseteq> set cs"
  by (auto simp: trim_right_def dropWhile_eq_Nil_conv)

text \<open>
  The UTF-8 encodings of the runes for which \<open>unicode.IsSpace\<close> holds. Their first bytes are
  ASCII or lead bytes, which never occur inside another rune, so looking for them byte by
  byte finds the same spaces as decoding runes.
\<close>

definition space_runes :: "string list" where
  "space_runes =
     [[CHR 0x09], [CHR 0x0A], [CHR 0x0B], [CHR 0x0C], [CHR 0x0D], [CHR 0x20],
      [CHR 0xC2, CHR 0x85], [CHR 0xC2, CHR 0xA0], [CHR 0xE1, CHR 0x9A, CHR 0x80],
      [CHR 0xE2, CHR 0x80, CHR 0x80], [CHR 0xE2, CHR 0x80, CHR 0x81],
      [CHR 0xE2, CHR 0x80, CHR 0x82], [CHR 0xE2, CHR 0x80, CHR 0x83],
      [CHR 0xE2, CHR 0x80, CHR 0x84], [CHR 0xE2, CHR 0x80, CHR 0x85],
      [CHR 0xE2, CHR 0x80, CHR 0x86], [CHR 0xE2, CHR 0x80, CHR 0x87],
      [CHR 0xE2, CHR 0x80, CHR 0x88], [CHR 0xE2, CHR 0x80, CHR 0x89],
      [CHR 0xE2, CHR 0x80, CHR 0x8A], [CHR 0xE2, CHR 0x80, CHR 0xA8],
      [CHR 0xE2, CHR 0x80, CHR 0xA9], [CHR 0xE2, CHR 0x80, CHR 0xAF],
      [CHR 0xE2, CHR 0x81, CHR 0x9F], [CHR 0xE3, CHR 0x80, CHR 0x80]]"

text \<open>The number of bytes of a space rune at the start of a string; 0 if there is none.\<close>

definition space_width :: "string \<Rightarrow> nat" where
  "space_width s = (case List.find (\<lambda>r. prefix r s) space_runes of None \<Rightarrow> 0 | Some r \<Rightarrow> length r)"

lemma space_width_le: "space_width s \<le> length s"
  by (auto simp: space_width_def find_Some_iff prefix_length_le split: option.splits)

lemma space_width_Nil [simp]: "space_width [] = 0"
  by (simp add: space_width_def space_runes_def)

text \<open>\<open>strings.Fields\<close>: the maximal runs of bytes outside spaces, with the run in progress.\<close>

function fields_from :: "string \<Rightarrow> string \<Rightarrow> string list" where
  "fields_from cur [] = (if cur = [] then [] else [cur])"
| "fields_from cur (x # xs) =
     (if space_width (x # xs) = 0 then fields_from (cur @ [x]) xs
      else (if cur = [] then [] else [cur]) @ fields_from [] (drop (space_width (x # xs)) (x # xs)))"
  by pat_completeness auto
termination
  by (relation "measure (\<lambda>(cur, s). length s)") auto

definition go_fields :: "string \<Rightarrow> string list" where
  "go_fields s = fields_from [] s"

text \<open>\<open>strings.TrimSpace\<close>: drop space runes at the front, then at the back.\<close>

function trim_left_space :: "string \<Rightarrow> string" where
  "trim_left_space [] = []"
| "trim_left_space (x # xs) =
     (if space_width (x # xs) = 0 then x # xs
      else trim_left_space (drop (space_width (x # xs)) (x # xs)))"
  by pat_completeness auto
termination
  by (relation "measure length") auto

definition space_suffix_width :: "string \<Rightarrow> nat" where
  "space_suffix_width s =
     (case List.find (\<lambda>r. suffix r s) space_runes of None \<Rightarrow> 0 | Some r \<Rightarrow> length r)"

lemma space_suffix_width_Nil [simp]: "space_suffix_width [] = 0"
  by (simp add: space_suffix_width_def space_runes_def)

function trim_right_space :: "string \<Rightarrow> string" where
  "trim_right_space s =
     (if space_suffix_width s = 0 then s
      else trim_right_space (take (length s - space_suffix_width s) s))"
  by pat_completeness auto
termination
proof (relation "measure length")
  fix s :: string
  assume "space_suffix_width s \<noteq> 0"
  moreover from this have "s \<noteq> []" by auto
  ultimately show "(take (length s - space_suffix_width s) s, s) \<in> measure length"
    by simp
qed simp

definition trim_space :: "string \<Rightarrow> string" where
  "trim_space s = trim_right_space (trim_left_space s)"

declare fields_from.simps [simp del] trim_left_space.simps [simp del] trim_right_space.simps [simp del]

text \<open>A word without spaces: not empty, and no space rune starts at any of its bytes.\<close>

definition solid :: "string \<Rightarrow> bool" where
  "solid f \<longleftrightarrow> f \<noteq> [] \<and> (\<forall>k<length f. space_width (drop k f) = 0)"

lemma space_runes_shape:
  "list_all (\<lambda>r. r \<noteq> [] \<and> (length r = 1 \<or> CHR 0x20 \<notin> set r)) space_runes"
  by (simp add: space_runes_def)

lemma space_rune_nonempty: "r \<in> set space_runes \<Longrightarrow> r \<noteq> []"
  using space_runes_shape by (auto simp: list_all_iff)

lemma space_rune_cases: "r \<in> set space_runes \<Longrightarrow> (\<exists>c. r = [c]) \<or> CHR 0x20 \<notin> set r"
  using space_runes_shape by (auto simp: list_all_iff length_Suc_conv)

lemma space_width_0: "space_width s = 0 \<longleftrightarrow> (\<forall>r\<in>set space_runes. \<not> prefix r s)"
proof
  assume "space_width s = 0"
  then show "\<forall>r\<in>set space_runes. \<not> prefix r s"
    by (auto simp: space_width_def find_None_iff dest: find_SomeD space_rune_nonempty split: option.splits)
next
  assume "\<forall>r\<in>set space_runes. \<not> prefix r s"
  then have "List.find (\<lambda>r. prefix r s) space_runes = None"
    by (auto simp: find_None_iff)
  then show "space_width s = 0"
    by (simp add: space_width_def)
qed

lemma space_width_append: "space_width (u @ v) = 0 \<Longrightarrow> space_width u = 0"
  by (auto simp: space_width_0)

lemma prefix_before:
  assumes "c \<notin> set r"
  shows "prefix r (u @ c # v) \<longleftrightarrow> prefix r u"
  using assms
proof (induction u arbitrary: r)
  case Nil
  then show ?case by (cases r) auto
next
  case (Cons x u)
  then show ?case by (cases r) auto
qed

lemma space_width_before_blank:
  assumes "u \<noteq> []"
  shows "space_width (u @ CHR 0x20 # v) = 0 \<longleftrightarrow> space_width u = 0"
proof -
  have "prefix r (u @ CHR 0x20 # v) \<longleftrightarrow> prefix r u" if "r \<in> set space_runes" for r
    using space_rune_cases [OF that]
  proof
    assume "\<exists>c. r = [c]"
    with assms show ?thesis by (cases u) auto
  next
    assume "CHR 0x20 \<notin> set r"
    then show ?thesis by (rule prefix_before)
  qed
  then show ?thesis by (simp add: space_width_0)
qed

lemma space_width_blank [simp]: "space_width (CHR 0x20 # v) = 1"
  by (simp add: space_width_def space_runes_def)

lemma fields_from_solid:
  assumes "\<forall>k<length cur. space_width (drop k cur @ s) = 0"
  shows "\<forall>f\<in>set (fields_from cur s). solid f"
  using assms
proof (induction cur s rule: fields_from.induct)
  case (1 cur)
  then show ?case by (auto simp: fields_from.simps solid_def)
next
  case (2 cur x xs)
  show ?case
  proof (cases "space_width (x # xs) = 0")
    case True
    have "\<forall>k<length (cur @ [x]). space_width (drop k (cur @ [x]) @ xs) = 0"
      using "2.prems" True by (auto simp: less_Suc_eq)
    then show ?thesis using "2.IH"(1) [OF True] True by (simp add: fields_from.simps)
  next
    case False
    have "\<forall>k<length cur. space_width (drop k cur) = 0"
      using "2.prems" space_width_append by blast
    then show ?thesis using "2.IH"(2) [OF False] False by (auto simp: fields_from.simps solid_def)
  qed
qed

lemma fields_solid: "f \<in> set (go_fields s) \<Longrightarrow> solid f"
  using fields_from_solid [of "[]" s] by (simp add: go_fields_def)

lemma fields_from_word:
  assumes "\<forall>k<length f. space_width (drop k f) = 0"
  shows "cur @ f \<noteq> [] \<Longrightarrow> fields_from cur (f @ CHR 0x20 # s) = (cur @ f) # fields_from [] s"
    and "cur @ f \<noteq> [] \<Longrightarrow> fields_from cur f = [cur @ f]"
  using assms
proof (induction f arbitrary: cur)
  case Nil
  {
    case 1
    then show ?case by (simp add: fields_from.simps)
  next
    case 2
    then show ?case by (simp add: fields_from.simps)
  }
next
  case (Cons x f)
  have w: "space_width (x # f) = 0" if "\<forall>k<length (x # f). space_width (drop k (x # f)) = 0"
    using that by (metis drop0 length_greater_0_conv list.discI)
  have tl: "\<forall>k<length f. space_width (drop k f) = 0"
    if "\<forall>k<length (x # f). space_width (drop k (x # f)) = 0"
    using that by (metis Suc_less_eq drop_Suc_Cons length_Cons)
  {
    case 1
    have "space_width ((x # f) @ CHR 0x20 # s) = 0"
      using w [OF 1(2)] by (subst space_width_before_blank) auto
    then show ?case using Cons.IH(1) [of "cur @ [x]"] tl [OF 1(2)] by (simp add: fields_from.simps)
  next
    case 2
    show ?case using Cons.IH(2) [of "cur @ [x]"] tl [OF 2(2)] w [OF 2(2)]
      by (simp add: fields_from.simps)
  }
qed

lemma fields_join:
  assumes "\<forall>f\<in>set fs. solid f"
  shows "go_fields (join '' '' fs) = fs"
  using assms unfolding go_fields_def
proof (induction fs)
  case Nil
  then show ?case by (simp add: fields_from.simps)
next
  case (Cons f fs)
  then have f: "f \<noteq> []" "\<forall>k<length f. space_width (drop k f) = 0"
    by (auto simp: solid_def)
  show ?case
  proof (cases fs)
    case Nil
    with f show ?thesis using fields_from_word(2) [OF f(2), of "[]"] by simp
  next
    case (Cons g gs)
    with f Cons.IH Cons.prems show ?thesis
      using fields_from_word(1) [OF f(2), of "[]" "join '' '' fs"] by simp
  qed
qed

text \<open>Spaces at the ends do not matter to \<open>strings.Fields\<close>, so trimming first changes nothing.\<close>

lemma space_rune_start:
  assumes "p \<in> set space_runes" "r \<in> set space_runes"
  shows "hd r \<notin> set (tl p)"
proof -
  have "list_all (\<lambda>p. list_all (\<lambda>c. c \<notin> set (map hd space_runes)) (tl p)) space_runes"
    by (simp add: space_runes_def)
  with assms show ?thesis by (fastforce simp: list_all_iff)
qed

lemma space_rune_prefix_free:
  assumes "p \<in> set space_runes" "r \<in> set space_runes" "prefix p r"
  shows "p = r"
proof -
  have "list_all (\<lambda>p. list_all (\<lambda>r. prefix p r \<longrightarrow> p = r) space_runes) space_runes"
    by (simp add: space_runes_def)
  with assms show ?thesis by (auto simp: list_all_iff)
qed

lemma space_rune_no_straddle:
  assumes "p \<in> set space_runes" "r \<in> set space_runes" "u \<noteq> []"
  shows "prefix p (u @ r) \<longleftrightarrow> prefix p u"
proof
  assume "prefix p (u @ r)"
  then consider "prefix p u" | q where "p = u @ q" "prefix q r" by (auto simp: prefix_append)
  then show "prefix p u"
  proof cases
    case 2
    have "q = []"
    proof (rule ccontr)
      assume "q \<noteq> []"
      with 2 have "hd r = hd q" by (metis hd_append2 prefixE)
      moreover have "hd q \<in> set (tl p)" using 2 \<open>q \<noteq> []\<close> assms(3) by (cases u) auto
      ultimately show False using space_rune_start assms(1,2) by metis
    qed
    with 2 show ?thesis by simp
  qed simp
qed auto

lemma space_width_before_rune:
  assumes "r \<in> set space_runes" "u \<noteq> []"
  shows "space_width (u @ r) = space_width u"
proof -
  have "List.find (\<lambda>p. prefix p (u @ r)) space_runes = List.find (\<lambda>p. prefix p u) space_runes"
    using space_rune_no_straddle [OF _ assms] by (intro find_cong) auto
  then show ?thesis by (simp add: space_width_def)
qed

lemma space_width_rune: "r \<in> set space_runes \<Longrightarrow> space_width r = length r"
  using space_rune_prefix_free by (fastforce simp: space_width_def find_None_iff dest!: find_SomeD split: option.splits)

lemma fields_from_rune:
  "r \<in> set space_runes \<Longrightarrow> fields_from cur (u @ r) = fields_from cur u"
proof (induction cur u rule: fields_from.induct)
  case (1 cur)
  then obtain y ys where "r = y # ys" using space_rune_nonempty by (metis list.exhaust)
  with 1 show ?case using space_width_rune [of r] by (simp add: fields_from.simps)
next
  case (2 cur x xs)
  have w: "space_width (x # xs @ r) = space_width (x # xs)"
    using space_width_before_rune [of r "x # xs"] "2.prems" by simp
  have "drop (space_width (x # xs)) (x # xs @ r) = drop (space_width (x # xs)) (x # xs) @ r"
    using space_width_le [of "x # xs"] by (metis append_Cons drop_append diff_is_0_eq drop0)
  with 2 w show ?case by (simp add: fields_from.simps)
qed

lemma go_fields_trim_right: "go_fields (trim_right_space s) = go_fields s"
proof (induction s rule: trim_right_space.induct)
  case (1 s)
  show ?case
  proof (cases "space_suffix_width s = 0")
    case True
    then show ?thesis by (simp add: trim_right_space.simps)
  next
    case False
    then obtain r where r: "r \<in> set space_runes" "suffix r s" "space_suffix_width s = length r"
      by (auto simp: space_suffix_width_def dest: find_SomeD split: option.splits)
    then obtain u where u: "s = u @ r" by (auto simp: suffix_def)
    then have "trim_right_space s = trim_right_space u"
      using r(3) False by (subst trim_right_space.simps) simp
    moreover have "go_fields (trim_right_space u) = go_fields u"
      using 1 False u r(3) by simp
    ultimately show ?thesis
      using fields_from_rune [OF r(1), of "[]" u] u by (simp add: go_fields_def)
  qed
qed

lemma go_fields_trim_left: "go_fields (trim_left_space s) = go_fields s"
  by (induction s rule: trim_left_space.induct) (auto simp: trim_left_space.simps fields_from.simps go_fields_def)

lemma go_fields_trim [simp]: "go_fields (trim_space s) = go_fields s"
  by (simp add: trim_space_def go_fields_trim_left go_fields_trim_right)

section \<open>Numbers: strconv.Atoi\<close>

text \<open>
  \<open>strconv.Atoi\<close> on a 64-bit platform: an optional sign, then decimal digits, read from the
  left as an unsigned 64-bit number. A byte that is not a digit gives 0 and a syntax error;
  leaving the 64-bit range gives the nearest \<open>int64\<close> and a range error, before the rest of
  the string is looked at.
\<close>

datatype num_err = ErrSyntax | ErrRange

definition is_digit :: "char \<Rightarrow> bool" where
  "is_digit c \<longleftrightarrow> CHR ''0'' \<le> c \<and> c \<le> CHR ''9''"

definition digit_value :: "char \<Rightarrow> int" where
  "digit_value c = int (of_char c) - 48"

fun parse_uint :: "int \<Rightarrow> string \<Rightarrow> int \<times> num_err option" where
  "parse_uint n [] = (n, None)"
| "parse_uint n (c # cs) =
     (if \<not> is_digit c then (0, Some ErrSyntax)
      else let n' = 10 * n + digit_value c
           in if n' > 2 ^ 64 - 1 then (2 ^ 64 - 1, Some ErrRange) else parse_uint n' cs)"

definition parse_sign :: "string \<Rightarrow> bool \<times> string" where
  "parse_sign s =
     (case s of [] \<Rightarrow> (False, [])
      | c # cs \<Rightarrow> if c = CHR ''-'' then (True, cs) else if c = CHR ''+'' then (False, cs) else (False, s))"

definition atoi :: "string \<Rightarrow> int \<times> num_err option" where
  "atoi s =
     (let (neg, digits) = parse_sign s
      in if digits = [] then (0, Some ErrSyntax)
         else case parse_uint 0 digits of
           (_, Some ErrSyntax) \<Rightarrow> (0, Some ErrSyntax)
         | (un, _) \<Rightarrow>
             if \<not> neg \<and> un \<ge> 2 ^ 63 then (2 ^ 63 - 1, Some ErrRange)
             else if neg \<and> un > 2 ^ 63 then (- (2 ^ 63), Some ErrRange)
             else (if neg then - un else un, None))"

lemma atoi_examples [go_strings]:
  "atoi ''18'' = (18, None)" "atoi ''06'' = (6, None)" "atoi [] = (0, Some ErrSyntax)"
  "atoi ''6-beta'' = (0, Some ErrSyntax)" "atoi ''-3'' = (-3, None)"
  by (simp_all add: atoi_def parse_sign_def is_digit_def digit_value_def less_eq_char_def)

lemma parse_uint_range: "0 \<le> n \<Longrightarrow> n < 2 ^ 64 \<Longrightarrow> fst (parse_uint n s) \<in> {0..<2 ^ 64}"
proof (induction n s rule: parse_uint.induct)
  case (1 n)
  then show ?case by simp
next
  case (2 n c cs)
  have "0 \<le> digit_value c" if "is_digit c"
    using that by (simp add: is_digit_def digit_value_def less_eq_char_def)
  with 2 show ?case by (auto simp: Let_def)
qed

text \<open>Every value read fits a 64-bit \<open>int\<close>.\<close>

lemma atoi_bounds: "- (2 ^ 63) \<le> fst (atoi s) \<and> fst (atoi s) < 2 ^ 63"
proof -
  have r: "0 \<le> un" if "parse_uint 0 ds = (un, e)" for ds un e
    using parse_uint_range [of 0 ds] that by simp
  show ?thesis
    by (auto simp: atoi_def Let_def split: prod.splits option.splits num_err.splits dest: r)
qed

section \<open>Prefixes, letters, replacement\<close>

definition has_prefix :: "string \<Rightarrow> string \<Rightarrow> bool" where
  "has_prefix s p \<longleftrightarrow> prefix p s"

text \<open>\<open>strings.ReplaceAll(s, old, new)\<close> for a one-byte \<open>old\<close>.\<close>

definition replace_all :: "string \<Rightarrow> char \<Rightarrow> string \<Rightarrow> string" where
  "replace_all s old new = concat (map (\<lambda>c. if c = old then new else [c]) s)"

lemma replace_all_simps [simp]:
  "replace_all [] c n = []"
  "replace_all (x # xs) c n = (if x = c then n else [x]) @ replace_all xs c n"
  by (simp_all add: replace_all_def)

lemma replace_all_free: "c \<notin> set s \<Longrightarrow> replace_all s c n = s"
  by (induction s) auto

end
