(* ===== verification/Sha256.thy ===== *)
theory Sha256
  imports Go_Strings "HOL-Library.Word"
begin

text \<open>
  \<open>crypto/sha256\<close> and \<open>encoding/hex\<close>, which the two name generators use to shorten long
  names: the FIPS 180-4 algorithm on 32-bit words, whose additions wrap. Names only rely on
  the digest being a function of the input with 64 hexadecimal digits.
\<close>

unbundle bit_operations_syntax

type_synonym u32 = "32 word"
type_synonym sha_state = "u32 \<times> u32 \<times> u32 \<times> u32 \<times> u32 \<times> u32 \<times> u32 \<times> u32"

section \<open>The compression function\<close>

definition sha_k :: "u32 list" where
  "sha_k =
     [0x428A2F98, 0x71374491, 0xB5C0FBCF, 0xE9B5DBA5,
      0x3956C25B, 0x59F111F1, 0x923F82A4, 0xAB1C5ED5,
      0xD807AA98, 0x12835B01, 0x243185BE, 0x550C7DC3,
      0x72BE5D74, 0x80DEB1FE, 0x9BDC06A7, 0xC19BF174,
      0xE49B69C1, 0xEFBE4786, 0x0FC19DC6, 0x240CA1CC,
      0x2DE92C6F, 0x4A7484AA, 0x5CB0A9DC, 0x76F988DA,
      0x983E5152, 0xA831C66D, 0xB00327C8, 0xBF597FC7,
      0xC6E00BF3, 0xD5A79147, 0x06CA6351, 0x14292967,
      0x27B70A85, 0x2E1B2138, 0x4D2C6DFC, 0x53380D13,
      0x650A7354, 0x766A0ABB, 0x81C2C92E, 0x92722C85,
      0xA2BFE8A1, 0xA81A664B, 0xC24B8B70, 0xC76C51A3,
      0xD192E819, 0xD6990624, 0xF40E3585, 0x106AA070,
      0x19A4C116, 0x1E376C08, 0x2748774C, 0x34B0BCB5,
      0x391C0CB3, 0x4ED8AA4A, 0x5B9CCA4F, 0x682E6FF3,
      0x748F82EE, 0x78A5636F, 0x84C87814, 0x8CC70208,
      0x90BEFFFA, 0xA4506CEB, 0xBEF9A3F7, 0xC67178F2]"

definition sha_h0 :: sha_state where
  "sha_h0 = (0x6A09E667, 0xBB67AE85, 0x3C6EF372, 0xA54FF53A, 0x510E527F, 0x9B05688C, 0x1F83D9AB, 0x5BE0CD19)"

definition sha_ch :: "u32 \<Rightarrow> u32 \<Rightarrow> u32 \<Rightarrow> u32" where
  "sha_ch x y z = (x AND y) XOR (NOT x AND z)"

definition sha_maj :: "u32 \<Rightarrow> u32 \<Rightarrow> u32 \<Rightarrow> u32" where
  "sha_maj x y z = (x AND y) XOR (x AND z) XOR (y AND z)"

definition sha_big0 :: "u32 \<Rightarrow> u32" where
  "sha_big0 x = word_rotr 2 x XOR word_rotr 13 x XOR word_rotr 22 x"

definition sha_big1 :: "u32 \<Rightarrow> u32" where
  "sha_big1 x = word_rotr 6 x XOR word_rotr 11 x XOR word_rotr 25 x"

definition sha_small0 :: "u32 \<Rightarrow> u32" where
  "sha_small0 x = word_rotr 7 x XOR word_rotr 18 x XOR drop_bit 3 x"

definition sha_small1 :: "u32 \<Rightarrow> u32" where
  "sha_small1 x = word_rotr 17 x XOR word_rotr 19 x XOR drop_bit 10 x"

text \<open>The message schedule, newest word first: \<open>n\<close> more words.\<close>

fun sha_schedule :: "nat \<Rightarrow> u32 list \<Rightarrow> u32 list" where
  "sha_schedule 0 ws = ws"
| "sha_schedule (Suc n) ws =
     sha_schedule n ((sha_small1 (ws ! 1) + ws ! 6 + sha_small0 (ws ! 14) + ws ! 15) # ws)"

fun sha_round :: "sha_state \<Rightarrow> u32 \<times> u32 \<Rightarrow> sha_state" where
  "sha_round (a, b, c, d, e, f, g, h) (k, w) =
     (let t1 = h + sha_big1 e + sha_ch e f g + k + w;
          t2 = sha_big0 a + sha_maj a b c
      in (t1 + t2, a, b, c, d + t1, e, f, g))"

fun sha_add :: "sha_state \<Rightarrow> sha_state \<Rightarrow> sha_state" where
  "sha_add (a, b, c, d, e, f, g, h) (a', b', c', d', e', f', g', h') =
     (a + a', b + b', c + c', d + d', e + e', f + f', g + g', h + h')"

definition sha_block :: "sha_state \<Rightarrow> u32 list \<Rightarrow> sha_state" where
  "sha_block st ws = sha_add st (foldl sha_round st (zip sha_k (rev (sha_schedule 48 (rev ws)))))"

section \<open>Padding and the digest\<close>

fun sha_words :: "int list \<Rightarrow> u32 list" where
  "sha_words (a # b # c # d # bs) = of_int (((a * 256 + b) * 256 + c) * 256 + d) # sha_words bs"
| "sha_words _ = []"

fun sha_bytes :: "nat \<Rightarrow> int \<Rightarrow> int list" where
  "sha_bytes 0 n = []"
| "sha_bytes (Suc k) n = sha_bytes k (n div 256) @ [n mod 256]"

definition sha_pad :: "int list \<Rightarrow> int list" where
  "sha_pad bs =
     bs @ [128] @ replicate ((119 - length bs mod 64) mod 64) 0 @ sha_bytes 8 (8 * int (length bs) mod 2 ^ 64)"

function sha_blocks :: "sha_state \<Rightarrow> u32 list \<Rightarrow> sha_state" where
  "sha_blocks st ws =
     (if ws = [] then st else sha_blocks (sha_block st (take 16 ws)) (drop 16 ws))"
  by pat_completeness auto
termination
  by (relation "measure (\<lambda>(st, ws). length ws)") auto

declare sha_blocks.simps [simp del]

fun sha_state_words :: "sha_state \<Rightarrow> u32 list" where
  "sha_state_words (a, b, c, d, e, f, g, h) = [a, b, c, d, e, f, g, h]"

text \<open>\<open>sum := sha256.Sum256([]byte(s))\<close>, as 32 byte values.\<close>

definition sha256 :: "string \<Rightarrow> int list" where
  "sha256 s =
     concat (map (\<lambda>w. sha_bytes 4 (uint w))
       (sha_state_words (sha_blocks sha_h0 (sha_words (sha_pad (map of_char s))))))"

text \<open>\<open>hex.EncodeToString\<close>.\<close>

definition hex_digit :: "int \<Rightarrow> char" where
  "hex_digit n = ''0123456789abcdef'' ! nat n"

definition hex_encode :: "int list \<Rightarrow> string" where
  "hex_encode bs = concat (map (\<lambda>b. [hex_digit (b div 16), hex_digit (b mod 16)]) bs)"

definition sha256_hex :: "string \<Rightarrow> string" where
  "sha256_hex s = hex_encode (sha256 s)"

section \<open>What the names rely on\<close>

lemma length_sha_bytes [simp]: "length (sha_bytes k n) = k"
  by (induction k n rule: sha_bytes.induct) auto

lemma sha_bytes_byte: "b \<in> set (sha_bytes k n) \<Longrightarrow> 0 \<le> b \<and> b < 256"
  by (induction k n rule: sha_bytes.induct) auto

lemma length_sha256: "length (sha256 s) = 32"
proof -
  obtain a b c d e f g h where
    "sha_blocks sha_h0 (sha_words (sha_pad (map of_char s))) = (a, b, c, d, e, f, g, h)"
    by (cases "sha_blocks sha_h0 (sha_words (sha_pad (map of_char s)))") auto
  then show ?thesis by (simp add: sha256_def)
qed

lemma sha256_byte: "b \<in> set (sha256 s) \<Longrightarrow> 0 \<le> b \<and> b < 256"
  by (auto simp: sha256_def dest: sha_bytes_byte)

lemma length_hex_encode: "length (hex_encode bs) = 2 * length bs"
  by (induction bs) (auto simp: hex_encode_def)

lemma hex_digit_mem: "0 \<le> n \<Longrightarrow> n < 16 \<Longrightarrow> hex_digit n \<in> set ''0123456789abcdef''"
  unfolding hex_digit_def by (rule nth_mem) simp

lemma hex_encode_digits:
  "\<forall>b\<in>set bs. 0 \<le> b \<and> b < 256 \<Longrightarrow> set (hex_encode bs) \<subseteq> set ''0123456789abcdef''"
proof (induction bs)
  case Nil
  then show ?case by (simp add: hex_encode_def)
next
  case (Cons b bs)
  then have "0 \<le> b div 16" "b div 16 < 16" "0 \<le> b mod 16" "b mod 16 < 16" by auto
  then have "{hex_digit (b div 16), hex_digit (b mod 16)} \<subseteq> set ''0123456789abcdef''"
    using hex_digit_mem by blast
  with Cons show ?case by (simp add: hex_encode_def)
qed

lemma length_sha256_hex [simp]: "length (sha256_hex s) = 64"
  by (simp add: sha256_hex_def length_hex_encode length_sha256)

lemma sha256_hex_digits: "set (sha256_hex s) \<subseteq> set ''0123456789abcdef''"
  unfolding sha256_hex_def by (rule hex_encode_digits) (auto dest: sha256_byte)

end
