(* ===== verification/Names.thy ===== *)
theory Names
  imports Sha256
begin

text \<open>
  Names the provider derives for the objects it creates: ScheduledBackups
  (\<open>internal/cnpg/barman/schedule.go\<close>), data deletion Jobs (\<open>internal/provider/backup_delete.go\<close>).
  Both must fit the 63 characters of a label value, so long names are cut and end in a hash.
\<close>

section \<open>The two generators\<close>

definition maxScheduledBackupNameLength :: nat where
  "maxScheduledBackupNameLength = 63"

definition scheduledBackupNameHashLength :: nat where
  "scheduledBackupNameHashLength = 8"

definition scheduledBackupName :: "string \<Rightarrow> string \<Rightarrow> string" where
  "scheduledBackupName instanceName scheduleName =
     (let name = instanceName @ ''-'' @ scheduleName
      in if length name \<le> maxScheduledBackupNameLength then name
         else
           let hash = take scheduledBackupNameHashLength (sha256_hex name);
               pre = trim_right ''-.''
                 (take (maxScheduledBackupNameLength - scheduledBackupNameHashLength - 1) name)
           in pre @ ''-'' @ hash)"

definition backupDeletionJobName :: "string \<Rightarrow> string" where
  "backupDeletionJobName backupName =
     (let pre = ''delete-backup-'';
          hashLength = 8
      in if length (pre @ backupName) \<le> 63 then pre @ backupName
         else
           let hash = take hashLength (sha256_hex backupName);
               maxPrefix = 63 - hashLength - 1;
               name = pre @ backupName
           in trim_right ''-.'' (take maxPrefix name) @ ''-'' @ hash)"

section \<open>Kubernetes names\<close>

text \<open>
  The documented shape of an RFC 1123 label and of a subdomain (labels joined by dots); the
  limit on their length is stated where it matters.
\<close>

definition alnum :: "char \<Rightarrow> bool" where
  "alnum c \<longleftrightarrow> (CHR ''a'' \<le> c \<and> c \<le> CHR ''z'') \<or> is_digit c"

definition label_shape :: "string \<Rightarrow> bool" where
  "label_shape l \<longleftrightarrow> l \<noteq> [] \<and> alnum (hd l) \<and> alnum (last l) \<and> list_all (\<lambda>c. alnum c \<or> c = CHR ''-'') l"

definition subdomain_shape :: "string \<Rightarrow> bool" where
  "subdomain_shape s \<longleftrightarrow> list_all label_shape (split_on (CHR ''.'') s)"

lemma hex_alnum: "c \<in> set ''0123456789abcdef'' \<Longrightarrow> alnum c"
  by (auto simp: alnum_def is_digit_def less_eq_char_def)

lemma alnum_not: "\<not> alnum (CHR ''-'')" "\<not> alnum (CHR ''.'')"
  by (simp_all add: alnum_def is_digit_def less_eq_char_def)

lemma split_on_append:
  "split_on c (u @ v) =
     butlast (split_on c u) @ (last (split_on c u) @ hd (split_on c v)) # tl (split_on c v)"
proof (induction u)
  case Nil
  then show ?case by simp
next
  case (Cons x u)
  obtain h t where ht: "split_on c u = h # t" by (cases "split_on c u") auto
  then show ?case using Cons by (cases t) auto
qed

lemma subdomain_append:
  "subdomain_shape (u @ v) \<longleftrightarrow>
     list_all label_shape (butlast (split_on (CHR ''.'') u)) \<and>
     label_shape (last (split_on (CHR ''.'') u) @ hd (split_on (CHR ''.'') v)) \<and>
     list_all label_shape (tl (split_on (CHR ''.'') v))"
  by (simp add: subdomain_shape_def split_on_append)

lemma last_split_on:
  "c \<notin> set [last s] \<Longrightarrow> s \<noteq> [] \<Longrightarrow> last (split_on c s) \<noteq> [] \<and> last (last (split_on c s)) = last s"
proof (induction s)
  case Nil
  then show ?case by simp
next
  case (Cons x s)
  obtain h t where ht: "split_on c s = h # t" by (cases "split_on c s") auto
  show ?case
  proof (cases "s = []")
    case True
    with Cons.prems show ?thesis by simp
  next
    case False
    with Cons ht show ?thesis by (cases t) auto
  qed
qed

text \<open>Cutting a subdomain at a letter or digit and appending a hash gives a subdomain.\<close>

lemma subdomain_cut:
  assumes "subdomain_shape (u @ v)" and "u \<noteq> []" and "last u \<notin> {CHR ''-'', CHR ''.''}"
    and "h \<noteq> []" and "list_all alnum h"
  shows "subdomain_shape (u @ CHR ''-'' # h)"
proof -
  let ?l = "last (split_on (CHR ''.'') u)" and ?m = "hd (split_on (CHR ''.'') v)"
  have l: "?l \<noteq> []" "last ?l = last u" using last_split_on [of "CHR ''.''" u] assms(2,3) by auto
  have init: "list_all label_shape (butlast (split_on (CHR ''.'') u))" and lab: "label_shape (?l @ ?m)"
    using assms(1) by (simp_all add: subdomain_append)
  have chars: "list_all (\<lambda>c. alnum c \<or> c = CHR ''-'') ?l" "alnum (hd ?l)"
    using lab l(1) by (simp_all add: label_shape_def)
  have "last ?l \<noteq> CHR ''-''" using l assms(3) by simp
  have "CHR ''.'' \<notin> set (CHR ''-'' # h)"
    using assms(5) alnum_not by (auto simp: list_all_iff)
  then have "split_on (CHR ''.'') (CHR ''-'' # h) = [CHR ''-'' # h]" by (rule split_on_free)
  moreover have "label_shape (?l @ CHR ''-'' # h)"
    using chars l(1) assms(4,5) by (auto simp: label_shape_def list_all_iff)
  ultimately show ?thesis using init by (simp add: subdomain_append)
qed

section \<open>Bounded names as an interface\<close>

text \<open>
  What a generator of names promises: a name that fits is kept, a longer one is its first 54
  characters, trimmed, with a hash of eight letters or digits after a dash.
\<close>

locale bounded_name =
  fixes gen :: "'a \<Rightarrow> string"
    and full :: "'a \<Rightarrow> string"
  assumes short: "length (full x) \<le> 63 \<Longrightarrow> gen x = full x"
    and long: "63 < length (full x) \<Longrightarrow>
      \<exists>h. gen x = trim_right ''-.'' (take 54 (full x)) @ CHR ''-'' # h \<and> length h = 8 \<and> list_all alnum h"
begin

lemma fits_label: "length (gen x) \<le> 63"
proof (cases "length (full x) \<le> 63")
  case True
  then show ?thesis by (simp add: short)
next
  case False
  then obtain h where "gen x = trim_right ''-.'' (take 54 (full x)) @ CHR ''-'' # h" "length h = 8"
    using long [of x] by auto
  moreover have "length (trim_right ''-.'' (take 54 (full x))) \<le> 54"
    by (rule order_trans [OF trim_right_length]) simp
  ultimately show ?thesis by simp
qed

lemma keeps_subdomain:
  assumes "subdomain_shape (full x)"
  shows "subdomain_shape (gen x)"
proof (cases "length (full x) \<le> 63")
  case True
  with assms show ?thesis by (simp add: short)
next
  case False
  let ?u = "trim_right ''-.'' (take 54 (full x))"
  obtain h where h: "gen x = ?u @ CHR ''-'' # h" "length h = 8" "list_all alnum h"
    using False long [of x] by auto
  have ne: "full x \<noteq> []" using False by auto
  obtain y ys where y: "full x = y # ys" using ne by (cases "full x") auto
  have "alnum y"
    using assms y by (auto simp: subdomain_shape_def label_shape_def split: list.splits if_splits)
  then have "y \<notin> set ''-.''" using alnum_not by auto
  moreover have "y \<in> set (take 54 (full x))" using y by simp
  ultimately have u: "?u \<noteq> []" by (auto simp: trim_right_empty)
  obtain v where v: "full x = ?u @ v"
    using trim_right_prefix [of "''-.''" "take 54 (full x)"] by (metis append_assoc append_take_drop_id prefixE)
  have "subdomain_shape (?u @ CHR ''-'' # h)"
  proof (rule subdomain_cut)
    show "subdomain_shape (?u @ v)" using assms v by simp
    show "last ?u \<notin> {CHR ''-'', CHR ''.''}" using trim_right_last [OF u] by simp
  qed (use u h in auto)
  with h(1) show ?thesis by simp
qed

lemma short_distinct:
  "length (full x) \<le> 63 \<Longrightarrow> length (full y) \<le> 63 \<Longrightarrow> gen x = gen y \<longleftrightarrow> full x = full y"
  by (simp add: short)

end

lemma hash_alnum: "list_all alnum (take 8 (sha256_hex s))"
  unfolding list_all_iff
  by (intro ballI hex_alnum subsetD [OF sha256_hex_digits]) (rule in_set_takeD)

lemma scheduledBackupName_long:
  "63 < length (i @ ''-'' @ n) \<Longrightarrow>
   scheduledBackupName i n =
     trim_right ''-.'' (take 54 (i @ ''-'' @ n)) @ CHR ''-'' # take 8 (sha256_hex (i @ ''-'' @ n))"
  by (simp add: scheduledBackupName_def maxScheduledBackupNameLength_def
      scheduledBackupNameHashLength_def Let_def)

lemma backupDeletionJobName_long:
  "63 < length (''delete-backup-'' @ b) \<Longrightarrow>
   backupDeletionJobName b =
     trim_right ''-.'' (take 54 (''delete-backup-'' @ b)) @ CHR ''-'' # take 8 (sha256_hex b)"
  by (simp add: backupDeletionJobName_def Let_def del: append_Cons)

lemma hash_ok: "length (take 8 (sha256_hex s)) = 8 \<and> list_all alnum (take 8 (sha256_hex s))"
  by (simp add: hash_alnum)

interpretation sb_name: bounded_name "case_prod scheduledBackupName" "\<lambda>(i, n). i @ ''-'' @ n"
proof unfold_locales
  fix x :: "string \<times> string"
  assume "length (case x of (i, n) \<Rightarrow> i @ ''-'' @ n) \<le> 63"
  then show "case_prod scheduledBackupName x = (case x of (i, n) \<Rightarrow> i @ ''-'' @ n)"
    by (simp add: scheduledBackupName_def maxScheduledBackupNameLength_def Let_def split: prod.splits)
next
  fix x :: "string \<times> string"
  assume "63 < length (case x of (i, n) \<Rightarrow> i @ ''-'' @ n)"
  then show "\<exists>h. case_prod scheduledBackupName x =
      trim_right ''-.'' (take 54 (case x of (i, n) \<Rightarrow> i @ ''-'' @ n)) @ CHR ''-'' # h \<and>
      length h = 8 \<and> list_all alnum h"
    using scheduledBackupName_long hash_ok by (cases x) (metis case_prod_conv)
qed

interpretation job_name: bounded_name backupDeletionJobName "\<lambda>b. ''delete-backup-'' @ b"
proof unfold_locales
  show "length (''delete-backup-'' @ b) \<le> 63 \<Longrightarrow> backupDeletionJobName b = ''delete-backup-'' @ b" for b
    by (simp only: backupDeletionJobName_def Let_def if_True)
  show "63 < length (''delete-backup-'' @ b) \<Longrightarrow>
      \<exists>h. backupDeletionJobName b = trim_right ''-.'' (take 54 (''delete-backup-'' @ b)) @ CHR ''-'' # h \<and>
        length h = 8 \<and> list_all alnum h" for b
    using backupDeletionJobName_long hash_ok by metis
qed

section \<open>Properties\<close>

lemma subdomain_dash_label:
  assumes "subdomain_shape i" and "label_shape l"
  shows "subdomain_shape (i @ ''-'' @ l)"
proof -
  have "CHR ''.'' \<notin> set (CHR ''-'' # l)"
    using assms(2) alnum_not by (auto simp: label_shape_def list_all_iff)
  then have sp: "split_on (CHR ''.'') (CHR ''-'' # l) = [CHR ''-'' # l]" by (rule split_on_free)
  have "list_all label_shape (butlast (split_on (CHR ''.'') i))"
    using assms(1) by (auto simp: subdomain_shape_def list_all_iff dest: in_set_butlastD)
  moreover have "label_shape (last (split_on (CHR ''.'') i))"
    using assms(1) by (simp add: subdomain_shape_def list_all_iff)
  ultimately show ?thesis using assms(2) sp by (simp add: subdomain_append label_shape_def)
qed

lemma subdomain_prefixed:
  assumes "subdomain_shape b"
  shows "subdomain_shape (''delete-backup-'' @ b)"
proof -
  obtain h t where ht: "split_on (CHR ''.'') b = h # t" by (cases "split_on (CHR ''.'') b") auto
  have "split_on (CHR ''.'') ''delete-backup-'' = [''delete-backup-'']" by (rule split_on_free) simp
  moreover have "label_shape (''delete-backup-'' @ h)" "list_all label_shape t"
    using assms ht by (auto simp: subdomain_shape_def label_shape_def alnum_def is_digit_def less_eq_char_def)
  ultimately show ?thesis using ht by (simp only: subdomain_append) simp
qed

text \<open>C39: for a valid instance and schedule name the ScheduledBackup's name is a valid
  Kubernetes name that fits the label the operator copies it into.\<close>

theorem scheduledBackupName_valid:
  assumes "subdomain_shape instanceName" and "label_shape scheduleName"
  shows "subdomain_shape (scheduledBackupName instanceName scheduleName) \<and>
    length (scheduledBackupName instanceName scheduleName) \<le> 63"
  using sb_name.keeps_subdomain [of "(instanceName, scheduleName)"] sb_name.fits_label [of "(instanceName, scheduleName)"]
    subdomain_dash_label [OF assms] by simp

theorem scheduledBackupName_valid_witness:
  "subdomain_shape (scheduledBackupName ''pg'' ''daily'')"
  using scheduledBackupName_valid [of "''pg''" "''daily''"]
  by (simp add: subdomain_shape_def label_shape_def alnum_def is_digit_def less_eq_char_def)

text \<open>For every Backup the deletion Job's name is a valid Kubernetes name of at most 63
  characters.\<close>

theorem backupDeletionJobName_valid:
  assumes "subdomain_shape backupName"
  shows "subdomain_shape (backupDeletionJobName backupName) \<and> length (backupDeletionJobName backupName) \<le> 63"
  using job_name.keeps_subdomain [of backupName] job_name.fits_label [of backupName]
    subdomain_prefixed [OF assms] by simp

theorem backupDeletionJobName_valid_witness:
  "subdomain_shape (backupDeletionJobName (replicate 80 CHR ''a''))"
proof -
  have "split_on (CHR ''.'') (replicate 80 CHR ''a'') = [replicate 80 CHR ''a'']"
    by (rule split_on_free) simp
  then have "subdomain_shape (replicate 80 CHR ''a'')"
    by (simp add: subdomain_shape_def label_shape_def list_all_iff alnum_def is_digit_def less_eq_char_def)
  then show ?thesis using backupDeletionJobName_valid by blast
qed

text \<open>C40: two schedules of one Instance with short names get different ScheduledBackups, but
  the names of two Instances can meet: the separator may occur in both parts.\<close>

theorem scheduledBackupName_distinct:
  "(length instanceName + length a < 63 \<and> length instanceName + length b < 63 \<longrightarrow>
      (scheduledBackupName instanceName a = scheduledBackupName instanceName b) = (a = b)) \<and>
   scheduledBackupName ''a'' ''b-c'' = scheduledBackupName ''a-b'' ''c''"
  using sb_name.short_distinct [of "(instanceName, a)" "(instanceName, b)"]
  by (simp add: scheduledBackupName_def maxScheduledBackupNameLength_def)

theorem scheduledBackupName_distinct_witness:
  "scheduledBackupName ''pg'' ''daily'' \<noteq> scheduledBackupName ''pg'' ''weekly''"
  using scheduledBackupName_distinct [of "''pg''" "''daily''" "''weekly''"] by simp

end
