(* ===== verification/Kube_Types.thy ===== *)
theory Kube_Types
  imports Go_Strings
begin

text \<open>
  The data the provider works on: its own parameter types (\<open>definition/components\<close>), and of
  the third-party API types (CloudNativePG \<open>cnpgv1\<close>, OpenEverest \<open>corev1alpha1\<close>, Kubernetes
  \<open>corev1\<close>) the fields the code under \<open>internal/\<close> reads or writes. A pointer is an
  \<^typ>\<open>'a option\<close>, a slice a list, a map with string keys a partial function; what is only
  copied is \<^typ>\<open>opaque\<close>.
\<close>

section \<open>The postgresql component's parameters: definition/components/types.go\<close>

record extension_toggle =
  et_enabled :: bool

record extensions_spec =
  es_timescaledb :: "extension_toggle option"
  es_timescaledb_community :: "extension_toggle option"
  es_pgvector :: "extension_toggle option"
  es_pgaudit :: "extension_toggle option"
  es_postgis :: "extension_toggle option"
  es_pgrouting :: "extension_toggle option"
  es_pgivm :: "extension_toggle option"
  es_wal2json :: "extension_toggle option"
  es_age :: "extension_toggle option"

record storage_configuration =
  sc_size :: string
  sc_storage_class :: "string option"
  sc_pvc_template :: "opaque option"
  sc_resize_in_use :: "bool option"

text \<open>An entry of \<open>postgresql.extensions\<close>: its name; image, paths and environment are copied.\<close>

record extension_configuration =
  ec_name :: string
  ec_body :: opaque

record synchronous_configuration =
  sy_number :: int
  sy_standby_names_pre :: "string list"
  sy_standby_names_post :: "string list"
  sy_rest :: opaque

record postgres_configuration =
  pc_parameters :: "string gomap option"
  pc_pg_hba :: "string list"
  pc_additional_libraries :: "string list"
  pc_extensions :: "extension_configuration list"
  pc_synchronous :: "synchronous_configuration option"
  pc_rest :: opaque

record role_configuration =
  rc_name :: string
  rc_body :: opaque

record managed_configuration =
  mc_roles :: "role_configuration list"
  mc_rest :: opaque

record bootstrap_initdb =
  ib_database :: string
  ib_owner :: string
  ib_secret :: "string option"
  ib_post_init_application_sql :: "string list"
  ib_rest :: opaque

text \<open>The provider's own \<open>components.BootstrapConfiguration\<close>.\<close>

record custom_bootstrap =
  cb_initdb :: "bootstrap_initdb option"

record certificates_configuration =
  ce_server_ca_secret :: string
  ce_server_tls_secret :: string
  ce_replication_tls_secret :: string
  ce_client_ca_secret :: string
  ce_server_alt_dns_names :: "string list"

record monitoring_configuration =
  mo_enable_pod_monitor :: bool
  mo_rest :: opaque

record affinity_configuration =
  af_enable_pod_anti_affinity :: "bool option"
  af_node_selector :: "(string \<times> string) list"
  af_tolerations :: "opaque list"
  af_node_affinity :: "opaque option"
  af_additional_pod_affinity :: "opaque option"
  af_additional_pod_anti_affinity :: "opaque option"
  af_rest :: opaque

record custom_spec =
  cu_priority_class_name :: string
  cu_require_tls :: "bool option"
  cu_wal_storage :: "storage_configuration option"
  cu_resize_in_use_volumes :: "bool option"
  cu_pvc_template :: "opaque option"
  cu_affinity :: "affinity_configuration option"
  cu_postgresql :: "postgres_configuration option"
  cu_managed :: "managed_configuration option"
  cu_bootstrap :: "custom_bootstrap option"
  cu_certificates :: "certificates_configuration option"
  cu_monitoring :: "monitoring_configuration option"
  cu_extensions :: "extensions_spec option"

text \<open>Go zero values.\<close>

definition no_extensions :: extensions_spec where
  "no_extensions = \<lparr>es_timescaledb = None, es_timescaledb_community = None, es_pgvector = None,
     es_pgaudit = None, es_postgis = None, es_pgrouting = None, es_pgivm = None,
     es_wal2json = None, es_age = None\<rparr>"

definition zero_custom :: custom_spec where
  "zero_custom = \<lparr>cu_priority_class_name = [], cu_require_tls = None, cu_wal_storage = None,
     cu_resize_in_use_volumes = None, cu_pvc_template = None, cu_affinity = None,
     cu_postgresql = None, cu_managed = None, cu_bootstrap = None, cu_certificates = None,
     cu_monitoring = None, cu_extensions = None\<rparr>"

definition zero_postgres :: postgres_configuration where
  "zero_postgres = \<lparr>pc_parameters = None, pc_pg_hba = [], pc_additional_libraries = [],
     pc_extensions = [], pc_synchronous = None, pc_rest = []\<rparr>"

definition zero_initdb :: bootstrap_initdb where
  "zero_initdb = \<lparr>ib_database = [], ib_owner = [], ib_secret = None,
     ib_post_init_application_sql = [], ib_rest = []\<rparr>"

definition zero_affinity :: affinity_configuration where
  "zero_affinity = \<lparr>af_enable_pod_anti_affinity = None, af_node_selector = [], af_tolerations = [],
     af_node_affinity = None, af_additional_pod_affinity = None,
     af_additional_pod_anti_affinity = None, af_rest = []\<rparr>"

section \<open>Resources: k8s.io/api/core/v1, k8s.io/apimachinery resource\<close>

text \<open>
  A \<open>resource.Quantity\<close> denotes a number with at most nine decimal places: it is represented
  by that number in units of \<open>10^-9\<close>. Its methods are parameters of the definitions that
  call them.
\<close>

type_synonym quantity = int

record resource_requirements =
  rr_requests :: "quantity gomap"
  rr_limits :: "quantity gomap"

section \<open>cnpgv1.Cluster\<close>

record recovery_target =
  rt_backup_id :: string
  rt_target_time :: string
  rt_target_immediate :: "bool option"

record bootstrap_recovery =
  br_source :: string
  br_recovery_target :: "recovery_target option"
  br_database :: string
  br_owner :: string
  br_secret :: "string option"

record cluster_bootstrap =
  bo_initdb :: "bootstrap_initdb option"
  bo_recovery :: "bootstrap_recovery option"

record plugin_configuration =
  pl_name :: string
  pl_enabled :: "bool option"
  pl_is_wal_archiver :: "bool option"
  pl_parameters :: "string gomap"

record external_cluster =
  xc_name :: string
  xc_plugin :: "plugin_configuration option"

record cluster_spec =
  cs_instances :: int
  cs_priority_class_name :: string
  cs_storage :: storage_configuration
  cs_wal_storage :: "storage_configuration option"
  cs_resources :: resource_requirements
  cs_postgres :: postgres_configuration
  cs_managed :: "managed_configuration option"
  cs_affinity :: affinity_configuration
  cs_scheduler_name :: string
  cs_topology_spread :: opaque
  cs_bootstrap :: "cluster_bootstrap option"
  cs_image_name :: string
  cs_image_pull_policy :: string
  cs_certificates :: "certificates_configuration option"
  cs_monitoring :: "monitoring_configuration option"
  cs_inherited_labels :: "string gomap option"
  cs_external_clusters :: "external_cluster list"
  cs_plugins :: "plugin_configuration list"
  cs_rest :: opaque

text \<open>The enumerations of the API, by the names of the constants the code uses.\<close>

datatype condition_type = ConditionClusterReady | ConditionInitialized | OtherCondition string

datatype condition_status = ConditionTrue | ConditionFalse | ConditionUnknown

datatype cluster_phase =
    PhaseUnrecoverable
  | PhaseFailurePlugin
  | PhaseUnknownPlugin
  | PhaseCannotCreateClusterObjects
  | PhaseImageCatalogError
  | PhaseArchitectureBinaryMissing
  | PhaseDefinitionInvalid
  | OtherPhase string

datatype role_status = RoleStatusReconciled | OtherRoleStatus string

record condition =
  cn_type :: condition_type
  cn_status :: condition_status
  cn_reason :: string
  cn_message :: string
  cn_last_transition :: opaque

text \<open>A Go map that is ranged over: its entries in the order the iteration visits them.\<close>

record managed_roles_status =
  mr_by_status :: "role_status \<rightharpoonup> string list"
  mr_cannot_reconcile :: "(string \<times> string list) list"

record cluster_status =
  st_phase :: cluster_phase
  st_phase_reason :: string
  st_conditions :: "condition list"
  st_instances :: int
  st_ready_instances :: int
  st_current_primary :: string
  st_managed_roles :: managed_roles_status
  st_rest :: opaque

record cluster =
  cl_name :: string
  cl_creation_timestamp :: opaque
  cl_spec :: cluster_spec
  cl_status :: cluster_status

definition zero_storage :: storage_configuration where
  "zero_storage = \<lparr>sc_size = [], sc_storage_class = None, sc_pvc_template = None, sc_resize_in_use = None\<rparr>"

definition zero_cluster_spec :: cluster_spec where
  "zero_cluster_spec = \<lparr>cs_instances = 0, cs_priority_class_name = [], cs_storage = zero_storage,
     cs_wal_storage = None, cs_resources = \<lparr>rr_requests = Map.empty, rr_limits = Map.empty\<rparr>,
     cs_postgres = zero_postgres, cs_managed = None, cs_affinity = zero_affinity,
     cs_scheduler_name = [], cs_topology_spread = [], cs_bootstrap = None, cs_image_name = [],
     cs_image_pull_policy = [], cs_certificates = None, cs_monitoring = None,
     cs_inherited_labels = None, cs_external_clusters = [], cs_plugins = [], cs_rest = []\<rparr>"

definition zero_cluster_status :: cluster_status where
  "zero_cluster_status = \<lparr>st_phase = OtherPhase [], st_phase_reason = [], st_conditions = [], st_instances = 0,
     st_ready_instances = 0, st_current_primary = [],
     st_managed_roles = \<lparr>mr_by_status = Map.empty, mr_cannot_reconcile = []\<rparr>,
     st_rest = []\<rparr>"

section \<open>cnpgv1.Database, cnpgv1.ClusterImageCatalog\<close>

record extension_spec =
  xs_name :: string
  xs_ensure :: string
  xs_version :: string

record database_object_status =
  do_name :: string
  do_applied :: bool
  do_message :: string

record database_status =
  ds_observed_generation :: int
  ds_applied :: "bool option"
  ds_message :: string
  ds_extensions :: "database_object_status list"

record database_spec =
  dp_name :: string
  dp_owner :: string
  dp_cluster :: string
  dp_reclaim_policy :: string
  dp_extensions :: "extension_spec list"

record database =
  db_generation :: int
  db_spec :: database_spec
  db_status :: database_status

record image_catalog =
  ic_annotations :: "string gomap"
  ic_spec :: opaque

section \<open>Status reported to the runtime: controller.Status\<close>

text \<open>
  \<open>controller.Status\<close> by the constructor the code calls; \<open>NoStatus\<close> is the zero value
  returned beside \<open>blocked = false\<close> or an error.
\<close>

datatype 'd instance_status =
    NoStatus
  | Pending msg
  | Initializing msg
  | Provisioning msg
  | Restoring msg
  | Failed msg
  | Ready 'd

section \<open>Readiness gates as an interface\<close>

text \<open>
  A gate inspects part of the cluster and returns a status and whether it blocks. What the
  status computation relies on: it is open exactly under a condition, and a closed gate
  reports something that is neither empty nor Ready.
\<close>

fun reports_waiting :: "'d instance_status \<Rightarrow> bool" where
  "reports_waiting NoStatus = False"
| "reports_waiting (Ready d) = False"
| "reports_waiting s = True"

locale readiness_gate =
  fixes gate :: "'a \<Rightarrow> 'd instance_status \<times> bool"
    and open_for :: "'a \<Rightarrow> bool"
  assumes blocks_iff: "snd (gate x) \<longleftrightarrow> \<not> open_for x"
    and blocked_reports: "snd (gate x) \<Longrightarrow> reports_waiting (fst (gate x))"
begin

text \<open>The code's composition: \<open>if st, blocked := gate(x); blocked { return st }\<close> before \<open>s\<close>.\<close>

lemma passes: "open_for x \<Longrightarrow> (case gate x of (st, blocked) \<Rightarrow> if blocked then st else s) = s"
  using blocks_iff [of x] by (cases "gate x") auto

lemma ready_only_if_open:
  "(case gate x of (st, blocked) \<Rightarrow> if blocked then st else s) = Ready d \<longleftrightarrow> open_for x \<and> s = Ready d"
  using blocks_iff [of x] blocked_reports [of x] by (cases "fst (gate x)") (auto split: prod.splits)

lemma reports_something:
  "s \<noteq> NoStatus \<Longrightarrow> (case gate x of (st, blocked) \<Rightarrow> if blocked then st else s) \<noteq> NoStatus"
  using blocked_reports [of x] by (cases "fst (gate x)") (auto split: prod.splits)

end

end
