(* ===== verification/Versions.thy ===== *)
theory Versions
  imports Kube_Types
begin

text \<open>
  PostgreSQL versions (\<open>internal/cnpg/extensions.go\<close>: postgresVersion, postgresMajor,
  versionAtLeast; \<open>internal/common/constants.go\<close>): the choice of the version, its major, and
  the comparison of dotted versions, which is shown to be a total preorder.
\<close>

section \<open>Definitions\<close>

definition PostgresDefaultVersion :: string where
  "PostgresDefaultVersion = ''18.6''"

fun first_nonempty :: "string list \<Rightarrow> string option" where
  "first_nonempty [] = None"
| "first_nonempty (v # vs) = (if v \<noteq> [] then Some v else first_nonempty vs)"

definition postgresVersion :: "string \<Rightarrow> string \<Rightarrow> string" where
  "postgresVersion engineVersion instanceVersion =
     (case first_nonempty [engineVersion, instanceVersion] of
        Some v \<Rightarrow> v
      | None \<Rightarrow> PostgresDefaultVersion)"

definition postgresMajor :: "string \<Rightarrow> string \<Rightarrow> string" where
  "postgresMajor engineVersion instanceVersion =
     cut_before (CHR ''.'') (postgresVersion engineVersion instanceVersion)"

text \<open>
  The loop of versionAtLeast over the components still to compare. A missing component is
  left at 0; the error of Atoi is dropped, its value is not.
\<close>

fun version_loop :: "string list \<Rightarrow> string list \<Rightarrow> bool" where
  "version_loop [] [] = True"
| "version_loop (g # gs) [] =
     (if fst (atoi g) \<noteq> 0 then fst (atoi g) > 0 else version_loop gs [])"
| "version_loop [] (w # ws) =
     (if 0 \<noteq> fst (atoi w) then 0 > fst (atoi w) else version_loop [] ws)"
| "version_loop (g # gs) (w # ws) =
     (if fst (atoi g) \<noteq> fst (atoi w) then fst (atoi g) > fst (atoi w) else version_loop gs ws)"

definition versionAtLeast :: "string \<Rightarrow> string \<Rightarrow> bool" where
  "versionAtLeast version minimum =
     version_loop (split_on (CHR ''.'') version) (split_on (CHR ''.'') minimum)"

section \<open>The order on versions\<close>

text \<open>
  The specification: a version is the sequence of its components, continued with zeros, and
  versions are compared at the first position where they differ.
\<close>

definition component :: "string \<Rightarrow> nat \<Rightarrow> int" where
  "component v i =
     (let cs = split_on (CHR ''.'') v in if i < length cs then fst (atoi (cs ! i)) else 0)"

definition at_least_spec :: "(nat \<Rightarrow> int) \<Rightarrow> (nat \<Rightarrow> int) \<Rightarrow> bool" where
  "at_least_spec f g \<longleftrightarrow> f = g \<or> (\<exists>i. (\<forall>j<i. f j = g j) \<and> f i > g i)"

definition padded :: "string list \<Rightarrow> nat \<Rightarrow> int" where
  "padded cs i = (if i < length cs then fst (atoi (cs ! i)) else 0)"

lemma padded_simps [simp]:
  "padded [] = (\<lambda>i. 0)" "padded (c # cs) 0 = fst (atoi c)" "padded (c # cs) (Suc i) = padded cs i"
  by (simp_all add: padded_def fun_eq_iff)

lemma component_padded: "component v = padded (split_on (CHR ''.'') v)"
  by (rule ext) (simp add: component_def padded_def Let_def)

lemma at_least_spec_step:
  "at_least_spec f g \<longleftrightarrow>
     (if f 0 \<noteq> g 0 then f 0 > g 0 else at_least_spec (\<lambda>i. f (Suc i)) (\<lambda>i. g (Suc i)))"
proof (cases "f 0 = g 0")
  case False
  have "(\<exists>i. (\<forall>j<i. f j = g j) \<and> f i > g i) \<longleftrightarrow> f 0 > g 0"
    using False by (metis gr0I not_less0)
  with False show ?thesis by (auto simp: at_least_spec_def)
next
  case True
  have eq: "f = g \<longleftrightarrow> (\<lambda>i. f (Suc i)) = (\<lambda>i. g (Suc i))"
    using True by (metis ext not0_implies_Suc)
  have ex: "(\<exists>i. (\<forall>j<i. f j = g j) \<and> f i > g i) \<longleftrightarrow>
      (\<exists>i. (\<forall>j<i. f (Suc j) = g (Suc j)) \<and> f (Suc i) > g (Suc i))"
  proof
    assume "\<exists>i. (\<forall>j<i. f j = g j) \<and> f i > g i"
    then obtain i where i: "\<forall>j<i. f j = g j" "f i > g i" by blast
    with True obtain k where k: "i = Suc k" by (cases i) auto
    have "(\<forall>j<k. f (Suc j) = g (Suc j)) \<and> f (Suc k) > g (Suc k)" using i k by simp
    then show "\<exists>i. (\<forall>j<i. f (Suc j) = g (Suc j)) \<and> f (Suc i) > g (Suc i)" ..
  next
    assume "\<exists>i. (\<forall>j<i. f (Suc j) = g (Suc j)) \<and> f (Suc i) > g (Suc i)"
    then obtain i where i: "\<forall>j<i. f (Suc j) = g (Suc j)" "f (Suc i) > g (Suc i)" by blast
    have "f j = g j" if "j < Suc i" for j using i True that by (cases j) auto
    with i(2) show "\<exists>i. (\<forall>j<i. f j = g j) \<and> f i > g i" by blast
  qed
  show ?thesis using True by (simp add: at_least_spec_def eq ex)
qed

lemma at_least_spec_refl: "at_least_spec f f"
  by (simp add: at_least_spec_def)

lemma version_loop_spec: "version_loop gs ws \<longleftrightarrow> at_least_spec (padded gs) (padded ws)"
proof (induction gs ws rule: version_loop.induct)
  case 1
  show ?case by (simp add: at_least_spec_refl)
next
  case (2 g gs)
  then show ?case
    by (subst at_least_spec_step) simp
next
  case (3 w ws)
  then show ?case
    by (subst at_least_spec_step) simp
next
  case (4 g gs w ws)
  then show ?case
    by (subst at_least_spec_step) simp
qed

lemma versionAtLeast_spec: "versionAtLeast v m \<longleftrightarrow> at_least_spec (component v) (component m)"
  by (simp add: versionAtLeast_def version_loop_spec component_padded)

lemma at_least_spec_trans:
  assumes "at_least_spec f g" "at_least_spec g h"
  shows "at_least_spec f h"
proof (cases "f = g \<or> g = h")
  case True
  with assms show ?thesis by auto
next
  case False
  with assms obtain i k where
    i: "\<forall>j<i. f j = g j" "f i > g i" and k: "\<forall>j<k. g j = h j" "g k > h k"
    by (auto simp: at_least_spec_def)
  have "(\<forall>j<min i k. f j = h j) \<and> f (min i k) > h (min i k)"
    using i k by (cases i k rule: linorder_cases) auto
  then show ?thesis unfolding at_least_spec_def by blast
qed

lemma at_least_spec_total: "at_least_spec f g \<or> at_least_spec g f"
proof (cases "f = g")
  case True
  then show ?thesis by (simp add: at_least_spec_def)
next
  case False
  then obtain n where "f n \<noteq> g n" by auto
  then obtain i where "f i \<noteq> g i" "\<forall>j<i. f j = g j"
    using exists_least_iff [of "\<lambda>n. f n \<noteq> g n"] by auto
  then have "(\<forall>j<i. f j = g j) \<and> f i > g i \<or> (\<forall>j<i. g j = f j) \<and> g i > f i" by auto
  then show ?thesis by (auto simp: at_least_spec_def)
qed

lemma at_least_spec_antisym:
  assumes "at_least_spec f g" "at_least_spec g f"
  shows "f = g"
proof (rule ccontr)
  assume "f \<noteq> g"
  with assms obtain i k where
    i: "\<forall>j<i. f j = g j" "f i > g i" and k: "\<forall>j<k. g j = f j" "g k > f k"
    by (auto simp: at_least_spec_def)
  then show False by (cases i k rule: linorder_cases) auto
qed

section \<open>Version orders as an interface\<close>

text \<open>
  What the checks on a minimum version rely on: reflexive, transitive, total. The lemma about
  upgrades is all the extension validation needs.
\<close>

locale version_order =
  fixes at_least :: "'v \<Rightarrow> 'v \<Rightarrow> bool"
  assumes at_least_refl: "at_least v v"
    and at_least_trans: "at_least v m \<Longrightarrow> at_least m k \<Longrightarrow> at_least v k"
    and at_least_total: "at_least v m \<or> at_least m v"
begin

lemma upgrade_keeps_minimum: "at_least v m \<Longrightarrow> at_least v' v \<Longrightarrow> at_least v' m"
  by (rule at_least_trans)

lemma below_minimum: "\<not> at_least v m \<Longrightarrow> at_least m v"
  using at_least_total by blast

lemma rejected_minimum: "\<not> at_least v m \<Longrightarrow> at_least v v' \<Longrightarrow> \<not> at_least v' m"
  using at_least_trans by blast

end

interpretation pg_version: version_order versionAtLeast
  by unfold_locales
    (auto simp: versionAtLeast_spec at_least_spec_refl at_least_spec_total
      intro: at_least_spec_trans)

end
