(* ===== verification/Extensions.thy ===== *)
theory Extensions
  imports Versions
begin

text \<open>
  First-class extensions (\<open>internal/cnpg/extensions.go\<close>): the table of extensions, their
  validation, the resolution of their images, what is set on the Cluster, the Database
  resource that creates them and the readiness gate on it. The API server enters as the
  result of each read (\<^typ>\<open>api_err + 'a\<close>).
\<close>

section \<open>The table of extensions\<close>

definition imageVolumePostgresMajor :: string where
  "imageVolumePostgresMajor = ''18''"

definition SQLVersionAnnotationPrefix :: string where
  "SQLVersionAnnotationPrefix = ''sql-version.extensions.openeverest.io/''"

definition postgresSuperuser :: string where
  "postgresSuperuser = ''postgres''"

definition quoteIdentifier :: "string \<Rightarrow> string" where
  "quoteIdentifier name = [CHR 0x22] @ replace_all name (CHR 0x22) [CHR 0x22, CHR 0x22] @ [CHR 0x22]"

record extension =
  ex_field :: string
  ex_toggle :: "extensions_spec \<Rightarrow> extension_toggle option"
  ex_catalog_entry :: string
  ex_sql_extension :: string
  ex_min_postgres_version :: string
  ex_preload_libraries :: "string list"
  ex_default_parameters :: "(string \<times> string) list"
  ex_requires :: "string list"
  ex_conflicts :: "string list"
  ex_bootstrap_sql :: "(string \<Rightarrow> string) option"

definition an_extension :: "string \<Rightarrow> (extensions_spec \<Rightarrow> extension_toggle option) \<Rightarrow> extension" where
  "an_extension field toggle = \<lparr>ex_field = field, ex_toggle = toggle, ex_catalog_entry = [],
     ex_sql_extension = [], ex_min_postgres_version = [], ex_preload_libraries = [],
     ex_default_parameters = [], ex_requires = [], ex_conflicts = [], ex_bootstrap_sql = None\<rparr>"

definition ext_timescaledb :: extension where
  "ext_timescaledb = (an_extension ''timescaledb'' es_timescaledb)
     \<lparr>ex_catalog_entry := ''timescaledb-oss'', ex_sql_extension := ''timescaledb'',
      ex_preload_libraries := [''timescaledb''], ex_conflicts := [''timescaledbCommunity''],
      ex_default_parameters := [(''timescaledb.telemetry_level'', ''off''),
                                (''max_locks_per_transaction'', ''128'')]\<rparr>"

definition ext_timescaledb_community :: extension where
  "ext_timescaledb_community = (an_extension ''timescaledbCommunity'' es_timescaledb_community)
     \<lparr>ex_catalog_entry := ''timescaledb'', ex_sql_extension := ''timescaledb'',
      ex_min_postgres_version := ''18.6'',
      ex_preload_libraries := [''timescaledb''], ex_conflicts := [''timescaledb''],
      ex_default_parameters := [(''timescaledb.telemetry_level'', ''off''),
                                (''max_locks_per_transaction'', ''128'')]\<rparr>"

definition ext_postgis :: extension where
  "ext_postgis = (an_extension ''postgis'' es_postgis)
     \<lparr>ex_catalog_entry := ''postgis'', ex_sql_extension := ''postgis''\<rparr>"

definition ext_pgrouting :: extension where
  "ext_pgrouting = (an_extension ''pgrouting'' es_pgrouting)
     \<lparr>ex_catalog_entry := ''pgrouting'', ex_sql_extension := ''pgrouting'',
      ex_requires := [''postgis'']\<rparr>"

definition ext_pgvector :: extension where
  "ext_pgvector = (an_extension ''pgvector'' es_pgvector)\<lparr>ex_sql_extension := ''vector''\<rparr>"

definition ext_pgivm :: extension where
  "ext_pgivm = (an_extension ''pgivm'' es_pgivm)
     \<lparr>ex_catalog_entry := ''pg-ivm'', ex_sql_extension := ''pg_ivm'',
      ex_preload_libraries := [''pg_ivm'']\<rparr>"

definition ext_pgaudit :: extension where
  "ext_pgaudit = (an_extension ''pgaudit'' es_pgaudit)
     \<lparr>ex_default_parameters := [(''pgaudit.log'', ''ddl, role'')]\<rparr>"

definition ext_wal2json :: extension where
  "ext_wal2json = (an_extension ''wal2json'' es_wal2json)\<lparr>ex_catalog_entry := ''wal2json''\<rparr>"

definition age_bootstrap_sql :: "string \<Rightarrow> string" where
  "age_bootstrap_sql owner =
     ''ALTER DEFAULT PRIVILEGES FOR ROLE '' @ postgresSuperuser @ '' GRANT USAGE ON SCHEMAS TO ''
       @ quoteIdentifier owner"

definition ext_age :: extension where
  "ext_age = (an_extension ''age'' es_age)
     \<lparr>ex_catalog_entry := ''age'', ex_sql_extension := ''age'',
      ex_preload_libraries := [''age''], ex_bootstrap_sql := Some age_bootstrap_sql\<rparr>"

definition firstClassExtensions :: "extension list" where
  "firstClassExtensions =
     [ext_timescaledb, ext_timescaledb_community, ext_postgis, ext_pgrouting, ext_pgvector,
      ext_pgivm, ext_pgaudit, ext_wal2json, ext_age]"

lemmas extension_table =
  firstClassExtensions_def ext_timescaledb_def ext_timescaledb_community_def ext_postgis_def
  ext_pgrouting_def ext_pgvector_def ext_pgivm_def ext_pgaudit_def ext_wal2json_def ext_age_def
  an_extension_def

section \<open>Enabled extensions\<close>

definition ext_enabled :: "extension \<Rightarrow> custom_spec option \<Rightarrow> bool" where
  "ext_enabled e custom =
     (case custom of None \<Rightarrow> False
      | Some c \<Rightarrow> (case cu_extensions c of None \<Rightarrow> False
         | Some es \<Rightarrow> (case ex_toggle e es of None \<Rightarrow> False | Some t \<Rightarrow> et_enabled t)))"

definition creationOnly :: "extension \<Rightarrow> bool" where
  "creationOnly e \<longleftrightarrow>
     ex_bootstrap_sql e \<noteq> None \<or> (ex_catalog_entry e \<noteq> [] \<and> length (ex_preload_libraries e) > 0)"

definition enabledExtensions :: "custom_spec option \<Rightarrow> extension list" where
  "enabledExtensions custom = filter (\<lambda>e. ext_enabled e custom) firstClassExtensions"

definition createdExtensions :: "custom_spec option \<Rightarrow> extension list" where
  "createdExtensions custom = filter (\<lambda>e. ex_sql_extension e \<noteq> []) (enabledExtensions custom)"

section \<open>ValidateExtensions\<close>

definition validate_extension :: "string \<Rightarrow> string \<Rightarrow> extension list \<Rightarrow> extension \<Rightarrow> err option" where
  "validate_extension version major enabled e =
     or_else
       (if ex_catalog_entry e \<noteq> [] \<and> major \<noteq> imageVolumePostgresMajor
        then Some (Errorf ''extensions.%s requires PostgreSQL 18 (got major %q); set spec.version to a 18.x release (e.g. \"18.4\"); also requires Kubernetes ImageVolume (1.35+, or 1.33/1.34 with the ImageVolume feature gate)'' [S (ex_field e), S major])
        else None)
     (or_else
       (if ex_min_postgres_version e \<noteq> [] \<and> \<not> versionAtLeast version (ex_min_postgres_version e)
        then Some (Errorf ''extensions.%s requires PostgreSQL %s or later (got %q)''
                [S (ex_field e), S (ex_min_postgres_version e), S version])
        else None)
     (or_else
       (first_error (\<lambda>required.
          if \<not> list_ex (\<lambda>x. ex_field x = required) enabled
          then Some (Errorf ''extensions.%s requires extensions.%s'' [S (ex_field e), S required])
          else None) (ex_requires e))
       (first_error (\<lambda>conflicting.
          if list_ex (\<lambda>x. ex_field x = conflicting) enabled
          then Some (Errorf ''extensions.%s and extensions.%s cannot both be enabled''
                  [S (ex_field e), S conflicting])
          else None) (ex_conflicts e))))"

definition ValidateExtensions :: "custom_spec option \<Rightarrow> string \<Rightarrow> string \<Rightarrow> err option" where
  "ValidateExtensions custom engineVersion instanceVersion =
     (let version = postgresVersion engineVersion instanceVersion;
          major = postgresMajor engineVersion instanceVersion;
          enabled = enabledExtensions custom
      in first_error (validate_extension version major enabled) enabled)"

section \<open>ResolveExtensionImages\<close>

record extension_image =
  im_config :: extension_configuration
  im_sql_version :: string

type_synonym extension_images = "extension_image gomap"

fun resolve_loop ::
  "string \<Rightarrow> string \<Rightarrow> int \<Rightarrow> image_catalog \<Rightarrow> extension_configuration list \<Rightarrow>
   extension list \<Rightarrow> extension_images \<Rightarrow> extension_images result" where
  "resolve_loop catalogName major majorNumber catalog entries [] images = Inr images"
| "resolve_loop catalogName major majorNumber catalog entries (e # es) images =
     (case List.find (\<lambda>x. ec_name x = ex_catalog_entry e) entries of
        None \<Rightarrow> Inl (Errorf ''extensions.%s: ClusterImageCatalog %q has no %q extension for PostgreSQL %d''
                  [S (ex_field e), S catalogName, S (ex_catalog_entry e), I majorNumber])
      | Some entry \<Rightarrow>
          resolve_loop catalogName major majorNumber catalog entries es
            (images(ex_catalog_entry e \<mapsto>
               \<lparr>im_config = entry,
                im_sql_version =
                  (case ic_annotations catalog
                          (SQLVersionAnnotationPrefix @ major @ ''.'' @ ex_catalog_entry e) of
                     None \<Rightarrow> [] | Some v \<Rightarrow> v)\<rparr>)))"

definition wantedExtensions :: "custom_spec option \<Rightarrow> extension list" where
  "wantedExtensions custom = filter (\<lambda>e. ex_catalog_entry e \<noteq> []) (enabledExtensions custom)"

text \<open>
  \<open>get_catalog\<close> is the read of the catalog through the client, \<open>find_extensions\<close> the method
  \<open>FindExtensionsForMajor\<close> of the catalog's spec.
\<close>

definition ResolveExtensionImages ::
  "(string \<Rightarrow> api_err + image_catalog) \<Rightarrow> (image_catalog \<Rightarrow> int \<Rightarrow> extension_configuration list) \<Rightarrow>
   string \<Rightarrow> custom_spec option \<Rightarrow> string \<Rightarrow> string \<Rightarrow> extension_images result" where
  "ResolveExtensionImages get_catalog find_extensions catalogName custom engineVersion instanceVersion =
     (let wanted = wantedExtensions custom
      in if wanted = [] then Inr Map.empty
         else
           let major = postgresMajor engineVersion instanceVersion
           in case atoi major of
                (_, Some e) \<Rightarrow> Inl (Wrap ''invalid PostgreSQL major %q: %w'' [S major] (Errorf ''strconv.Atoi'' [S major]))
              | (majorNumber, None) \<Rightarrow>
                  (case get_catalog catalogName of
                     Inl e \<Rightarrow> Inl (Wrap ''get the extensions ClusterImageCatalog %q: %w'' [S catalogName] (Api e))
                   | Inr catalog \<Rightarrow>
                       resolve_loop catalogName major majorNumber catalog
                         (find_extensions catalog majorNumber) wanted Map.empty))"

section \<open>ApplyExtensions\<close>

definition DefaultApplicationDatabaseName :: string where
  "DefaultApplicationDatabaseName = ''app''"

definition DefaultApplicationUserName :: string where
  "DefaultApplicationUserName = ''app''"

definition applicationDatabaseIdentity :: "custom_spec option \<Rightarrow> string \<times> string" where
  "applicationDatabaseIdentity custom =
     (case Option.bind (Option.bind custom cu_bootstrap) cb_initdb of
        None \<Rightarrow> (DefaultApplicationDatabaseName, DefaultApplicationUserName)
      | Some initdb \<Rightarrow>
          (if ib_database initdb \<noteq> [] then ib_database initdb else DefaultApplicationDatabaseName,
           if ib_owner initdb \<noteq> [] then ib_owner initdb else DefaultApplicationUserName))"

definition add_image :: "extension_images \<Rightarrow> extension \<Rightarrow> postgres_configuration \<Rightarrow> postgres_configuration" where
  "add_image images e cfg =
     (case images (ex_catalog_entry e) of
        Some img \<Rightarrow>
          (if list_ex (\<lambda>x. ec_name x = ex_catalog_entry e) (pc_extensions cfg) then cfg
           else cfg\<lparr>pc_extensions := pc_extensions cfg @ [im_config img]\<rparr>)
      | None \<Rightarrow> cfg)"

definition add_libraries :: "extension \<Rightarrow> postgres_configuration \<Rightarrow> postgres_configuration" where
  "add_libraries e cfg =
     cfg\<lparr>pc_additional_libraries := foldl append_new (pc_additional_libraries cfg) (ex_preload_libraries e)\<rparr>"

text \<open>The range over the defaults, in the order the map iteration visits them.\<close>

fun set_defaults :: "(string \<times> string) list \<Rightarrow> string gomap \<Rightarrow> string gomap" where
  "set_defaults [] m = m"
| "set_defaults ((name, value) # ds) m =
     set_defaults ds (if m name = None then m(name \<mapsto> value) else m)"

definition add_defaults :: "extension \<Rightarrow> postgres_configuration \<Rightarrow> postgres_configuration" where
  "add_defaults e cfg =
     (let params = (if length (ex_default_parameters e) > 0 \<and> pc_parameters cfg = None
                    then Some Map.empty else pc_parameters cfg)
      in cfg\<lparr>pc_parameters := map_option (set_defaults (ex_default_parameters e)) params\<rparr>)"

definition add_bootstrap_sql :: "custom_spec option \<Rightarrow> extension \<Rightarrow> cluster_spec \<Rightarrow> cluster_spec" where
  "add_bootstrap_sql custom e spec =
     (case ex_bootstrap_sql e of
        None \<Rightarrow> spec
      | Some sql \<Rightarrow>
          let statement = sql (snd (applicationDatabaseIdentity custom));
              bootstrap = (case cs_bootstrap spec of
                             None \<Rightarrow> \<lparr>bo_initdb = None, bo_recovery = None\<rparr> | Some b \<Rightarrow> b);
              initDB = (case bo_initdb bootstrap of None \<Rightarrow> zero_initdb | Some i \<Rightarrow> i);
              initDB' = initDB\<lparr>ib_post_init_application_sql :=
                           append_new (ib_post_init_application_sql initDB) statement\<rparr>
          in spec\<lparr>cs_bootstrap := Some (bootstrap\<lparr>bo_initdb := Some initDB'\<rparr>)\<rparr>)"

definition apply_extension ::
  "custom_spec option \<Rightarrow> extension_images \<Rightarrow> cluster_spec \<Rightarrow> extension \<Rightarrow> cluster_spec" where
  "apply_extension custom images spec e =
     add_bootstrap_sql custom e
       (spec\<lparr>cs_postgres := add_defaults e (add_libraries e (add_image images e (cs_postgres spec)))\<rparr>)"

definition ApplyExtensions :: "cluster_spec \<Rightarrow> custom_spec option \<Rightarrow> extension_images \<Rightarrow> cluster_spec" where
  "ApplyExtensions spec custom images =
     foldl (apply_extension custom images) spec (enabledExtensions custom)"

section \<open>The checks against what is already deployed\<close>

definition ValidateExtensionsAtCreation ::
  "(api_err + cluster) \<Rightarrow> custom_spec option \<Rightarrow> err option" where
  "ValidateExtensionsAtCreation got custom =
     (case got of
        Inl NotFound \<Rightarrow> None
      | Inl e \<Rightarrow> Some (Wrap ''get Cluster: %w'' [] (Api e))
      | Inr pg \<Rightarrow>
          first_error (\<lambda>e.
            if \<not> creationOnly e then None
            else if \<not> list_ex (\<lambda>x. ec_name x = ex_catalog_entry e) (pc_extensions (cs_postgres (cl_spec pg)))
              then Some (Errorf ''extensions.%s can only be enabled when the instance is created'' [S (ex_field e)])
              else None)
            (enabledExtensions custom))"

definition ExtensionsDatabaseName :: "string \<Rightarrow> string" where
  "ExtensionsDatabaseName instanceName = instanceName @ ''-extensions''"

definition ValidateExtensionsNotDisabled ::
  "(api_err + database) \<Rightarrow> custom_spec option \<Rightarrow> err option" where
  "ValidateExtensionsNotDisabled got custom =
     (case got of
        Inl NotFound \<Rightarrow> None
      | Inl e \<Rightarrow> Some (Wrap ''get extensions Database: %w'' [] (Api e))
      | Inr db \<Rightarrow>
          first_error (\<lambda>e.
            if ex_sql_extension e = [] \<or> ext_enabled e custom then None
            else if list_ex (\<lambda>x. ex_sql_extension x = ex_sql_extension e) (enabledExtensions custom) then None
            else if list_ex (\<lambda>x. xs_name x = ex_sql_extension e) (dp_extensions (db_spec db))
              then Some (Errorf ''extensions.%s cannot be disabled once enabled'' [S (ex_field e)])
              else None)
            firstClassExtensions)"

section \<open>The extensions Database\<close>

definition EnsurePresent :: string where
  "EnsurePresent = ''present''"

definition DatabaseReclaimRetain :: string where
  "DatabaseReclaimRetain = ''retain''"

definition database_extension :: "extension_images \<Rightarrow> extension \<Rightarrow> extension_spec" where
  "database_extension images e =
     \<lparr>xs_name = ex_sql_extension e, xs_ensure = EnsurePresent,
      xs_version = (case images (ex_catalog_entry e) of None \<Rightarrow> [] | Some i \<Rightarrow> im_sql_version i)\<rparr>"

definition BuildExtensionsDatabase ::
  "string \<Rightarrow> custom_spec option \<Rightarrow> extension_images \<Rightarrow> database_spec option" where
  "BuildExtensionsDatabase clusterName custom images =
     (let created = createdExtensions custom
      in if created = [] then None
         else let (dbName, owner) = applicationDatabaseIdentity custom
              in Some \<lparr>dp_name = dbName, dp_owner = owner, dp_cluster = clusterName,
                   dp_reclaim_policy = DatabaseReclaimRetain,
                   dp_extensions = map (database_extension images) created\<rparr>)"

text \<open>\<open>apply_db\<close> is \<open>c.Apply\<close> on a Database of the given name and spec.\<close>

definition SyncExtensionsDatabase ::
  "(string \<Rightarrow> database_spec \<Rightarrow> 'w \<Rightarrow> api_err option \<times> 'w) \<Rightarrow> string \<Rightarrow> custom_spec option \<Rightarrow>
   extension_images \<Rightarrow> ('w, unit) eff" where
  "SyncExtensionsDatabase apply_db instanceName custom images w =
     (case BuildExtensionsDatabase instanceName custom images of
        None \<Rightarrow> (Inr (), w)
      | Some db \<Rightarrow>
          (case apply_db (ExtensionsDatabaseName instanceName) db w of
             (Some e, w') \<Rightarrow> (Inl (Wrap ''apply extensions Database: %w'' [] (Api e)), w')
           | (None, w') \<Rightarrow> (Inr (), w')))"

section \<open>ExtensionsStatus\<close>

text \<open>The two nested loops over created extensions and reported statuses.\<close>

definition pending_extension :: "database_object_status list \<Rightarrow> extension \<Rightarrow> msg option" where
  "pending_extension statuses e =
     map_option
       (\<lambda>status. if do_message status = []
                 then Fmt ''waiting for extension %s to be created'' [S (ex_sql_extension e)]
                 else Raw (do_message status))
       (List.find (\<lambda>status. do_name status = ex_sql_extension e \<and> \<not> do_applied status) statuses)"

definition ExtensionsStatus ::
  "(api_err + database) \<Rightarrow> custom_spec option \<Rightarrow> 'd instance_status \<times> bool" where
  "ExtensionsStatus got custom =
     (let created = createdExtensions custom
      in if created = [] then (NoStatus, False)
         else case got of
           Inl NotFound \<Rightarrow> (Provisioning (Raw ''waiting for the extensions Database resource''), True)
         | Inl e \<Rightarrow> (Provisioning (Fmt ''waiting to get the extensions Database: %v'' [E (Api e)]), True)
         | Inr db \<Rightarrow>
             if ds_observed_generation (db_status db) \<noteq> db_generation db
             then (Provisioning (Raw ''waiting for the extensions Database to be reconciled''), True)
             else if ds_applied (db_status db) \<noteq> Some True
             then (Provisioning (if ds_message (db_status db) = []
                     then Raw ''waiting for the extensions Database to be applied''
                     else Raw (ds_message (db_status db))), True)
             else case first_error (pending_extension (ds_extensions (db_status db))) created of
               Some m \<Rightarrow> (Provisioning m, True)
             | None \<Rightarrow> (NoStatus, False))"

section \<open>Facts about the table\<close>

text \<open>A toggle of the user's parameters that is present and on.\<close>

definition toggle_on :: "custom_spec option \<Rightarrow> (extensions_spec \<Rightarrow> extension_toggle option) \<Rightarrow> bool" where
  "toggle_on custom t \<longleftrightarrow>
     (case Option.bind (Option.bind custom cu_extensions) t of None \<Rightarrow> False | Some x \<Rightarrow> et_enabled x)"

lemma ext_enabled_toggle: "ext_enabled e custom = toggle_on custom (ex_toggle e)"
  by (auto simp: ext_enabled_def toggle_on_def split: option.splits)

lemma ext_timescaledb_fields [simp]:
  "ex_field ext_timescaledb = ''timescaledb''" "ex_toggle ext_timescaledb = es_timescaledb"
  "ex_catalog_entry ext_timescaledb = ''timescaledb-oss''" "ex_sql_extension ext_timescaledb = ''timescaledb''"
  "ex_min_postgres_version ext_timescaledb = []" "ex_preload_libraries ext_timescaledb = [''timescaledb'']"
  "ex_default_parameters ext_timescaledb = [(''timescaledb.telemetry_level'', ''off''), (''max_locks_per_transaction'', ''128'')]"
  "ex_requires ext_timescaledb = []" "ex_conflicts ext_timescaledb = [''timescaledbCommunity'']"
  "ex_bootstrap_sql ext_timescaledb = None"
  by (simp_all add: ext_timescaledb_def an_extension_def)

lemma ext_timescaledb_community_fields [simp]:
  "ex_field ext_timescaledb_community = ''timescaledbCommunity''" "ex_toggle ext_timescaledb_community = es_timescaledb_community"
  "ex_catalog_entry ext_timescaledb_community = ''timescaledb''" "ex_sql_extension ext_timescaledb_community = ''timescaledb''"
  "ex_min_postgres_version ext_timescaledb_community = ''18.6''" "ex_preload_libraries ext_timescaledb_community = [''timescaledb'']"
  "ex_default_parameters ext_timescaledb_community = [(''timescaledb.telemetry_level'', ''off''), (''max_locks_per_transaction'', ''128'')]"
  "ex_requires ext_timescaledb_community = []" "ex_conflicts ext_timescaledb_community = [''timescaledb'']"
  "ex_bootstrap_sql ext_timescaledb_community = None"
  by (simp_all add: ext_timescaledb_community_def an_extension_def)

lemma ext_postgis_fields [simp]:
  "ex_field ext_postgis = ''postgis''" "ex_toggle ext_postgis = es_postgis"
  "ex_catalog_entry ext_postgis = ''postgis''" "ex_sql_extension ext_postgis = ''postgis''"
  "ex_min_postgres_version ext_postgis = []" "ex_preload_libraries ext_postgis = []"
  "ex_default_parameters ext_postgis = []"
  "ex_requires ext_postgis = []" "ex_conflicts ext_postgis = []"
  "ex_bootstrap_sql ext_postgis = None"
  by (simp_all add: ext_postgis_def an_extension_def)

lemma ext_pgrouting_fields [simp]:
  "ex_field ext_pgrouting = ''pgrouting''" "ex_toggle ext_pgrouting = es_pgrouting"
  "ex_catalog_entry ext_pgrouting = ''pgrouting''" "ex_sql_extension ext_pgrouting = ''pgrouting''"
  "ex_min_postgres_version ext_pgrouting = []" "ex_preload_libraries ext_pgrouting = []"
  "ex_default_parameters ext_pgrouting = []"
  "ex_requires ext_pgrouting = [''postgis'']" "ex_conflicts ext_pgrouting = []"
  "ex_bootstrap_sql ext_pgrouting = None"
  by (simp_all add: ext_pgrouting_def an_extension_def)

lemma ext_pgvector_fields [simp]:
  "ex_field ext_pgvector = ''pgvector''" "ex_toggle ext_pgvector = es_pgvector"
  "ex_catalog_entry ext_pgvector = []" "ex_sql_extension ext_pgvector = ''vector''"
  "ex_min_postgres_version ext_pgvector = []" "ex_preload_libraries ext_pgvector = []"
  "ex_default_parameters ext_pgvector = []"
  "ex_requires ext_pgvector = []" "ex_conflicts ext_pgvector = []"
  "ex_bootstrap_sql ext_pgvector = None"
  by (simp_all add: ext_pgvector_def an_extension_def)

lemma ext_pgivm_fields [simp]:
  "ex_field ext_pgivm = ''pgivm''" "ex_toggle ext_pgivm = es_pgivm"
  "ex_catalog_entry ext_pgivm = ''pg-ivm''" "ex_sql_extension ext_pgivm = ''pg_ivm''"
  "ex_min_postgres_version ext_pgivm = []" "ex_preload_libraries ext_pgivm = [''pg_ivm'']"
  "ex_default_parameters ext_pgivm = []"
  "ex_requires ext_pgivm = []" "ex_conflicts ext_pgivm = []"
  "ex_bootstrap_sql ext_pgivm = None"
  by (simp_all add: ext_pgivm_def an_extension_def)

lemma ext_pgaudit_fields [simp]:
  "ex_field ext_pgaudit = ''pgaudit''" "ex_toggle ext_pgaudit = es_pgaudit"
  "ex_catalog_entry ext_pgaudit = []" "ex_sql_extension ext_pgaudit = []"
  "ex_min_postgres_version ext_pgaudit = []" "ex_preload_libraries ext_pgaudit = []"
  "ex_default_parameters ext_pgaudit = [(''pgaudit.log'', ''ddl, role'')]"
  "ex_requires ext_pgaudit = []" "ex_conflicts ext_pgaudit = []"
  "ex_bootstrap_sql ext_pgaudit = None"
  by (simp_all add: ext_pgaudit_def an_extension_def)

lemma ext_wal2json_fields [simp]:
  "ex_field ext_wal2json = ''wal2json''" "ex_toggle ext_wal2json = es_wal2json"
  "ex_catalog_entry ext_wal2json = ''wal2json''" "ex_sql_extension ext_wal2json = []"
  "ex_min_postgres_version ext_wal2json = []" "ex_preload_libraries ext_wal2json = []"
  "ex_default_parameters ext_wal2json = []"
  "ex_requires ext_wal2json = []" "ex_conflicts ext_wal2json = []"
  "ex_bootstrap_sql ext_wal2json = None"
  by (simp_all add: ext_wal2json_def an_extension_def)

lemma ext_age_fields [simp]:
  "ex_field ext_age = ''age''" "ex_toggle ext_age = es_age"
  "ex_catalog_entry ext_age = ''age''" "ex_sql_extension ext_age = ''age''"
  "ex_min_postgres_version ext_age = []" "ex_preload_libraries ext_age = [''age'']"
  "ex_default_parameters ext_age = []"
  "ex_requires ext_age = []" "ex_conflicts ext_age = []"
  "ex_bootstrap_sql ext_age = Some age_bootstrap_sql"
  by (simp_all add: ext_age_def an_extension_def)

text \<open>Quantifiers over the table and over the enabled extensions, one conjunct per row.\<close>

lemma all_first_class:
  "(\<forall>e\<in>set firstClassExtensions. Q e) \<longleftrightarrow>
     Q ext_timescaledb \<and> Q ext_timescaledb_community \<and> Q ext_postgis \<and> Q ext_pgrouting \<and>
     Q ext_pgvector \<and> Q ext_pgivm \<and> Q ext_pgaudit \<and> Q ext_wal2json \<and> Q ext_age"
  by (simp only: firstClassExtensions_def list.set ball_simps simp_thms)

lemma ex_first_class:
  "(\<exists>e\<in>set firstClassExtensions. Q e) \<longleftrightarrow>
     Q ext_timescaledb \<or> Q ext_timescaledb_community \<or> Q ext_postgis \<or> Q ext_pgrouting \<or>
     Q ext_pgvector \<or> Q ext_pgivm \<or> Q ext_pgaudit \<or> Q ext_wal2json \<or> Q ext_age"
  by (simp only: firstClassExtensions_def list.set bex_simps simp_thms)

lemma set_enabled:
  "set (enabledExtensions custom) = {e \<in> set firstClassExtensions. toggle_on custom (ex_toggle e)}"
  by (simp only: enabledExtensions_def set_filter ext_enabled_toggle)

lemma all_enabled:
  "(\<forall>e\<in>set (enabledExtensions custom). Q e) \<longleftrightarrow>
     (\<forall>e\<in>set firstClassExtensions. toggle_on custom (ex_toggle e) \<longrightarrow> Q e)"
  unfolding set_enabled by blast

lemma ex_enabled:
  "list_ex Q (enabledExtensions custom) \<longleftrightarrow>
     (\<exists>e\<in>set firstClassExtensions. toggle_on custom (ex_toggle e) \<and> Q e)"
  unfolding list_ex_iff set_enabled by blast

lemma set_created:
  "set (createdExtensions custom) =
     {e \<in> set firstClassExtensions. toggle_on custom (ex_toggle e) \<and> ex_sql_extension e \<noteq> []}"
  unfolding createdExtensions_def set_filter set_enabled by blast

section \<open>ValidateExtensions against its specification\<close>

text \<open>
  What may be deployed: image volumes need PostgreSQL 18, TimescaleDB Community 18.6, pgRouting
  needs PostGIS, and only one edition of TimescaleDB can be on.
\<close>

definition deployable :: "custom_spec option \<Rightarrow> string \<Rightarrow> string \<Rightarrow> bool" where
  "deployable custom version major \<longleftrightarrow>
     (list_ex (toggle_on custom) [es_timescaledb, es_timescaledb_community, es_postgis, es_pgrouting,
         es_pgivm, es_wal2json, es_age] \<longrightarrow> major = ''18'') \<and>
     (toggle_on custom es_timescaledb_community \<longrightarrow> versionAtLeast version ''18.6'') \<and>
     (toggle_on custom es_pgrouting \<longrightarrow> toggle_on custom es_postgis) \<and>
     \<not> (toggle_on custom es_timescaledb \<and> toggle_on custom es_timescaledb_community)"

lemma ValidateExtensions_None:
  "ValidateExtensions custom engineVersion instanceVersion = None \<longleftrightarrow>
     (\<forall>e\<in>set firstClassExtensions. toggle_on custom (ex_toggle e) \<longrightarrow>
        validate_extension (postgresVersion engineVersion instanceVersion)
          (postgresMajor engineVersion instanceVersion) (enabledExtensions custom) e = None)"
  by (simp only: ValidateExtensions_def Let_def first_error_None all_enabled)

lemma validate_extension_None:
  "validate_extension version major enabled e = None \<longleftrightarrow>
     (ex_catalog_entry e \<noteq> [] \<longrightarrow> major = imageVolumePostgresMajor) \<and>
     (ex_min_postgres_version e \<noteq> [] \<longrightarrow> versionAtLeast version (ex_min_postgres_version e)) \<and>
     list_all (\<lambda>f. list_ex (\<lambda>x. ex_field x = f) enabled) (ex_requires e) \<and>
     list_all (\<lambda>f. \<not> list_ex (\<lambda>x. ex_field x = f) enabled) (ex_conflicts e)"
  by (simp add: validate_extension_def list_all_iff)

lemma ValidateExtensions_iff [check_iffs]:
  "ValidateExtensions custom engineVersion instanceVersion = None \<longleftrightarrow>
     deployable custom (postgresVersion engineVersion instanceVersion)
       (postgresMajor engineVersion instanceVersion)"
  unfolding ValidateExtensions_None validate_extension_None
  by (simp add: all_first_class ex_enabled ex_first_class imageVolumePostgresMajor_def deployable_def) blast

text \<open>C11: \<open>ValidateExtensions\<close> accepts exactly the deployable parameters: every rule of the
  table (image volumes need major 18, the minimum minor, the dependency, the conflict) is
  enforced, and nothing else is refused.\<close>

theorem ValidateExtensions_deployable:
  "ValidateExtensions custom engineVersion instanceVersion = None \<longleftrightarrow>
     deployable custom (postgresVersion engineVersion instanceVersion)
       (postgresMajor engineVersion instanceVersion)"
  by (rule ValidateExtensions_iff)

section \<open>Resolved images\<close>

text \<open>The image the catalog gives for an entry, if it has one.\<close>

definition catalog_image ::
  "image_catalog \<Rightarrow> string \<Rightarrow> extension_configuration list \<Rightarrow> string \<Rightarrow> extension_image option" where
  "catalog_image catalog major entries k =
     map_option (\<lambda>entry. \<lparr>im_config = entry,
         im_sql_version = (case ic_annotations catalog (SQLVersionAnnotationPrefix @ major @ ''.'' @ k) of
            None \<Rightarrow> [] | Some v \<Rightarrow> v)\<rparr>)
       (List.find (\<lambda>x. ec_name x = k) entries)"

lemma resolve_loop_images:
  "resolve_loop cat major n catalog entries es images = Inr images' \<Longrightarrow>
     (\<forall>k. images' k = (if k \<in> ex_catalog_entry ` set es then catalog_image catalog major entries k
                       else images k)) \<and>
     (\<forall>e\<in>set es. catalog_image catalog major entries (ex_catalog_entry e) \<noteq> None)"
proof (induction es arbitrary: images)
  case Nil
  then show ?case by simp
next
  case (Cons e es)
  then obtain entry where entry: "List.find (\<lambda>x. ec_name x = ex_catalog_entry e) entries = Some entry"
    by (auto split: option.splits)
  then obtain img where img: "catalog_image catalog major entries (ex_catalog_entry e) = Some img"
    and loop: "resolve_loop cat major n catalog entries es (images(ex_catalog_entry e \<mapsto> img)) = Inr images'"
    using Cons.prems by (simp add: catalog_image_def)
  from Cons.IH [OF loop] img show ?case by auto
qed

definition images_named :: "extension_images \<Rightarrow> bool" where
  "images_named images \<longleftrightarrow> (\<forall>k img. images k = Some img \<longrightarrow> ec_name (im_config img) = k)"

lemma resolve_ok:
  assumes "ResolveExtensionImages get fx cat custom ev iv = Inr images"
  shows "dom images = ex_catalog_entry ` set (wantedExtensions custom) \<and> images_named images"
proof (cases "wantedExtensions custom = []")
  case True
  with assms show ?thesis by (auto simp: ResolveExtensionImages_def images_named_def)
next
  case False
  with assms obtain n catalog where
    "resolve_loop cat (postgresMajor ev iv) n catalog (fx catalog n) (wantedExtensions custom)
       Map.empty = Inr images"
    by (auto simp: ResolveExtensionImages_def Let_def split: prod.splits option.splits sum.splits)
  from resolve_loop_images [OF this] show ?thesis
    by (auto simp: images_named_def dom_def catalog_image_def split: if_splits dest: find_SomeD)
qed

section \<open>What ApplyExtensions adds and keeps\<close>

lemma set_defaults_map: "set_defaults ds m = map_of ds ++ m"
proof (induction ds m rule: set_defaults.induct)
  case (1 m)
  then show ?case by simp
next
  case (2 n v ds m)
  then show ?case by (auto simp: map_add_def fun_eq_iff split: option.splits)
qed

text \<open>The random order of Go's map iteration does not matter.\<close>

lemma set_defaults_order:
  assumes "distinct (map fst ds)" "distinct (map fst ds')" "set ds = set ds'"
  shows "set_defaults ds m = set_defaults ds' m"
  using map_of_inject_set [THEN iffD2, OF assms(1,2,3)] by (simp only: set_defaults_map)

text \<open>
  A configuration that keeps everything of another one and may add to it: entries are only
  appended, parameters only set where there were none.
\<close>

definition pg_le :: "postgres_configuration \<Rightarrow> postgres_configuration \<Rightarrow> bool" where
  "pg_le c c' \<longleftrightarrow>
     prefix (pc_extensions c) (pc_extensions c') \<and>
     prefix (pc_additional_libraries c) (pc_additional_libraries c') \<and>
     (case pc_parameters c of None \<Rightarrow> True
      | Some m \<Rightarrow> (case pc_parameters c' of None \<Rightarrow> False | Some m' \<Rightarrow> m \<subseteq>\<^sub>m m')) \<and>
     pc_pg_hba c' = pc_pg_hba c \<and> pc_synchronous c' = pc_synchronous c \<and> pc_rest c' = pc_rest c"

definition initdb_le :: "bootstrap_initdb \<Rightarrow> bootstrap_initdb \<Rightarrow> bool" where
  "initdb_le i i' \<longleftrightarrow>
     prefix (ib_post_init_application_sql i) (ib_post_init_application_sql i') \<and>
     ib_database i' = ib_database i \<and> ib_owner i' = ib_owner i \<and> ib_secret i' = ib_secret i \<and>
     ib_rest i' = ib_rest i"

definition bootstrap_le :: "cluster_bootstrap option \<Rightarrow> cluster_bootstrap option \<Rightarrow> bool" where
  "bootstrap_le b b' \<longleftrightarrow>
     (case b of None \<Rightarrow> True | Some x \<Rightarrow>
       (case b' of None \<Rightarrow> False | Some x' \<Rightarrow>
          bo_recovery x' = bo_recovery x \<and>
          (case bo_initdb x of None \<Rightarrow> True | Some i \<Rightarrow>
            (case bo_initdb x' of None \<Rightarrow> False | Some i' \<Rightarrow> initdb_le i i'))))"

text \<open>Everything outside the two fields ApplyExtensions writes.\<close>

definition outside_extensions :: "cluster_spec \<Rightarrow> cluster_spec" where
  "outside_extensions s = s\<lparr>cs_postgres := zero_postgres, cs_bootstrap := None\<rparr>"

definition extends_spec :: "cluster_spec \<Rightarrow> cluster_spec \<Rightarrow> bool" where
  "extends_spec s s' \<longleftrightarrow>
     pg_le (cs_postgres s) (cs_postgres s') \<and> bootstrap_le (cs_bootstrap s) (cs_bootstrap s') \<and>
     outside_extensions s' = outside_extensions s"

lemma outside_updates [simp]:
  "outside_extensions (s\<lparr>cs_postgres := p\<rparr>) = outside_extensions s"
  "outside_extensions (s\<lparr>cs_bootstrap := b\<rparr>) = outside_extensions s"
  by (simp_all add: outside_extensions_def)

lemma pg_le_refl: "pg_le c c"
  by (simp add: pg_le_def split: option.split)

lemma pg_le_trans: "pg_le a b \<Longrightarrow> pg_le b c \<Longrightarrow> pg_le a c"
  by (auto simp: pg_le_def intro: prefix_order.trans map_le_trans split: option.splits)

lemma bootstrap_le_refl: "bootstrap_le b b"
  by (simp add: bootstrap_le_def initdb_le_def split: option.split)

lemma initdb_le_trans: "initdb_le a b \<Longrightarrow> initdb_le b c \<Longrightarrow> initdb_le a c"
  by (auto simp: initdb_le_def intro: prefix_order.trans)

lemma bootstrap_le_trans: "bootstrap_le a b \<Longrightarrow> bootstrap_le b c \<Longrightarrow> bootstrap_le a c"
  by (auto simp: bootstrap_le_def intro: initdb_le_trans split: option.splits)

lemma extends_refl: "extends_spec s s"
  by (simp add: extends_spec_def pg_le_refl bootstrap_le_refl)

lemma extends_trans: "extends_spec a b \<Longrightarrow> extends_spec b c \<Longrightarrow> extends_spec a c"
  unfolding extends_spec_def by (auto intro: pg_le_trans bootstrap_le_trans)

lemma add_image_le: "pg_le c (add_image images e c)"
  by (auto simp: add_image_def pg_le_def split: option.splits)

lemma add_libraries_le: "pg_le c (add_libraries e c)"
  by (simp add: add_libraries_def pg_le_def foldl_append_new_prefix split: option.split)

lemma add_defaults_le: "pg_le c (add_defaults e c)"
  by (auto simp: add_defaults_def pg_le_def set_defaults_map map_le_def Let_def split: option.split)

lemma add_bootstrap_extends: "extends_spec s (add_bootstrap_sql custom e s)"
proof (cases "ex_bootstrap_sql e")
  case None
  then show ?thesis by (simp add: add_bootstrap_sql_def extends_refl)
next
  case (Some sql)
  then show ?thesis
    by (auto simp: add_bootstrap_sql_def extends_spec_def pg_le_refl bootstrap_le_def initdb_le_def
        append_new_prefix Let_def split: option.splits)
qed

lemma apply_extension_extends: "extends_spec s (apply_extension custom images s e)"
proof -
  let ?s' = "s\<lparr>cs_postgres := add_defaults e (add_libraries e (add_image images e (cs_postgres s)))\<rparr>"
  have "pg_le (cs_postgres s) (cs_postgres ?s')"
    using pg_le_trans [OF pg_le_trans [OF add_image_le add_libraries_le] add_defaults_le] by simp
  then have "extends_spec s ?s'"
    by (simp add: extends_spec_def bootstrap_le_refl)
  then show ?thesis
    unfolding apply_extension_def using add_bootstrap_extends by (rule extends_trans)
qed

lemma foldl_extends: "extends_spec s (foldl (apply_extension custom images) s es)"
proof (induction es arbitrary: s)
  case Nil
  then show ?case by (simp add: extends_refl)
next
  case (Cons e es)
  show ?case using extends_trans [OF apply_extension_extends Cons.IH] by simp
qed

lemma ApplyExtensions_extends: "extends_spec s (ApplyExtensions s custom images)"
  by (simp add: ApplyExtensions_def foldl_extends)


text \<open>Of the extensions only AGE, the last of the table, writes the bootstrap.\<close>

lemma foldl_bootstrap:
  "\<forall>e\<in>set es. ex_bootstrap_sql e = None \<Longrightarrow>
   cs_bootstrap (foldl (apply_extension custom images) s es) = cs_bootstrap s"
  by (induction es arbitrary: s) (simp_all add: apply_extension_def add_bootstrap_sql_def)

lemma ApplyExtensions_bootstrap:
  "cs_bootstrap (ApplyExtensions s custom images) =
     (if toggle_on custom es_age then cs_bootstrap (add_bootstrap_sql custom ext_age s) else cs_bootstrap s)"
proof -
  define others where "others = filter (\<lambda>e. ext_enabled e custom)
    [ext_timescaledb, ext_timescaledb_community, ext_postgis, ext_pgrouting, ext_pgvector, ext_pgivm, ext_pgaudit, ext_wal2json]"
  have split: "enabledExtensions custom = others @ (if toggle_on custom es_age then [ext_age] else [])"
    by (simp add: enabledExtensions_def others_def firstClassExtensions_def ext_enabled_toggle ext_age_def an_extension_def)
  have "\<forall>e\<in>set others. ex_bootstrap_sql e = None" by (auto simp: others_def)
  note same = foldl_bootstrap [OF this, of custom images s]
  show ?thesis
    using same by (simp add: ApplyExtensions_def split apply_extension_def add_bootstrap_sql_def Let_def)
qed

text \<open>What apply_extension establishes for an extension, and what makes it a no-op.\<close>

definition installed :: "custom_spec option \<Rightarrow> extension_images \<Rightarrow> extension \<Rightarrow> cluster_spec \<Rightarrow> bool" where
  "installed custom images e s \<longleftrightarrow>
     (images (ex_catalog_entry e) \<noteq> None \<longrightarrow>
        list_ex (\<lambda>x. ec_name x = ex_catalog_entry e) (pc_extensions (cs_postgres s))) \<and>
     set (ex_preload_libraries e) \<subseteq> set (pc_additional_libraries (cs_postgres s)) \<and>
     (case pc_parameters (cs_postgres s) of
        None \<Rightarrow> ex_default_parameters e = []
      | Some m \<Rightarrow> list_all (\<lambda>p. m (fst p) \<noteq> None) (ex_default_parameters e)) \<and>
     (case ex_bootstrap_sql e of None \<Rightarrow> True
      | Some sql \<Rightarrow> (case Option.bind (cs_bootstrap s) bo_initdb of None \<Rightarrow> False
          | Some i \<Rightarrow> sql (snd (applicationDatabaseIdentity custom)) \<in> set (ib_post_init_application_sql i)))"

lemma set_defaults_absorb:
  "list_all (\<lambda>p. m (fst p) \<noteq> None) ds \<Longrightarrow> set_defaults ds m = m"
  by (induction ds m rule: set_defaults.induct) auto

lemma set_defaults_covers: "list_all (\<lambda>p. set_defaults ds m (fst p) \<noteq> None) ds"
  by (auto simp: list_all_iff set_defaults_map map_add_def split: option.splits dest: weak_map_of_SomeI)

lemma installed_absorb:
  assumes "installed custom images e s"
  shows "apply_extension custom images s e = s"
proof -
  let ?c = "cs_postgres s"
  have 1: "add_image images e ?c = ?c"
    using assms by (auto simp: add_image_def installed_def split: option.splits)
  have 2: "add_libraries e ?c = ?c"
    using assms by (simp add: add_libraries_def installed_def foldl_append_new_absorb)
  have 3: "add_defaults e ?c = ?c"
    using assms by (auto simp: add_defaults_def installed_def set_defaults_absorb split: option.splits)
  have 4: "add_bootstrap_sql custom e s = s"
    using assms
    by (auto simp: add_bootstrap_sql_def installed_def append_new_absorb split: option.splits)
  show ?thesis unfolding apply_extension_def 1 2 3 using 4 by simp
qed

lemma installed_extends:
  assumes "installed custom images e s" "extends_spec s s'"
  shows "installed custom images e s'"
proof -
  have pg: "pg_le (cs_postgres s) (cs_postgres s')" and bo: "bootstrap_le (cs_bootstrap s) (cs_bootstrap s')"
    using assms(2) by (simp_all add: extends_spec_def)
  have ext: "set (pc_extensions (cs_postgres s)) \<subseteq> set (pc_extensions (cs_postgres s'))"
    and lib: "set (pc_additional_libraries (cs_postgres s)) \<subseteq> set (pc_additional_libraries (cs_postgres s'))"
    using pg by (auto simp: pg_le_def set_mono_prefix dest: set_mono_prefix)
  have par: "case pc_parameters (cs_postgres s') of
        None \<Rightarrow> ex_default_parameters e = []
      | Some m \<Rightarrow> list_all (\<lambda>p. m (fst p) \<noteq> None) (ex_default_parameters e)"
    if "case pc_parameters (cs_postgres s) of
        None \<Rightarrow> ex_default_parameters e = []
      | Some m \<Rightarrow> list_all (\<lambda>p. m (fst p) \<noteq> None) (ex_default_parameters e)"
    using pg that by (auto simp: pg_le_def list_all_iff map_le_def dom_def split: option.splits; fastforce)
  have sql: "case Option.bind (cs_bootstrap s') bo_initdb of None \<Rightarrow> False
          | Some i \<Rightarrow> st \<in> set (ib_post_init_application_sql i)"
    if "case Option.bind (cs_bootstrap s) bo_initdb of None \<Rightarrow> False
          | Some i \<Rightarrow> st \<in> set (ib_post_init_application_sql i)" for st
    using bo that
    by (auto simp: bootstrap_le_def initdb_le_def dest: set_mono_prefix split: option.splits)
  show ?thesis
    using assms(1) ext lib par sql by (auto simp: installed_def list_ex_iff split: option.splits)
qed

lemma apply_extension_installed:
  assumes "images_named images"
  shows "installed custom images e (apply_extension custom images s e)"
proof -
  let ?c = "add_defaults e (add_libraries e (add_image images e (cs_postgres s)))"
  have 1: "list_ex (\<lambda>x. ec_name x = ex_catalog_entry e) (pc_extensions ?c)"
    if "images (ex_catalog_entry e) \<noteq> None"
    using that assms
    by (auto simp: add_defaults_def add_libraries_def add_image_def images_named_def Let_def)
  have 2: "set (ex_preload_libraries e) \<subseteq> set (pc_additional_libraries ?c)"
    by (auto simp: add_defaults_def add_libraries_def set_foldl_append_new Let_def)
  have 3: "case pc_parameters ?c of None \<Rightarrow> ex_default_parameters e = []
      | Some m \<Rightarrow> list_all (\<lambda>p. m (fst p) \<noteq> None) (ex_default_parameters e)"
    using set_defaults_covers by (auto simp: add_defaults_def Let_def split: option.split)
  have 4: "cs_postgres (add_bootstrap_sql custom e t) = cs_postgres t" for t
    by (simp add: add_bootstrap_sql_def Let_def split: option.split)
  have 5: "case ex_bootstrap_sql e of None \<Rightarrow> True
      | Some sql \<Rightarrow> (case Option.bind (cs_bootstrap (add_bootstrap_sql custom e t)) bo_initdb of None \<Rightarrow> False
          | Some i \<Rightarrow> sql (snd (applicationDatabaseIdentity custom)) \<in> set (ib_post_init_application_sql i))" for t
    by (simp add: add_bootstrap_sql_def Let_def split: option.split)
  show ?thesis
    unfolding installed_def apply_extension_def 4 using 1 2 3 5 by simp
qed

lemma foldl_installed:
  assumes "images_named images"
  shows "e \<in> set es \<Longrightarrow> installed custom images e (foldl (apply_extension custom images) s es)"
proof (induction es arbitrary: s)
  case Nil
  then show ?case by simp
next
  case (Cons x es)
  show ?case
  proof (cases "e = x")
    case True
    have "installed custom images x (foldl (apply_extension custom images) (apply_extension custom images s x) es)"
      using apply_extension_installed [OF assms] foldl_extends by (rule installed_extends)
    with True show ?thesis by simp
  next
    case False
    with Cons show ?thesis by simp
  qed
qed

lemma foldl_absorb:
  "(\<And>e. e \<in> set es \<Longrightarrow> installed custom images e s) \<Longrightarrow> foldl (apply_extension custom images) s es = s"
proof (induction es)
  case Nil
  then show ?case by simp
next
  case (Cons e es)
  have "apply_extension custom images s e = s" using Cons.prems by (simp add: installed_absorb)
  with Cons show ?case by simp
qed

lemma ApplyExtensions_installed:
  "images_named images \<Longrightarrow> e \<in> set (enabledExtensions custom) \<Longrightarrow>
     installed custom images e (ApplyExtensions s custom images)"
  by (simp add: ApplyExtensions_def foldl_installed)

text \<open>C18: applying the extensions to a Cluster that already has them changes nothing, so repeated
  syncs converge: no entry, library or bootstrap statement is added twice.\<close>

theorem ApplyExtensions_idempotent:
  assumes "images_named images"
  shows "ApplyExtensions (ApplyExtensions s custom images) custom images = ApplyExtensions s custom images"
  unfolding ApplyExtensions_def [of "ApplyExtensions s custom images"]
  by (rule foldl_absorb) (rule ApplyExtensions_installed [OF assms])

section \<open>Identifiers quoted into SQL\<close>

text \<open>
  PostgreSQL's lexical rule for a quoted identifier: inside the quotes a doubled quote stands
  for one, a single quote ends the identifier. The result is the identifier and the rest of
  the statement.
\<close>

fun read_quoted :: "string \<Rightarrow> (string \<times> string) option" where
  "read_quoted [] = None"
| "read_quoted [c] = (if c = CHR 0x22 then Some ([], []) else None)"
| "read_quoted (c # d # s) =
     (if c = CHR 0x22 then
        (if d = CHR 0x22 then map_option (apfst (Cons c)) (read_quoted s) else Some ([], d # s))
      else map_option (apfst (Cons c)) (read_quoted (d # s)))"

definition read_identifier :: "string \<Rightarrow> (string \<times> string) option" where
  "read_identifier s = (case s of c # cs \<Rightarrow> if c = CHR 0x22 then read_quoted cs else None | [] \<Rightarrow> None)"

lemma read_quoted_replace:
  assumes "rest = [] \<or> hd rest \<noteq> CHR 0x22"
  shows "read_quoted (replace_all name (CHR 0x22) [CHR 0x22, CHR 0x22] @ CHR 0x22 # rest) = Some (name, rest)"
proof (induction name)
  case Nil
  from assms show ?case by (cases rest) auto
next
  case (Cons c name)
  let ?r = "replace_all name (CHR 0x22) [CHR 0x22, CHR 0x22] @ CHR 0x22 # rest"
  obtain d s where ds: "?r = d # s" by (cases ?r) auto
  show ?case
  proof (cases "c = CHR 0x22")
    case True
    with Cons show ?thesis by simp
  next
    case False
    with Cons ds show ?thesis by simp
  qed
qed

text \<open>C21: a quoted owner is read back by SQL as exactly that owner, whatever characters it has,
  and the statement after it is untouched: no owner can end the identifier early.\<close>

theorem quoteIdentifier_roundtrip:
  assumes "rest = [] \<or> hd rest \<noteq> CHR 0x22"
  shows "read_identifier (quoteIdentifier name @ rest) = Some (name, rest)"
  using read_quoted_replace [OF assms] by (simp add: read_identifier_def quoteIdentifier_def)


section \<open>The Database resource\<close>

text \<open>The SQL extensions in the order they are created.\<close>

definition sql_creation_order :: "string list" where
  "sql_creation_order = [''timescaledb'', ''postgis'', ''pgrouting'', ''vector'', ''pg_ivm'', ''age'']"

text \<open>The SQL extensions the toggles ask for, each with the catalog entry its version is taken
  from: the two editions of TimescaleDB are one SQL extension, pgvector has no image.\<close>

definition sql_requested :: "custom_spec option \<Rightarrow> (string \<times> string) list" where
  "sql_requested custom =
     (if toggle_on custom es_timescaledb then [(''timescaledb'', ''timescaledb-oss'')]
      else if toggle_on custom es_timescaledb_community then [(''timescaledb'', ''timescaledb'')] else []) @
     (if toggle_on custom es_postgis then [(''postgis'', ''postgis'')] else []) @
     (if toggle_on custom es_pgrouting then [(''pgrouting'', ''pgrouting'')] else []) @
     (if toggle_on custom es_pgvector then [(''vector'', [])] else []) @
     (if toggle_on custom es_pgivm then [(''pg_ivm'', ''pg-ivm'')] else []) @
     (if toggle_on custom es_age then [(''age'', ''age'')] else [])"

lemma subseq_distinct: "subseq xs ys \<Longrightarrow> distinct ys \<Longrightarrow> distinct xs"
  by (induction xs ys rule: list_emb.induct) (auto dest: list_emb_set)

lemma created_requested:
  assumes "\<not> (toggle_on custom es_timescaledb \<and> toggle_on custom es_timescaledb_community)"
  shows "map (\<lambda>e. (ex_sql_extension e, ex_catalog_entry e)) (createdExtensions custom) = sql_requested custom"
  using assms by (simp add: createdExtensions_def enabledExtensions_def ext_enabled_toggle extension_table sql_requested_def)

lemma requested_order: "subseq (map fst (sql_requested custom)) sql_creation_order"
  by (simp add: sql_requested_def sql_creation_order_def)

lemma created_names:
  "BuildExtensionsDatabase cl custom images = Some db \<Longrightarrow>
     map xs_name (dp_extensions db) = map ex_sql_extension (createdExtensions custom)"
  by (auto simp: BuildExtensionsDatabase_def Let_def database_extension_def split: prod.splits if_splits)

lemma created_mem:
  "n \<in> ex_sql_extension ` set (createdExtensions custom) \<longleftrightarrow>
     (\<exists>e\<in>set firstClassExtensions. toggle_on custom (ex_toggle e) \<and> ex_sql_extension e = n \<and> n \<noteq> [])"
  unfolding set_created by blast

lemma database_extensions:
  assumes "\<not> (toggle_on custom es_timescaledb \<and> toggle_on custom es_timescaledb_community)"
  shows "map (database_extension images) (createdExtensions custom) = map (\<lambda>(n, entry).
      \<lparr>xs_name = n, xs_ensure = ''present'',
       xs_version = (case images entry of None \<Rightarrow> [] | Some i \<Rightarrow> im_sql_version i)\<rparr>) (sql_requested custom)"
  by (simp add: database_extension_def EnsurePresent_def flip: created_requested [OF assms])

text \<open>C19: for validated parameters the Database lists exactly the SQL extensions whose toggles are
  on (none of them on: there is no Database), each once, to be present at the version annotated on its
  catalog image, in an order in which dependencies come first (PostGIS before pgRouting, and
  never pgRouting alone); it is the application database of the Cluster, and deleting the
  resource retains it.\<close>

theorem BuildExtensionsDatabase_order:
  assumes "ValidateExtensions custom engineVersion instanceVersion = None"
  shows "case BuildExtensionsDatabase clusterName custom images of
      None \<Rightarrow> sql_requested custom = []
    | Some db \<Rightarrow> sql_requested custom \<noteq> [] \<and>
        dp_extensions db = map (\<lambda>(n, entry). \<lparr>xs_name = n, xs_ensure = ''present'',
          xs_version = (case images entry of None \<Rightarrow> [] | Some i \<Rightarrow> im_sql_version i)\<rparr>) (sql_requested custom) \<and>
        subseq (map xs_name (dp_extensions db)) sql_creation_order \<and>
        distinct (map xs_name (dp_extensions db)) \<and>
        (''pgrouting'' \<in> set (map xs_name (dp_extensions db)) \<longrightarrow> ''postgis'' \<in> set (map xs_name (dp_extensions db))) \<and>
        (dp_name db, dp_owner db) = applicationDatabaseIdentity custom \<and> dp_cluster db = clusterName \<and>
        dp_reclaim_policy db = DatabaseReclaimRetain"
proof -
  have dep: "toggle_on custom es_pgrouting \<longrightarrow> toggle_on custom es_postgis"
    and one: "\<not> (toggle_on custom es_timescaledb \<and> toggle_on custom es_timescaledb_community)"
    using assms(1) by (simp_all add: ValidateExtensions_iff deployable_def)
  have none: "createdExtensions custom = [] \<longleftrightarrow> sql_requested custom = []"
    by (simp flip: created_requested [OF one])
  have names: "xs_name \<circ> (\<lambda>(n, entry). \<lparr>xs_name = n, xs_ensure = ''present'',
      xs_version = (case images entry of None \<Rightarrow> [] | Some i \<Rightarrow> im_sql_version i)\<rparr>) = fst"
    by (simp add: fun_eq_iff)
  have "distinct (map fst (sql_requested custom))"
    using requested_order by (rule subseq_distinct) (simp add: sql_creation_order_def)
  moreover have "''pgrouting'' \<in> set (map fst (sql_requested custom)) \<longrightarrow> ''postgis'' \<in> set (map fst (sql_requested custom))"
    using dep by (auto simp: sql_requested_def split: if_splits)
  ultimately show ?thesis
    using none names database_extensions [OF one, of images] requested_order [of custom]
    by (simp add: BuildExtensionsDatabase_def Let_def split: prod.split)
qed

section \<open>The readiness gate\<close>

definition extensions_ready :: "(api_err + database) \<times> custom_spec option \<Rightarrow> bool" where
  "extensions_ready = (\<lambda>(got, custom).
     createdExtensions custom = [] \<or>
     (case got of Inl e \<Rightarrow> False
      | Inr db \<Rightarrow> ds_observed_generation (db_status db) = db_generation db \<and>
          ds_applied (db_status db) = Some True \<and>
          list_all (\<lambda>e. list_all (\<lambda>s. do_name s = ex_sql_extension e \<longrightarrow> do_applied s)
                           (ds_extensions (db_status db))) (createdExtensions custom)))"

lemma pending_extension_None:
  "pending_extension statuses e = None \<longleftrightarrow>
     list_all (\<lambda>s. do_name s = ex_sql_extension e \<longrightarrow> do_applied s) statuses"
  by (auto simp: pending_extension_def find_None_ex list_all_iff)

lemma ExtensionsStatus_open: "snd (ExtensionsStatus got custom) \<longleftrightarrow> \<not> extensions_ready (got, custom)"
proof (cases "createdExtensions custom = [] \<or> (\<exists>e. got = Inl e)")
  case True
  then show ?thesis
    by (auto simp: ExtensionsStatus_def extensions_ready_def Let_def split: api_err.splits)
next
  case False
  then obtain db where "got = Inr db" by (cases got) auto
  moreover have "(\<exists>m. first_error (pending_extension sts) es = Some m) \<longleftrightarrow>
      \<not> (\<forall>e\<in>set es. pending_extension sts e = None)" for sts es
    using first_error_None [of "pending_extension sts" es] by (cases "first_error (pending_extension sts) es") auto
  ultimately show ?thesis using False
    by (auto simp: ExtensionsStatus_def extensions_ready_def pending_extension_None list_all_iff Let_def
        split: option.split)
qed

interpretation extensions_gate: readiness_gate "\<lambda>x. ExtensionsStatus (fst x) (snd x)" extensions_ready
proof
  fix x :: "(api_err + database) \<times> custom_spec option"
  show "snd (ExtensionsStatus (fst x) (snd x)) \<longleftrightarrow> \<not> extensions_ready x"
    by (simp add: ExtensionsStatus_open)
  show "snd (ExtensionsStatus (fst x) (snd x)) \<Longrightarrow> reports_waiting (fst (ExtensionsStatus (fst x) (snd x)))"
    by (auto simp: ExtensionsStatus_def Let_def split: sum.splits api_err.splits option.splits if_splits
        dest: first_error_SomeD)
qed

text \<open>The extensions gate lets the Instance become Ready only once the Database is reconciled
  at its current generation, applied, and reports no enabled extension as missing; otherwise it
  reports a waiting status.\<close>

theorem ExtensionsStatus_ready:
  "(case ExtensionsStatus got custom of (st, blocked) \<Rightarrow> if blocked then st else s) = Ready d \<longleftrightarrow>
     extensions_ready (got, custom) \<and> s = Ready d"
  using extensions_gate.ready_only_if_open [where x = "(got, custom)"] by simp

section \<open>The checks against what is deployed\<close>

definition has_entry :: "cluster \<Rightarrow> string \<Rightarrow> bool" where
  "has_entry pg n \<longleftrightarrow> n \<in> set (map ec_name (pc_extensions (cs_postgres (cl_spec pg))))"

lemma list_ex_name: "list_ex (\<lambda>x. f x = n) xs \<longleftrightarrow> n \<in> set (map f xs)"
  by (auto simp: list_ex_iff)

lemma AtCreation_iff:
  "ValidateExtensionsAtCreation (Inr pg) custom = None \<longleftrightarrow>
     list_all (\<lambda>e. creationOnly e \<longrightarrow> has_entry pg (ex_catalog_entry e)) (enabledExtensions custom)"
  by (simp add: ValidateExtensionsAtCreation_def list_ex_name has_entry_def list_all_iff) blast

lemma NotDisabled_iff:
  "ValidateExtensionsNotDisabled (Inr db) custom = None \<longleftrightarrow>
     list_all (\<lambda>e. ex_sql_extension e \<noteq> [] \<and> ex_sql_extension e \<in> set (map xs_name (dp_extensions (db_spec db)))
         \<longrightarrow> ex_sql_extension e \<in> set (map ex_sql_extension (createdExtensions custom)))
       firstClassExtensions"
proof -
  have "(ex_sql_extension e = [] \<or> ext_enabled e custom) \<or>
        list_ex (\<lambda>x. ex_sql_extension x = ex_sql_extension e) (enabledExtensions custom)
      \<longleftrightarrow> ex_sql_extension e = [] \<or> ex_sql_extension e \<in> set (map ex_sql_extension (createdExtensions custom))"
    if "e \<in> set firstClassExtensions" for e
  proof (cases "ex_sql_extension e = []")
    case False
    then have "list_ex (\<lambda>x. ex_sql_extension x = ex_sql_extension e) (enabledExtensions custom) \<longleftrightarrow>
        ex_sql_extension e \<in> set (map ex_sql_extension (createdExtensions custom))"
      by (auto simp: list_ex_iff createdExtensions_def image_iff)
    moreover have "list_ex (\<lambda>x. ex_sql_extension x = ex_sql_extension e) (enabledExtensions custom)"
      if "ext_enabled e custom"
      using that \<open>e \<in> set firstClassExtensions\<close> by (auto simp: list_ex_iff enabledExtensions_def)
    ultimately show ?thesis using False by blast
  qed simp
  note key = this
  have "ValidateExtensionsNotDisabled (Inr db) custom = None \<longleftrightarrow>
      (\<forall>e\<in>set firstClassExtensions.
         ((ex_sql_extension e = [] \<or> ext_enabled e custom) \<or>
          list_ex (\<lambda>x. ex_sql_extension x = ex_sql_extension e) (enabledExtensions custom)) \<or>
         \<not> list_ex (\<lambda>x. xs_name x = ex_sql_extension e) (dp_extensions (db_spec db)))"
    by (simp add: ValidateExtensionsNotDisabled_def) blast
  also have "\<dots> \<longleftrightarrow> (\<forall>e\<in>set firstClassExtensions.
         (ex_sql_extension e = [] \<or> ex_sql_extension e \<in> set (map ex_sql_extension (createdExtensions custom))) \<or>
         ex_sql_extension e \<notin> set (map xs_name (dp_extensions (db_spec db))))"
    by (intro ball_cong refl) (simp only: key, simp only: list_ex_name)
  finally show ?thesis unfolding list_all_iff by blast
qed

section \<open>Upgrades\<close>

lemma deployable_upgrade:
  "deployable custom v major \<Longrightarrow> versionAtLeast v' v \<Longrightarrow> deployable custom v' major"
  using pg_version.upgrade_keeps_minimum by (auto simp: deployable_def)

lemma postgresVersion_engine [simp]: "ev \<noteq> [] \<Longrightarrow> postgresVersion ev iv = ev"
  by (simp add: postgresVersion_def)

text \<open>C20: upgrading the engine version within its major never makes valid extension parameters
  invalid.\<close>

theorem ValidateExtensions_upgrade:
  assumes "ValidateExtensions custom engineVersion instanceVersion = None"
    and "engineVersion' \<noteq> []"
    and "versionAtLeast engineVersion' (postgresVersion engineVersion instanceVersion)"
    and "postgresMajor engineVersion' instanceVersion = postgresMajor engineVersion instanceVersion"
  shows "ValidateExtensions custom engineVersion' instanceVersion = None"
  using assms deployable_upgrade by (simp add: ValidateExtensions_iff)

section \<open>Sample parameters for the witnesses\<close>

definition on :: "extension_toggle option" where
  "on = Some \<lparr>et_enabled = True\<rparr>"

definition with_extensions :: "extensions_spec \<Rightarrow> custom_spec option" where
  "with_extensions es = Some (zero_custom\<lparr>cu_extensions := Some es\<rparr>)"

lemma toggle_on_with [simp]:
  "toggle_on (with_extensions es) t \<longleftrightarrow> (case t es of None \<Rightarrow> False | Some x \<Rightarrow> et_enabled x)"
  by (simp add: toggle_on_def with_extensions_def)

lemma toggle_off [simp]: "t no_extensions = None \<Longrightarrow> \<not> toggle_on (with_extensions no_extensions) t"
  by simp

lemmas sample_toggles = toggle_on_with no_extensions_def on_def

lemma sample_versions:
  "versionAtLeast ''18.10'' ''18.6''" "versionAtLeast ''18.6'' ''18.6''" "\<not> versionAtLeast ''18.4'' ''18.6''"
  "cut_before (CHR ''.'') ''18.6'' = ''18''" "cut_before (CHR ''.'') ''18.10'' = ''18''"
  by (simp_all add: versionAtLeast_def cut_before_def atoi_def parse_sign_def is_digit_def digit_value_def less_eq_char_def)

theorem ValidateExtensions_upgrade_witness:
  "ValidateExtensions (with_extensions (no_extensions\<lparr>es_timescaledb_community := on\<rparr>)) ''18.10'' [] = None"
proof (rule ValidateExtensions_upgrade [of _ "''18.6''" "[]"])
  show "ValidateExtensions (with_extensions (no_extensions\<lparr>es_timescaledb_community := on\<rparr>)) ''18.6'' [] = None"
    by (simp add: ValidateExtensions_iff deployable_def sample_toggles sample_versions postgresMajor_def)
qed (simp_all add: sample_versions postgresMajor_def)

theorem quoteIdentifier_roundtrip_witness:
  "read_identifier (quoteIdentifier [CHR 0x61, CHR 0x22, CHR 0x3B] @ '' x'') =
     Some ([CHR 0x61, CHR 0x22, CHR 0x3B], '' x'')"
  by (rule quoteIdentifier_roundtrip) simp

definition sample_image :: extension_image where
  "sample_image = \<lparr>im_config = \<lparr>ec_name = ''age'', ec_body = ''image''\<rparr>, im_sql_version = ''1.6.0''\<rparr>"

theorem ApplyExtensions_idempotent_witness:
  "\<forall>s. ApplyExtensions (ApplyExtensions s (with_extensions (no_extensions\<lparr>es_age := on\<rparr>)) [''age'' \<mapsto> sample_image])
     (with_extensions (no_extensions\<lparr>es_age := on\<rparr>)) [''age'' \<mapsto> sample_image] =
   ApplyExtensions s (with_extensions (no_extensions\<lparr>es_age := on\<rparr>)) [''age'' \<mapsto> sample_image]"
  by (intro allI ApplyExtensions_idempotent) (simp add: images_named_def sample_image_def)

lemma BuildExtensionsDatabase_sample:
  "BuildExtensionsDatabase ''pg'' (with_extensions (no_extensions\<lparr>es_postgis := on, es_pgrouting := on\<rparr>)) images =
     Some \<lparr>dp_name = ''app'', dp_owner = ''app'', dp_cluster = ''pg'', dp_reclaim_policy = DatabaseReclaimRetain,
       dp_extensions = [database_extension images ext_postgis, database_extension images ext_pgrouting]\<rparr>"
  by (simp add: BuildExtensionsDatabase_def createdExtensions_def enabledExtensions_def ext_enabled_toggle
      firstClassExtensions_def sample_toggles applicationDatabaseIdentity_def with_extensions_def
      DefaultApplicationDatabaseName_def DefaultApplicationUserName_def zero_custom_def toggle_on_def)

theorem BuildExtensionsDatabase_order_witness:
  "\<exists>db. BuildExtensionsDatabase ''pg'' (with_extensions (no_extensions\<lparr>es_postgis := on, es_pgrouting := on\<rparr>)) Map.empty = Some db \<and>
     map xs_name (dp_extensions db) = [''postgis'', ''pgrouting''] \<and> dp_name db = ''app''"
proof -
  let ?custom = "with_extensions (no_extensions\<lparr>es_postgis := on, es_pgrouting := on\<rparr>)"
  have v: "ValidateExtensions ?custom ''18.4'' [] = None"
    by (simp add: ValidateExtensions_iff deployable_def sample_toggles postgresMajor_def cut_before_def)
  have "sql_requested ?custom = [(''postgis'', ''postgis''), (''pgrouting'', ''pgrouting'')]"
    by (simp add: sql_requested_def sample_toggles)
  then show ?thesis
    using BuildExtensionsDatabase_order [OF v, where clusterName = "''pg''" and images = Map.empty]
    by (simp add: BuildExtensionsDatabase_sample)
qed

section \<open>Resolution, as a property\<close>

text \<open>C17: images are resolved from the named catalog for the instance's major: exactly the
  enabled image-volume extensions get an image, each the catalog's first entry of that name
  with the SQL version annotated for the major; if none is enabled the catalog is not needed.\<close>

theorem ResolveExtensionImages_sound:
  assumes "ResolveExtensionImages get_catalog find_extensions catalogName custom ev iv = Inr images"
  shows "wantedExtensions custom = [] \<and> images = Map.empty \<or>
    (\<exists>catalog n. get_catalog catalogName = Inr catalog \<and> atoi (postgresMajor ev iv) = (n, None) \<and>
       (\<forall>k. images k = (if k \<in> ex_catalog_entry ` set (wantedExtensions custom)
          then catalog_image catalog (postgresMajor ev iv) (find_extensions catalog n) k else None)) \<and>
       (\<forall>e\<in>set (wantedExtensions custom). images (ex_catalog_entry e) \<noteq> None))"
proof (cases "wantedExtensions custom = []")
  case True
  with assms show ?thesis by (auto simp: ResolveExtensionImages_def)
next
  case False
  with assms obtain n catalog where got: "get_catalog catalogName = Inr catalog"
    and n: "atoi (postgresMajor ev iv) = (n, None)"
    and loop: "resolve_loop catalogName (postgresMajor ev iv) n catalog (find_extensions catalog n)
       (wantedExtensions custom) Map.empty = Inr images"
    by (auto simp: ResolveExtensionImages_def Let_def split: prod.splits option.splits sum.splits)
  from resolve_loop_images [OF loop] have
    "\<forall>k. images k = (if k \<in> ex_catalog_entry ` set (wantedExtensions custom)
          then catalog_image catalog (postgresMajor ev iv) (find_extensions catalog n) k else None)"
    "\<forall>e\<in>set (wantedExtensions custom). images (ex_catalog_entry e) \<noteq> None"
    by auto
  with got n show ?thesis by blast
qed

definition sample_catalog :: image_catalog where
  "sample_catalog = \<lparr>ic_annotations = [SQLVersionAnnotationPrefix @ ''18.age'' \<mapsto> ''1.6.0''], ic_spec = []\<rparr>"

lemma sample_wanted: "wantedExtensions (with_extensions (no_extensions\<lparr>es_age := on\<rparr>)) = [ext_age]"
  by (simp add: wantedExtensions_def enabledExtensions_def firstClassExtensions_def ext_enabled_toggle sample_toggles)

lemma sample_resolve:
  "ResolveExtensionImages (\<lambda>_. Inr sample_catalog) (\<lambda>_ _. [im_config sample_image]) ''cat''
     (with_extensions (no_extensions\<lparr>es_age := on\<rparr>)) ''18.6'' [] = Inr [''age'' \<mapsto> sample_image]"
  by (simp add: ResolveExtensionImages_def sample_wanted postgresMajor_def sample_versions atoi_examples
      sample_image_def sample_catalog_def)

theorem ResolveExtensionImages_sound_witness:
  "\<exists>catalog n. atoi (postgresMajor ''18.6'' []) = (n, None) \<and>
     [''age'' \<mapsto> sample_image] ''age'' = catalog_image catalog ''18'' [im_config sample_image] ''age''"
proof -
  have major: "postgresMajor ''18.6'' [] = ''18''"
    by (simp add: postgresMajor_def sample_versions)
  obtain catalog n where n: "atoi (postgresMajor ''18.6'' []) = (n, None)"
    and all: "\<forall>k. [''age'' \<mapsto> sample_image] k = (if k \<in> ex_catalog_entry ` {ext_age}
           then catalog_image catalog ''18'' [im_config sample_image] k else None)"
    using ResolveExtensionImages_sound [OF sample_resolve] unfolding major sample_wanted by auto
  have "[''age'' \<mapsto> sample_image] ''age'' = catalog_image catalog ''18'' [im_config sample_image] ''age''"
    using all [THEN spec, of "''age''"] by simp
  with n show ?thesis by blast
qed

text \<open>Names of the entries after ApplyExtensions: the user's and the enabled ones with an image.\<close>

definition entry_names :: "cluster_spec \<Rightarrow> string set" where
  "entry_names s = set (map ec_name (pc_extensions (cs_postgres s)))"

lemma entry_names_bootstrap [simp]: "cs_postgres (add_bootstrap_sql custom e s) = cs_postgres s"
  by (simp add: add_bootstrap_sql_def Let_def split: option.split)

lemma entry_names_apply:
  assumes "images_named images"
  shows "entry_names (apply_extension custom images s e) =
     entry_names s \<union> (if images (ex_catalog_entry e) = None then {} else {ex_catalog_entry e})"
proof (cases "images (ex_catalog_entry e)")
  case None
  then show ?thesis
    by (simp add: entry_names_def apply_extension_def add_defaults_def add_libraries_def add_image_def Let_def)
next
  case (Some img)
  with assms have "ec_name (im_config img) = ex_catalog_entry e" by (simp add: images_named_def)
  with Some show ?thesis
    by (auto simp: entry_names_def apply_extension_def add_defaults_def add_libraries_def add_image_def
        Let_def list_ex_iff intro: rev_image_eqI)
qed

lemma entry_names_foldl:
  assumes "images_named images"
  shows "entry_names (foldl (apply_extension custom images) s es) =
     entry_names s \<union> {ex_catalog_entry e |e. e \<in> set es \<and> images (ex_catalog_entry e) \<noteq> None}"
proof (induction es arbitrary: s)
  case Nil
  then show ?case by simp
next
  case (Cons e es)
  have "{ex_catalog_entry x |x. x \<in> set (e # es) \<and> images (ex_catalog_entry x) \<noteq> None} =
    (if images (ex_catalog_entry e) = None then {} else {ex_catalog_entry e}) \<union>
    {ex_catalog_entry x |x. x \<in> set es \<and> images (ex_catalog_entry x) \<noteq> None}" by auto
  then show ?case using Cons.IH by (simp add: entry_names_apply [OF assms] Un_assoc)
qed

lemma wanted_mem:
  "n \<in> ex_catalog_entry ` set (wantedExtensions custom) \<longleftrightarrow>
     (\<exists>e\<in>set firstClassExtensions. toggle_on custom (ex_toggle e) \<and> ex_catalog_entry e = n \<and> n \<noteq> [])"
  unfolding wantedExtensions_def set_filter set_enabled by blast

lemma entry_names_ApplyExtensions:
  assumes "ResolveExtensionImages get fx cat custom ev iv = Inr images"
  shows "entry_names (ApplyExtensions s custom images) =
     entry_names s \<union> ex_catalog_entry ` set (wantedExtensions custom)"
proof -
  have named: "images_named images" and dom: "dom images = ex_catalog_entry ` set (wantedExtensions custom)"
    using resolve_ok [OF assms] by simp_all
  have "{ex_catalog_entry e |e. e \<in> set (enabledExtensions custom) \<and> images (ex_catalog_entry e) \<noteq> None} = dom images"
  proof (intro set_eqI iffI)
    fix n
    assume "n \<in> dom images"
    with dom obtain e where "e \<in> set (enabledExtensions custom)" "n = ex_catalog_entry e"
      by (auto simp: wantedExtensions_def)
    with \<open>n \<in> dom images\<close> show "n \<in> {ex_catalog_entry e |e. e \<in> set (enabledExtensions custom) \<and> images (ex_catalog_entry e) \<noteq> None}"
      by blast
  qed auto
  then show ?thesis unfolding ApplyExtensions_def entry_names_foldl [OF named] dom by simp
qed

end
