(* ===== verification/Validation.thy ===== *)
theory Validation
  imports Extensions
begin

text \<open>
  The stateless checks of \<open>internal/cnpg/validate.go\<close> on the engine component and its
  parameters, and the TLS rule of \<open>internal/cnpg/tls.go\<close>. Methods of \<open>resource.Quantity\<close> and
  the Kubernetes name validators are arguments.
\<close>

section \<open>Components of an Instance\<close>

record component_storage =
  ct_size :: quantity
  ct_storage_class :: "string option"

record policy_affinity =
  pa_node_affinity :: "opaque option"
  pa_pod_affinity :: "opaque option"
  pa_pod_anti_affinity :: "opaque option"

record scheduling_policy =
  sp_affinity :: "policy_affinity option"
  sp_node_selector :: "(string \<times> string) list"
  sp_tolerations :: "opaque list"
  sp_scheduler_name :: string
  sp_rest :: opaque

text \<open>\<open>corev1alpha1.ComponentSpec\<close>; the parameters are raw JSON.\<close>

record component_spec =
  co_type :: string
  co_version :: string
  co_image :: string
  co_replicas :: "int option"
  co_storage :: "component_storage option"
  co_resources :: "resource_requirements option"
  co_scheduling_policy :: "scheduling_policy option"
  co_parameters :: "opaque option"

section \<open>Quantities\<close>

text \<open>The methods of \<open>resource.Quantity\<close> the code calls.\<close>

record quantity_ops =
  q_sign :: "quantity \<Rightarrow> int"
  q_cmp :: "quantity \<Rightarrow> quantity \<Rightarrow> int"
  q_is_zero :: "quantity \<Rightarrow> bool"
  q_milli_value :: "quantity \<Rightarrow> int"
  q_new_milli :: "int \<Rightarrow> quantity"
  q_string :: "quantity \<Rightarrow> string"

text \<open>
  Their documented behaviour: the sign and order of the number, the ceiling of its thousandfold
  for numbers whose thousandfold fits an \<open>int64\<close>, and the number of so many thousandths.
\<close>

definition milli_range :: "quantity \<Rightarrow> bool" where
  "milli_range q \<longleftrightarrow> \<bar>q\<bar> \<le> (2 ^ 63 - 1) * 10 ^ 6"

definition quantity_laws :: "quantity_ops \<Rightarrow> bool" where
  "quantity_laws Q \<longleftrightarrow>
     (\<forall>q. sgn (q_sign Q q) = sgn q) \<and>
     (\<forall>a b. sgn (q_cmp Q a b) = sgn (a - b)) \<and>
     (\<forall>q. q_is_zero Q q = (q = 0)) \<and>
     (\<forall>q. milli_range q \<longrightarrow> q_milli_value Q q = - ((- q) div 10 ^ 6)) \<and>
     (\<forall>m. \<bar>m\<bar> < 2 ^ 63 \<longrightarrow> q_new_milli Q m = m * 10 ^ 6)"

text \<open>\<open>Cpu()\<close> and \<open>Memory()\<close> of a ResourceList: a missing entry is the zero quantity.\<close>

definition rl_cpu :: "quantity gomap \<Rightarrow> quantity" where
  "rl_cpu rl = (case rl ''cpu'' of None \<Rightarrow> 0 | Some q \<Rightarrow> q)"

definition rl_memory :: "quantity gomap \<Rightarrow> quantity" where
  "rl_memory rl = (case rl ''memory'' of None \<Rightarrow> 0 | Some q \<Rightarrow> q)"

section \<open>Resources and the engine\<close>

definition validateCPU :: "quantity_ops \<Rightarrow> string \<Rightarrow> quantity \<Rightarrow> err option" where
  "validateCPU Q name cpu =
     (if q_sign Q cpu \<le> 0
      then Some (Errorf ''%s %s must be greater than zero'' [S name, S (q_string Q cpu)])
      else if q_cmp Q (q_new_milli Q (q_milli_value Q cpu)) cpu \<noteq> 0
      then Some (Errorf ''%s %s is finer than a millicore; use cores (e.g. 0.5, 2) or millicores (e.g. 500m)''
              [S name, S (q_string Q cpu)])
      else None)"

definition ValidateResources :: "quantity_ops \<Rightarrow> resource_requirements option \<Rightarrow> err option" where
  "ValidateResources Q resources =
     (case resources of
        None \<Rightarrow> Some (Errorf ''resources are required'' [])
      | Some r \<Rightarrow>
          let req = rr_requests r; lim = rr_limits r
          in if q_is_zero Q (rl_cpu req) \<or> q_is_zero Q (rl_memory req)
             then Some (Errorf ''both CPU and memory requests are required'' [])
             else if q_is_zero Q (rl_cpu lim) \<or> q_is_zero Q (rl_memory lim)
             then Some (Errorf ''both CPU and memory limits are required'' [])
             else or_else (validateCPU Q ''requests.cpu'' (rl_cpu req))
               (or_else (validateCPU Q ''limits.cpu'' (rl_cpu lim))
                 (if q_cmp Q (rl_cpu req) (rl_cpu lim) > 0
                  then Some (Errorf ''CPU request %s is greater than limit %s''
                          [S (q_string Q (rl_cpu req)), S (q_string Q (rl_cpu lim))])
                  else if q_cmp Q (rl_memory req) (rl_memory lim) > 0
                  then Some (Errorf ''memory request %s is greater than limit %s''
                          [S (q_string Q (rl_memory req)), S (q_string Q (rl_memory lim))])
                  else None)))"

definition ValidateEngine :: "quantity_ops \<Rightarrow> component_spec \<Rightarrow> err option" where
  "ValidateEngine Q engine =
     (case co_replicas engine of
        None \<Rightarrow> Some (Errorf ''replicas is required'' [])
      | Some n \<Rightarrow>
          if n < 1 then Some (Errorf ''replicas must be at least 1'' [])
          else if (case co_storage engine of None \<Rightarrow> True | Some st \<Rightarrow> q_sign Q (ct_size st) \<le> 0)
          then Some (Errorf ''storage size is required'' [])
          else if co_resources engine = None then Some (Errorf ''resources are required'' [])
          else ValidateResources Q (co_resources engine))"

section \<open>Certificates, bootstrap, custom parameters\<close>

definition ValidateCertificates :: "certificates_configuration \<Rightarrow> err option" where
  "ValidateCertificates c =
     (if ce_server_tls_secret c \<noteq> [] \<and> length (ce_server_alt_dns_names c) \<noteq> 0
      then Some (Errorf ''server alternative DNS names cannot be specified when server TLS secret is provided'' [])
      else if ce_server_tls_secret c \<noteq> [] \<and> ce_server_ca_secret c = []
      then Some (Errorf ''server CA secret is required when server TLS secret is provided'' [])
      else if ce_replication_tls_secret c \<noteq> [] \<and> ce_client_ca_secret c = []
      then Some (Errorf ''client CA secret is required when replication TLS secret is provided'' [])
      else None)"

text \<open>The regular expression \<open>^[a-zA-Z_][a-zA-Z0-9_]*$\<close>.\<close>

definition identifier_start :: "char \<Rightarrow> bool" where
  "identifier_start c \<longleftrightarrow>
     (CHR ''a'' \<le> c \<and> c \<le> CHR ''z'') \<or> (CHR ''A'' \<le> c \<and> c \<le> CHR ''Z'') \<or> c = CHR ''_''"

definition postgresIdentifier :: "string \<Rightarrow> bool" where
  "postgresIdentifier s =
     (case s of [] \<Rightarrow> False
      | c # cs \<Rightarrow> identifier_start c \<and> list_all (\<lambda>x. identifier_start x \<or> is_digit x) cs)"

definition ValidateBootstrap :: "custom_bootstrap \<Rightarrow> err option" where
  "ValidateBootstrap bootstrap =
     (case cb_initdb bootstrap of
        None \<Rightarrow> None
      | Some i \<Rightarrow>
          if (ib_database i \<noteq> [] \<and> ib_owner i = []) \<or> (ib_database i = [] \<and> ib_owner i \<noteq> [])
          then Some (Errorf ''bootstrap initdb database and owner must both be specified or both left empty'' [])
          else if ib_database i \<noteq> [] \<and> \<not> postgresIdentifier (ib_database i)
          then Some (Errorf ''bootstrap initdb database %q must be a valid PostgreSQL identifier (letters, numbers, underscores; cannot start with a number)''
                  [S (ib_database i)])
          else if ib_owner i \<noteq> [] \<and> \<not> postgresIdentifier (ib_owner i)
          then Some (Errorf ''bootstrap initdb owner %q must be a valid PostgreSQL identifier (letters, numbers, underscores; cannot start with a number)''
                  [S (ib_owner i)])
          else if ib_secret i = Some []
          then Some (Errorf ''bootstrap initdb secret name cannot be empty'' [])
          else None)"

text \<open>
  \<open>dns_subdomain\<close> is \<open>validation.IsDNS1123Subdomain\<close> (the list of what is wrong with a name),
  \<open>size_or_nil\<close> is \<open>GetSizeOrNil\<close> of the storage configuration.
\<close>

definition ValidateCustomSpec ::
  "quantity_ops \<Rightarrow> (string \<Rightarrow> string list) \<Rightarrow> (storage_configuration \<Rightarrow> quantity option) \<Rightarrow>
   custom_spec \<Rightarrow> err option" where
  "ValidateCustomSpec Q dns_subdomain size_or_nil custom =
     or_else
       (if cu_priority_class_name custom \<noteq> [] \<and> length (dns_subdomain (cu_priority_class_name custom)) > 0
        then Some (Errorf ''priorityClassName %q is invalid: %s''
                [S (cu_priority_class_name custom), S (join ''; '' (dns_subdomain (cu_priority_class_name custom)))])
        else None)
     (or_else
       (case cu_wal_storage custom of None \<Rightarrow> None
        | Some wal \<Rightarrow>
            if (case size_or_nil wal of None \<Rightarrow> True | Some sz \<Rightarrow> q_sign Q sz \<le> 0)
            then Some (Errorf ''walStorage requires a valid positive size or pvcTemplate storage request'' [])
            else None)
     (or_else
       (case cu_bootstrap custom of None \<Rightarrow> None | Some b \<Rightarrow> ValidateBootstrap b)
       (case cu_certificates custom of None \<Rightarrow> None | Some c \<Rightarrow> ValidateCertificates c)))"

section \<open>Scheduling, synchronous replication\<close>

definition ValidateScheduling :: "scheduling_policy option \<Rightarrow> custom_spec \<Rightarrow> err option" where
  "ValidateScheduling policy custom =
     (case policy of
        None \<Rightarrow> None
      | Some p \<Rightarrow>
          if cu_affinity custom = None then None
          else if sp_affinity p \<noteq> None \<or> length (sp_node_selector p) > 0 \<or> length (sp_tolerations p) > 0
          then Some (Errorf ''parameters.affinity cannot be combined with schedulingPolicy affinity, nodeSelector or tolerations'' [])
          else None)"

definition ValidateSynchronous :: "component_spec \<Rightarrow> custom_spec \<Rightarrow> err option" where
  "ValidateSynchronous engine custom =
     (case Option.bind (cu_postgresql custom) pc_synchronous of
        None \<Rightarrow> None
      | Some sync \<Rightarrow>
          (case co_replicas engine of
             None \<Rightarrow> None
           | Some replicas \<Rightarrow>
               if sy_number sync < 1
               then Some (Errorf ''postgresql.synchronous.number must be at least 1'' [])
               else
                 let candidates = replicas + int (length (sy_standby_names_pre sync))
                                    + int (length (sy_standby_names_post sync))
                 in if sy_number sync \<ge> candidates
                    then Some (Errorf ''postgresql.synchronous.number (%d) must be lower than the number of replicas (%d) plus listed standby names''
                            [I (sy_number sync), I replicas])
                    else None))"

section \<open>TLS: internal/cnpg/tls.go\<close>

definition RejectNonTLSRule :: string where
  "RejectNonTLSRule = ''hostnossl all all all reject''"

definition ApplyRequireTLS :: "cluster_spec \<Rightarrow> custom_spec \<Rightarrow> cluster_spec" where
  "ApplyRequireTLS spec custom =
     (if cu_require_tls custom \<noteq> Some True then spec
      else spec\<lparr>cs_postgres := (cs_postgres spec)
                  \<lparr>pc_pg_hba := [RejectNonTLSRule] @ pc_pg_hba (cs_postgres spec)\<rparr>\<rparr>)"


section \<open>Specifications of the checks\<close>

definition certificates_consistent :: "certificates_configuration \<Rightarrow> bool" where
  "certificates_consistent c \<longleftrightarrow>
     (ce_server_tls_secret c \<noteq> [] \<longrightarrow> ce_server_alt_dns_names c = [] \<and> ce_server_ca_secret c \<noteq> []) \<and>
     (ce_replication_tls_secret c \<noteq> [] \<longrightarrow> ce_client_ca_secret c \<noteq> [])"

definition bootstrap_consistent :: "custom_bootstrap \<Rightarrow> bool" where
  "bootstrap_consistent b \<longleftrightarrow>
     (case cb_initdb b of None \<Rightarrow> True
      | Some i \<Rightarrow> (ib_database i = [] \<longleftrightarrow> ib_owner i = []) \<and>
          (ib_database i \<noteq> [] \<longrightarrow> postgresIdentifier (ib_database i) \<and> postgresIdentifier (ib_owner i)) \<and>
          ib_secret i \<noteq> Some [])"

interpretation certificates: checker ValidateCertificates certificates_consistent
  by unfold_locales (auto simp: ValidateCertificates_def certificates_consistent_def)

interpretation bootstrap: checker ValidateBootstrap bootstrap_consistent
  by unfold_locales (auto simp: ValidateBootstrap_def bootstrap_consistent_def split: option.splits)

definition scheduling_exclusive :: "scheduling_policy option \<times> custom_spec \<Rightarrow> bool" where
  "scheduling_exclusive = (\<lambda>(policy, custom).
     cu_affinity custom = None \<or>
     (case policy of None \<Rightarrow> True
      | Some p \<Rightarrow> sp_affinity p = None \<and> sp_node_selector p = [] \<and> sp_tolerations p = []))"

interpretation scheduling: checker "\<lambda>(policy, custom). ValidateScheduling policy custom" scheduling_exclusive
  by unfold_locales (auto simp: ValidateScheduling_def scheduling_exclusive_def split: option.splits if_splits)

text \<open>Enough standbys for the number of synchronous ones: the other replicas and the listed names.\<close>

definition enough_standbys :: "component_spec \<times> custom_spec \<Rightarrow> bool" where
  "enough_standbys = (\<lambda>(engine, custom).
     case (Option.bind (cu_postgresql custom) pc_synchronous, co_replicas engine) of
       (Some sync, Some replicas) \<Rightarrow>
         1 \<le> sy_number sync \<and>
         sy_number sync \<le> (replicas - 1) + int (length (sy_standby_names_pre sync @ sy_standby_names_post sync))
     | _ \<Rightarrow> True)"

interpretation synchronous: checker "\<lambda>(engine, custom). ValidateSynchronous engine custom" enough_standbys
  by unfold_locales (auto simp: ValidateSynchronous_def enough_standbys_def Let_def split: option.splits if_splits)

lemmas [check_iffs] = certificates.check_iff bootstrap.check_iff scheduling.check_iff synchronous.check_iff

definition custom_consistent ::
  "quantity_ops \<Rightarrow> (string \<Rightarrow> string list) \<Rightarrow> (storage_configuration \<Rightarrow> quantity option) \<Rightarrow> custom_spec \<Rightarrow> bool" where
  "custom_consistent Q dns_subdomain size_or_nil custom \<longleftrightarrow>
     (cu_priority_class_name custom = [] \<or> dns_subdomain (cu_priority_class_name custom) = []) \<and>
     pred_option (\<lambda>wal. case size_or_nil wal of None \<Rightarrow> False | Some sz \<Rightarrow> q_sign Q sz > 0) (cu_wal_storage custom) \<and>
     pred_option bootstrap_consistent (cu_bootstrap custom) \<and>
     pred_option certificates_consistent (cu_certificates custom)"

lemma custom_checker: "checker (ValidateCustomSpec Q dns sz) (custom_consistent Q dns sz)"
proof
  fix custom
  show "ValidateCustomSpec Q dns sz custom = None \<longleftrightarrow> custom_consistent Q dns sz custom"
    unfolding ValidateCustomSpec_def custom_consistent_def or_else_None
      bootstrap.on_pointer certificates.on_pointer
    by (auto split: option.splits)
qed

lemma identifier_no_quote: "postgresIdentifier s \<Longrightarrow> CHR 0x22 \<notin> set s"
  by (cases s) (auto simp: postgresIdentifier_def identifier_start_def is_digit_def less_eq_char_def list_all_iff)

text \<open>C23: for validated parameters the application database and its owner are PostgreSQL
  identifiers (the defaults when neither is set), so the owner is quoted without any escaping.\<close>

theorem validated_identity:
  assumes "ValidateCustomSpec Q dns_subdomain size_or_nil custom = None"
    and "applicationDatabaseIdentity (Some custom) = (name, owner)"
  shows "postgresIdentifier name \<and> postgresIdentifier owner \<and>
    quoteIdentifier owner = [CHR 0x22] @ owner @ [CHR 0x22]"
proof -
  have app: "postgresIdentifier ''app''"
    by (simp add: postgresIdentifier_def identifier_start_def less_eq_char_def)
  have "pred_option bootstrap_consistent (cu_bootstrap custom)"
    using checker.check_iff [OF custom_checker] assms(1) by (simp add: custom_consistent_def)
  then have "postgresIdentifier name \<and> postgresIdentifier owner"
    using assms(2) app
    by (auto simp: applicationDatabaseIdentity_def bootstrap_consistent_def
        DefaultApplicationDatabaseName_def DefaultApplicationUserName_def split: option.splits if_splits bind_splits)
  then show ?thesis
    by (simp add: quoteIdentifier_def replace_all_free identifier_no_quote)
qed

section \<open>Resources\<close>

definition milli_precise :: "quantity \<Rightarrow> bool" where
  "milli_precise q \<longleftrightarrow> 0 < q \<and> 10 ^ 6 dvd q"

lemma ceil_exact: "- ((- q) div n) * n = q \<longleftrightarrow> n dvd q" for q n :: int
proof -
  have "- ((- q) div n) * n = q \<longleftrightarrow> (- q) div n * n = - q" by linarith
  also have "\<dots> \<longleftrightarrow> n dvd - q" by (metis dvd_div_mult_self dvd_triv_right)
  finally show ?thesis by simp
qed

lemma milli_value_range:
  assumes "milli_range q"
  shows "\<bar>- ((- q) div 10 ^ 6)\<bar> < 2 ^ 63"
proof -
  define m :: int where "m = 2 ^ 63 - 1"
  have "- m * 10 ^ 6 \<le> - q" "- q \<le> m * 10 ^ 6"
    using assms by (auto simp: milli_range_def m_def)
  then have "(- m * 10 ^ 6) div 10 ^ 6 \<le> (- q) div 10 ^ 6" "(- q) div 10 ^ 6 \<le> (m * 10 ^ 6) div 10 ^ 6"
    by (intro zdiv_mono1; simp)+
  then have "- m \<le> (- q) div 10 ^ 6" "(- q) div 10 ^ 6 \<le> m"
    using nonzero_mult_div_cancel_right [of "10 ^ 6 :: int" "- m"]
      nonzero_mult_div_cancel_right [of "10 ^ 6 :: int" m] by simp_all
  then show ?thesis by (simp add: m_def abs_less_iff)
qed

lemma validateCPU_iff:
  assumes "quantity_laws Q" "milli_range q"
  shows "validateCPU Q name q = None \<longleftrightarrow> milli_precise q"
proof -
  have sign: "q_sign Q q \<le> 0 \<longleftrightarrow> q \<le> 0"
    using assms(1) unfolding quantity_laws_def by (metis not_le sgn_1_pos)
  have "q_new_milli Q (q_milli_value Q q) = - ((- q) div 10 ^ 6) * 10 ^ 6"
    using assms milli_value_range [OF assms(2)] unfolding quantity_laws_def by metis
  moreover have "q_cmp Q a b = 0 \<longleftrightarrow> a = b" for a b
    using assms(1) unfolding quantity_laws_def by (metis eq_iff_diff_eq_0 sgn_0_0)
  ultimately show ?thesis
    using ceil_exact [of q "10 ^ 6"] by (auto simp: validateCPU_def sign milli_precise_def)
qed

definition resources_ok :: "resource_requirements \<Rightarrow> bool" where
  "resources_ok r \<longleftrightarrow>
     milli_precise (rl_cpu (rr_requests r)) \<and> milli_precise (rl_cpu (rr_limits r)) \<and>
     rl_cpu (rr_requests r) \<le> rl_cpu (rr_limits r) \<and>
     rl_memory (rr_requests r) \<noteq> 0 \<and> rl_memory (rr_limits r) \<noteq> 0 \<and>
     rl_memory (rr_requests r) \<le> rl_memory (rr_limits r)"

text \<open>C22: for the documented arithmetic of quantities, resources are accepted exactly when CPU
  request and limit are positive whole millicores, memory request and limit are given, and no
  request exceeds its limit.\<close>

theorem ValidateResources_ok:
  assumes "quantity_laws Q"
    and "milli_range (rl_cpu (rr_requests r))" and "milli_range (rl_cpu (rr_limits r))"
  shows "ValidateResources Q (Some r) = None \<longleftrightarrow> resources_ok r"
proof -
  have zero: "q_is_zero Q q = (q = 0)" for q
    using assms(1) by (simp add: quantity_laws_def)
  have cmp: "q_cmp Q a b > 0 \<longleftrightarrow> a > b" for a b
    using assms(1) unfolding quantity_laws_def by (metis diff_gt_0_iff_gt sgn_greater)
  show ?thesis
    using validateCPU_iff [OF assms(1)] assms(2,3)
    by (auto simp: ValidateResources_def resources_ok_def zero cmp milli_precise_def Let_def)
qed

definition sample_quantities :: quantity_ops where
  "sample_quantities = \<lparr>q_sign = sgn, q_cmp = (\<lambda>a b. sgn (a - b)), q_is_zero = (\<lambda>q. q = 0),
     q_milli_value = (\<lambda>q. - ((- q) div 10 ^ 6)), q_new_milli = (\<lambda>m. m * 10 ^ 6), q_string = (\<lambda>_. [])\<rparr>"

lemma sample_quantity_laws: "quantity_laws sample_quantities"
  by (simp add: quantity_laws_def sample_quantities_def)

definition sample_resources :: resource_requirements where
  "sample_resources = \<lparr>rr_requests = [''cpu'' \<mapsto> 500 * 10 ^ 6, ''memory'' \<mapsto> 10 ^ 18],
     rr_limits = [''cpu'' \<mapsto> 10 ^ 9, ''memory'' \<mapsto> 10 ^ 18]\<rparr>"

theorem ValidateResources_ok_witness:
  "ValidateResources sample_quantities (Some sample_resources) = None"
  using ValidateResources_ok [OF sample_quantity_laws, of sample_resources]
  by (simp add: sample_resources_def rl_cpu_def rl_memory_def milli_range_def resources_ok_def milli_precise_def)

theorem validated_identity_witness:
  "postgresIdentifier ''app'' \<and> quoteIdentifier ''app'' = [CHR 0x22] @ ''app'' @ [CHR 0x22]"
  using validated_identity [of sample_quantities "\<lambda>_. []" "\<lambda>_. None" zero_custom "''app''" "''app''"]
  by (simp add: ValidateCustomSpec_def zero_custom_def applicationDatabaseIdentity_def
      DefaultApplicationDatabaseName_def DefaultApplicationUserName_def)

end
