(* ===== verification/Backup_Types.thy ===== *)
theory Backup_Types
  imports Validation
begin

text \<open>
  The Instance (\<open>corev1alpha1.Instance\<close>) with its backup and data source specification
  (\<open>corev1alpha1.InstanceBackupSpec\<close>, \<open>backupv1alpha1.DataSource\<close>): the fields the provider
  reads. A \<open>metav1.Time\<close> is its Unix time in seconds; a present deletion timestamp is not zero.
\<close>

section \<open>Backup schedules\<close>

record schedule_retention =
  re_type :: string
  re_duration :: string

record backup_schedule =
  bs_name :: string
  bs_enabled :: bool
  bs_cron :: string
  bs_retention :: "schedule_retention option"
  bs_parameters :: "opaque option"

record instance_storage =
  is_storage_ref :: string
  is_schedules :: "backup_schedule list"

record backup_spec =
  bk_enabled :: bool
  bk_class_ref :: string
  bk_storages :: "instance_storage list"

text \<open>The value of \<open>BackupScheduleRetentionTypeTime\<close> (\<open>README.md\<close>, \<open>examples/instance-backup.yaml\<close>).\<close>

definition BackupScheduleRetentionTypeTime :: string where
  "BackupScheduleRetentionTypeTime = ''time''"

section \<open>Data sources\<close>

record pitr_source =
  ps_storage_ref :: string
  ps_instance_ref :: "string option"

record point_in_time =
  pt_source :: pitr_source
  pt_recovery_target :: string
  pt_date :: "int option"

record data_source =
  da_type :: string
  da_backup :: "string option"
  da_point_in_time :: "point_in_time option"

text \<open>The values used in \<open>examples/instance-restore.yaml\<close> and \<open>examples/instance-pitr.yaml\<close>.\<close>

definition DataSourceTypeBackup :: string where
  "DataSourceTypeBackup = ''Backup''"

definition DataSourceTypePointInTime :: string where
  "DataSourceTypePointInTime = ''PointInTime''"

definition RecoveryTargetDate :: string where
  "RecoveryTargetDate = ''date''"

section \<open>Instances\<close>

record cnpg_instance =
  in_name :: string
  in_namespace :: string
  in_uid :: string
  in_deletion_timestamp :: "int option"
  in_provider_ref :: string
  in_version :: string
  in_components :: "component_spec gomap"
  in_backup :: "backup_spec option"
  in_data_source :: "data_source option"
  in_topology_parameters :: "opaque option"

section \<open>The parameters of a backup: definition/backupclasses/cnpg-barman-plugin/types.go\<close>

record backup_config =
  bc_target :: string

definition zero_backup_config :: backup_config where
  "zero_backup_config = \<lparr>bc_target = []\<rparr>"

text \<open>
  \<open>decodeBackupParameters\<close> of \<open>internal/cnpg/barman/backup.go\<close>; \<open>unmarshal\<close> is
  \<open>json.Unmarshal\<close> into a zero configuration.
\<close>

definition decodeBackupParameters ::
  "(opaque \<Rightarrow> err + backup_config) \<Rightarrow> opaque option \<Rightarrow> backup_config result" where
  "decodeBackupParameters unmarshal raw =
     (if raw = None \<or> raw = Some [] then Inr zero_backup_config
      else case unmarshal (the raw) of
             Inl e \<Rightarrow> Inl (Wrap ''decode backup config: %w'' [] e)
           | Inr cfg \<Rightarrow> Inr cfg)"

end
