(* ===== verification/Barman_Plugin.thy ===== *)
theory Barman_Plugin
  imports Backup_Types
begin

text \<open>
  The names of the Barman Cloud plugin (\<open>internal/cnpg/barman/constants.go\<close>) and its two
  small functions (\<open>internal/cnpg/barman/plugin.go\<close>).
\<close>

definition KindBackup :: string where
  "KindBackup = ''Backup''"

definition PluginName :: string where
  "PluginName = ''barman-cloud.cloudnative-pg.io''"

definition PluginParameterObjectStore :: string where
  "PluginParameterObjectStore = ''barmanObjectName''"

definition EndpointCASecretSuffix :: string where
  "EndpointCASecretSuffix = ''-endpoint-ca''"

definition EndpointCAKey :: string where
  "EndpointCAKey = ''ca.crt''"

definition BackupDeletionImage :: string where
  "BackupDeletionImage = ''ghcr.io/cloudnative-pg/plugin-barman-cloud-sidecar:v0.15.0''"

record backup_plugin_configuration =
  bp_name :: string
  bp_parameters :: "string gomap"

definition PluginConfiguration :: "string \<Rightarrow> backup_plugin_configuration" where
  "PluginConfiguration storageName =
     \<lparr>bp_name = PluginName, bp_parameters = [PluginParameterObjectStore \<mapsto> storageName]\<rparr>"

text \<open>Reading a Go map gives the zero value for a missing key.\<close>

definition read_map :: "string gomap \<Rightarrow> string \<Rightarrow> string" where
  "read_map m k = (case m k of None \<Rightarrow> [] | Some v \<Rightarrow> v)"

text \<open>\<open>is_enabled\<close> is the method \<open>IsEnabled\<close> of a plugin configuration.\<close>

definition ArchiveObjectStoreName :: "(plugin_configuration \<Rightarrow> bool) \<Rightarrow> cluster \<Rightarrow> string" where
  "ArchiveObjectStoreName is_enabled pg =
     (case List.find (\<lambda>p. pl_name p = PluginName \<and> is_enabled p) (cs_plugins (cl_spec pg)) of
        Some p \<Rightarrow> read_map (pl_parameters p) PluginParameterObjectStore
      | None \<Rightarrow> [])"

lemma read_map_simps [simp]: "read_map Map.empty k = []" "read_map (m(k \<mapsto> v)) k = v"
  "k \<noteq> j \<Longrightarrow> read_map (m(j \<mapsto> v)) k = read_map m k"
  by (simp_all add: read_map_def)

end
