(* ===== verification/Backup_Objects.thy ===== *)
theory Backup_Objects
  imports Barman_Plugin
begin

text \<open>
  The two kinds of Backup the provider relates: OpenEverest's (\<open>backupv1alpha1.Backup\<close>) and
  CloudNativePG's (\<open>cnpgv1.Backup\<close>). Enumerations have the constants the code names, and
  whatever other value a field may hold.
\<close>

datatype backup_state =
    BackupStatePending
  | BackupStateRunning
  | BackupStateSucceeded
  | BackupStateFailed
  | OtherBackupState string

datatype backup_phase =
    BackupPhasePending
  | BackupPhaseStarted
  | BackupPhaseRunning
  | BackupPhaseFinalizing
  | BackupPhaseCompleted
  | BackupPhaseFailed
  | BackupPhaseWalArchivingFailing
  | OtherBackupPhase string

datatype deletion_policy = BackupDeletionPolicyRetain | OtherDeletionPolicy string

text \<open>Their text in messages.\<close>

fun state_arg :: "backup_state \<Rightarrow> fmt_arg" where
  "state_arg BackupStatePending = K ''BackupStatePending''"
| "state_arg BackupStateRunning = K ''BackupStateRunning''"
| "state_arg BackupStateSucceeded = K ''BackupStateSucceeded''"
| "state_arg BackupStateFailed = K ''BackupStateFailed''"
| "state_arg (OtherBackupState s) = S s"

fun phase_arg :: "backup_phase \<Rightarrow> fmt_arg" where
  "phase_arg BackupPhasePending = K ''BackupPhasePending''"
| "phase_arg BackupPhaseStarted = K ''BackupPhaseStarted''"
| "phase_arg BackupPhaseRunning = K ''BackupPhaseRunning''"
| "phase_arg BackupPhaseFinalizing = K ''BackupPhaseFinalizing''"
| "phase_arg BackupPhaseCompleted = K ''BackupPhaseCompleted''"
| "phase_arg BackupPhaseFailed = K ''BackupPhaseFailed''"
| "phase_arg BackupPhaseWalArchivingFailing = K ''BackupPhaseWalArchivingFailing''"
| "phase_arg (OtherBackupPhase s) = S s"

record oe_backup =
  ob_name :: string
  ob_namespace :: string
  ob_storage_ref :: string
  ob_schedule_name :: string
  ob_parameters :: "opaque option"
  ob_deletion_policy :: deletion_policy
  ob_state :: backup_state
  ob_operator_backup_ref :: "string option"

text \<open>The creation timestamp of an object that is not stored yet is zero: \<open>None\<close>.\<close>

record cnpg_backup =
  nb_name :: string
  nb_namespace :: string
  nb_labels :: "string gomap"
  nb_creation_timestamp :: "int option"
  nb_deletion_timestamp :: "int option"
  nb_cluster :: string
  nb_method :: string
  nb_plugin :: "backup_plugin_configuration option"
  nb_target :: string
  nb_phase :: backup_phase
  nb_backup_id :: string
  nb_destination_path :: string
  nb_server_name :: string
  nb_endpoint_url :: string
  nb_error :: string
  nb_started_at :: "int option"
  nb_stopped_at :: "int option"

definition new_cnpg_backup :: "string \<Rightarrow> string \<Rightarrow> cnpg_backup" where
  "new_cnpg_backup name namespace = \<lparr>nb_name = name, nb_namespace = namespace, nb_labels = Map.empty,
     nb_creation_timestamp = None, nb_deletion_timestamp = None, nb_cluster = [], nb_method = [],
     nb_plugin = None, nb_target = [], nb_phase = OtherBackupPhase [], nb_backup_id = [],
     nb_destination_path = [], nb_server_name = [], nb_endpoint_url = [], nb_error = [],
     nb_started_at = None, nb_stopped_at = None\<rparr>"

text \<open>The value of \<open>cnpgv1.BackupMethodPlugin\<close> (\<open>schedule_test.go\<close>).\<close>

definition BackupMethodPlugin :: string where
  "BackupMethodPlugin = ''plugin''"

section \<open>Samples\<close>

definition sample_oe_backup :: oe_backup where
  "sample_oe_backup = \<lparr>ob_name = ''nightly'', ob_namespace = ''ns'', ob_storage_ref = ''s3'', ob_schedule_name = [],
     ob_parameters = None, ob_deletion_policy = OtherDeletionPolicy ''Delete'', ob_state = BackupStateSucceeded,
     ob_operator_backup_ref = None\<rparr>"

definition sample_cnpg_backup :: cnpg_backup where
  "sample_cnpg_backup = (new_cnpg_backup ''nightly'' ''ns'')
     \<lparr>nb_cluster := ''pg'', nb_phase := BackupPhaseCompleted, nb_backup_id := ''20260101T000000''\<rparr>"

end
