(* ===== verification/Api.thy ===== *)
theory Api
  imports Prelude
begin

text \<open>
  The API server as the handlers use it. For one kind of object the runtime's context and
  client offer a read by name, a list, an apply (create or update, setting the metadata and
  the controller reference), and a delete. They are parameters; the hypothesis \<open>api_laws\<close>
  states what the code relies on, over a view of the stored objects of that kind: reads tell
  the truth, a call that succeeds has its effect on the one object, a call that fails either
  has it or changes nothing.
\<close>

record ('w, 's, 'o) api =
  ap_get :: "string \<Rightarrow> 'w \<Rightarrow> api_err + 'o"
  ap_list :: "'w \<Rightarrow> api_err + (string \<times> 'o) list"
  ap_apply :: "string \<Rightarrow> 's \<Rightarrow> 'w \<Rightarrow> api_err option \<times> 'w"
  ap_delete :: "string \<Rightarrow> 'w \<Rightarrow> api_err option \<times> 'w"

text \<open>\<open>applied s o\<close>: \<open>o\<close> is what the server stores when \<open>s\<close> is applied.\<close>

definition api_laws ::
  "('w \<Rightarrow> string \<rightharpoonup> 'o) \<Rightarrow> ('s \<Rightarrow> 'o \<Rightarrow> bool) \<Rightarrow> ('w, 's, 'o) api \<Rightarrow> bool" where
  "api_laws view applied A \<longleftrightarrow>
     (\<forall>n w. case ap_get A n w of Inr x \<Rightarrow> view w n = Some x | Inl NotFound \<Rightarrow> view w n = None | Inl _ \<Rightarrow> True) \<and>
     (\<forall>w xs. ap_list A w = Inr xs \<longrightarrow> set xs = {(n, x). view w n = Some x}) \<and>
     (\<forall>n s w w'. ap_apply A n s w = (None, w') \<longrightarrow> (\<exists>x. applied s x \<and> view w' = (view w)(n \<mapsto> x))) \<and>
     (\<forall>n s w e w'. ap_apply A n s w = (Some e, w') \<longrightarrow>
        view w' = view w \<or> (\<exists>x. applied s x \<and> view w' = (view w)(n \<mapsto> x))) \<and>
     (\<forall>n w w'. ap_delete A n w = (None, w') \<longrightarrow> view w' = (view w)(n := None)) \<and>
     (\<forall>n w e w'. ap_delete A n w = (Some e, w') \<longrightarrow> view w' = view w \<or> view w' = (view w)(n := None))"

lemma api_apply_ok:
  "api_laws view applied A \<Longrightarrow> ap_apply A n s w = (None, w') \<Longrightarrow>
   \<exists>x. applied s x \<and> view w' = (view w)(n \<mapsto> x)"
  by (simp add: api_laws_def)

lemma api_apply_any:
  "api_laws view applied A \<Longrightarrow> ap_apply A n s w = (r, w') \<Longrightarrow>
   view w' = view w \<or> (\<exists>x. applied s x \<and> view w' = (view w)(n \<mapsto> x))"
  by (cases r) (auto simp: api_laws_def)

lemma api_list_ok:
  "api_laws view applied A \<Longrightarrow> ap_list A w = Inr xs \<Longrightarrow> set xs = {(n, x). view w n = Some x}"
  by (simp add: api_laws_def)

lemma api_delete_ok:
  "api_laws view applied A \<Longrightarrow> ap_delete A n w = (None, w') \<Longrightarrow> view w' = (view w)(n := None)"
  by (simp add: api_laws_def)

lemma api_delete_any:
  "api_laws view applied A \<Longrightarrow> ap_delete A n w = (r, w') \<Longrightarrow>
   view w' = view w \<or> view w' = (view w)(n := None)"
  by (cases r) (auto simp: api_laws_def)

lemma api_get_ok: "api_laws view applied A \<Longrightarrow> ap_get A n w = Inr x \<Longrightarrow> view w n = Some x"
  by (auto simp: api_laws_def split: sum.splits)

lemma api_get_missing: "api_laws view applied A \<Longrightarrow> ap_get A n w = Inl NotFound \<Longrightarrow> view w n = None"
  unfolding api_laws_def by (drule conjunct1, drule spec [of _ n], drule spec [of _ w]) simp

section \<open>A store that meets the laws\<close>

text \<open>An association list of objects; applying stores \<open>put s\<close>.\<close>

definition list_store :: "('s \<Rightarrow> 'o) \<Rightarrow> ((string \<times> 'o) list, 's, 'o) api" where
  "list_store put = \<lparr>
     ap_get = (\<lambda>n w. case map_of w n of None \<Rightarrow> Inl NotFound | Some x \<Rightarrow> Inr x),
     ap_list = (\<lambda>w. Inr (map (\<lambda>n. (n, the (map_of w n))) (remdups (map fst w)))),
     ap_apply = (\<lambda>n s w. (None, (n, put s) # w)),
     ap_delete = (\<lambda>n w. (None, filter (\<lambda>(k, x). k \<noteq> n) w))\<rparr>"

lemma map_of_filter_ne: "map_of (filter (\<lambda>(k, x). k \<noteq> n) w) = (map_of w)(n := None)"
  by (induction w) (auto simp: fun_eq_iff)

lemma list_store_laws:
  fixes put :: "'s \<Rightarrow> 'o"
  shows "api_laws map_of (\<lambda>s x. x = put s) (list_store put)"
proof -
  have "set (map (\<lambda>n. (n, the (map_of w n))) (remdups (map fst w))) = {(n, x). map_of w n = Some x}"
    for w :: "(string \<times> 'o) list"
  proof (rule set_eqI)
    fix p :: "string \<times> 'o"
    obtain n x where "p = (n, x)" by (cases p)
    then show "p \<in> set (map (\<lambda>n. (n, the (map_of w n))) (remdups (map fst w))) \<longleftrightarrow> p \<in> {(n, x). map_of w n = Some x}"
      using map_of_eq_None_iff [of w n] by (cases "map_of w n") (auto simp: image_iff)
  qed
  then show ?thesis
    by (simp add: api_laws_def list_store_def map_of_filter_ne split: option.splits)
qed

end
