(* ===== verification/Schedules.thy ===== *)
theory Schedules
  imports Names Backup_Objects Api
begin

text \<open>
  Backup schedules (\<open>internal/cnpg/barman/schedule.go\<close>): their validation, the conversion of
  cron expressions, the retention they share, the ScheduledBackups built from them and their
  reconciliation with the API server.
\<close>

section \<open>Cron expressions and retention\<close>

definition cronDescriptors :: "string list" where
  "cronDescriptors = [''@yearly'', ''@annually'', ''@monthly'', ''@weekly'', ''@daily'', ''@midnight'', ''@hourly'']"

definition toCNPGSchedule :: "string \<Rightarrow> string result" where
  "toCNPGSchedule cron =
     (let cron = trim_space cron
      in if cron \<in> set cronDescriptors then Inr cron
         else if length (go_fields cron) \<noteq> 5
         then Inl (Errorf ''cron %q must have 5 fields: minute hour day-of-month month day-of-week'' [S cron])
         else Inr (''0 '' @ join '' '' (go_fields cron)))"

text \<open>The regular expression \<open>^[1-9][0-9]*[dwm]$\<close>.\<close>

definition retentionDurationPattern :: "string \<Rightarrow> bool" where
  "retentionDurationPattern s =
     (case s of [] \<Rightarrow> False
      | c # cs \<Rightarrow> is_digit c \<and> c \<noteq> CHR ''0'' \<and> cs \<noteq> [] \<and> list_all is_digit (butlast cs) \<and>
          last cs \<in> set ''dwm'')"

text \<open>The loop of storageRetentionPolicy: whether \<open>i > 0\<close>, and the policy so far.\<close>

fun retention_loop :: "string \<Rightarrow> bool \<Rightarrow> string \<Rightarrow> backup_schedule list \<Rightarrow> string result" where
  "retention_loop storage later policy [] = Inr policy"
| "retention_loop storage later policy (schedule # schedules) =
     (case (case bs_retention schedule of
              None \<Rightarrow> Inr []
            | Some r \<Rightarrow>
                if re_type r \<noteq> BackupScheduleRetentionTypeTime
                then Inl (Errorf ''schedule %q: CNPG supports only time retention; use type time with a duration such as 30d''
                       [S (bs_name schedule)])
                else if \<not> retentionDurationPattern (re_duration r)
                then Inl (Errorf ''schedule %q: invalid retention duration %q; use a positive number followed by d, w, or m''
                       [S (bs_name schedule), S (re_duration r)])
                else Inr (re_duration r)) of
        Inl e \<Rightarrow> Inl e
      | Inr duration \<Rightarrow>
          if later \<and> duration \<noteq> policy
          then Inl (Errorf ''storage %q: all schedules must specify the same time retention or all omit retention; Barman retention applies to the cluster's entire archive, including on-demand backups''
                 [S storage])
          else retention_loop storage True duration schedules)"

definition storageRetentionPolicy :: "instance_storage \<Rightarrow> string result" where
  "storageRetentionPolicy storage = retention_loop (is_storage_ref storage) False [] (is_schedules storage)"

section \<open>Validation\<close>

text \<open>\<open>dns_label\<close> is \<open>validation.IsDNS1123Label\<close>: what is wrong with a name.\<close>

definition validate_schedule ::
  "(string \<Rightarrow> string list) \<Rightarrow> (opaque \<Rightarrow> err + backup_config) \<Rightarrow> backup_schedule \<Rightarrow> err option" where
  "validate_schedule dns_label unmarshal schedule =
     (if length (dns_label (bs_name schedule)) > 0
      then Some (Errorf ''backup schedule name %q is invalid: %s''
              [S (bs_name schedule), S (join ''; '' (dns_label (bs_name schedule)))])
      else case toCNPGSchedule (bs_cron schedule) of
             Inl e \<Rightarrow> Some (Wrap ''backup schedule %q: %w'' [S (bs_name schedule)] e)
           | Inr _ \<Rightarrow>
               (case decodeBackupParameters unmarshal (bs_parameters schedule) of
                  Inl e \<Rightarrow> Some (Wrap ''backup schedule %q: %w'' [S (bs_name schedule)] e)
                | Inr _ \<Rightarrow> None))"

definition validate_storage ::
  "(string \<Rightarrow> string list) \<Rightarrow> (opaque \<Rightarrow> err + backup_config) \<Rightarrow> instance_storage \<Rightarrow> err option" where
  "validate_storage dns_label unmarshal storage =
     (case storageRetentionPolicy storage of
        Inl e \<Rightarrow> Some e
      | Inr _ \<Rightarrow> first_error (validate_schedule dns_label unmarshal) (is_schedules storage))"

definition ValidateSchedules ::
  "(string \<Rightarrow> string list) \<Rightarrow> (opaque \<Rightarrow> err + backup_config) \<Rightarrow> backup_spec option \<Rightarrow> err option" where
  "ValidateSchedules dns_label unmarshal backup =
     (case backup of None \<Rightarrow> None
      | Some b \<Rightarrow> first_error (validate_storage dns_label unmarshal) (bk_storages b))"

section \<open>ScheduledBackups\<close>

record scheduled_backup_spec =
  ss_schedule :: string
  ss_cluster :: string
  ss_owner_reference :: string
  ss_method :: string
  ss_plugin :: backup_plugin_configuration
  ss_target :: string

text \<open>A ScheduledBackup to create: its name and spec.\<close>

type_synonym desired_backup = "string \<times> scheduled_backup_spec"

definition scheduled_backup ::
  "string \<Rightarrow> string \<Rightarrow> backup_schedule \<Rightarrow> string \<Rightarrow> backup_config \<Rightarrow> desired_backup" where
  "scheduled_backup clusterName storageName schedule cnpgSchedule params =
     (scheduledBackupName clusterName (bs_name schedule),
      \<lparr>ss_schedule = cnpgSchedule, ss_cluster = clusterName, ss_owner_reference = ''none'',
       ss_method = BackupMethodPlugin, ss_plugin = PluginConfiguration storageName,
       ss_target = bc_target params\<rparr>)"

text \<open>The two nested loops: the schedules of one storage, then the storages.\<close>

fun build_storage ::
  "(opaque \<Rightarrow> err + backup_config) \<Rightarrow> string \<Rightarrow> string \<Rightarrow> backup_schedule list \<Rightarrow> desired_backup list \<Rightarrow>
   desired_backup list result" where
  "build_storage unmarshal clusterName storageName [] acc = Inr acc"
| "build_storage unmarshal clusterName storageName (schedule # schedules) acc =
     (if \<not> bs_enabled schedule then build_storage unmarshal clusterName storageName schedules acc
      else case toCNPGSchedule (bs_cron schedule) of
             Inl e \<Rightarrow> Inl (Wrap ''backup schedule %q: %w'' [S (bs_name schedule)] e)
           | Inr cnpgSchedule \<Rightarrow>
               (case decodeBackupParameters unmarshal (bs_parameters schedule) of
                  Inl e \<Rightarrow> Inl (Wrap ''backup schedule %q: %w'' [S (bs_name schedule)] e)
                | Inr params \<Rightarrow>
                    build_storage unmarshal clusterName storageName schedules
                      (acc @ [scheduled_backup clusterName storageName schedule cnpgSchedule params])))"

fun build_storages ::
  "(opaque \<Rightarrow> err + backup_config) \<Rightarrow> string \<Rightarrow> instance_storage list \<Rightarrow> desired_backup list \<Rightarrow>
   desired_backup list result" where
  "build_storages unmarshal clusterName [] acc = Inr acc"
| "build_storages unmarshal clusterName (storage # storages) acc =
     (case build_storage unmarshal clusterName (is_storage_ref storage) (is_schedules storage) acc of
        Inl e \<Rightarrow> Inl e
      | Inr acc' \<Rightarrow> build_storages unmarshal clusterName storages acc')"

definition buildScheduledBackups ::
  "(opaque \<Rightarrow> err + backup_config) \<Rightarrow> string \<Rightarrow> backup_spec option \<Rightarrow> desired_backup list result" where
  "buildScheduledBackups unmarshal clusterName backup =
     (case backup of
        None \<Rightarrow> Inr []
      | Some b \<Rightarrow> if \<not> bk_enabled b then Inr []
                  else build_storages unmarshal clusterName (bk_storages b) [])"

text \<open>The first schedule, storage by storage, whose ScheduledBackup has the given name.\<close>

definition ScheduleForScheduledBackup ::
  "string \<Rightarrow> backup_spec option \<Rightarrow> string \<Rightarrow> backup_schedule option" where
  "ScheduleForScheduledBackup instanceName backup sbName =
     (case backup of
        None \<Rightarrow> None
      | Some b \<Rightarrow>
          List.find (\<lambda>schedule. scheduledBackupName instanceName (bs_name schedule) = sbName)
            (concat (map is_schedules (bk_storages b))))"

section \<open>Reconciliation\<close>

fun apply_desired ::
  "('w, scheduled_backup_spec, 'o) api \<Rightarrow> desired_backup list \<Rightarrow> string list \<Rightarrow> ('w, string list) eff" where
  "apply_desired A [] keep w = (Inr keep, w)"
| "apply_desired A ((name, spec) # sbs) keep w =
     (case ap_apply A name spec w of
        (Some e, w') \<Rightarrow> (Inl (Wrap ''apply ScheduledBackup %q: %w'' [S name] (Api e)), w')
      | (None, w') \<Rightarrow> apply_desired A sbs (name # keep) w')"

text \<open>\<open>controlled\<close> is \<open>metav1.IsControlledBy(sb, c.Instance())\<close>.\<close>

fun delete_stale ::
  "('w, scheduled_backup_spec, 'o) api \<Rightarrow> ('o \<Rightarrow> bool) \<Rightarrow> string list \<Rightarrow> (string \<times> 'o) list \<Rightarrow> ('w, unit) eff" where
  "delete_stale A controlled keep [] w = (Inr (), w)"
| "delete_stale A controlled keep ((name, sb) # sbs) w =
     (if name \<in> set keep \<or> \<not> controlled sb then delete_stale A controlled keep sbs w
      else case ap_delete A name w of
             (Some e, w') \<Rightarrow> (Inl (Wrap ''delete ScheduledBackup %q: %w'' [S name] (Api e)), w')
           | (None, w') \<Rightarrow> delete_stale A controlled keep sbs w')"

definition SyncScheduledBackups ::
  "('w, scheduled_backup_spec, 'o) api \<Rightarrow> ('o \<Rightarrow> bool) \<Rightarrow> (opaque \<Rightarrow> err + backup_config) \<Rightarrow>
   string \<Rightarrow> backup_spec option \<Rightarrow> ('w, unit) eff" where
  "SyncScheduledBackups A controlled unmarshal instanceName backup w =
     (case buildScheduledBackups unmarshal instanceName backup of
        Inl e \<Rightarrow> (Inl (BackupConfigError ''InvalidBackupSchedule'' ''%v'' [E e]), w)
      | Inr desired \<Rightarrow>
          (case apply_desired A desired [] w of
             (Inl e, w') \<Rightarrow> (Inl e, w')
           | (Inr keep, w') \<Rightarrow>
               (case ap_list A w' of
                  Inl e \<Rightarrow> (Inl (Wrap ''list ScheduledBackups: %w'' [] (Api e)), w')
                | Inr existing \<Rightarrow> delete_stale A controlled keep existing w')))"


section \<open>Cron expressions\<close>

text \<open>
  The operator reads six fields, the first being seconds; a descriptor stands for itself.
\<close>

definition six_field_schedule :: "string \<Rightarrow> string \<Rightarrow> bool" where
  "six_field_schedule cron s \<longleftrightarrow>
     (trim_space cron \<in> set cronDescriptors \<and> s = trim_space cron) \<or>
     (trim_space cron \<notin> set cronDescriptors \<and> length (go_fields cron) = 5 \<and> go_fields s = ''0'' # go_fields cron)"

lemma go_fields_zero:
  assumes "fs \<noteq> []" "\<forall>f\<in>set fs. solid f"
  shows "go_fields (''0 '' @ join '' '' fs) = ''0'' # fs"
proof -
  have "solid ''0''" by (auto simp: solid_def space_width_def space_runes_def)
  then have "go_fields (join '' '' (''0'' # fs)) = ''0'' # fs"
    using assms(2) by (intro fields_join) auto
  then show ?thesis using assms(1) by (simp add: join_Cons)
qed

lemma toCNPGSchedule_ok: "toCNPGSchedule cron = Inr s \<Longrightarrow> six_field_schedule cron s"
  using go_fields_zero [of "go_fields cron"] fields_solid
  by (cases "go_fields cron = []") (auto simp: toCNPGSchedule_def six_field_schedule_def Let_def split: if_splits)

lemma toCNPGSchedule_accepts:
  "(\<exists>s. toCNPGSchedule cron = Inr s) \<longleftrightarrow> trim_space cron \<in> set cronDescriptors \<or> length (go_fields cron) = 5"
  by (auto simp: toCNPGSchedule_def Let_def)

text \<open>The conversion accepts exactly the descriptors and the expressions of five fields. A
  descriptor is passed on; an expression gets a leading seconds field 0 and keeps its five
  fields, whatever spaces separate them.\<close>

theorem toCNPGSchedule_fields:
  "((\<exists>s. toCNPGSchedule cron = Inr s) = (trim_space cron \<in> set cronDescriptors \<or> length (go_fields cron) = 5)) \<and>
   (toCNPGSchedule cron = Inr s \<longrightarrow> six_field_schedule cron s)"
  using toCNPGSchedule_ok toCNPGSchedule_accepts by blast

theorem toCNPGSchedule_fields_witness:
  "six_field_schedule ''0 2 * * *'' ''0 0 2 * * *''"
proof -
  have "toCNPGSchedule ''0 2 * * *'' = Inr ''0 0 2 * * *''" by code_simp
  then show ?thesis using toCNPGSchedule_fields by blast
qed

section \<open>Retention\<close>

text \<open>What one schedule asks for: keeping everything, or a duration; nothing when it is invalid.\<close>

definition requested_retention :: "backup_schedule \<Rightarrow> string option" where
  "requested_retention schedule =
     (case bs_retention schedule of
        None \<Rightarrow> Some []
      | Some r \<Rightarrow>
          if re_type r = BackupScheduleRetentionTypeTime \<and> retentionDurationPattern (re_duration r)
          then Some (re_duration r) else None)"

lemma retention_loop_iff:
  "retention_loop storage later policy schedules = Inr p \<longleftrightarrow>
     list_all (\<lambda>s. requested_retention s = Some p) schedules \<and>
     (schedules = [] \<or> later \<longrightarrow> p = policy)"
proof (induction storage later policy schedules rule: retention_loop.induct)
  case (1 storage later policy)
  then show ?case by auto
next
  case (2 storage later policy schedule schedules)
  show ?case
  proof (cases "requested_retention schedule")
    case None
    then show ?thesis
      by (auto simp: requested_retention_def split: option.splits if_splits)
  next
    case (Some d)
    then have d: "retention_loop storage later policy (schedule # schedules) =
        (if later \<and> d \<noteq> policy
         then Inl (Errorf ''storage %q: all schedules must specify the same time retention or all omit retention; Barman retention applies to the cluster's entire archive, including on-demand backups''
                 [S storage])
         else retention_loop storage True d schedules)"
      by (auto simp: requested_retention_def split: option.splits if_splits)
    show ?thesis
    proof (cases "later \<and> d \<noteq> policy")
      case True
      with d Some show ?thesis by auto
    next
      case False
      have "retention_loop storage True d schedules = Inr p \<longleftrightarrow>
          list_all (\<lambda>s. requested_retention s = Some p) schedules \<and> p = d"
        using False Some 2 by (auto simp: requested_retention_def split: option.splits if_splits)
      with d Some False show ?thesis by auto
    qed
  qed
qed

text \<open>the retention of a storage is accepted exactly when every schedule asks for the same
  valid retention, and it is that retention (keeping everything when there is no schedule).\<close>

theorem storageRetentionPolicy_shared:
  "storageRetentionPolicy storage = Inr p \<longleftrightarrow>
     list_all (\<lambda>s. requested_retention s = Some p) (is_schedules storage) \<and>
     (is_schedules storage = [] \<longrightarrow> p = [])"
  by (auto simp: storageRetentionPolicy_def retention_loop_iff)


section \<open>What validation guarantees\<close>

definition valid_schedule ::
  "(string \<Rightarrow> string list) \<Rightarrow> (opaque \<Rightarrow> err + backup_config) \<Rightarrow> backup_schedule \<Rightarrow> bool" where
  "valid_schedule dns_label unmarshal s \<longleftrightarrow>
     dns_label (bs_name s) = [] \<and> (\<exists>c. toCNPGSchedule (bs_cron s) = Inr c) \<and>
     (\<exists>cfg. decodeBackupParameters unmarshal (bs_parameters s) = Inr cfg)"

definition valid_storage ::
  "(string \<Rightarrow> string list) \<Rightarrow> (opaque \<Rightarrow> err + backup_config) \<Rightarrow> instance_storage \<Rightarrow> bool" where
  "valid_storage dns_label unmarshal st \<longleftrightarrow>
     (\<exists>p. storageRetentionPolicy st = Inr p) \<and> list_all (valid_schedule dns_label unmarshal) (is_schedules st)"

interpretation schedule_check: checker "validate_schedule dns_label unmarshal" "valid_schedule dns_label unmarshal"
  for dns_label unmarshal
  by unfold_locales (auto simp: validate_schedule_def valid_schedule_def split: sum.splits)

interpretation storage_check: checker "validate_storage dns_label unmarshal" "valid_storage dns_label unmarshal"
  for dns_label unmarshal
  by unfold_locales
    (auto simp: validate_storage_def valid_storage_def schedule_check.check_iff list_all_iff split: sum.splits)

lemma ValidateSchedules_iff [check_iffs]:
  "ValidateSchedules dns_label unmarshal backup = None \<longleftrightarrow>
     pred_option (\<lambda>b. list_all (valid_storage dns_label unmarshal) (bk_storages b)) backup"
  by (cases backup) (simp_all add: ValidateSchedules_def storage_check.check_iff list_all_iff)

section \<open>The ScheduledBackups of validated schedules\<close>

text \<open>The enabled schedules, each with its storage, in the order of the two loops.\<close>

definition enabled_schedules :: "backup_spec \<Rightarrow> (string \<times> backup_schedule) list" where
  "enabled_schedules b =
     concat (map (\<lambda>st. map (Pair (is_storage_ref st)) (filter bs_enabled (is_schedules st))) (bk_storages b))"

fun built ::
  "(opaque \<Rightarrow> err + backup_config) \<Rightarrow> string \<Rightarrow> string \<times> backup_schedule \<Rightarrow> desired_backup \<Rightarrow> bool" where
  "built unmarshal clusterName (storage, s) d \<longleftrightarrow>
     (\<exists>c cfg. toCNPGSchedule (bs_cron s) = Inr c \<and> decodeBackupParameters unmarshal (bs_parameters s) = Inr cfg \<and>
        d = scheduled_backup clusterName storage s c cfg)"

lemma build_storage_built:
  "build_storage unmarshal clusterName st schedules acc = Inr ds \<Longrightarrow>
   \<exists>new. ds = acc @ new \<and> list_all2 (built unmarshal clusterName) (map (Pair st) (filter bs_enabled schedules)) new"
proof (induction schedules arbitrary: acc)
  case Nil
  then show ?case by simp
next
  case (Cons s schedules)
  show ?case
  proof (cases "bs_enabled s")
    case False
    with Cons show ?thesis by simp
  next
    case True
    with Cons.prems obtain c cfg where ok: "toCNPGSchedule (bs_cron s) = Inr c"
        "decodeBackupParameters unmarshal (bs_parameters s) = Inr cfg"
        "build_storage unmarshal clusterName st schedules (acc @ [scheduled_backup clusterName st s c cfg]) = Inr ds"
      by (auto split: sum.splits)
    from Cons.IH [OF ok(3)] True ok(1,2) show ?thesis by fastforce
  qed
qed

lemma build_storages_built:
  "build_storages unmarshal clusterName sts acc = Inr ds \<Longrightarrow>
   \<exists>new. ds = acc @ new \<and> list_all2 (built unmarshal clusterName)
     (concat (map (\<lambda>st. map (Pair (is_storage_ref st)) (filter bs_enabled (is_schedules st))) sts)) new"
proof (induction sts arbitrary: acc)
  case Nil
  then show ?case by simp
next
  case (Cons st sts)
  then obtain acc' where a: "build_storage unmarshal clusterName (is_storage_ref st) (is_schedules st) acc = Inr acc'"
      "build_storages unmarshal clusterName sts acc' = Inr ds"
    by (auto split: sum.splits)
  from build_storage_built [OF a(1)] Cons.IH [OF a(2)] show ?case
    by (auto intro!: list_all2_appendI)
qed

lemma build_storage_succeeds:
  "list_all (valid_schedule dns_label unmarshal) schedules \<Longrightarrow>
   \<exists>ds. build_storage unmarshal clusterName st schedules acc = Inr ds"
  by (induction schedules arbitrary: acc) (auto simp: valid_schedule_def)

lemma build_storages_succeeds:
  "list_all (valid_storage dns_label unmarshal) sts \<Longrightarrow>
   \<exists>ds. build_storages unmarshal clusterName sts acc = Inr ds"
proof (induction sts arbitrary: acc)
  case (Cons st sts)
  then obtain acc' where "build_storage unmarshal clusterName (is_storage_ref st) (is_schedules st) acc = Inr acc'"
    using build_storage_succeeds [of dns_label unmarshal "is_schedules st" clusterName "is_storage_ref st" acc]
    by (auto simp: valid_storage_def)
  with Cons show ?case by simp
qed simp

lemma buildScheduledBackups_built:
  "buildScheduledBackups unmarshal clusterName (Some b) = Inr ds \<Longrightarrow> bk_enabled b \<Longrightarrow>
   list_all2 (built unmarshal clusterName) (enabled_schedules b) ds"
  using build_storages_built [of unmarshal clusterName "bk_storages b" "[]"]
  by (simp add: buildScheduledBackups_def enabled_schedules_def)

text \<open>C38: for validated schedules the build never fails, and it yields, in order, one
  ScheduledBackup per enabled schedule, with its converted cron expression, its storage and its
  decoded target.\<close>

theorem buildScheduledBackups_validated:
  assumes "ValidateSchedules dns_label unmarshal (Some b) = None" and "bk_enabled b"
  shows "\<exists>ds. buildScheduledBackups unmarshal clusterName (Some b) = Inr ds \<and>
    list_all2 (built unmarshal clusterName) (enabled_schedules b) ds"
proof -
  obtain ds where "buildScheduledBackups unmarshal clusterName (Some b) = Inr ds"
    using build_storages_succeeds [of dns_label unmarshal "bk_storages b" clusterName "[]"] assms
    by (auto simp: ValidateSchedules_iff buildScheduledBackups_def)
  with buildScheduledBackups_built [OF this assms(2)] show ?thesis by blast
qed

section \<open>Reconciliation\<close>

lemma apply_desired_ok:
  assumes "api_laws view applied A"
  shows "apply_desired A ds keep w = (Inr keep', w') \<Longrightarrow>
    set keep' = set keep \<union> fst ` set ds \<and>
    (\<forall>n\<in>fst ` set ds. \<exists>s x. (n, s) \<in> set ds \<and> view w' n = Some x \<and> applied s x) \<and>
    (\<forall>n. n \<notin> fst ` set ds \<longrightarrow> view w' n = view w n)"
proof (induction ds arbitrary: keep w)
  case Nil
  then show ?case by simp
next
  case (Cons d sbs)
  obtain name spec where d: "d = (name, spec)" by (cases d)
  with Cons.prems obtain w1 where w1: "ap_apply A name spec w = (None, w1)"
      "apply_desired A sbs (name # keep) w1 = (Inr keep', w')"
    by (auto split: prod.splits option.splits)
  from api_apply_ok [OF assms w1(1)] obtain x where x: "applied spec x" "view w1 = (view w)(name \<mapsto> x)" by blast
  note IH = Cons.IH [OF w1(2)]
  have "\<exists>s x. (n, s) \<in> set ((name, spec) # sbs) \<and> view w' n = Some x \<and> applied s x"
    if "n \<in> fst ` set ((name, spec) # sbs)" for n
  proof (cases "n \<in> fst ` set sbs")
    case True
    then obtain s y where "(n, s) \<in> set sbs" "view w' n = Some y" "applied s y" using IH by blast
    then show ?thesis by auto
  next
    case False
    then have "n = name" "view w' n = view w1 n" using that IH by auto
    with x show ?thesis by auto
  qed
  with IH x d show ?case by auto
qed

lemma apply_desired_frame:
  assumes "api_laws view applied A"
  shows "apply_desired A ds keep w = (r, w') \<Longrightarrow> n \<notin> fst ` set ds \<Longrightarrow> view w' n = view w n"
proof (induction ds arbitrary: keep w)
  case Nil
  then show ?case by simp
next
  case (Cons d sbs)
  obtain name spec where d: "d = (name, spec)" by (cases d)
  obtain res w1 where w1: "ap_apply A name spec w = (res, w1)" by (cases "ap_apply A name spec w")
  from api_apply_any [OF assms w1] Cons.prems d have "view w1 n = view w n" by auto
  with Cons w1 d show ?case by (cases res) auto
qed

lemma delete_stale_effect:
  assumes "api_laws view applied A"
  shows "delete_stale A controlled keep sbs w = (r, w') \<Longrightarrow>
    (view w' n = view w n \<or>
      view w' n = None \<and> n \<notin> set keep \<and> (\<exists>x. (n, x) \<in> set sbs \<and> controlled x)) \<and>
    (r = Inr () \<and> n \<notin> set keep \<and> (\<exists>x. (n, x) \<in> set sbs \<and> controlled x) \<longrightarrow> view w' n = None)"
proof (induction sbs arbitrary: w)
  case Nil
  then show ?case by simp
next
  case (Cons d sbs)
  obtain name sb where d: "d = (name, sb)" by (cases d)
  show ?case
  proof (cases "name \<in> set keep \<or> \<not> controlled sb")
    case True
    with Cons d show ?thesis by auto
  next
    case False
    obtain res w1 where w1: "ap_delete A name w = (res, w1)" by (cases "ap_delete A name w")
    show ?thesis
    proof (cases res)
      case None
      have v: "view w1 = (view w)(name := None)" using api_delete_ok [OF assms] w1 None by simp
      have "delete_stale A controlled keep sbs w1 = (r, w')" using Cons.prems False w1 None d by simp
      from Cons.IH [OF this] v False d show ?thesis by (auto split: if_splits)
    next
      case (Some e)
      with Cons.prems False w1 d have "w' = w1" "r \<noteq> Inr ()" by auto
      with api_delete_any [OF assms w1] False d show ?thesis by (cases "n = name") auto
    qed
  qed
qed

lemma scheduled_converges:
  assumes "api_laws view applied A"
    and "buildScheduledBackups unmarshal instanceName backup = Inr ds"
    and "SyncScheduledBackups A controlled unmarshal instanceName backup w = (Inr (), w')"
  shows "(\<forall>n\<in>fst ` set ds. \<exists>s x. (n, s) \<in> set ds \<and> view w' n = Some x \<and> applied s x) \<and>
    (\<forall>n. n \<notin> fst ` set ds \<longrightarrow>
       view w' n = (case view w n of Some x \<Rightarrow> if controlled x then None else Some x | None \<Rightarrow> None))"
proof -
  obtain keep w1 existing where
    ap: "apply_desired A ds [] w = (Inr keep, w1)" and li: "ap_list A w1 = Inr existing" and
    de: "delete_stale A controlled keep existing w1 = (Inr (), w')"
    using assms(2,3) by (auto simp: SyncScheduledBackups_def split: prod.splits sum.splits)
  note a = apply_desired_ok [OF assms(1) ap] and l = api_list_ok [OF assms(1) li]
    and d = delete_stale_effect [OF assms(1) de]
  show ?thesis
  proof (intro conjI ballI allI impI)
    fix n assume n: "n \<in> fst ` set ds"
    then have "n \<in> set keep" using a by simp
    then have "view w' n = view w1 n" using d [of n] by auto
    with a n show "\<exists>s x. (n, s) \<in> set ds \<and> view w' n = Some x \<and> applied s x" by auto
  next
    fix n assume n: "n \<notin> fst ` set ds"
    then have "n \<notin> set keep" "view w1 n = view w n" using a by auto
    with d [of n] l show "view w' n = (case view w n of Some x \<Rightarrow> if controlled x then None else Some x | None \<Rightarrow> None)"
      by (cases "view w n") auto
  qed
qed

text \<open>C25: a successful sync makes the Instance's ScheduledBackups exactly the desired ones:
  each desired name is stored as applied, every other one the Instance controls is gone, and
  whatever it does not control is as it was.\<close>

theorem SyncScheduledBackups_converges:
  assumes "api_laws view applied A"
    and "buildScheduledBackups unmarshal instanceName backup = Inr ds"
    and "SyncScheduledBackups A controlled unmarshal instanceName backup w = (Inr (), w')"
  shows "(\<forall>n\<in>fst ` set ds. \<exists>s x. (n, s) \<in> set ds \<and> view w' n = Some x \<and> applied s x) \<and>
    (\<forall>n. n \<notin> fst ` set ds \<longrightarrow>
       view w' n = (case view w n of Some x \<Rightarrow> if controlled x then None else Some x | None \<Rightarrow> None))"
  using assms by (rule scheduled_converges)

text \<open>C26: however a sync ends, it neither changes nor deletes a ScheduledBackup that the
  Instance does not control and whose name it does not use.\<close>

theorem SyncScheduledBackups_spares_others:
  assumes "api_laws view applied A"
    and "\<forall>ds. buildScheduledBackups unmarshal instanceName backup = Inr ds \<longrightarrow> n \<notin> fst ` set ds"
    and "view w n = Some x" and "\<not> controlled x"
    and "SyncScheduledBackups A controlled unmarshal instanceName backup w = (r, w')"
  shows "view w' n = Some x"
proof (cases "buildScheduledBackups unmarshal instanceName backup")
  case (Inl e)
  with assms show ?thesis by (simp add: SyncScheduledBackups_def)
next
  case (Inr ds)
  obtain res w1 where ap: "apply_desired A ds [] w = (res, w1)" by (cases "apply_desired A ds [] w")
  have v: "view w1 n = Some x"
    using apply_desired_frame [OF assms(1) ap, of n] assms(2,3) Inr by simp
  show ?thesis
  proof (cases "w' = w1")
    case True
    with v show ?thesis by simp
  next
    case False
    with assms(5) Inr ap obtain keep existing where
      li: "ap_list A w1 = Inr existing" and de: "delete_stale A controlled keep existing w1 = (r, w')"
      by (auto simp: SyncScheduledBackups_def split: sum.splits prod.splits)
    with delete_stale_effect [OF assms(1) de, of n] api_list_ok [OF assms(1) li] v assms(4)
    show ?thesis by auto
  qed
qed


section \<open>A sample Instance with one daily schedule\<close>

definition daily :: backup_schedule where
  "daily = \<lparr>bs_name = ''daily'', bs_enabled = True, bs_cron = ''0 2 * * *'', bs_retention = None, bs_parameters = None\<rparr>"

definition daily_backup :: backup_spec where
  "daily_backup = \<lparr>bk_enabled = True, bk_class_ref = ''cnpg-barman-plugin'',
     bk_storages = [\<lparr>is_storage_ref = ''s3'', is_schedules = [daily]\<rparr>]\<rparr>"

definition daily_spec :: scheduled_backup_spec where
  "daily_spec = snd (scheduled_backup ''pg'' ''s3'' daily ''0 0 2 * * *'' zero_backup_config)"

abbreviation no_json :: "opaque \<Rightarrow> err + backup_config" where
  "no_json \<equiv> \<lambda>_. Inl (Errorf [] [])"

lemma daily_cron: "toCNPGSchedule ''0 2 * * *'' = Inr ''0 0 2 * * *''"
  by code_simp

lemma daily_name: "scheduledBackupName ''pg'' ''daily'' = ''pg-daily''"
  by (simp add: scheduledBackupName_def maxScheduledBackupNameLength_def)

lemma daily_build: "buildScheduledBackups no_json ''pg'' (Some daily_backup) = Inr [(''pg-daily'', daily_spec)]"
  by (simp add: buildScheduledBackups_def daily_backup_def daily_def daily_cron decodeBackupParameters_def
      daily_spec_def scheduled_backup_def daily_name)

lemma daily_valid: "ValidateSchedules (\<lambda>_. []) no_json (Some daily_backup) = None"
  by (simp add: ValidateSchedules_iff valid_storage_def valid_schedule_def storageRetentionPolicy_def
      daily_backup_def daily_def daily_cron decodeBackupParameters_def)

theorem buildScheduledBackups_validated_witness:
  "\<exists>ds. list_all2 (built no_json ''pg'') (enabled_schedules daily_backup) ds"
  using buildScheduledBackups_validated [OF daily_valid, of "''pg''"] by (auto simp: daily_backup_def)

text \<open>A store holding a stale ScheduledBackup of the Instance and one made by hand.\<close>

abbreviation sb_store :: "((string \<times> scheduled_backup_spec \<times> bool) list, scheduled_backup_spec, scheduled_backup_spec \<times> bool) api" where
  "sb_store \<equiv> list_store (\<lambda>s. (s, True))"

definition stale_and_manual :: "(string \<times> scheduled_backup_spec \<times> bool) list" where
  "stale_and_manual = [(''pg-old'', (daily_spec, True)), (''manual'', (daily_spec, False))]"

lemma daily_sync:
  "SyncScheduledBackups sb_store snd no_json ''pg'' (Some daily_backup) stale_and_manual =
     (Inr (), [(''pg-daily'', (daily_spec, True)), (''manual'', (daily_spec, False))])"
  by (simp add: SyncScheduledBackups_def daily_build list_store_def stale_and_manual_def)

theorem SyncScheduledBackups_converges_witness:
  "\<exists>w'. map_of w' ''pg-daily'' = Some (daily_spec, True) \<and> map_of w' ''pg-old'' = None \<and>
     map_of w' ''manual'' = Some (daily_spec, False)"
proof -
  note c = SyncScheduledBackups_converges [OF list_store_laws daily_build daily_sync]
  let ?w = "[(''pg-daily'', (daily_spec, True)), (''manual'', (daily_spec, False))]"
  have "map_of ?w ''pg-old'' = None" using c by (simp add: stale_and_manual_def)
  then show ?thesis by (intro exI [of _ ?w]) simp
qed

theorem SyncScheduledBackups_spares_others_witness:
  "map_of (snd (SyncScheduledBackups sb_store snd no_json ''pg'' (Some daily_backup) stale_and_manual)) ''manual''
     = Some (daily_spec, False)"
proof (rule SyncScheduledBackups_spares_others [OF list_store_laws])
  show "\<forall>ds. buildScheduledBackups no_json ''pg'' (Some daily_backup) = Inr ds \<longrightarrow> ''manual'' \<notin> fst ` set ds"
    by (simp add: daily_build)
  show "map_of stale_and_manual ''manual'' = Some (daily_spec, False)" "\<not> snd (daily_spec, False)"
    by (simp_all add: stale_and_manual_def)
  show "SyncScheduledBackups sb_store snd no_json ''pg'' (Some daily_backup) stale_and_manual =
      (Inr (), snd (SyncScheduledBackups sb_store snd no_json ''pg'' (Some daily_backup) stale_and_manual))"
    by (simp add: daily_sync)
qed

section \<open>Finding the schedule of a ScheduledBackup\<close>

lemma find_first: "x \<in> set xs \<Longrightarrow> P x \<Longrightarrow> \<exists>y. List.find P xs = Some y"
  by (metis find_None_ex not_Some_eq)

text \<open>The schedule behind a ScheduledBackup is found again by its name: if the names of the
  Instance's schedules are short and distinct, it is the very schedule the ScheduledBackup was
  built from.\<close>

theorem ScheduleForScheduledBackup_roundtrip:
  assumes "schedules = concat (map is_schedules (bk_storages b))" and "s \<in> set schedules"
    and "distinct (map bs_name schedules)"
    and "\<forall>t\<in>set schedules. length instanceName + length (bs_name t) < 63"
  shows "ScheduleForScheduledBackup instanceName (Some b) (scheduledBackupName instanceName (bs_name s)) = Some s"
proof -
  let ?P = "\<lambda>t. scheduledBackupName instanceName (bs_name t) = scheduledBackupName instanceName (bs_name s)"
  obtain t where t: "List.find ?P schedules = Some t" using find_first [of s schedules ?P] assms(2) by auto
  then have m: "t \<in> set schedules" and e: "?P t" by (auto dest: find_SomeD)
  have "bs_name t = bs_name s"
    using sb_name.short_distinct [of "(instanceName, bs_name t)" "(instanceName, bs_name s)"] e m assms(2,4)
    by fastforce
  then have "t = s" using m assms(2,3) by (auto simp: distinct_map inj_on_def)
  with t assms(1) show ?thesis by (simp add: ScheduleForScheduledBackup_def)
qed

theorem ScheduleForScheduledBackup_roundtrip_witness:
  "ScheduleForScheduledBackup ''pg'' (Some daily_backup) (scheduledBackupName ''pg'' ''daily'') = Some daily"
  using ScheduleForScheduledBackup_roundtrip [of "[daily]" daily_backup daily "''pg''"]
  by (simp add: daily_backup_def daily_def)

text \<open>Two storages whose schedules have the same name.\<close>

definition twice_daily_backup :: backup_spec where
  "twice_daily_backup = daily_backup\<lparr>bk_storages :=
     [\<lparr>is_storage_ref = ''s3'', is_schedules = [daily]\<rparr>, \<lparr>is_storage_ref = ''gcs'', is_schedules = [daily]\<rparr>]\<rparr>"

text \<open>schedules of the same name in two storages pass validation, but both become the same
  ScheduledBackup, so after a sync only the second storage is backed up.\<close>

theorem same_schedule_name_collides:
  "ValidateSchedules (\<lambda>_. []) no_json (Some twice_daily_backup) = None \<and>
   (\<exists>first second. buildScheduledBackups no_json ''pg'' (Some twice_daily_backup) =
        Inr [(''pg-daily'', first), (''pg-daily'', second)] \<and>
      ss_plugin first = PluginConfiguration ''s3'' \<and> ss_plugin second = PluginConfiguration ''gcs'' \<and>
      map_of (snd (SyncScheduledBackups sb_store snd no_json ''pg'' (Some twice_daily_backup) [])) ''pg-daily''
        = Some (second, True))"
proof -
  let ?d = "\<lambda>st. snd (scheduled_backup ''pg'' st daily ''0 0 2 * * *'' zero_backup_config)"
  have b: "buildScheduledBackups no_json ''pg'' (Some twice_daily_backup) =
      Inr [(''pg-daily'', ?d ''s3''), (''pg-daily'', ?d ''gcs'')]"
    by (simp add: buildScheduledBackups_def twice_daily_backup_def daily_backup_def daily_def daily_cron
        decodeBackupParameters_def scheduled_backup_def daily_name)
  moreover have "ValidateSchedules (\<lambda>_. []) no_json (Some twice_daily_backup) = None"
    by (simp add: ValidateSchedules_iff valid_storage_def valid_schedule_def storageRetentionPolicy_def
        twice_daily_backup_def daily_backup_def daily_def daily_cron decodeBackupParameters_def)
  ultimately show ?thesis
    by (intro conjI exI [of _ "?d ''s3''"] exI [of _ "?d ''gcs''"])
      (simp_all add: scheduled_backup_def SyncScheduledBackups_def list_store_def)
qed

end
