(* ===== verification/Object_Stores.thy ===== *)
theory Object_Stores
  imports Schedules
begin

text \<open>
  Backup storage of an Instance (\<open>internal/cnpg/barman/backup.go\<close>): every storage it lists
  becomes an ObjectStore of the Barman plugin, shared by all Instances of the namespace; the
  retention they share is guarded.
\<close>

section \<open>Storage objects\<close>

record s3_spec =
  s3_bucket :: string
  s3_region :: string
  s3_endpoint_url :: string
  s3_credentials_secret :: string

record backup_storage =
  bt_name :: string
  bt_s3 :: "s3_spec option"

record secret_key_selector =
  sk_name :: string
  sk_key :: string

record s3_credentials =
  aw_access_key_id :: "secret_key_selector option"
  aw_secret_access_key :: "secret_key_selector option"
  aw_region :: "secret_key_selector option"

record barman_configuration =
  bm_endpoint_url :: string
  bm_endpoint_ca :: "secret_key_selector option"
  bm_destination_path :: string
  bm_aws :: "s3_credentials option"
  bm_wal_compression :: string
  bm_rest :: opaque

record object_store_spec =
  os_configuration :: barman_configuration
  os_retention_policy :: string

record object_store =
  oj_name :: string
  oj_spec :: object_store_spec

text \<open>
  What the runtime's context offers: a BackupStorage by name, its credentials (access key ID
  and secret access key), Secrets, the Instances of the namespace, and ObjectStores.
\<close>

record 'w storage_api =
  sa_storage :: "string \<Rightarrow> 'w \<Rightarrow> api_err + backup_storage"
  sa_credentials :: "backup_storage \<Rightarrow> 'w \<Rightarrow> api_err + (string \<times> string)"
  sa_secret :: "string \<Rightarrow> 'w \<Rightarrow> api_err + string gomap"
  sa_instances :: "'w \<Rightarrow> api_err + cnpg_instance list"
  sa_stores :: "('w, object_store_spec, object_store) api"

section \<open>Building an ObjectStore\<close>

text \<open>\<open>barmanapi.CompressionTypeGzip\<close>, by name.\<close>

definition CompressionTypeGzip :: string where
  "CompressionTypeGzip = ''gzip''"

definition buildObjectStore :: "s3_spec \<Rightarrow> secret_key_selector option \<Rightarrow> object_store_spec" where
  "buildObjectStore s3 endpointCA =
     (let secretName = s3_credentials_secret s3
      in \<lparr>os_configuration =
            \<lparr>bm_endpoint_url = s3_endpoint_url s3, bm_endpoint_ca = endpointCA,
             bm_destination_path = ''s3://'' @ s3_bucket s3 @ ''/'',
             bm_aws = Some \<lparr>aw_access_key_id = Some \<lparr>sk_name = secretName, sk_key = ''AWS_ACCESS_KEY_ID''\<rparr>,
                            aw_secret_access_key = Some \<lparr>sk_name = secretName, sk_key = ''AWS_SECRET_ACCESS_KEY''\<rparr>,
                            aw_region = None\<rparr>,
             bm_wal_compression = CompressionTypeGzip, bm_rest = []\<rparr>,
          os_retention_policy = []\<rparr>)"

text \<open>
  \<open>strings.ToLower\<close>, as far as the prefix test sees it: no rune outside ASCII has one of the
  letters h, t, p, s as its lower case.
\<close>

definition ascii_lower :: "char \<Rightarrow> char" where
  "ascii_lower c =
     (if CHR ''A'' \<le> c \<and> c \<le> CHR ''Z'' then char_of ((of_char c :: nat) + 32) else c)"

definition endpointCARef ::
  "'w storage_api \<Rightarrow> string \<Rightarrow> string \<Rightarrow> 'w \<Rightarrow> secret_key_selector option result" where
  "endpointCARef A logicalName endpointURL w =
     (if \<not> has_prefix (map ascii_lower endpointURL) ''https://'' then Inr None
      else
        let name = logicalName @ EndpointCASecretSuffix
        in case sa_secret A name w of
             Inl NotFound \<Rightarrow> Inr None
           | Inl e \<Rightarrow> Inl (Wrap ''get endpoint CA Secret %q: %w'' [S name] (Api e))
           | Inr data \<Rightarrow>
               if length (read_map data EndpointCAKey) = 0
               then Inl (BackupConfigError ''EndpointCAInvalid'' ''Secret %q missing key %q'' [S name, S EndpointCAKey])
               else Inr (Some \<lparr>sk_name = name, sk_key = EndpointCAKey\<rparr>))"

section \<open>The shared retention\<close>

definition retentionLabel :: "string \<Rightarrow> string" where
  "retentionLabel policy = (if policy = [] then ''keep all'' else policy)"

text \<open>The peers the loop considers, and the conflicts it collects.\<close>

definition is_peer :: "cnpg_instance \<Rightarrow> cnpg_instance \<Rightarrow> bool" where
  "is_peer self peer \<longleftrightarrow>
     \<not> (in_name peer = in_name self \<or> in_deletion_timestamp peer \<noteq> None \<or>
        in_provider_ref peer \<noteq> in_provider_ref self \<or>
        (case in_backup peer of None \<Rightarrow> True | Some b \<Rightarrow> \<not> bk_enabled b))"

definition peer_conflicts :: "string \<Rightarrow> string \<Rightarrow> cnpg_instance \<Rightarrow> string list" where
  "peer_conflicts storageName retention peer =
     concat (map (\<lambda>strg.
         if is_storage_ref strg \<noteq> storageName then []
         else case storageRetentionPolicy strg of
                Inl _ \<Rightarrow> []
              | Inr policy \<Rightarrow>
                  if policy \<noteq> retention
                  then [in_name peer @ '' ('' @ retentionLabel policy @ '')''] else [])
       (case in_backup peer of None \<Rightarrow> [] | Some b \<Rightarrow> bk_storages b))"

definition checkSharedRetention ::
  "'w storage_api \<Rightarrow> cnpg_instance \<Rightarrow> string \<Rightarrow> string \<Rightarrow> 'w \<Rightarrow> err option" where
  "checkSharedRetention A self storageName retention w =
     (case sa_instances A w of
        Inl e \<Rightarrow> Some (Wrap ''list Instances sharing storage %q: %w'' [S storageName] (Api e))
      | Inr instances \<Rightarrow>
          let conflicts = concat (map (peer_conflicts storageName retention) (filter (is_peer self) instances));
              conflict = Some (BackupConfigError ''BackupRetentionConflict''
                ''storage %q is shared in namespace %q with Instances that set a different retention than %s: %s; Barman retention applies to every Instance archiving to the storage, so set the same retention on all of them''
                [S storageName, S (in_namespace self), S (retentionLabel retention), S (join '', '' conflicts)])
          in if conflicts = [] then None
             else case ap_get (sa_stores A) storageName w of
                    Inl NotFound \<Rightarrow> conflict
                  | Inl e \<Rightarrow> Some (Wrap ''get ObjectStore %q: %w'' [S storageName] (Api e))
                  | Inr current \<Rightarrow> if os_retention_policy (oj_spec current) = retention then None else conflict)"

section \<open>Reconciliation\<close>

text \<open>The S3 specification of a storage whose credentials are complete.\<close>

definition resolve_storage :: "'w storage_api \<Rightarrow> string \<Rightarrow> 'w \<Rightarrow> s3_spec result" where
  "resolve_storage A name w =
     (case sa_storage A name w of
        Inl NotFound \<Rightarrow> Inl (WaitFor ''BackupStorage %q not yet present'' [S name])
      | Inl e \<Rightarrow> Inl (BackupConfigError ''StorageResolutionFailed'' ''%v'' [E (Api e)])
      | Inr bg \<Rightarrow>
          (case bt_s3 bg of
             None \<Rightarrow> Inl (BackupConfigError ''UnsupportedStorage'' ''BackupStorage %q is not S3'' [S (bt_name bg)])
           | Some s3 \<Rightarrow>
               (case sa_credentials A bg w of
                  Inl NotFound \<Rightarrow>
                    Inl (WaitFor ''credentials Secret %q for BackupStorage %q not yet present''
                      [S (s3_credentials_secret s3), S (bt_name bg)])
                | Inl e \<Rightarrow> Inl (BackupConfigError ''CredentialsUnavailable'' ''%v'' [E (Api e)])
                | Inr (accessKeyID, secretAccessKey) \<Rightarrow>
                    if accessKeyID = [] \<or> secretAccessKey = []
                    then Inl (BackupConfigError ''CredentialsIncomplete''
                           ''Secret %q must contain AWS_ACCESS_KEY_ID and AWS_SECRET_ACCESS_KEY''
                           [S (s3_credentials_secret s3)])
                    else Inr s3)))"

text \<open>What is applied for a storage: everything in the body of the loop before the Apply.\<close>

definition store_for ::
  "'w storage_api \<Rightarrow> cnpg_instance \<Rightarrow> instance_storage \<Rightarrow> 'w \<Rightarrow> object_store_spec result" where
  "store_for A self strg w =
     (let name = is_storage_ref strg
      in case resolve_storage A name w of
           Inl e \<Rightarrow> Inl e
         | Inr s3 \<Rightarrow>
             (case endpointCARef A name (s3_endpoint_url s3) w of
                Inl e \<Rightarrow> Inl e
              | Inr endpointCA \<Rightarrow>
                  (case storageRetentionPolicy strg of
                     Inl e \<Rightarrow> Inl (BackupConfigError ''InvalidBackupRetention'' ''%v'' [E e])
                   | Inr retention \<Rightarrow>
                       (case checkSharedRetention A self name retention w of
                          Some e \<Rightarrow> Inl e
                        | None \<Rightarrow> Inr ((buildObjectStore s3 endpointCA)\<lparr>os_retention_policy := retention\<rparr>)))))"

fun sync_stores ::
  "'w storage_api \<Rightarrow> cnpg_instance \<Rightarrow> instance_storage list \<Rightarrow> ('w, unit) eff" where
  "sync_stores A self [] w = (Inr (), w)"
| "sync_stores A self (strg # strgs) w =
     (case store_for A self strg w of
        Inl e \<Rightarrow> (Inl e, w)
      | Inr spec \<Rightarrow>
          (case ap_apply (sa_stores A) (is_storage_ref strg) spec w of
             (Some e, w') \<Rightarrow> (Inl (Wrap ''apply ObjectStore %q: %w'' [S (is_storage_ref strg)] (Api e)), w')
           | (None, w') \<Rightarrow> sync_stores A self strgs w'))"

definition SyncBackupInfrastructure ::
  "'w storage_api \<Rightarrow> cnpg_instance \<Rightarrow> ('w, plugin_configuration list) eff" where
  "SyncBackupInfrastructure A self w =
     (case in_backup self of
        None \<Rightarrow> (Inr [], w)
      | Some backupCfg \<Rightarrow>
          if \<not> bk_enabled backupCfg \<or> length (bk_storages backupCfg) = 0 then (Inr [], w)
          else
            let mainName = is_storage_ref (hd (bk_storages backupCfg))
            in case sync_stores A self (bk_storages backupCfg) w of
                 (Inl e, w') \<Rightarrow> (Inl e, w')
               | (Inr _, w') \<Rightarrow>
                   (Inr [\<lparr>pl_name = PluginName, pl_enabled = Some True, pl_is_wal_archiver = Some True,
                          pl_parameters = [PluginParameterObjectStore \<mapsto> mainName]\<rparr>], w'))"


section \<open>The guard on the shared retention\<close>

text \<open>A live peer whose valid policy for the storage is \<open>policy\<close>.\<close>

definition peer_policy :: "cnpg_instance list \<Rightarrow> cnpg_instance \<Rightarrow> string \<Rightarrow> string \<Rightarrow> bool" where
  "peer_policy instances self storageName policy \<longleftrightarrow>
     (\<exists>peer\<in>set instances. is_peer self peer \<and>
        (\<exists>b strg. in_backup peer = Some b \<and> strg \<in> set (bk_storages b) \<and> is_storage_ref strg = storageName \<and>
           storageRetentionPolicy strg = Inr policy))"

lemma peer_conflicts_empty:
  "peer_conflicts n r peer = [] \<longleftrightarrow>
     (\<forall>b strg p. in_backup peer = Some b \<and> strg \<in> set (bk_storages b) \<and> is_storage_ref strg = n \<and>
        storageRetentionPolicy strg = Inr p \<longrightarrow> p = r)"
proof (cases "in_backup peer")
  case None
  then show ?thesis by (simp add: peer_conflicts_def)
next
  case (Some b)
  define texts where "texts = (\<lambda>strg. if is_storage_ref strg \<noteq> n then [] else case storageRetentionPolicy strg of Inl _ \<Rightarrow> []
      | Inr policy \<Rightarrow> if policy \<noteq> r then [in_name peer @ '' ('' @ retentionLabel policy @ '')''] else [])"
  have t: "texts strg = [] \<longleftrightarrow> (\<forall>p. is_storage_ref strg = n \<and> storageRetentionPolicy strg = Inr p \<longrightarrow> p = r)" for strg
    by (simp add: texts_def split: sum.split)
  have "peer_conflicts n r peer = [] \<longleftrightarrow> (\<forall>strg\<in>set (bk_storages b). texts strg = [])"
    by (simp add: peer_conflicts_def Some flip: texts_def)
  then show ?thesis unfolding t Some by (simp add: Ball_def imp_conjL)
qed

lemma checkSharedRetention_None:
  "checkSharedRetention A self n r w = None \<longleftrightarrow>
     (\<exists>instances. sa_instances A w = Inr instances \<and>
        ((\<forall>p. peer_policy instances self n p \<longrightarrow> p = r) \<or>
         (\<exists>current. ap_get (sa_stores A) n w = Inr current \<and> os_retention_policy (oj_spec current) = r)))"
proof (cases "sa_instances A w")
  case (Inl e)
  then show ?thesis by (simp add: checkSharedRetention_def)
next
  case (Inr instances)
  have "concat (map (peer_conflicts n r) (filter (is_peer self) instances)) = [] \<longleftrightarrow>
      (\<forall>p. peer_policy instances self n p \<longrightarrow> p = r)"
    by (auto simp: peer_policy_def peer_conflicts_empty)
  with Inr show ?thesis
    by (auto simp: checkSharedRetention_def Let_def split: sum.splits api_err.splits)
qed

text \<open>C29: an Instance may write its retention for a shared storage exactly when no live peer of
  the same provider sets another valid one, or when it already is the stored one.\<close>

theorem checkSharedRetention_guard:
  "checkSharedRetention A self storageName retention w = None \<longleftrightarrow>
     (\<exists>instances. sa_instances A w = Inr instances \<and>
        ({p. peer_policy instances self storageName p} \<subseteq> {retention} \<or>
         (\<exists>current. ap_get (sa_stores A) storageName w = Inr current \<and>
            os_retention_policy (oj_spec current) = retention)))"
  unfolding checkSharedRetention_None by blast

section \<open>What a sync stores\<close>

lemma store_for_ok:
  assumes "store_for A self strg w = Inr spec"
  shows "checkSharedRetention A self (is_storage_ref strg) (os_retention_policy spec) w = None \<and>
    storageRetentionPolicy strg = Inr (os_retention_policy spec) \<and>
    (\<exists>s3 ca. resolve_storage A (is_storage_ref strg) w = Inr s3 \<and>
       endpointCARef A (is_storage_ref strg) (s3_endpoint_url s3) w = Inr ca \<and>
       os_configuration spec = os_configuration (buildObjectStore s3 ca))"
  using assms by (fastforce simp: store_for_def Let_def split: sum.splits option.splits)

text \<open>The stored object carries the applied spec.\<close>

definition stores_spec :: "(object_store_spec \<Rightarrow> object_store \<Rightarrow> bool) \<Rightarrow> bool" where
  "stores_spec applied \<longleftrightarrow> (\<forall>s x. applied s x \<longrightarrow> oj_spec x = s)"

definition retention_of :: "(string \<rightharpoonup> object_store) \<Rightarrow> string \<Rightarrow> string option" where
  "retention_of v n = map_option (\<lambda>x. os_retention_policy (oj_spec x)) (v n)"

lemma sync_stores_retention:
  assumes laws: "api_laws view applied (sa_stores A)" and spec: "stores_spec applied"
    and quiet: "\<forall>w. sa_instances A w = Inr instances"
    and peer: "peer_policy instances self n r"
  shows "sync_stores A self strgs w = (res, w') \<Longrightarrow> retention_of (view w) n = Some r \<Longrightarrow>
    retention_of (view w') n = Some r"
proof (induction strgs arbitrary: w)
  case Nil
  then show ?case by simp
next
  case (Cons strg strgs)
  show ?case
  proof (cases "store_for A self strg w")
    case (Inl e)
    with Cons.prems show ?thesis by simp
  next
    case (Inr s)
    obtain e w1 where ap: "ap_apply (sa_stores A) (is_storage_ref strg) s w = (e, w1)"
      by (cases "ap_apply (sa_stores A) (is_storage_ref strg) s w")
    have same: "os_retention_policy s = r" if "is_storage_ref strg = n"
    proof -
      from store_for_ok [OF Inr] that quiet consider
          "\<forall>p. peer_policy instances self n p \<longrightarrow> p = os_retention_policy s"
        | current where "ap_get (sa_stores A) n w = Inr current" "os_retention_policy (oj_spec current) = os_retention_policy s"
        by (auto simp: checkSharedRetention_None)
      then show ?thesis
      proof cases
        case 1
        with peer show ?thesis by metis
      next
        case 2
        with api_get_ok [OF laws 2(1)] Cons.prems(2) show ?thesis by (simp add: retention_of_def)
      qed
    qed
    have "retention_of (view w1) n = Some r"
      using api_apply_any [OF laws ap] same Cons.prems(2) spec
      by (cases "is_storage_ref strg = n") (auto simp: retention_of_def stores_spec_def)
    with Cons.IH [of w1] Cons.prems(1) Inr ap show ?thesis by (cases e) auto
  qed
qed

text \<open>C27: an Instance never changes the retention another one relies on. While a live peer sets
  the stored retention of a storage, no sync of this Instance, however it ends, stores another.\<close>

theorem SyncBackupInfrastructure_keeps_retention:
  assumes "api_laws view applied (sa_stores A)" and "stores_spec applied"
    and "\<forall>w. sa_instances A w = Inr instances"
    and "peer_policy instances self n r" and "retention_of (view w) n = Some r"
    and "SyncBackupInfrastructure A self w = (res, w')"
  shows "retention_of (view w') n = Some r"
  using assms(5,6) sync_stores_retention [OF assms(1-4)]
  by (auto simp: SyncBackupInfrastructure_def Let_def split: option.splits if_splits prod.splits sum.splits)

lemma sync_stores_ok:
  assumes laws: "api_laws view applied (sa_stores A)"
  shows "sync_stores A self strgs w = (Inr (), w') \<Longrightarrow>
    (\<forall>n\<in>is_storage_ref ` set strgs. \<exists>strg\<in>set strgs. \<exists>s x v. is_storage_ref strg = n \<and>
       store_for A self strg v = Inr s \<and> view w' n = Some x \<and> applied s x) \<and>
    (\<forall>n. n \<notin> is_storage_ref ` set strgs \<longrightarrow> view w' n = view w n)"
proof (induction strgs arbitrary: w)
  case Nil
  then show ?case by simp
next
  case (Cons strg strgs)
  then obtain s w1 where s: "store_for A self strg w = Inr s"
    and ap: "ap_apply (sa_stores A) (is_storage_ref strg) s w = (None, w1)"
    and rest: "sync_stores A self strgs w1 = (Inr (), w')"
    by (auto split: sum.splits prod.splits option.splits)
  from api_apply_ok [OF laws ap] obtain x where x: "applied s x" "view w1 = (view w)(is_storage_ref strg \<mapsto> x)" by blast
  note IH = Cons.IH [OF rest]
  have "\<exists>strg'\<in>set (strg # strgs). \<exists>s x v. is_storage_ref strg' = n \<and>
      store_for A self strg' v = Inr s \<and> view w' n = Some x \<and> applied s x"
    if "n \<in> is_storage_ref ` set (strg # strgs)" for n
  proof (cases "n \<in> is_storage_ref ` set strgs")
    case True
    with IH show ?thesis by (meson list.set_intros(2))
  next
    case False
    then have "n = is_storage_ref strg" "view w' n = view w1 n" using that IH by auto
    with x s show ?thesis by auto
  qed
  with IH x show ?case by auto
qed

lemma infrastructure_stores:
  assumes "api_laws view applied (sa_stores A)" and "stores_spec applied"
    and "in_backup self = Some b" and "bk_enabled b" and "bk_storages b \<noteq> []"
    and "SyncBackupInfrastructure A self w = (Inr plugins, w')"
  shows "plugins = [\<lparr>pl_name = PluginName, pl_enabled = Some True, pl_is_wal_archiver = Some True,
       pl_parameters = [PluginParameterObjectStore \<mapsto> is_storage_ref (hd (bk_storages b))]\<rparr>] \<and>
    (\<forall>n\<in>is_storage_ref ` set (bk_storages b). \<exists>strg\<in>set (bk_storages b). \<exists>x s3 ca v. is_storage_ref strg = n \<and>
       view w' n = Some x \<and> resolve_storage A n v = Inr s3 \<and>
       os_configuration (oj_spec x) = os_configuration (buildObjectStore s3 ca) \<and>
       storageRetentionPolicy strg = Inr (os_retention_policy (oj_spec x))) \<and>
    (\<forall>n. n \<notin> is_storage_ref ` set (bk_storages b) \<longrightarrow> view w' n = view w n)"
proof -
  have s: "sync_stores A self (bk_storages b) w = (Inr (), w')"
    and p: "plugins = [\<lparr>pl_name = PluginName, pl_enabled = Some True, pl_is_wal_archiver = Some True,
       pl_parameters = [PluginParameterObjectStore \<mapsto> is_storage_ref (hd (bk_storages b))]\<rparr>]"
    using assms(3-6) by (auto simp: SyncBackupInfrastructure_def Let_def split: prod.splits sum.splits)
  note k = sync_stores_ok [OF assms(1) s]
  have "\<exists>strg\<in>set (bk_storages b). \<exists>x s3 ca v. is_storage_ref strg = n \<and>
       view w' n = Some x \<and> resolve_storage A n v = Inr s3 \<and>
       os_configuration (oj_spec x) = os_configuration (buildObjectStore s3 ca) \<and>
       storageRetentionPolicy strg = Inr (os_retention_policy (oj_spec x))"
    if n: "n \<in> is_storage_ref ` set (bk_storages b)" for n
  proof -
    from k n obtain strg s x v where e: "strg \<in> set (bk_storages b)" "is_storage_ref strg = n"
      "store_for A self strg v = Inr s" "view w' n = Some x" "applied s x" by blast
    moreover from e(5) assms(2) have "oj_spec x = s" by (simp add: stores_spec_def)
    ultimately show ?thesis using store_for_ok [OF e(3)] by blast
  qed
  with p k show ?thesis by blast
qed

text \<open>C28: after a successful sync every storage of the Instance has an ObjectStore, built from
  its resolved S3 storage and its own valid retention; the Cluster's plugin archives to the first
  storage; ObjectStores of other names are untouched.\<close>

theorem SyncBackupInfrastructure_stores:
  assumes "api_laws view applied (sa_stores A)" and "stores_spec applied"
    and "in_backup self = Some b" and "bk_enabled b" and "bk_storages b \<noteq> []"
    and "SyncBackupInfrastructure A self w = (Inr plugins, w')"
  shows "plugins = [\<lparr>pl_name = PluginName, pl_enabled = Some True, pl_is_wal_archiver = Some True,
       pl_parameters = [PluginParameterObjectStore \<mapsto> is_storage_ref (hd (bk_storages b))]\<rparr>] \<and>
    (\<forall>n\<in>is_storage_ref ` set (bk_storages b). \<exists>strg\<in>set (bk_storages b). \<exists>x s3 ca v. is_storage_ref strg = n \<and>
       view w' n = Some x \<and> resolve_storage A n v = Inr s3 \<and>
       os_configuration (oj_spec x) = os_configuration (buildObjectStore s3 ca) \<and>
       storageRetentionPolicy strg = Inr (os_retention_policy (oj_spec x))) \<and>
    (\<forall>n. n \<notin> is_storage_ref ` set (bk_storages b) \<longrightarrow> view w' n = view w n)"
  using assms by (rule infrastructure_stores)


section \<open>Two Instances that share a storage\<close>

definition sample_s3 :: s3_spec where
  "sample_s3 = \<lparr>s3_bucket = ''backups'', s3_region = [], s3_endpoint_url = ''http://minio:9000'', s3_credentials_secret = ''creds''\<rparr>"

definition sample_storage_api :: "cnpg_instance list \<Rightarrow> ((string \<times> object_store) list) storage_api" where
  "sample_storage_api instances = \<lparr>
     sa_storage = (\<lambda>n w. Inr \<lparr>bt_name = n, bt_s3 = Some sample_s3\<rparr>),
     sa_credentials = (\<lambda>bg w. Inr (''id'', ''key'')),
     sa_secret = (\<lambda>n w. Inl NotFound),
     sa_instances = (\<lambda>w. Inr instances),
     sa_stores = list_store (\<lambda>s. \<lparr>oj_name = [], oj_spec = s\<rparr>)\<rparr>"

definition daily_for :: "string \<Rightarrow> backup_spec" where
  "daily_for duration = \<lparr>bk_enabled = True, bk_class_ref = ''cnpg-barman-plugin'',
     bk_storages = [\<lparr>is_storage_ref = ''s3'', is_schedules =
       [daily\<lparr>bs_retention := Some \<lparr>re_type = ''time'', re_duration = duration\<rparr>\<rparr>]\<rparr>]\<rparr>"

definition sample_instance :: "string \<Rightarrow> string \<Rightarrow> cnpg_instance" where
  "sample_instance name duration = \<lparr>in_name = name, in_namespace = ''ns'', in_uid = name, in_deletion_timestamp = None,
     in_provider_ref = ''provider-cloudnative-pg'', in_version = [], in_components = Map.empty,
     in_backup = Some (daily_for duration), in_data_source = None, in_topology_parameters = None\<rparr>"

lemma thirty_days: "retentionDurationPattern ''30d''" "retentionDurationPattern ''7d''"
  by code_simp+

lemma daily_policy:
  "retentionDurationPattern duration \<Longrightarrow>
   storageRetentionPolicy (hd (bk_storages (daily_for duration))) = Inr duration"
  by (simp add: daily_for_def storageRetentionPolicy_def daily_def BackupScheduleRetentionTypeTime_def)

lemma sample_peer:
  assumes "retentionDurationPattern duration" "name \<noteq> other" "sample_instance other duration \<in> set instances"
  shows "peer_policy instances (sample_instance name d) ''s3'' duration"
proof -
  have "is_peer (sample_instance name d) (sample_instance other duration)"
    using assms(2) by (simp add: is_peer_def sample_instance_def daily_for_def)
  moreover have "in_backup (sample_instance other duration) = Some (daily_for duration)"
    "hd (bk_storages (daily_for duration)) \<in> set (bk_storages (daily_for duration))"
    "is_storage_ref (hd (bk_storages (daily_for duration))) = ''s3''"
    by (simp_all add: sample_instance_def daily_for_def)
  ultimately show ?thesis unfolding peer_policy_def using assms(1,3) daily_policy by blast
qed

lemma sample_stores_laws:
  "api_laws map_of (\<lambda>s x. x = \<lparr>oj_name = [], oj_spec = s\<rparr>) (sa_stores (sample_storage_api instances))"
  by (simp add: sample_storage_api_def list_store_laws)

definition stored_30d :: "(string \<times> object_store) list" where
  "stored_30d = [(''s3'', \<lparr>oj_name = [], oj_spec = (buildObjectStore sample_s3 None)\<lparr>os_retention_policy := ''30d''\<rparr>\<rparr>)]"

definition two_instances :: "cnpg_instance list" where
  "two_instances = [sample_instance ''pg'' ''7d'', sample_instance ''other'' ''30d'']"

lemma two_peers:
  "peer_policy two_instances (sample_instance ''pg'' ''7d'') ''s3'' ''30d''"
  "peer_policy two_instances (sample_instance ''other'' ''30d'') ''s3'' ''7d''"
  using sample_peer [OF thirty_days(1), of "''pg''" "''other''" two_instances "''7d''"]
    sample_peer [OF thirty_days(2), of "''other''" "''pg''" two_instances "''30d''"]
  by (simp_all add: two_instances_def)

theorem SyncBackupInfrastructure_keeps_retention_witness:
  "retention_of (map_of (snd (SyncBackupInfrastructure (sample_storage_api two_instances)
      (sample_instance ''pg'' ''7d'') stored_30d))) ''s3'' = Some ''30d''"
proof (rule SyncBackupInfrastructure_keeps_retention [OF sample_stores_laws _ _ two_peers(1)])
  show "SyncBackupInfrastructure (sample_storage_api two_instances) (sample_instance ''pg'' ''7d'') stored_30d =
      (fst (SyncBackupInfrastructure (sample_storage_api two_instances) (sample_instance ''pg'' ''7d'') stored_30d),
       snd (SyncBackupInfrastructure (sample_storage_api two_instances) (sample_instance ''pg'' ''7d'') stored_30d))"
    by simp
qed (simp_all add: stores_spec_def sample_storage_api_def stored_30d_def retention_of_def)

lemma resolve_sample: "resolve_storage (sample_storage_api instances) n w = Inr sample_s3"
  by (simp add: resolve_storage_def sample_storage_api_def)

lemma endpoint_sample: "endpointCARef (sample_storage_api instances) n (s3_endpoint_url sample_s3) w = Inr None"
proof -
  have "\<not> has_prefix (map ascii_lower (s3_endpoint_url sample_s3)) ''https://''" by code_simp
  then show ?thesis by (simp add: endpointCARef_def)
qed

lemma store_for_sample:
  "retentionDurationPattern d \<Longrightarrow>
   store_for (sample_storage_api instances) self (hd (bk_storages (daily_for d))) w =
     (case checkSharedRetention (sample_storage_api instances) self ''s3'' d w of
        Some e \<Rightarrow> Inl e | None \<Rightarrow> Inr ((buildObjectStore sample_s3 None)\<lparr>os_retention_policy := d\<rparr>))"
  by (simp add: store_for_def resolve_sample endpoint_sample daily_policy Let_def)
    (simp add: daily_for_def)

lemma sync_sample:
  "retentionDurationPattern d \<Longrightarrow>
   checkSharedRetention (sample_storage_api instances) (sample_instance n d) ''s3'' d w = r \<Longrightarrow>
   SyncBackupInfrastructure (sample_storage_api instances) (sample_instance n d) w =
     (case r of Some e \<Rightarrow> (Inl e, w)
      | None \<Rightarrow> (Inr [\<lparr>pl_name = PluginName, pl_enabled = Some True, pl_is_wal_archiver = Some True,
                       pl_parameters = [PluginParameterObjectStore \<mapsto> ''s3'']\<rparr>],
            (''s3'', \<lparr>oj_name = [], oj_spec = (buildObjectStore sample_s3 None)\<lparr>os_retention_policy := d\<rparr>\<rparr>) # w))"
  using store_for_sample [of d instances "sample_instance n d" w]
  by (auto simp: SyncBackupInfrastructure_def sample_instance_def daily_for_def sample_storage_api_def list_store_def
      split: option.splits)

theorem SyncBackupInfrastructure_stores_witness:
  "\<exists>x. map_of (snd (SyncBackupInfrastructure (sample_storage_api [sample_instance ''pg'' ''7d''])
      (sample_instance ''pg'' ''7d'') [])) ''s3'' = Some x \<and> os_retention_policy (oj_spec x) = ''7d''"
proof -
  have "checkSharedRetention (sample_storage_api [sample_instance ''pg'' ''7d'']) (sample_instance ''pg'' ''7d'') ''s3'' ''7d'' [] = None"
    by (simp add: checkSharedRetention_def sample_storage_api_def is_peer_def)
  note s = sync_sample [OF thirty_days(2) this]
  show ?thesis
    using SyncBackupInfrastructure_stores [OF sample_stores_laws _ _ _ _ s [simplified]] s daily_policy [OF thirty_days(2)]
    by (simp add: stores_spec_def sample_instance_def daily_for_def) 
qed

text \<open>when two new Instances disagree about a storage that has no ObjectStore yet, both are
  refused: neither gets its backups until one of them changes its retention.\<close>

theorem first_retention_conflict_refuses_both:
  "\<exists>e1 e2. SyncBackupInfrastructure (sample_storage_api two_instances) (sample_instance ''pg'' ''7d'') [] = (Inl e1, []) \<and>
     SyncBackupInfrastructure (sample_storage_api two_instances) (sample_instance ''other'' ''30d'') [] = (Inl e2, [])"
proof -
  let ?A = "sample_storage_api two_instances"
  have none: "ap_get (sa_stores ?A) n [] = Inl NotFound" for n
    by (simp add: sample_storage_api_def list_store_def)
  have inst: "sa_instances ?A w = Inr two_instances" for w
    by (simp add: sample_storage_api_def)
  have refused: "checkSharedRetention ?A self ''s3'' r [] \<noteq> None"
    if "peer_policy two_instances self ''s3'' p" "p \<noteq> r" for self r p
    unfolding checkSharedRetention_None inst none using that by auto
  show ?thesis
    using sync_sample [OF thirty_days(2) refl, of two_instances "''pg''" "[]"]
      sync_sample [OF thirty_days(1) refl, of two_instances "''other''" "[]"]
      refused [OF two_peers(1), of "''7d''"] refused [OF two_peers(2), of "''30d''"]
    by (auto split: option.splits)
qed

end
