(* ===== verification/Backups.thy ===== *)
theory Backups
  imports Object_Stores
begin

text \<open>
  Running a backup and following a restore (\<open>internal/provider/backup.go\<close>: SyncBackup,
  backupStorageBlocker, instanceHasBackupStorage, SyncRestore, CleanupRestore).
\<close>

section \<open>SyncBackup\<close>

record execution_status =
  be_state :: backup_state
  be_message :: msg
  be_operator_backup_ref :: "(string \<times> string \<times> string) option"
  be_started_at :: "int option"
  be_completed_at :: "int option"

definition execution :: "backup_state \<Rightarrow> msg \<Rightarrow> execution_status" where
  "execution state message = \<lparr>be_state = state, be_message = message, be_operator_backup_ref = None,
     be_started_at = None, be_completed_at = None\<rparr>"

definition instanceHasBackupStorage :: "cnpg_instance \<Rightarrow> string \<Rightarrow> bool" where
  "instanceHasBackupStorage inst storageName =
     (case in_backup inst of
        None \<Rightarrow> False
      | Some b \<Rightarrow> bk_enabled b \<and> list_ex (\<lambda>storage. is_storage_ref storage = storageName) (bk_storages b))"

definition backupStorageBlocker ::
  "(plugin_configuration \<Rightarrow> bool) \<Rightarrow> cnpg_instance \<Rightarrow> cluster \<Rightarrow> string \<Rightarrow> execution_status option" where
  "backupStorageBlocker is_enabled inst pg storageName =
     (if \<not> instanceHasBackupStorage inst storageName
      then Some (execution BackupStateFailed
             (Fmt ''storage %q is not configured in spec.backup.storages of Instance %q'' [S storageName, S (in_name inst)]))
      else if ArchiveObjectStoreName is_enabled pg \<noteq> storageName
      then Some (execution BackupStatePending
             (Fmt ''waiting for CloudNativePG cluster to archive to storage %q'' [S storageName]))
      else None)"

text \<open>
  The API: reads of the Cluster and the existence of the operator's Backup, and
  \<open>controllerutil.CreateOrUpdate\<close>, which takes the object by name and the mutation to apply to
  what it reads, and returns the object as stored. \<open>sb_set_controller\<close> is SetControllerReference.
\<close>

record 'w sync_backup_api =
  sb_cluster :: "string \<Rightarrow> 'w \<Rightarrow> api_err + cluster"
  sb_exists :: "string \<Rightarrow> 'w \<Rightarrow> api_err + bool"
  sb_create_or_update :: "cnpg_backup \<Rightarrow> (cnpg_backup \<Rightarrow> err + cnpg_backup) \<Rightarrow> 'w \<Rightarrow> (err + cnpg_backup) \<times> 'w"
  sb_set_controller :: "oe_backup \<Rightarrow> cnpg_backup \<Rightarrow> err + cnpg_backup"
  sb_is_enabled :: "plugin_configuration \<Rightarrow> bool"
  sb_unmarshal :: "opaque \<Rightarrow> err + backup_config"

definition DecodeBackupConfig :: "(opaque \<Rightarrow> err + backup_config) \<Rightarrow> oe_backup \<Rightarrow> backup_config result" where
  "DecodeBackupConfig unmarshal backup = decodeBackupParameters unmarshal (ob_parameters backup)"

text \<open>The function passed to CreateOrUpdate: the spec is only populated on creation.\<close>

definition populate_backup ::
  "(oe_backup \<Rightarrow> cnpg_backup \<Rightarrow> err + cnpg_backup) \<Rightarrow> string \<Rightarrow> oe_backup \<Rightarrow> backup_config \<Rightarrow>
   cnpg_backup \<Rightarrow> err + cnpg_backup" where
  "populate_backup set_controller instanceName backup cfg nb =
     set_controller backup
       (if nb_creation_timestamp nb = None
        then nb\<lparr>nb_cluster := instanceName, nb_method := BackupMethodPlugin,
                nb_plugin := Some (PluginConfiguration (ob_storage_ref backup)), nb_target := bc_target cfg\<rparr>
        else nb)"

text \<open>The group name \<open>cnpgv1.SchemeGroupVersion.Group\<close> (\<open>internal/provider/rbac.go\<close>).\<close>

definition cnpg_group :: string where
  "cnpg_group = ''postgresql.cnpg.io''"

text \<open>The status reported for a stored Backup.\<close>

definition backup_execution :: "cnpg_backup \<Rightarrow> execution_status" where
  "backup_execution nb =
     (let exec = (execution BackupStatePending (Raw []))
            \<lparr>be_operator_backup_ref := Some (cnpg_group, KindBackup, nb_name nb)\<rparr>
      in case nb_phase nb of
           BackupPhaseCompleted \<Rightarrow> exec\<lparr>be_state := BackupStateSucceeded,
             be_completed_at := nb_stopped_at nb, be_started_at := nb_started_at nb\<rparr>
         | BackupPhaseRunning \<Rightarrow> exec\<lparr>be_state := BackupStateRunning\<rparr>
         | BackupPhaseStarted \<Rightarrow> exec\<lparr>be_state := BackupStatePending\<rparr>
         | BackupPhasePending \<Rightarrow> exec\<lparr>be_state := BackupStatePending\<rparr>
         | BackupPhaseFailed \<Rightarrow> exec\<lparr>be_state := BackupStateFailed, be_message := Raw (nb_error nb)\<rparr>
         | BackupPhaseWalArchivingFailing \<Rightarrow> exec\<lparr>be_state := BackupStateFailed, be_message := Raw (nb_error nb)\<rparr>
         | _ \<Rightarrow> exec\<lparr>be_state := BackupStatePending\<rparr>)"

definition SyncBackup :: "'w sync_backup_api \<Rightarrow> cnpg_instance \<Rightarrow> oe_backup \<Rightarrow> ('w, execution_status) eff" where
  "SyncBackup A inst backup w =
     (case sb_cluster A (in_name inst) w of
        Inl NotFound \<Rightarrow> (Inr (execution BackupStatePending (Raw ''Waiting for CloudnativePG cluster to exist'')), w)
      | Inl e \<Rightarrow> (Inl (Wrap ''get CloudnativePG: %w'' [] (Api e)), w)
      | Inr pg \<Rightarrow>
          (case sb_exists A (ob_name backup) w of
             Inl e \<Rightarrow> (Inl (Wrap ''get CloudNativePG backup: %w'' [] (Api e)), w)
           | Inr exists \<Rightarrow>
               if \<not> exists \<and> ob_operator_backup_ref backup \<noteq> None
               then (Inr (execution BackupStateFailed
                      (Raw ''CloudNativePG backup is no longer available; it may have expired under Barman retention'')), w)
               else
                 case (if exists then None
                       else backupStorageBlocker (sb_is_enabled A) inst pg (ob_storage_ref backup)) of
                   Some blocked \<Rightarrow> (Inr blocked, w)
                 | None \<Rightarrow>
                     (case DecodeBackupConfig (sb_unmarshal A) backup of
                        Inl e \<Rightarrow> (Inl e, w)
                      | Inr backupCfg \<Rightarrow>
                          (case sb_create_or_update A (new_cnpg_backup (ob_name backup) (ob_namespace backup))
                                  (populate_backup (sb_set_controller A) (in_name inst) backup backupCfg) w of
                             (Inl e, w') \<Rightarrow> (Inl e, w')
                           | (Inr nb, w') \<Rightarrow> (Inr (backup_execution nb), w')))))"

section \<open>SyncRestore\<close>

datatype restore_state = RestoreStatePending | RestoreStateRunning | RestoreStateSucceeded | RestoreStateFailed

record restore_status =
  rs_state :: restore_state
  rs_message :: msg
  rs_operator_restore_ref :: "(string \<times> string \<times> string) option"
  rs_started_at :: "opaque option"
  rs_completed_at :: "opaque option"

text \<open>The text of a phase in a message.\<close>

fun cluster_phase_arg :: "cluster_phase \<Rightarrow> fmt_arg" where
  "cluster_phase_arg PhaseUnrecoverable = K ''PhaseUnrecoverable''"
| "cluster_phase_arg PhaseFailurePlugin = K ''PhaseFailurePlugin''"
| "cluster_phase_arg PhaseUnknownPlugin = K ''PhaseUnknownPlugin''"
| "cluster_phase_arg PhaseCannotCreateClusterObjects = K ''PhaseCannotCreateClusterObjects''"
| "cluster_phase_arg PhaseImageCatalogError = K ''PhaseImageCatalogError''"
| "cluster_phase_arg PhaseArchitectureBinaryMissing = K ''PhaseArchitectureBinaryMissing''"
| "cluster_phase_arg PhaseDefinitionInvalid = K ''PhaseDefinitionInvalid''"
| "cluster_phase_arg (OtherPhase s) = S s"

text \<open>\<open>message := phase\<close>, then \<open>message += ": " + reason\<close> if there is one.\<close>

definition phase_message :: "cluster_phase \<Rightarrow> string \<Rightarrow> msg" where
  "phase_message phase reason =
     (if reason \<noteq> [] then Fmt ''%s: %s'' [cluster_phase_arg phase, S reason]
      else Fmt ''%s'' [cluster_phase_arg phase])"

definition restore_failing_phases :: "cluster_phase list" where
  "restore_failing_phases =
     [PhaseUnrecoverable, PhaseFailurePlugin, PhaseCannotCreateClusterObjects, PhaseImageCatalogError]"

text \<open>\<open>find_condition\<close> is \<open>meta.FindStatusCondition\<close>; \<open>got\<close> is the read of the Cluster.\<close>

definition SyncRestore ::
  "(condition list \<Rightarrow> condition_type \<Rightarrow> condition option) \<Rightarrow> (api_err + cluster) \<Rightarrow> restore_status result" where
  "SyncRestore find_condition got =
     (case got of
        Inl NotFound \<Rightarrow> Inr \<lparr>rs_state = RestoreStatePending,
          rs_message = Raw ''Waiting for recovery Cluster to be created'', rs_operator_restore_ref = None,
          rs_started_at = None, rs_completed_at = None\<rparr>
      | Inl e \<Rightarrow> Inl (Api e)
      | Inr pg \<Rightarrow>
          let st = cl_status pg;
              exec = \<lparr>rs_state = RestoreStateRunning, rs_message = Raw (st_phase_reason st),
                rs_operator_restore_ref = Some (cnpg_group, ''Cluster'', cl_name pg),
                rs_started_at = Some (cl_creation_timestamp pg), rs_completed_at = None\<rparr>;
              failing = (if st_phase st \<in> set restore_failing_phases
                then exec\<lparr>rs_state := RestoreStateFailed, rs_message := phase_message (st_phase st) (st_phase_reason st)\<rparr>
                else exec)
          in case find_condition (st_conditions st) ConditionClusterReady of
               Some ready \<Rightarrow>
                 if cn_status ready = ConditionTrue \<and> st_current_primary st \<noteq> [] \<and>
                    st_ready_instances st = st_instances st
                 then Inr (exec\<lparr>rs_state := RestoreStateSucceeded, rs_completed_at := Some (cn_last_transition ready),
                        rs_message := Raw ''CloudNativePG recovery completed''\<rparr>)
                 else Inr failing
             | None \<Rightarrow> Inr failing)"

definition CleanupRestore :: "bool result" where
  "CleanupRestore = Inr True"


section \<open>What a sync of a backup does\<close>

text \<open>C30: SyncBackup changes the cluster only through a storage the Instance backs up to: it
  starts a new operator Backup only when the storage is configured, the Cluster already archives
  there, and no operator Backup was seen before (an expired one is never started again).\<close>

theorem SyncBackup_starts_only_archived:
  assumes "SyncBackup A inst backup w = (r, w')" and "w' \<noteq> w"
    and "sb_exists A (ob_name backup) w = Inr False"
  shows "\<exists>pg. sb_cluster A (in_name inst) w = Inr pg \<and> instanceHasBackupStorage inst (ob_storage_ref backup) \<and>
    ArchiveObjectStoreName (sb_is_enabled A) pg = ob_storage_ref backup \<and> ob_operator_backup_ref backup = None"
proof -
  obtain pg where pg: "sb_cluster A (in_name inst) w = Inr pg"
    using assms(1,2) by (auto simp: SyncBackup_def split: sum.splits api_err.splits)
  have "ob_operator_backup_ref backup = None"
    using assms pg by (auto simp: SyncBackup_def split: if_splits)
  moreover have "backupStorageBlocker (sb_is_enabled A) inst pg (ob_storage_ref backup) = None"
    using assms pg by (auto simp: SyncBackup_def split: option.splits if_splits)
  ultimately show ?thesis using pg
    by (auto simp: backupStorageBlocker_def split: if_splits)
qed

text \<open>CreateOrUpdate, called with some decoded configuration, returned \<open>nb\<close> as stored.\<close>

definition stored_backup :: "'w sync_backup_api \<Rightarrow> cnpg_instance \<Rightarrow> oe_backup \<Rightarrow> 'w \<Rightarrow> cnpg_backup \<Rightarrow> 'w \<Rightarrow> bool" where
  "stored_backup A inst backup w nb w' \<longleftrightarrow>
     (\<exists>cfg. sb_create_or_update A (new_cnpg_backup (ob_name backup) (ob_namespace backup))
        (populate_backup (sb_set_controller A) (in_name inst) backup cfg) w = (Inr nb, w'))"

text \<open>C31: a backup is reported as succeeded only when the stored operator Backup of that name is
  completed, and then with its times; as failed only when it failed, expired, or names a storage
  the Instance does not have.\<close>

theorem SyncBackup_reports:
  assumes "SyncBackup A inst backup w = (Inr status, w')"
  shows "(be_state status = BackupStateSucceeded \<longrightarrow>
      (\<exists>nb. stored_backup A inst backup w nb w' \<and> nb_phase nb = BackupPhaseCompleted \<and>
        be_started_at status = nb_started_at nb \<and> be_completed_at status = nb_stopped_at nb)) \<and>
    (be_state status = BackupStateFailed \<longrightarrow>
      (\<exists>nb. stored_backup A inst backup w nb w' \<and> nb_phase nb \<in> {BackupPhaseFailed, BackupPhaseWalArchivingFailing} \<and>
        be_message status = Raw (nb_error nb)) \<or>
      sb_exists A (ob_name backup) w = Inr False \<and>
        (ob_operator_backup_ref backup \<noteq> None \<or> \<not> instanceHasBackupStorage inst (ob_storage_ref backup)))"
proof -
  consider (early) "be_state status = BackupStatePending"
    | (expired) "ob_operator_backup_ref backup \<noteq> None" "be_state status = BackupStateFailed"
        "sb_exists A (ob_name backup) w = Inr False"
    | (blocked) pg where "backupStorageBlocker (sb_is_enabled A) inst pg (ob_storage_ref backup) = Some status"
        "sb_exists A (ob_name backup) w = Inr False"
    | (stored) nb where "stored_backup A inst backup w nb w'" "status = backup_execution nb"
    using assms
    by (auto simp: SyncBackup_def execution_def stored_backup_def
        split: sum.splits api_err.splits option.splits if_splits prod.splits)
  then show ?thesis
  proof cases
    case stored
    then show ?thesis
      by (cases "nb_phase nb") (auto simp: backup_execution_def execution_def Let_def)
  next
    case blocked
    then show ?thesis by (auto simp: backupStorageBlocker_def execution_def split: if_splits)
  qed auto
qed

text \<open>The fields of a Backup's spec.\<close>

definition backup_spec_of :: "cnpg_backup \<Rightarrow> string \<times> string \<times> backup_plugin_configuration option \<times> string" where
  "backup_spec_of nb = (nb_cluster nb, nb_method nb, nb_plugin nb, nb_target nb)"

text \<open>SetControllerReference only changes metadata.\<close>

definition keeps_spec :: "(oe_backup \<Rightarrow> cnpg_backup \<Rightarrow> err + cnpg_backup) \<Rightarrow> bool" where
  "keeps_spec set_controller \<longleftrightarrow>
     (\<forall>b nb nb'. set_controller b nb = Inr nb' \<longrightarrow> backup_spec_of nb' = backup_spec_of nb)"

text \<open>The spec of an operator Backup is written once: on creation it names the Instance's
  Cluster, the Barman plugin, the Backup's storage and target; a stored Backup keeps its spec.\<close>

theorem populate_backup_spec:
  assumes "keeps_spec set_controller"
    and "populate_backup set_controller instanceName backup cfg nb = Inr nb'"
  shows "backup_spec_of nb' = (if nb_creation_timestamp nb = None
    then (instanceName, BackupMethodPlugin, Some (PluginConfiguration (ob_storage_ref backup)), bc_target cfg)
    else backup_spec_of nb)"
proof -
  let ?m = "if nb_creation_timestamp nb = None
    then nb\<lparr>nb_cluster := instanceName, nb_method := BackupMethodPlugin,
            nb_plugin := Some (PluginConfiguration (ob_storage_ref backup)), nb_target := bc_target cfg\<rparr> else nb"
  have "backup_spec_of nb' = backup_spec_of ?m"
    using assms unfolding keeps_spec_def populate_backup_def by blast
  then show ?thesis by (simp add: backup_spec_of_def)
qed

section \<open>Restores\<close>

definition cluster_recovered :: "(condition list \<Rightarrow> condition_type \<Rightarrow> condition option) \<Rightarrow> cluster_status \<Rightarrow> bool" where
  "cluster_recovered find_condition st \<longleftrightarrow>
     (\<exists>ready. find_condition (st_conditions st) ConditionClusterReady = Some ready \<and> cn_status ready = ConditionTrue) \<and>
     st_current_primary st \<noteq> [] \<and> st_ready_instances st = st_instances st"


section \<open>Samples\<close>

definition archiving_cluster :: "string \<Rightarrow> cluster" where
  "archiving_cluster store = \<lparr>cl_name = ''pg'', cl_creation_timestamp = [],
     cl_spec = zero_cluster_spec\<lparr>cs_plugins := [\<lparr>pl_name = PluginName, pl_enabled = Some True,
       pl_is_wal_archiver = Some True, pl_parameters = [PluginParameterObjectStore \<mapsto> store]\<rparr>]\<rparr>,
     cl_status = zero_cluster_status\<rparr>"

text \<open>A server holding at most the one Backup, whose operator has completed it once it is stored.\<close>

definition sample_sync_api :: "cnpg_backup option sync_backup_api" where
  "sample_sync_api = \<lparr>
     sb_cluster = (\<lambda>n w. Inr (archiving_cluster ''s3'')),
     sb_exists = (\<lambda>n w. Inr (w \<noteq> None)),
     sb_create_or_update = (\<lambda>new mutate w.
        case mutate (case w of None \<Rightarrow> new | Some nb \<Rightarrow> nb) of
          Inl e \<Rightarrow> (Inl e, w) | Inr nb \<Rightarrow> (Inr nb, Some (nb\<lparr>nb_creation_timestamp := Some 1\<rparr>))),
     sb_set_controller = (\<lambda>b nb. Inr nb),
     sb_is_enabled = (\<lambda>p. pl_enabled p = Some True),
     sb_unmarshal = (\<lambda>_. Inr zero_backup_config)\<rparr>"

definition new_backup :: oe_backup where
  "new_backup = sample_oe_backup\<lparr>ob_state := OtherBackupState []\<rparr>"

definition started_backup :: cnpg_backup where
  "started_backup = (new_cnpg_backup ''nightly'' ''ns'')\<lparr>nb_cluster := ''pg'', nb_method := BackupMethodPlugin,
     nb_plugin := Some (PluginConfiguration ''s3'')\<rparr>"

definition pg_instance :: cnpg_instance where
  "pg_instance = sample_instance ''pg'' ''7d''"

lemma pg_instance_name: "in_name pg_instance = ''pg''"
  by (simp add: pg_instance_def sample_instance_def)

lemma sample_has_storage: "instanceHasBackupStorage pg_instance ''s3''"
  by (simp add: instanceHasBackupStorage_def pg_instance_def sample_instance_def daily_for_def)

lemma sample_archives: "ArchiveObjectStoreName (sb_is_enabled sample_sync_api) (archiving_cluster ''s3'') = ''s3''"
  by (simp add: ArchiveObjectStoreName_def archiving_cluster_def sample_sync_api_def)

lemma sample_backup_starts:
  "SyncBackup sample_sync_api pg_instance new_backup None =
     (Inr (backup_execution started_backup), Some (started_backup\<lparr>nb_creation_timestamp := Some 1\<rparr>))"
proof -
  have "backupStorageBlocker (sb_is_enabled sample_sync_api) pg_instance (archiving_cluster ''s3'') ''s3'' = None"
    by (simp add: backupStorageBlocker_def sample_has_storage sample_archives)
  then show ?thesis
    by (simp add: SyncBackup_def sample_sync_api_def new_backup_def sample_oe_backup_def DecodeBackupConfig_def
        decodeBackupParameters_def populate_backup_def new_cnpg_backup_def started_backup_def zero_backup_config_def pg_instance_name)
qed

theorem SyncBackup_starts_only_archived_witness:
  "\<exists>pg. sb_cluster sample_sync_api ''pg'' None = Inr pg \<and> ArchiveObjectStoreName (sb_is_enabled sample_sync_api) pg = ''s3''"
  using SyncBackup_starts_only_archived [OF sample_backup_starts]
  by (auto simp: sample_sync_api_def new_backup_def sample_oe_backup_def pg_instance_def sample_instance_def)

definition finished_backup :: cnpg_backup where
  "finished_backup = started_backup\<lparr>nb_creation_timestamp := Some 1, nb_phase := BackupPhaseCompleted,
     nb_backup_id := ''20260101T000000'', nb_started_at := Some 2, nb_stopped_at := Some 3\<rparr>"

lemma sample_finish:
  "SyncBackup sample_sync_api pg_instance new_backup (Some finished_backup) =
     (Inr (backup_execution finished_backup), Some finished_backup)"
  by (simp add: SyncBackup_def sample_sync_api_def new_backup_def sample_oe_backup_def DecodeBackupConfig_def
      decodeBackupParameters_def populate_backup_def finished_backup_def)

theorem SyncBackup_reports_witness:
  "\<exists>nb. stored_backup sample_sync_api pg_instance new_backup (Some finished_backup) nb (Some finished_backup) \<and>
     nb_phase nb = BackupPhaseCompleted"
  using SyncBackup_reports [OF sample_finish]
  by (auto simp: backup_execution_def finished_backup_def execution_def)

theorem populate_backup_spec_witness:
  "backup_spec_of finished_backup = (''pg'', BackupMethodPlugin, Some (PluginConfiguration ''s3''), [])"
  using populate_backup_spec [of "sb_set_controller sample_sync_api" "''pg''" new_backup zero_backup_config
      "new_cnpg_backup ''nightly'' ''ns''" started_backup]
  by (simp add: keeps_spec_def sample_sync_api_def populate_backup_def new_cnpg_backup_def started_backup_def
      finished_backup_def new_backup_def sample_oe_backup_def zero_backup_config_def backup_spec_of_def)

end
