(* ===== verification/Backup_Cleanup.thy ===== *)
theory Backup_Cleanup
  imports Backups
begin

text \<open>
  Deleting a backup (\<open>internal/provider/backup_delete.go\<close> and CleanupBackup of
  \<open>internal/provider/backup.go\<close>): a Job deletes the Barman data, then the operator's Backup is
  deleted, unless the policy is Retain.
\<close>

section \<open>Jobs\<close>

definition backupCAPath :: string where
  "backupCAPath = ''/etc/barman-cloud/backup-ca.crt''"

definition backupDeletionLabel :: string where
  "backupDeletionLabel = ''backup.openeverest.io/data-deletion''"

definition backupDeletionScheduleKey :: string where
  "backupDeletionScheduleKey = ''backup.openeverest.io/schedule-name''"

datatype job_condition_type = JobComplete | JobFailed | OtherJobCondition string

record job =
  jb_name :: string
  jb_conditions :: "(job_condition_type \<times> condition_status) list"
  jb_controller :: opaque

definition jobComplete :: "job \<Rightarrow> bool" where
  "jobComplete job \<longleftrightarrow> list_ex (\<lambda>c. fst c = JobComplete \<and> snd c = ConditionTrue) (jb_conditions job)"

definition jobFailed :: "job \<Rightarrow> bool" where
  "jobFailed job \<longleftrightarrow> list_ex (\<lambda>c. fst c = JobFailed \<and> snd c = ConditionTrue) (jb_conditions job)"

definition deletionJobDone :: "job \<Rightarrow> bool result" where
  "deletionJobDone job =
     (if jobFailed job
      then Inl (Errorf ''backup data deletion Job %q failed; inspect its logs, then delete the Job to retry'' [S (jb_name job)])
      else Inr (jobComplete job))"

section \<open>The deletion Job\<close>

record env_var =
  ev_name :: string
  ev_value :: string
  ev_secret :: "secret_key_selector option"

record volume =
  vo_name :: string
  vo_secret_name :: string
  vo_items :: "(string \<times> string) list"

record volume_mount =
  vm_name :: string
  vm_path :: string
  vm_sub_path :: string
  vm_read_only :: bool

record job_spec =
  js_name :: string
  js_namespace :: string
  js_labels :: "string gomap"
  js_owner :: opaque
  js_backoff_limit :: int
  js_restart_policy :: string
  js_automount_token :: bool
  js_run_as_non_root :: bool
  js_seccomp :: string
  js_volumes :: "volume list"
  js_container :: string
  js_image :: string
  js_command :: "string list"
  js_args :: "string list"
  js_env :: "env_var list"
  js_mounts :: "volume_mount list"
  js_allow_escalation :: bool
  js_drop_capabilities :: "string list"
  js_requests :: "string gomap"
  js_limits :: "string gomap"

definition secretEnv :: "string \<Rightarrow> secret_key_selector \<Rightarrow> env_var" where
  "secretEnv name ref = \<lparr>ev_name = name, ev_value = [], ev_secret = Some ref\<rparr>"

definition valueEnv :: "string \<Rightarrow> string \<Rightarrow> env_var" where
  "valueEnv name v = \<lparr>ev_name = name, ev_value = v, ev_secret = None\<rparr>"

text \<open>\<open>x := a; if x == "" { x = b }\<close>.\<close>

definition default_to :: "string \<Rightarrow> string \<Rightarrow> string" where
  "default_to a b = (if a = [] then b else a)"

definition region_env :: "s3_credentials \<Rightarrow> s3_spec \<Rightarrow> env_var list" where
  "region_env aws s3 =
     (case aw_region aws of
        Some ref \<Rightarrow> [secretEnv ''AWS_REGION'' ref, secretEnv ''AWS_DEFAULT_REGION'' ref]
      | None \<Rightarrow> if s3_region s3 \<noteq> []
                then [valueEnv ''AWS_REGION'' (s3_region s3), valueEnv ''AWS_DEFAULT_REGION'' (s3_region s3)]
                else [])"

definition ca_volume :: "secret_key_selector \<Rightarrow> volume" where
  "ca_volume ca = \<lparr>vo_name = ''endpoint-ca'', vo_secret_name = sk_name ca, vo_items = [(sk_key ca, ''backup-ca.crt'')]\<rparr>"

definition ca_mount :: volume_mount where
  "ca_mount = \<lparr>vm_name = ''endpoint-ca'', vm_path = backupCAPath, vm_sub_path = ''backup-ca.crt'', vm_read_only = True\<rparr>"

text \<open>\<open>cloud_options\<close> is \<open>AppendCloudProviderOptionsFromConfiguration\<close> of barman-cloud.\<close>

definition buildBackupDeletionJob ::
  "(string list \<Rightarrow> barman_configuration \<Rightarrow> err + string list) \<Rightarrow> oe_backup \<Rightarrow> cnpg_backup \<Rightarrow>
   object_store \<Rightarrow> s3_spec option \<Rightarrow> job_spec result" where
  "buildBackupDeletionJob cloud_options backup nb objectStore s3 =
     (case s3 of
        None \<Rightarrow> Inl (Errorf ''BackupStorage %q is not S3; cannot delete Barman backup data'' [S (ob_storage_ref backup)])
      | Some s3 \<Rightarrow>
          let config = os_configuration (oj_spec objectStore);
              incomplete = Inl (Errorf ''ObjectStore %q has incomplete S3 credentials; cannot delete Barman backup data''
                             [S (oj_name objectStore)])
          in case bm_aws config of
               None \<Rightarrow> incomplete
             | Some aws \<Rightarrow>
                 (case (aw_access_key_id aws, aw_secret_access_key aws) of
                    (Some accessKey, Some secretKey) \<Rightarrow>
                      if nb_backup_id nb = []
                      then Inl (Errorf ''CloudNativePG backup %q has no Barman backup ID'' [S (nb_name nb)])
                      else
                        let destination = default_to (nb_destination_path nb) (bm_destination_path config);
                            serverName = default_to (nb_server_name nb) (nb_cluster nb)
                        in if destination = [] \<or> serverName = []
                           then Inl (Errorf ''CloudNativePG backup %q is missing its Barman destination or server name'' [S (nb_name nb)])
                           else
                             let endpointURL = default_to (nb_endpoint_url nb) (bm_endpoint_url config);
                                 args = (if endpointURL \<noteq> [] then [''--endpoint-url'', endpointURL] else [])
                             in case cloud_options args config of
                                  Inl e \<Rightarrow> Inl (Wrap ''build Barman delete options for ObjectStore %q: %w'' [S (oj_name objectStore)] e)
                                | Inr args \<Rightarrow>
                                    Inr \<lparr>js_name = backupDeletionJobName (ob_name backup),
                                      js_namespace = ob_namespace backup,
                                      js_labels = (if ob_schedule_name backup \<noteq> []
                                        then [backupDeletionLabel \<mapsto> ''true'', backupDeletionScheduleKey \<mapsto> ob_schedule_name backup]
                                        else [backupDeletionLabel \<mapsto> ''true'']),
                                      js_owner = [], js_backoff_limit = 0, js_restart_policy = ''Never'',
                                      js_automount_token = False, js_run_as_non_root = True, js_seccomp = ''RuntimeDefault'',
                                      js_volumes = (case bm_endpoint_ca config of None \<Rightarrow> [] | Some ca \<Rightarrow> [ca_volume ca]),
                                      js_container = ''delete-backup-data'', js_image = BackupDeletionImage,
                                      js_command = [''barman-cloud-backup-delete''],
                                      js_args = args @ [''--backup-id'', nb_backup_id nb, destination, serverName],
                                      js_env = [secretEnv ''AWS_ACCESS_KEY_ID'' accessKey, secretEnv ''AWS_SECRET_ACCESS_KEY'' secretKey]
                                        @ region_env aws s3
                                        @ (case bm_endpoint_ca config of None \<Rightarrow> [] | Some ca \<Rightarrow> [valueEnv ''AWS_CA_BUNDLE'' backupCAPath]),
                                      js_mounts = (case bm_endpoint_ca config of None \<Rightarrow> [] | Some ca \<Rightarrow> [ca_mount]),
                                      js_allow_escalation = False, js_drop_capabilities = [''ALL''],
                                      js_requests = [''cpu'' \<mapsto> ''50m'', ''memory'' \<mapsto> ''64Mi''],
                                      js_limits = [''cpu'' \<mapsto> ''500m'', ''memory'' \<mapsto> ''256Mi'']\<rparr>
                  | _ \<Rightarrow> incomplete))"

section \<open>deleteBackupData and CleanupBackup\<close>

record 'w cleanup_api =
  ca_backup :: "string \<Rightarrow> 'w \<Rightarrow> api_err + cnpg_backup"
  ca_delete_backup :: "string \<Rightarrow> 'w \<Rightarrow> api_err option \<times> 'w"
  ca_job :: "string \<Rightarrow> 'w \<Rightarrow> api_err + job"
  ca_create_job :: "job_spec \<Rightarrow> 'w \<Rightarrow> api_err option \<times> 'w"
  ca_object_store :: "string \<Rightarrow> 'w \<Rightarrow> api_err + object_store"
  ca_storage :: "string \<Rightarrow> 'w \<Rightarrow> api_err + backup_storage"
  ca_set_controller :: "oe_backup \<Rightarrow> job_spec \<Rightarrow> err + job_spec"
  ca_controlled :: "job \<Rightarrow> oe_backup \<Rightarrow> bool"
  ca_cloud_options :: "string list \<Rightarrow> barman_configuration \<Rightarrow> err + string list"

text \<open>The creation of the Job, once its read found none.\<close>

definition create_deletion_job ::
  "'w cleanup_api \<Rightarrow> oe_backup \<Rightarrow> cnpg_backup \<Rightarrow> object_store \<Rightarrow> s3_spec \<Rightarrow> ('w, bool) eff" where
  "create_deletion_job A backup nb objectStore s3 w =
     (case buildBackupDeletionJob (ca_cloud_options A) backup nb objectStore (Some s3) of
        Inl e \<Rightarrow> (Inl e, w)
      | Inr job \<Rightarrow>
          (case ca_set_controller A backup job of
             Inl e \<Rightarrow> (Inl (Wrap ''set owner for backup data deletion Job: %w'' [] e), w)
           | Inr job \<Rightarrow>
               (case ca_create_job A job w of
                  (None, w') \<Rightarrow> (Inr False, w')
                | (Some AlreadyExists, w') \<Rightarrow> (Inr False, w')
                | (Some e, w') \<Rightarrow>
                    (Inl (Wrap ''create backup data deletion Job %q: %w'' [S (backupDeletionJobName (ob_name backup))] (Api e)), w'))))"

definition active_phases :: "backup_phase list" where
  "active_phases = [BackupPhasePending, BackupPhaseStarted, BackupPhaseRunning, BackupPhaseFinalizing]"

definition deleteBackupData :: "'w cleanup_api \<Rightarrow> oe_backup \<Rightarrow> cnpg_backup \<Rightarrow> ('w, bool) eff" where
  "deleteBackupData A backup nb w =
     (if nb_phase nb \<in> set active_phases then (Inr False, w)
      else if nb_backup_id nb = [] then (Inr True, w)
      else
        let storage = ob_storage_ref backup
        in case ca_object_store A storage w of
             Inl e \<Rightarrow> (Inl (Wrap ''get ObjectStore %q for data deletion: %w'' [S storage] (Api e)), w)
           | Inr objectStore \<Rightarrow>
               (case ca_storage A storage w of
                  Inl e \<Rightarrow> (Inl (Wrap ''get BackupStorage %q for data deletion: %w'' [S storage] (Api e)), w)
                | Inr bs \<Rightarrow>
                    (case bt_s3 bs of
                       None \<Rightarrow> (Inl (Errorf ''BackupStorage %q is not S3; cannot delete Barman backup data'' [S (bt_name bs)]), w)
                     | Some s3 \<Rightarrow>
                         let jobName = backupDeletionJobName (ob_name backup)
                         in case ca_job A jobName w of
                              Inl NotFound \<Rightarrow> create_deletion_job A backup nb objectStore s3 w
                            | Inl e \<Rightarrow> (Inl (Wrap ''get backup data deletion Job %q: %w'' [S jobName] (Api e)), w)
                            | Inr job \<Rightarrow>
                                if \<not> ca_controlled A job backup
                                then (Inl (Errorf ''backup data deletion Job %q is not owned by Backup %q'' [S jobName, S (ob_name backup)]), w)
                                else (deletionJobDone job, w))))"

definition CleanupBackup :: "'w cleanup_api \<Rightarrow> oe_backup \<Rightarrow> ('w, bool) eff" where
  "CleanupBackup A backup w =
     (case ca_backup A (ob_name backup) w of
        Inl NotFound \<Rightarrow>
          if ob_deletion_policy backup = BackupDeletionPolicyRetain then (Inr True, w)
          else (case ca_job A (backupDeletionJobName (ob_name backup)) w of
                  Inl NotFound \<Rightarrow> (Inr True, w)
                | Inl e \<Rightarrow> (Inl (Wrap ''get backup data deletion Job: %w'' [] (Api e)), w)
                | Inr job \<Rightarrow> (deletionJobDone job, w))
      | Inl e \<Rightarrow> (Inl (Wrap ''get CloudNativePG backup: %w'' [] (Api e)), w)
      | Inr nb \<Rightarrow>
          (case (if ob_deletion_policy backup \<noteq> BackupDeletionPolicyRetain
                 then deleteBackupData A backup nb w else (Inr True, w)) of
             (Inl e, w') \<Rightarrow> (Inl e, w')
           | (Inr False, w') \<Rightarrow> (Inr False, w')
           | (Inr True, w') \<Rightarrow>
               if nb_deletion_timestamp nb = None
               then (case ca_delete_backup A (nb_name nb) w' of
                       (Some e, w'') \<Rightarrow> (Inl (Wrap ''delete CloudNativePG backup: %w'' [] (Api e)), w'')
                     | (None, w'') \<Rightarrow> (Inr False, w''))
               else (Inr False, w')))"

end
