(* ===== verification/Deletion_Lifecycle.thy ===== *)
theory Deletion_Lifecycle
  imports Backup_Cleanup
begin

text \<open>
  The life of a Backup that is being deleted: reconciliations of CleanupBackup interleaved with
  the operator that still runs the backup, the deletion Job, Barman's own retention, and anyone
  who creates or deletes Jobs. The world holds the operator's Backup, the Job of the deletion
  Job's name, and whether the data of the Barman backup exists.
\<close>

record deletion_world =
  dw_backup :: "cnpg_backup option"
  dw_job :: "job option"
  dw_data :: bool

text \<open>
  What the handler relies on of the API server: a read that succeeds returns the stored object
  and a Backup that is not found is not stored; a create that has an effect stores the Job,
  with the given owner and no condition, where there was none; a delete that has an effect
  removes the Backup or marks it for its finalizers; a Job counts as controlled by the Backup
  when its controller is the Backup's UID.
\<close>

definition created_job :: "job_spec \<Rightarrow> job" where
  "created_job j = \<lparr>jb_name = js_name j, jb_conditions = [], jb_controller = js_owner j\<rparr>"

definition faithful :: "opaque \<Rightarrow> oe_backup \<Rightarrow> deletion_world cleanup_api \<Rightarrow> bool" where
  "faithful uid b A \<longleftrightarrow>
     (\<forall>w. case ca_backup A (ob_name b) w of Inr nb \<Rightarrow> dw_backup w = Some nb
          | Inl NotFound \<Rightarrow> dw_backup w = None | Inl _ \<Rightarrow> True) \<and>
     (\<forall>w j. ca_job A (backupDeletionJobName (ob_name b)) w = Inr j \<longrightarrow> dw_job w = Some j) \<and>
     (\<forall>j w. snd (ca_create_job A j w) = w \<or>
          dw_job w = None \<and> snd (ca_create_job A j w) = w\<lparr>dw_job := Some (created_job j)\<rparr>) \<and>
     (\<forall>n w. snd (ca_delete_backup A n w) = w \<or> snd (ca_delete_backup A n w) = w\<lparr>dw_backup := None\<rparr> \<or>
          (\<exists>nb t. dw_backup w = Some nb \<and>
             snd (ca_delete_backup A n w) = w\<lparr>dw_backup := Some (nb\<lparr>nb_deletion_timestamp := Some t\<rparr>)\<rparr>)) \<and>
     (\<forall>j. ca_controlled A j b \<longleftrightarrow> jb_controller j = uid)"

definition active :: "cnpg_backup \<Rightarrow> bool" where
  "active nb \<longleftrightarrow> nb_phase nb \<in> set active_phases"

definition over :: "cnpg_backup \<Rightarrow> bool" where
  "over nb \<longleftrightarrow> nb_phase nb = BackupPhaseCompleted \<or> nb_phase nb = BackupPhaseFailed"

text \<open>
  The environment: a backup changes its status, and gains data, only until it is over; its data
  can be addressed once it has an ID, which it gets while it runs; the Job of this Backup
  completes only when the Barman command has deleted the data.
\<close>

inductive deletion_step :: "opaque \<Rightarrow> oe_backup \<Rightarrow> deletion_world \<Rightarrow> deletion_world \<Rightarrow> bool" for uid b where
  reconcile:
    "faithful uid b A \<Longrightarrow> CleanupBackup A b w = (r, w') \<Longrightarrow> deletion_step uid b w w'"
| backup_progresses:
    "dw_backup w = Some nb \<Longrightarrow> \<not> over nb \<Longrightarrow> (data \<longrightarrow> active nb' \<or> nb_backup_id nb' \<noteq> []) \<Longrightarrow>
     (nb_backup_id nb' \<noteq> [] \<longrightarrow> active nb' \<or> over nb') \<Longrightarrow>
     deletion_step uid b w (w\<lparr>dw_backup := Some nb', dw_data := data\<rparr>)"
| job_completes:
    "dw_job w = Some j \<Longrightarrow> jb_controller j = uid \<Longrightarrow> \<not> jobFailed j \<Longrightarrow>
     deletion_step uid b w (w\<lparr>dw_job := Some (j\<lparr>jb_conditions := [(JobComplete, ConditionTrue)]\<rparr>), dw_data := False\<rparr>)"
| job_fails:
    "dw_job w = Some j \<Longrightarrow> jb_controller j = uid \<Longrightarrow> \<not> jobComplete j \<Longrightarrow> data \<longrightarrow> dw_data w \<Longrightarrow>
     deletion_step uid b w (w\<lparr>dw_job := Some (j\<lparr>jb_conditions := [(JobFailed, ConditionTrue)]\<rparr>), dw_data := data\<rparr>)"
| job_deleted:
    "deletion_step uid b w (w\<lparr>dw_job := None\<rparr>)"
| foreign_job:
    "jb_controller j \<noteq> uid \<Longrightarrow> dw_job w = None \<Longrightarrow> deletion_step uid b w (w\<lparr>dw_job := Some j\<rparr>)"
| data_expires:
    "deletion_step uid b w (w\<lparr>dw_data := False\<rparr>)"

inductive_cases deletion_stepE: "deletion_step uid b w w'"

inductive deletion_run :: "opaque \<Rightarrow> oe_backup \<Rightarrow> deletion_world \<Rightarrow> deletion_world \<Rightarrow> bool" for uid b where
  run_nil: "deletion_run uid b w w"
| run_snoc: "deletion_run uid b u v \<Longrightarrow> deletion_step uid b v w \<Longrightarrow> deletion_run uid b u w"

text \<open>
  The invariant: data that exists is listed by a Backup that is active or names its ID; an ID
  is that of a backup that runs or is over; the Job of this Backup, once it exists, is for a
  backup that is over, and complete, its data is gone.
\<close>

definition data_listed :: "opaque \<Rightarrow> deletion_world \<Rightarrow> bool" where
  "data_listed uid w \<longleftrightarrow>
     (dw_data w \<longrightarrow> (\<exists>nb. dw_backup w = Some nb \<and> (active nb \<or> nb_backup_id nb \<noteq> []))) \<and>
     (\<forall>nb. dw_backup w = Some nb \<and> nb_backup_id nb \<noteq> [] \<longrightarrow> active nb \<or> over nb) \<and>
     (\<forall>j. dw_job w = Some j \<and> jb_controller j = uid \<longrightarrow>
        pred_option over (dw_backup w) \<and> (jobComplete j \<longrightarrow> \<not> dw_data w))"

section \<open>What one reconciliation does\<close>

lemma create_deletion_job_effect:
  "create_deletion_job A b nb os s3 w = (r, w') \<Longrightarrow>
   (w' = w \<or> (\<exists>j. w' = snd (ca_create_job A j w))) \<and> r \<noteq> Inr True"
  by (auto simp: create_deletion_job_def split: sum.splits prod.splits option.splits api_err.splits)
    (metis snd_conv)+

lemma deleteBackupData_effect:
  assumes "deleteBackupData A b nb w = (r, w')"
  shows "(w' = w \<or> \<not> active nb \<and> nb_backup_id nb \<noteq> [] \<and> (\<exists>j. w' = snd (ca_create_job A j w))) \<and>
     (r = Inr True \<longrightarrow> w' = w \<and> \<not> active nb \<and>
        (nb_backup_id nb = [] \<or>
         (\<exists>j. ca_job A (backupDeletionJobName (ob_name b)) w = Inr j \<and> ca_controlled A j b \<and>
            jobComplete j \<and> \<not> jobFailed j)))"
  using assms create_deletion_job_effect [of A b nb _ _ w r w']
  by (auto simp: deleteBackupData_def active_def Let_def deletionJobDone_def
      split: if_splits sum.splits option.splits api_err.splits)


lemma CleanupBackup_effect:
  assumes "CleanupBackup A b w = (r, w')" "ob_deletion_policy b \<noteq> BackupDeletionPolicyRetain"
  shows "w' = w \<or>
     (\<exists>nb. ca_backup A (ob_name b) w = Inr nb \<and> \<not> active nb \<and>
        (nb_backup_id nb \<noteq> [] \<and> (\<exists>j. w' = snd (ca_create_job A j w)) \<or>
         w' = snd (ca_delete_backup A (nb_name nb) w) \<and>
           (nb_backup_id nb = [] \<or>
            (\<exists>j. ca_job A (backupDeletionJobName (ob_name b)) w = Inr j \<and> ca_controlled A j b \<and>
               jobComplete j \<and> \<not> jobFailed j))))"
proof (cases "ca_backup A (ob_name b) w")
  case (Inl e)
  with assms show ?thesis
    by (cases e) (auto simp: CleanupBackup_def split: sum.splits api_err.splits)
next
  case (Inr nb)
  obtain d w1 where d: "deleteBackupData A b nb w = (d, w1)" by (cases "deleteBackupData A b nb w")
  note eff = deleteBackupData_effect [OF d]
  show ?thesis
  proof (cases "d = Inr True")
    case True
    with eff have *: "w1 = w" by simp
    obtain x w2 where x: "ca_delete_backup A (nb_name nb) w = (x, w2)" by (cases "ca_delete_backup A (nb_name nb) w")
    have "w' = w \<or> w' = w2"
      using assms Inr d True * x by (auto simp: CleanupBackup_def split: if_splits option.splits)
    with eff True Inr x show ?thesis by (metis snd_conv)
  next
    case False
    then have "w' = w1"
      using assms Inr d by (auto simp: CleanupBackup_def split: sum.splits bool.splits)
    with eff Inr show ?thesis by auto
  qed
qed

lemma CleanupBackup_done:
  "CleanupBackup A b w = (Inr True, w') \<Longrightarrow> w' = w \<and> ca_backup A (ob_name b) w = Inl NotFound"
  by (auto simp: CleanupBackup_def split: sum.splits api_err.splits if_splits prod.splits bool.splits option.splits)

section \<open>The invariant\<close>

lemma faithful_backup:
  "faithful uid b A \<Longrightarrow> ca_backup A (ob_name b) w = Inr nb \<Longrightarrow> dw_backup w = Some nb"
  "faithful uid b A \<Longrightarrow> ca_backup A (ob_name b) w = Inl NotFound \<Longrightarrow> dw_backup w = None"
  unfolding faithful_def by (drule conjunct1, drule spec [of _ w], simp)+

lemma faithful_job:
  "faithful uid b A \<Longrightarrow> ca_job A (backupDeletionJobName (ob_name b)) w = Inr j \<Longrightarrow> dw_job w = Some j"
  "faithful uid b A \<Longrightarrow> ca_controlled A j b \<longleftrightarrow> jb_controller j = uid"
  unfolding faithful_def by blast+

lemma faithful_create:
  "faithful uid b A \<Longrightarrow> snd (ca_create_job A j w) = w \<or>
     dw_job w = None \<and> snd (ca_create_job A j w) = w\<lparr>dw_job := Some (created_job j)\<rparr>"
  unfolding faithful_def by blast

lemma faithful_delete:
  "faithful uid b A \<Longrightarrow> snd (ca_delete_backup A n w) = w \<or> snd (ca_delete_backup A n w) = w\<lparr>dw_backup := None\<rparr> \<or>
     (\<exists>nb t. dw_backup w = Some nb \<and>
        snd (ca_delete_backup A n w) = w\<lparr>dw_backup := Some (nb\<lparr>nb_deletion_timestamp := Some t\<rparr>)\<rparr>)"
  unfolding faithful_def by blast

lemma marked [simp]:
  "active (nb\<lparr>nb_deletion_timestamp := t\<rparr>) = active nb"
  "over (nb\<lparr>nb_deletion_timestamp := t\<rparr>) = over nb"
  by (simp_all add: active_def over_def)

lemma reconcile_data_listed:
  assumes A: "faithful uid b A" and run: "CleanupBackup A b w = (r, w')"
    and policy: "ob_deletion_policy b \<noteq> BackupDeletionPolicyRetain" and inv: "data_listed uid w"
  shows "data_listed uid w'"
  using CleanupBackup_effect [OF run policy]
proof (elim disjE exE conjE)
  assume "w' = w"
  with inv show ?thesis by simp
next
  fix nb j
  assume nb: "ca_backup A (ob_name b) w = Inr nb" "\<not> active nb" "nb_backup_id nb \<noteq> []"
    and w': "w' = snd (ca_create_job A j w)"
  have "dw_backup w = Some nb" by (rule faithful_backup(1) [OF A nb(1)])
  with nb inv have "over nb" by (auto simp: data_listed_def)
  with faithful_create [OF A, of j w] w' inv \<open>dw_backup w = Some nb\<close> show ?thesis
    by (auto simp: data_listed_def created_job_def jobComplete_def)
next
  fix nb
  assume nb: "ca_backup A (ob_name b) w = Inr nb" "\<not> active nb" "nb_backup_id nb = []"
    and w': "w' = snd (ca_delete_backup A (nb_name nb) w)"
  have "dw_backup w = Some nb" by (rule faithful_backup(1) [OF A nb(1)])
  with nb inv have "\<not> dw_data w" by (auto simp: data_listed_def)
  with faithful_delete [OF A, of "nb_name nb" w] w' inv show ?thesis
    by (auto simp: data_listed_def)
next
  fix nb j
  assume nb: "ca_backup A (ob_name b) w = Inr nb"
    and w': "w' = snd (ca_delete_backup A (nb_name nb) w)"
    and j: "ca_job A (backupDeletionJobName (ob_name b)) w = Inr j" "ca_controlled A j b" "jobComplete j"
  have "dw_job w = Some j" "jb_controller j = uid"
    using faithful_job [OF A] j by blast+
  with j inv have "\<not> dw_data w" by (auto simp: data_listed_def)
  with faithful_delete [OF A, of "nb_name nb" w] w' inv show ?thesis
    by (auto simp: data_listed_def)
qed

lemma step_data_listed:
  assumes "deletion_step uid b w w'" "ob_deletion_policy b \<noteq> BackupDeletionPolicyRetain" "data_listed uid w"
  shows "data_listed uid w'"
  using assms
proof (cases rule: deletion_step.cases)
  case (reconcile A r)
  then show ?thesis using assms reconcile_data_listed by blast
qed (auto simp: data_listed_def jobComplete_def)

lemma run_data_listed:
  assumes "deletion_run uid b w w'" "ob_deletion_policy b \<noteq> BackupDeletionPolicyRetain" "data_listed uid w"
  shows "data_listed uid w'"
  using assms by (induction rule: deletion_run.induct) (auto intro: step_data_listed)

text \<open>C7: the data of a Backup with policy Delete is never orphaned. However reconciliations,
  the running backup, the deletion Job and other actors interleave, data that exists stays
  listed by an operator Backup, and when CleanupBackup reports that it is done, the data and
  the operator Backup are gone.\<close>

theorem deletion_never_orphans:
  assumes "deletion_run uid b w w'" "ob_deletion_policy b \<noteq> BackupDeletionPolicyRetain" "data_listed uid w"
  shows "(dw_data w' \<longrightarrow> dw_backup w' \<noteq> None) \<and>
     (\<forall>A w''. faithful uid b A \<and> CleanupBackup A b w' = (Inr True, w'') \<longrightarrow>
        dw_backup w'' = None \<and> \<not> dw_data w'')"
proof -
  have inv: "data_listed uid w'" using assms by (rule run_data_listed)
  moreover have "dw_backup w' = None \<and> w'' = w'"
    if "faithful uid b A" "CleanupBackup A b w' = (Inr True, w'')" for A w''
    using CleanupBackup_done [OF that(2)] faithful_backup(2) [OF that(1), of w'] by simp
  ultimately show ?thesis by (auto simp: data_listed_def)
qed

section \<open>Cleanup ends\<close>

text \<open>An API server that answers, and stores the objects the deletion needs.\<close>

definition responsive :: "opaque \<Rightarrow> oe_backup \<Rightarrow> object_store \<Rightarrow> backup_storage \<Rightarrow> deletion_world cleanup_api \<Rightarrow> bool" where
  "responsive uid b os bs A \<longleftrightarrow>
     (\<forall>w. ca_backup A (ob_name b) w = (case dw_backup w of None \<Rightarrow> Inl NotFound | Some nb \<Rightarrow> Inr nb)) \<and>
     (\<forall>w. ca_job A (backupDeletionJobName (ob_name b)) w = (case dw_job w of None \<Rightarrow> Inl NotFound | Some j \<Rightarrow> Inr j)) \<and>
     (\<forall>j w. dw_job w = None \<longrightarrow> ca_create_job A j w = (None, w\<lparr>dw_job := Some (created_job j)\<rparr>)) \<and>
     (\<forall>n w. ca_delete_backup A n w = (None, w\<lparr>dw_backup := None\<rparr>)) \<and>
     (\<forall>w. ca_object_store A (ob_storage_ref b) w = Inr os) \<and>
     (\<forall>w. ca_storage A (ob_storage_ref b) w = Inr bs) \<and>
     (\<forall>j. ca_set_controller A b j = Inr (j\<lparr>js_owner := uid\<rparr>)) \<and>
     (\<forall>j. ca_controlled A j b \<longleftrightarrow> jb_controller j = uid)"

definition job_done :: "deletion_world \<Rightarrow> deletion_world" where
  "job_done w = w\<lparr>dw_job := map_option (\<lambda>j. j\<lparr>jb_conditions := [(JobComplete, ConditionTrue)]\<rparr>) (dw_job w), dw_data := False\<rparr>"

text \<open>C8: once a backup with an ID is over, its cleanup ends after three reconciliations around
  the Job: the first creates the Job and keeps the Backup, the second, when the Job has
  completed, deletes the Backup, the third reports that the cleanup is done.\<close>

theorem CleanupBackup_completes:
  assumes A: "responsive uid b os bs A" and policy: "ob_deletion_policy b \<noteq> BackupDeletionPolicyRetain"
    and w: "dw_backup w = Some nb" "dw_job w = None"
    and nb: "over nb" "nb_backup_id nb \<noteq> []" "nb_deletion_timestamp nb = None"
    and job: "bt_s3 bs = Some s3" "buildBackupDeletionJob (ca_cloud_options A) b nb os (Some s3) = Inr j"
  shows "\<exists>w1 w3. CleanupBackup A b w = (Inr False, w1) \<and> dw_backup w1 = Some nb \<and>
     deletion_step uid b w1 (job_done w1) \<and>
     CleanupBackup A b (job_done w1) = (Inr False, w3) \<and>
     CleanupBackup A b w3 = (Inr True, w3) \<and> dw_backup w3 = None \<and> \<not> dw_data w3"
proof -
  let ?j = "created_job (j\<lparr>js_owner := uid\<rparr>)"
  let ?w1 = "w\<lparr>dw_job := Some ?j\<rparr>"
  let ?w3 = "(job_done ?w1)\<lparr>dw_backup := None\<rparr>"
  note defs = responsive_def CleanupBackup_def deleteBackupData_def create_deletion_job_def deletionJobDone_def
    jobFailed_def jobComplete_def job_done_def created_job_def Let_def
  have idle: "nb_phase nb \<notin> set active_phases"
    using nb(1) by (auto simp: over_def active_phases_def)
  have first: "CleanupBackup A b w = (Inr False, ?w1)"
    using A policy w nb job idle by (simp add: defs)
  have step: "deletion_step uid b ?w1 (job_done ?w1)"
    using deletion_step.job_completes [of ?w1 ?j uid b] by (simp add: job_done_def created_job_def jobFailed_def)
  have second: "CleanupBackup A b (job_done ?w1) = (Inr False, ?w3)"
    using A policy w nb job idle by (simp add: defs)
  have third: "CleanupBackup A b ?w3 = (Inr True, ?w3)"
    using A policy by (simp add: defs)
  show ?thesis
  proof (intro exI conjI)
    show "dw_backup ?w1 = Some nb" "dw_backup ?w3 = None" "\<not> dw_data ?w3"
      using w by (simp_all add: job_done_def)
  qed (fact first step second third)+
qed

section \<open>A deletion\<close>

definition world_api :: "opaque \<Rightarrow> object_store \<Rightarrow> backup_storage \<Rightarrow> deletion_world cleanup_api" where
  "world_api uid os bs = \<lparr>
     ca_backup = (\<lambda>n w. case dw_backup w of None \<Rightarrow> Inl NotFound | Some nb \<Rightarrow> Inr nb),
     ca_delete_backup = (\<lambda>n w. (None, w\<lparr>dw_backup := None\<rparr>)),
     ca_job = (\<lambda>n w. case dw_job w of None \<Rightarrow> Inl NotFound | Some j \<Rightarrow> Inr j),
     ca_create_job = (\<lambda>j w. if dw_job w = None then (None, w\<lparr>dw_job := Some (created_job j)\<rparr>) else (Some AlreadyExists, w)),
     ca_object_store = (\<lambda>n w. Inr os), ca_storage = (\<lambda>n w. Inr bs),
     ca_set_controller = (\<lambda>b j. Inr (j\<lparr>js_owner := uid\<rparr>)),
     ca_controlled = (\<lambda>j b. jb_controller j = uid),
     ca_cloud_options = (\<lambda>args config. Inr (args @ [''--cloud-provider'', ''aws-s3'']))\<rparr>"

lemma world_api_laws: "faithful uid b (world_api uid os bs)" "responsive uid b os bs (world_api uid os bs)"
  by (auto simp: faithful_def responsive_def world_api_def split: option.splits)

definition sample_object_store :: object_store where
  "sample_object_store = \<lparr>oj_name = ''s3'', oj_spec = buildObjectStore sample_s3 None\<rparr>"

definition sample_world :: deletion_world where
  "sample_world = \<lparr>dw_backup = Some sample_cnpg_backup, dw_job = None, dw_data = True\<rparr>"

lemma sample_world_simps:
  "dw_backup sample_world = Some sample_cnpg_backup" "dw_job sample_world = None" "dw_data sample_world"
  "over sample_cnpg_backup" "nb_backup_id sample_cnpg_backup \<noteq> []" "nb_deletion_timestamp sample_cnpg_backup = None"
  "ob_deletion_policy sample_oe_backup \<noteq> BackupDeletionPolicyRetain"
  by (simp_all add: sample_world_def over_def sample_cnpg_backup_def new_cnpg_backup_def sample_oe_backup_def)

lemma sample_job:
  "\<exists>j. buildBackupDeletionJob (ca_cloud_options (world_api uid os bs)) sample_oe_backup sample_cnpg_backup
     sample_object_store (Some sample_s3) = Inr j"
  by (simp add: buildBackupDeletionJob_def sample_cnpg_backup_def new_cnpg_backup_def sample_object_store_def
      buildObjectStore_def sample_s3_def world_api_def default_to_def Let_def)

theorem CleanupBackup_completes_witness:
  "\<exists>w3. CleanupBackup (world_api ''uid'' sample_object_store \<lparr>bt_name = ''s3'', bt_s3 = Some sample_s3\<rparr>)
     sample_oe_backup w3 = (Inr True, w3) \<and> \<not> dw_data w3"
proof -
  obtain j where "buildBackupDeletionJob (ca_cloud_options (world_api ''uid'' sample_object_store
      \<lparr>bt_name = ''s3'', bt_s3 = Some sample_s3\<rparr>)) sample_oe_backup sample_cnpg_backup
     sample_object_store (Some sample_s3) = Inr j"
    using sample_job by blast
  from CleanupBackup_completes [OF world_api_laws(2) sample_world_simps(7,1,2,4,5,6) _ this] show ?thesis by auto
qed

abbreviation sample_api :: "deletion_world cleanup_api" where
  "sample_api \<equiv> world_api ''uid'' sample_object_store \<lparr>bt_name = ''s3'', bt_s3 = Some sample_s3\<rparr>"

lemma CleanupBackup_keeps_data:
  assumes A: "faithful uid b A" and run: "CleanupBackup A b w = (r, w')"
    and policy: "ob_deletion_policy b \<noteq> BackupDeletionPolicyRetain"
  shows "dw_data w' = dw_data w"
proof -
  have "dw_data (snd (ca_create_job A j w)) = dw_data w" for j
    using faithful_create [OF A, of j w] by auto
  moreover have "dw_data (snd (ca_delete_backup A n w)) = dw_data w" for n
    using faithful_delete [OF A, of n w] by auto
  ultimately show ?thesis using CleanupBackup_effect [OF run policy] by metis
qed

theorem deletion_never_orphans_witness:
  "dw_data (snd (CleanupBackup sample_api sample_oe_backup sample_world)) \<and>
   dw_backup (snd (CleanupBackup sample_api sample_oe_backup sample_world)) \<noteq> None"
proof -
  have "deletion_run ''uid'' sample_oe_backup sample_world (snd (CleanupBackup sample_api sample_oe_backup sample_world))"
    by (rule run_snoc [OF run_nil deletion_step.reconcile [OF world_api_laws(1)]]) (rule prod.collapse [symmetric])
  from deletion_never_orphans [OF this sample_world_simps(7)] sample_world_simps
    CleanupBackup_keeps_data [OF world_api_laws(1) prod.collapse [symmetric] sample_world_simps(7)]
  show ?thesis by (simp add: data_listed_def)
qed

end
