(* ===== verification/Deletion_Job.thy ===== *)
theory Deletion_Job
  imports Deletion_Lifecycle
begin

text \<open>
  The Job that deletes the data of a backup, built on an ObjectStore the provider itself wrote:
  what \<open>buildObjectStore\<close> puts into the store is what \<open>buildBackupDeletionJob\<close> reads from it.
\<close>

section \<open>The Job and the ObjectStore\<close>

text \<open>The volume and the mount give the container the file AWS_CA_BUNDLE names.\<close>

definition ca_provided :: "job_spec \<Rightarrow> secret_key_selector \<Rightarrow> bool" where
  "ca_provided j ca \<longleftrightarrow>
     (\<exists>v m e. js_volumes j = [v] \<and> js_mounts j = [m] \<and> vo_name v = vm_name m \<and> vo_secret_name v = sk_name ca \<and>
        vo_items v = [(sk_key ca, vm_sub_path m)] \<and> vm_read_only m \<and>
        e \<in> set (js_env j) \<and> ev_name e = ''AWS_CA_BUNDLE'' \<and> ev_value e = vm_path m)"

text \<open>The value and the secret reference an environment variable gets.\<close>

definition job_env :: "job_spec \<Rightarrow> string \<rightharpoonup> string \<times> secret_key_selector option" where
  "job_env j = map_of (map (\<lambda>e. (ev_name e, ev_value e, ev_secret e)) (js_env j))"

definition job_secrets :: "job_spec \<Rightarrow> secret_key_selector set" where
  "job_secrets j = {ref. \<exists>e\<in>set (js_env j). ev_secret e = Some ref}"

lemma build_job:
  assumes store: "os_configuration (oj_spec os) = os_configuration (buildObjectStore s3 ca)"
    and nb: "nb_backup_id nb \<noteq> []" "nb_cluster nb \<noteq> []"
    and cloud: "\<And>args. cloud_options args (os_configuration (oj_spec os)) = Inr (args @ opts)"
  shows "\<exists>j. buildBackupDeletionJob cloud_options b nb os (Some s3) = Inr j \<and>
     js_name j = backupDeletionJobName (ob_name b) \<and>
     js_namespace j = ob_namespace b \<and> js_command j = [''barman-cloud-backup-delete''] \<and>
     js_args j = (let url = default_to (nb_endpoint_url nb) (s3_endpoint_url s3)
         in if url \<noteq> [] then [''--endpoint-url'', url] else []) @ opts @
       [''--backup-id'', nb_backup_id nb, default_to (nb_destination_path nb) (''s3://'' @ s3_bucket s3 @ ''/''),
        default_to (nb_server_name nb) (nb_cluster nb)] \<and>
     js_env j = [secretEnv ''AWS_ACCESS_KEY_ID'' \<lparr>sk_name = s3_credentials_secret s3, sk_key = ''AWS_ACCESS_KEY_ID''\<rparr>,
         secretEnv ''AWS_SECRET_ACCESS_KEY'' \<lparr>sk_name = s3_credentials_secret s3, sk_key = ''AWS_SECRET_ACCESS_KEY''\<rparr>] @
       (if s3_region s3 \<noteq> [] then [valueEnv ''AWS_REGION'' (s3_region s3), valueEnv ''AWS_DEFAULT_REGION'' (s3_region s3)]
        else []) @ (case ca of None \<Rightarrow> [] | Some c \<Rightarrow> [valueEnv ''AWS_CA_BUNDLE'' backupCAPath]) \<and>
     js_volumes j = (case ca of None \<Rightarrow> [] | Some c \<Rightarrow> [ca_volume c]) \<and>
     js_mounts j = (case ca of None \<Rightarrow> [] | Some c \<Rightarrow> [ca_mount])"
proof -
  let ?cfg = "os_configuration (oj_spec os)"
  have cfg: "bm_endpoint_url ?cfg = s3_endpoint_url s3" "bm_endpoint_ca ?cfg = ca"
    "bm_destination_path ?cfg = ''s3://'' @ s3_bucket s3 @ ''/''"
    "bm_aws ?cfg = Some \<lparr>aw_access_key_id = Some \<lparr>sk_name = s3_credentials_secret s3, sk_key = ''AWS_ACCESS_KEY_ID''\<rparr>,
       aw_secret_access_key = Some \<lparr>sk_name = s3_credentials_secret s3, sk_key = ''AWS_SECRET_ACCESS_KEY''\<rparr>,
       aw_region = None\<rparr>"
    by (simp_all add: store buildObjectStore_def Let_def)
  have given: "default_to (nb_destination_path nb) (''s3://'' @ s3_bucket s3 @ ''/'') \<noteq> []"
    "default_to (nb_server_name nb) (nb_cluster nb) \<noteq> []"
    using nb by (simp_all add: default_to_def)
  show ?thesis
    using nb(1) given by (simp add: buildBackupDeletionJob_def cfg cloud region_env_def Let_def del: append.simps)
qed

text \<open>What the environment of the Job gives the container.\<close>

lemma job_variables:
  assumes "js_env j = [secretEnv ''AWS_ACCESS_KEY_ID'' \<lparr>sk_name = secret, sk_key = ''AWS_ACCESS_KEY_ID''\<rparr>,
         secretEnv ''AWS_SECRET_ACCESS_KEY'' \<lparr>sk_name = secret, sk_key = ''AWS_SECRET_ACCESS_KEY''\<rparr>] @
       (if region \<noteq> [] then [valueEnv ''AWS_REGION'' region, valueEnv ''AWS_DEFAULT_REGION'' region] else []) @
       (case ca of None \<Rightarrow> [] | Some c \<Rightarrow> [valueEnv ''AWS_CA_BUNDLE'' path])"
  shows "job_env j ''AWS_ACCESS_KEY_ID'' = Some ([], Some \<lparr>sk_name = secret, sk_key = ''AWS_ACCESS_KEY_ID''\<rparr>)"
    "job_env j ''AWS_SECRET_ACCESS_KEY'' = Some ([], Some \<lparr>sk_name = secret, sk_key = ''AWS_SECRET_ACCESS_KEY''\<rparr>)"
    "job_secrets j = {\<lparr>sk_name = secret, sk_key = ''AWS_ACCESS_KEY_ID''\<rparr>, \<lparr>sk_name = secret, sk_key = ''AWS_SECRET_ACCESS_KEY''\<rparr>}"
    "\<forall>v\<in>{''AWS_REGION'', ''AWS_DEFAULT_REGION''}. job_env j v = (if region = [] then None else Some (region, None))"
    "distinct (map ev_name (js_env j))"
  by (cases ca; auto simp: assms job_env_def job_secrets_def secretEnv_def valueEnv_def)+

text \<open>C9: the Job for a backup in a store the provider wrote deletes that backup and no other: it
  runs in the namespace of the Backup, on the endpoint the backup was written to (that of the storage when
  the operator reports none; no option when neither has one), and names the ID, the path and
  the server the backup was written with. The two credential variables reference the two keys of the
  storage's Secret, and no other secret is read; the region is passed exactly when the storage has
  one; the container finds the endpoint CA, when there is one, where AWS_CA_BUNDLE points, and
  mounts nothing when there is none; the Job's name is valid.\<close>

theorem deletion_job_for_backup:
  assumes store: "os_configuration (oj_spec os) = os_configuration (buildObjectStore s3 ca)"
    and nb: "nb_backup_id nb \<noteq> []" "nb_cluster nb \<noteq> []" and name: "subdomain_shape (ob_name b)"
    and cloud: "\<And>args. cloud_options args (os_configuration (oj_spec os)) = Inr (args @ opts)"
    and url: "url = (if nb_endpoint_url nb \<noteq> [] then nb_endpoint_url nb else s3_endpoint_url s3)"
  shows "\<exists>j. buildBackupDeletionJob cloud_options b nb os (Some s3) = Inr j \<and>
     js_namespace j = ob_namespace b \<and> js_command j = [''barman-cloud-backup-delete''] \<and>
     js_args j = (if url = [] then [] else [''--endpoint-url'', url]) @ opts @ [''--backup-id'', nb_backup_id nb,
        if nb_destination_path nb \<noteq> [] then nb_destination_path nb else ''s3://'' @ s3_bucket s3 @ ''/'',
        if nb_server_name nb \<noteq> [] then nb_server_name nb else nb_cluster nb] \<and>
     job_env j ''AWS_ACCESS_KEY_ID'' = Some ([], Some \<lparr>sk_name = s3_credentials_secret s3, sk_key = ''AWS_ACCESS_KEY_ID''\<rparr>) \<and>
     job_env j ''AWS_SECRET_ACCESS_KEY'' = Some ([], Some \<lparr>sk_name = s3_credentials_secret s3, sk_key = ''AWS_SECRET_ACCESS_KEY''\<rparr>) \<and>
     job_secrets j = {\<lparr>sk_name = s3_credentials_secret s3, sk_key = ''AWS_ACCESS_KEY_ID''\<rparr>,
        \<lparr>sk_name = s3_credentials_secret s3, sk_key = ''AWS_SECRET_ACCESS_KEY''\<rparr>} \<and>
     (\<forall>v\<in>{''AWS_REGION'', ''AWS_DEFAULT_REGION''}.
        job_env j v = (if s3_region s3 = [] then None else Some (s3_region s3, None))) \<and>
     (case ca of None \<Rightarrow> job_env j ''AWS_CA_BUNDLE'' = None \<and> js_volumes j = [] \<and> js_mounts j = []
      | Some c \<Rightarrow> ca_provided j c) \<and>
     distinct (map ev_name (js_env j)) \<and> subdomain_shape (js_name j) \<and> length (js_name j) \<le> 63"
proof -
  obtain j where j: "buildBackupDeletionJob cloud_options b nb os (Some s3) = Inr j"
    "js_name j = backupDeletionJobName (ob_name b)" "js_namespace j = ob_namespace b"
    "js_command j = [''barman-cloud-backup-delete'']"
    "js_args j = (let url = default_to (nb_endpoint_url nb) (s3_endpoint_url s3)
         in if url \<noteq> [] then [''--endpoint-url'', url] else []) @ opts @
       [''--backup-id'', nb_backup_id nb, default_to (nb_destination_path nb) (''s3://'' @ s3_bucket s3 @ ''/''),
        default_to (nb_server_name nb) (nb_cluster nb)]"
    and env: "js_env j = [secretEnv ''AWS_ACCESS_KEY_ID'' \<lparr>sk_name = s3_credentials_secret s3, sk_key = ''AWS_ACCESS_KEY_ID''\<rparr>,
         secretEnv ''AWS_SECRET_ACCESS_KEY'' \<lparr>sk_name = s3_credentials_secret s3, sk_key = ''AWS_SECRET_ACCESS_KEY''\<rparr>] @
       (if s3_region s3 \<noteq> [] then [valueEnv ''AWS_REGION'' (s3_region s3), valueEnv ''AWS_DEFAULT_REGION'' (s3_region s3)]
        else []) @ (case ca of None \<Rightarrow> [] | Some c \<Rightarrow> [valueEnv ''AWS_CA_BUNDLE'' backupCAPath])"
    and mounts: "js_volumes j = (case ca of None \<Rightarrow> [] | Some c \<Rightarrow> [ca_volume c])"
      "js_mounts j = (case ca of None \<Rightarrow> [] | Some c \<Rightarrow> [ca_mount])"
    using build_job [OF store nb, of cloud_options opts b] cloud by blast
  have "ca_provided j c" if "ca = Some c" for c
    unfolding ca_provided_def
    by (rule exI [of _ "ca_volume c"], rule exI [of _ ca_mount], rule exI [of _ "valueEnv ''AWS_CA_BUNDLE'' backupCAPath"])
      (simp add: env mounts that ca_volume_def ca_mount_def valueEnv_def)
  then have "case ca of None \<Rightarrow> job_env j ''AWS_CA_BUNDLE'' = None \<and> js_volumes j = [] \<and> js_mounts j = []
      | Some c \<Rightarrow> ca_provided j c"
    by (cases ca) (simp_all add: job_env_def env mounts secretEnv_def valueEnv_def)
  moreover note job_variables [OF env]
  moreover have "subdomain_shape (js_name j)" "length (js_name j) \<le> 63"
    unfolding j(2) using job_name.keeps_subdomain [of "ob_name b"] job_name.fits_label [of "ob_name b"]
      subdomain_prefixed [OF name] by simp_all
  moreover have "js_args j = (if url = [] then [] else [''--endpoint-url'', url]) @ opts @ [''--backup-id'', nb_backup_id nb,
        if nb_destination_path nb \<noteq> [] then nb_destination_path nb else ''s3://'' @ s3_bucket s3 @ ''/'',
        if nb_server_name nb \<noteq> [] then nb_server_name nb else nb_cluster nb]"
    using j(5) by (simp add: default_to_def url Let_def)
  ultimately show ?thesis using j(1,3,4) by (intro exI [of _ j]) simp
qed

theorem deletion_job_for_backup_witness:
  "\<exists>j. buildBackupDeletionJob (\<lambda>args config. Inr (args @ [''--cloud-provider'', ''aws-s3''])) sample_oe_backup
     sample_cnpg_backup sample_object_store (Some sample_s3) = Inr j \<and>
     take 6 (js_args j) = [''--endpoint-url'', ''http://minio:9000'', ''--cloud-provider'', ''aws-s3'',
       ''--backup-id'', ''20260101T000000''] \<and> subdomain_shape (js_name j)"
proof -
  have "subdomain_shape (ob_name sample_oe_backup)"
    by (simp add: sample_oe_backup_def subdomain_shape_def label_shape_def alnum_def is_digit_def less_eq_char_def)
  moreover have "os_configuration (oj_spec sample_object_store) = os_configuration (buildObjectStore sample_s3 None)"
    by (simp add: sample_object_store_def)
  moreover have "nb_backup_id sample_cnpg_backup = ''20260101T000000''" "nb_cluster sample_cnpg_backup \<noteq> []"
    "''http://minio:9000'' = (if nb_endpoint_url sample_cnpg_backup \<noteq> [] then nb_endpoint_url sample_cnpg_backup
       else s3_endpoint_url sample_s3)"
    by (simp_all add: sample_cnpg_backup_def new_cnpg_backup_def sample_s3_def)
  ultimately show ?thesis
    using deletion_job_for_backup [of sample_object_store sample_s3 None sample_cnpg_backup sample_oe_backup
        "\<lambda>args config. Inr (args @ [''--cloud-provider'', ''aws-s3''])" "[''--cloud-provider'', ''aws-s3'']"
        "''http://minio:9000''"]
    by auto
qed

end
