(* ===== verification/Go_Url.thy ===== *)
theory Go_Url
  imports Go_Strings
begin

text \<open>
  What the connection details use of Go's \<open>net/url\<close> and \<open>net\<close>: \<open>escape\<close>, \<open>URL.String\<close>
  for a URL with a scheme and user information, \<open>Values.Encode\<close> of one parameter,
  \<open>JoinHostPort\<close>; and a reader of such URLs. Strings are byte strings.
\<close>

section \<open>Escaping\<close>

datatype escape_mode = EncodePath | EncodeUserPassword | EncodeHost | EncodeQueryComponent

definition letter_or_digit :: "char \<Rightarrow> bool" where
  "letter_or_digit c \<longleftrightarrow>
     (CHR ''a'' \<le> c \<and> c \<le> CHR ''z'') \<or> (CHR ''A'' \<le> c \<and> c \<le> CHR ''Z'') \<or> (CHR ''0'' \<le> c \<and> c \<le> CHR ''9'')"

definition unreserved :: "char \<Rightarrow> bool" where
  "unreserved c \<longleftrightarrow> letter_or_digit c \<or> c \<in> set ''-_.~''"

definition should_escape :: "escape_mode \<Rightarrow> char \<Rightarrow> bool" where
  "should_escape mode c =
     (if letter_or_digit c then False
      else if mode = EncodeHost \<and> c \<in> set (CHR 0x22 # CHR 0x27 # ''!$&()*+,;=:[]<>'') then False
      else if c \<in> set ''-_.~'' then False
      else if c \<in> set ''$&+,/:;=?@''
      then (case mode of EncodePath \<Rightarrow> c = CHR ''?'' | EncodeUserPassword \<Rightarrow> c \<in> set ''@/?:''
            | EncodeQueryComponent \<Rightarrow> True | EncodeHost \<Rightarrow> True)
      else True)"

definition url_hex :: "nat \<Rightarrow> char" where
  "url_hex n = ''0123456789ABCDEF'' ! n"

definition percent :: "char \<Rightarrow> string" where
  "percent c = [CHR ''%'', url_hex (of_char c div 16), url_hex (of_char c mod 16)]"

definition escape_char :: "escape_mode \<Rightarrow> char \<Rightarrow> string" where
  "escape_char mode c =
     (if \<not> should_escape mode c then [c]
      else if c = CHR '' '' \<and> mode = EncodeQueryComponent then ''+''
      else percent c)"

definition escape :: "escape_mode \<Rightarrow> string \<Rightarrow> string" where
  "escape mode s = concat (map (escape_char mode) s)"

section \<open>URLs\<close>

definition JoinHostPort :: "string \<Rightarrow> string \<Rightarrow> string" where
  "JoinHostPort host port =
     (if CHR '':'' \<in> set host then ''['' @ host @ '']:'' @ port else host @ '':'' @ port)"

text \<open>\<open>Values.Encode\<close> of one key with one value.\<close>

definition encode_values :: "string \<Rightarrow> string \<Rightarrow> string" where
  "encode_values key v = escape EncodeQueryComponent key @ ''='' @ escape EncodeQueryComponent v"

definition escaped_path :: "string \<Rightarrow> string" where
  "escaped_path path = (if path = ''*'' then ''*'' else escape EncodePath path)"

text \<open>\<open>URL.String\<close> with a scheme, a user and a password set.\<close>

definition url_string :: "string \<Rightarrow> string \<Rightarrow> string \<Rightarrow> string \<Rightarrow> string \<Rightarrow> string \<Rightarrow> string" where
  "url_string scheme user password host path raw_query =
     scheme @ ''://'' @ escape EncodeUserPassword user @ '':'' @ escape EncodeUserPassword password @ ''@'' @
     (if host \<noteq> [] then escape EncodeHost host else []) @
     (let p = escaped_path path
      in (if p \<noteq> [] \<and> hd p \<noteq> CHR ''/'' \<and> host \<noteq> [] then ''/'' else []) @ p) @
     (if raw_query \<noteq> [] then ''?'' @ raw_query else [])"

section \<open>Reading\<close>

fun hex_value :: "char \<Rightarrow> nat option" where
  "hex_value c =
     (if CHR ''0'' \<le> c \<and> c \<le> CHR ''9'' then Some (of_char c - 48)
      else if CHR ''A'' \<le> c \<and> c \<le> CHR ''F'' then Some (of_char c - 55)
      else if CHR ''a'' \<le> c \<and> c \<le> CHR ''f'' then Some (of_char c - 87) else None)"

text \<open>Percent decoding; in a query a plus sign is a blank.\<close>

fun unescape :: "bool \<Rightarrow> string \<Rightarrow> string option" where
  "unescape query [] = Some []"
| "unescape query (c # s) =
     (if c = CHR ''%'' then
        (case s of
           a # b # t \<Rightarrow>
             (case (hex_value a, hex_value b) of
                (Some x, Some y) \<Rightarrow> map_option ((#) (char_of (16 * x + y))) (unescape query t)
              | _ \<Rightarrow> None)
         | _ \<Rightarrow> None)
      else if c = CHR ''+'' \<and> query then map_option ((#) (CHR '' '')) (unescape query s)
      else map_option ((#) c) (unescape query s))"

definition after :: "char \<Rightarrow> string \<Rightarrow> string" where
  "after c s = drop (Suc (length (cut_before c s))) s"

section \<open>Escaping and reading back\<close>

lemma hex_value_digit: "n < 16 \<Longrightarrow> hex_value (url_hex n) = Some n"
proof -
  assume "n < 16"
  moreover have "\<forall>n<16. hex_value (url_hex n) = Some n" by code_simp
  ultimately show ?thesis by blast
qed

lemma of_char_split: "char_of (16 * (of_char c div 16) + of_char c mod (16::nat)) = c"
proof -
  have "16 * (of_char c div 16) + of_char c mod (16::nat) = of_char c" by simp
  then show ?thesis by (simp add: char_of_char)
qed

lemma nibbles: "of_char c div 16 < (16::nat)" "of_char c mod 16 < (16::nat)"
proof -
  have "of_char c mod 256 = (of_char c :: nat)" by (rule of_char_mod_256)
  then have "of_char c < (256::nat)" by (metis mod_less_divisor zero_less_numeral)
  then show "of_char c div 16 < (16::nat)" by (rule less_mult_imp_div_less [of _ 16 16, simplified])
qed simp

lemma unescape_percent: "unescape q (percent c @ s) = map_option ((#) c) (unescape q s)"
  by (simp add: percent_def hex_value_digit nibbles of_char_split del: hex_value.simps)

lemma percent_escaped: "should_escape mode (CHR ''%'')"
  by (cases mode) (simp_all add: should_escape_def letter_or_digit_def less_eq_char_def)

lemma plus_escaped: "should_escape EncodeQueryComponent (CHR ''+'')"
  by code_simp

lemma unescape_escape_char:
  "unescape (mode = EncodeQueryComponent) (escape_char mode c @ s) =
   map_option ((#) c) (unescape (mode = EncodeQueryComponent) s)"
  using percent_escaped [of mode] plus_escaped
  by (auto simp: escape_char_def unescape_percent simp del: unescape.simps)
    (auto simp: unescape.simps)

lemma unescape_escape: "unescape (mode = EncodeQueryComponent) (escape mode s) = Some s"
  by (induction s) (simp_all add: escape_def unescape_escape_char)

text \<open>The separators do not occur in what is escaped.\<close>

lemma url_hex_set: "n < 16 \<Longrightarrow> letter_or_digit (url_hex n)"
proof -
  assume "n < 16"
  moreover have "\<forall>n<16. letter_or_digit (url_hex n)" by code_simp
  ultimately show ?thesis by blast
qed

lemma escape_free:
  assumes "should_escape mode x" "\<not> letter_or_digit x" "x \<noteq> CHR ''%''" "x \<noteq> CHR ''+''"
  shows "x \<notin> set (escape mode s)"
proof -
  have "x \<notin> set (escape_char mode c)" for c
    using assms url_hex_set [OF nibbles(1)] url_hex_set [OF nibbles(2)]
    by (auto simp: escape_char_def percent_def)
  then show ?thesis by (auto simp: escape_def)
qed

lemma escape_unreserved: "list_all unreserved s \<Longrightarrow> escape mode s = s"
  by (induction s) (auto simp: escape_def escape_char_def should_escape_def unreserved_def)

lemma cut_before_free: "c \<notin> set s \<Longrightarrow> cut_before c (s @ c # t) = s"
  by (induction s) (auto simp: cut_before_def)

lemma after_free: "c \<notin> set s \<Longrightarrow> after c (s @ c # t) = t"
  by (simp add: after_def cut_before_free)

end
