(* ===== verification/Go_Time.thy ===== *)
theory Go_Time
  imports Go_Strings
begin

text \<open>
  The part of Go's \<open>time\<close> package the provider uses: \<open>t.UTC().Format(time.RFC3339)\<close>, the civil
  date and time of a Unix time in the proleptic Gregorian calendar and its text.
\<close>

section \<open>The calendar\<close>

definition leap :: "int \<Rightarrow> bool" where
  "leap y \<longleftrightarrow> y mod 4 = 0 \<and> (y mod 100 \<noteq> 0 \<or> y mod 400 = 0)"

definition year_days :: "int \<Rightarrow> int" where
  "year_days y = (if leap y then 366 else 365)"

definition month_days :: "int \<Rightarrow> int list" where
  "month_days y = [31, if leap y then 29 else 28, 31, 30, 31, 30, 31, 31, 30, 31, 30, 31]"

text \<open>The year and the day in it, counting on from the first day of year \<open>y\<close>.\<close>

function year_of :: "int \<Rightarrow> int \<Rightarrow> int \<times> int" where
  "year_of y d = (if d < year_days y then (y, d) else year_of (y + 1) (d - year_days y))"
  by pat_completeness auto
termination
  by (relation "measure (\<lambda>(y, d). nat d)") (auto simp: year_days_def split: if_splits)

declare year_of.simps [simp del]

fun month_of :: "int \<Rightarrow> int \<Rightarrow> int list \<Rightarrow> int \<times> int" where
  "month_of m d [] = (m, d)"
| "month_of m d (n # ns) = (if d < n then (m, d) else month_of (m + 1) (d - n) ns)"

text \<open>Days since 1 January 1970 to year, month, day; 400 years have 146097 days.\<close>

definition civil :: "int \<Rightarrow> int \<times> int \<times> int" where
  "civil days =
     (let (y, yd) = year_of (1970 + 400 * (days div 146097)) (days mod 146097);
          (m, md) = month_of 1 yd (month_days y)
      in (y, m, md + 1))"

section \<open>RFC 3339\<close>

fun digits_of :: "nat \<Rightarrow> string" where
  "digits_of n = (if n < 10 then [''0123456789'' ! n] else digits_of (n div 10) @ [''0123456789'' ! (n mod 10)])"

declare digits_of.simps [simp del]

text \<open>A number with at least \<open>width\<close> digits.\<close>

definition append_int :: "nat \<Rightarrow> int \<Rightarrow> string" where
  "append_int width x =
     (let ds = digits_of (nat \<bar>x\<bar>)
      in (if x < 0 then ''-'' else []) @ replicate (width - length ds) (CHR ''0'') @ ds)"

definition format_rfc3339 :: "int \<Rightarrow> string" where
  "format_rfc3339 t =
     (let (y, m, d) = civil (t div 86400); s = t mod 86400
      in append_int 4 y @ ''-'' @ append_int 2 m @ ''-'' @ append_int 2 d @ ''T'' @
         append_int 2 (s div 3600) @ '':'' @ append_int 2 (s div 60 mod 60) @ '':'' @ append_int 2 (s mod 60) @ ''Z'')"

section \<open>Reading a date back\<close>

text \<open>Days before a year, counted from year 1 the direct way.\<close>

definition days_before_year :: "int \<Rightarrow> int" where
  "days_before_year y = 365 * (y - 1) + (y - 1) div 4 - (y - 1) div 100 + (y - 1) div 400"

definition epoch_days :: "int \<Rightarrow> int \<Rightarrow> int \<Rightarrow> int" where
  "epoch_days y m d =
     days_before_year y - days_before_year 1970 + sum_list (take (nat (m - 1)) (month_days y)) + d - 1"

lemma div_pred:
  fixes y n :: int
  assumes "0 < n"
  shows "(y - 1) div n = y div n - (if y mod n = 0 then 1 else 0)"
proof (cases "y mod n = 0")
  case True
  have "y - 1 = n * (y div n - 1) + (n - 1)"
    using True mult_div_mod_eq [of n y] by (simp add: algebra_simps)
  from int_div_pos_eq [OF this] True assms show ?thesis by simp
next
  case False
  have eq: "y - 1 = n * (y div n) + (y mod n - 1)"
    using mult_div_mod_eq [of n y] by simp
  have "0 \<le> y mod n - 1" "y mod n - 1 < n"
    using False pos_mod_sign [OF assms, of y] pos_mod_bound [OF assms, of y] by linarith+
  from int_div_pos_eq [OF eq this] False show ?thesis by simp
qed

lemma days_before_next: "days_before_year (y + 1) = days_before_year y + year_days y"
proof -
  have "y mod 400 = 0 \<Longrightarrow> y mod 100 = 0" "y mod 100 = 0 \<Longrightarrow> y mod 4 = 0"
    using mod_mod_cancel [of 100 400 y] mod_mod_cancel [of 4 100 y] by simp_all
  then show ?thesis
    by (simp add: days_before_year_def year_days_def leap_def div_pred [of 4 y] div_pred [of 100 y] div_pred [of 400 y])
qed

lemma days_before_era: "days_before_year (y + 400 * k) = days_before_year y + 146097 * k"
proof -
  have "(y + 400 * k - 1) div 4 = (y - 1) div 4 + 100 * k"
    using div_mult_self1 [of 4 "y - 1" "100 * k"] by (simp add: algebra_simps)
  moreover have "(y + 400 * k - 1) div 100 = (y - 1) div 100 + 4 * k"
    using div_mult_self1 [of 100 "y - 1" "4 * k"] by (simp add: algebra_simps)
  moreover have "(y + 400 * k - 1) div 400 = (y - 1) div 400 + k"
    using div_mult_self1 [of 400 "y - 1" k] by (simp add: algebra_simps)
  ultimately show ?thesis by (simp add: days_before_year_def)
qed

lemma year_of_days:
  "0 \<le> d \<Longrightarrow> year_of y d = (y', d') \<Longrightarrow>
   days_before_year y' + d' = days_before_year y + d \<and> 0 \<le> d' \<and> d' < year_days y'"
proof (induction y d rule: year_of.induct)
  case (1 y d)
  show ?case
  proof (cases "d < year_days y")
    case True
    with 1 show ?thesis by (simp add: year_of.simps)
  next
    case False
    with "1.prems"(2) have "year_of (y + 1) (d - year_days y) = (y', d')" by (simp add: year_of.simps [of y d])
    with "1.IH" [OF False] False show ?thesis by (simp add: days_before_next)
  qed
qed

lemma month_of_days:
  "0 \<le> d \<Longrightarrow> d < sum_list ns \<Longrightarrow> month_of m d ns = (m', d') \<Longrightarrow>
   m \<le> m' \<and> m' < m + int (length ns) \<and> 0 \<le> d' \<and> d' < ns ! nat (m' - m) \<and>
   d = sum_list (take (nat (m' - m)) ns) + d'"
proof (induction ns arbitrary: m d)
  case Nil
  then show ?case by simp
next
  case (Cons n ns)
  show ?case
  proof (cases "d < n")
    case True
    with Cons.prems show ?thesis by auto
  next
    case False
    with Cons.prems have "month_of (m + 1) (d - n) ns = (m', d')" by simp
    from Cons.IH [OF _ _ this] Cons.prems False have
      IH: "m + 1 \<le> m'" "m' < m + 1 + int (length ns)" "0 \<le> d'" "d' < ns ! nat (m' - (m + 1))"
        "d - n = sum_list (take (nat (m' - (m + 1))) ns) + d'" by auto
    then have "nat (m' - m) = Suc (nat (m' - (m + 1)))" by linarith
    with IH show ?thesis by auto
  qed
qed

lemma month_days_sum: "sum_list (month_days y) = year_days y"
  by (simp add: month_days_def year_days_def)

text \<open>A valid date that is the given number of days after 1 January 1970.\<close>

definition valid_date :: "int \<Rightarrow> int \<Rightarrow> int \<Rightarrow> bool" where
  "valid_date y m d \<longleftrightarrow> 1 \<le> m \<and> m \<le> 12 \<and> 1 \<le> d \<and> d \<le> month_days y ! nat (m - 1)"

lemma civil_days:
  assumes "civil days = (y, m, d)"
  shows "valid_date y m d \<and> epoch_days y m d = days"
proof -
  let ?k = "days div 146097" and ?r = "days mod 146097"
  obtain yd md where y: "year_of (1970 + 400 * ?k) ?r = (y, yd)" and m: "month_of 1 yd (month_days y) = (m, md)"
    and d: "d = md + 1"
    using assms by (auto simp: civil_def split: prod.splits)
  have yd: "days_before_year y + yd = days_before_year (1970 + 400 * ?k) + ?r" "0 \<le> yd" "yd < year_days y"
    using year_of_days [OF _ y] by simp_all
  have "days_before_year y + yd = days_before_year 1970 + days"
    using yd(1) mult_div_mod_eq [of 146097 days] by (simp add: days_before_era)
  moreover have "1 \<le> m" "m < 1 + int (length (month_days y))" "0 \<le> md" "md < month_days y ! nat (m - 1)"
    "yd = sum_list (take (nat (m - 1)) (month_days y)) + md"
    using month_of_days [OF yd(2) _ m] yd(3) by (auto simp: month_days_sum)
  moreover have "length (month_days y) = 12" by (simp add: month_days_def)
  ultimately show ?thesis using d by (simp add: valid_date_def epoch_days_def)
qed

section \<open>Reading the text back\<close>

definition read_digits :: "string \<Rightarrow> int" where
  "read_digits s = foldl (\<lambda>n c. 10 * n + digit_value c) 0 s"

text \<open>The fields of a text in the layout of RFC 3339 with a four-digit year, in UTC.\<close>

definition read_rfc3339 :: "string \<Rightarrow> int" where
  "read_rfc3339 s =
     (let field = (\<lambda>from len. read_digits (take len (drop from s)))
      in epoch_days (field 0 4) (field 5 2) (field 8 2) * 86400 +
         field 11 2 * 3600 + field 14 2 * 60 + field 17 2)"

lemma digit_value_nth: "k < 10 \<Longrightarrow> digit_value (''0123456789'' ! k) = int k"
proof -
  assume "k < 10"
  then have "k \<in> {0, 1, 2, 3, 4, 5, 6, 7, 8, 9}" by auto
  then show ?thesis by (auto simp: digit_value_def)
qed

lemma read_digits_of: "read_digits (digits_of n) = int n"
proof (induction n rule: digits_of.induct)
  case (1 n)
  show ?case
  proof (cases "n < 10")
    case True
    then show ?thesis by (simp add: digits_of.simps [of n] read_digits_def digit_value_nth)
  next
    case False
    have "read_digits (digits_of n) = 10 * read_digits (digits_of (n div 10)) + int (n mod 10)"
      using False by (simp add: digits_of.simps [of n] read_digits_def digit_value_nth)
    also have "\<dots> = int (10 * (n div 10) + n mod 10)"
      by (simp only: 1 [OF False] of_nat_add of_nat_mult of_nat_numeral)
    also have "\<dots> = int n" by (simp only: mult_div_mod_eq)
    finally show ?thesis .
  qed
qed

lemma read_zeros: "read_digits (replicate k (CHR ''0'') @ s) = read_digits s"
  by (induction k) (simp_all add: read_digits_def digit_value_def)

lemma length_digits: "n < 10 ^ Suc w \<Longrightarrow> length (digits_of n) \<le> Suc w"
proof (induction w arbitrary: n)
  case 0
  then show ?case by (simp add: digits_of.simps)
next
  case (Suc w)
  show ?case
  proof (cases "n < 10")
    case True
    then show ?thesis by (simp add: digits_of.simps [of n])
  next
    case False
    have "n div 10 < 10 ^ Suc w" using Suc.prems by (simp add: div_less_iff_less_mult)
    with Suc.IH False show ?thesis by (simp add: digits_of.simps [of n])
  qed
qed

lemma append_int_field:
  assumes "0 \<le> x" "x < 10 ^ Suc w"
  shows "length (append_int (Suc w) x) = Suc w" "read_digits (append_int (Suc w) x) = x"
proof -
  have "length (digits_of (nat x)) \<le> Suc w"
    by (rule length_digits) (use assms in \<open>simp add: nat_less_iff\<close>)
  then show "length (append_int (Suc w) x) = Suc w" using assms by (simp add: append_int_def Let_def)
  show "read_digits (append_int (Suc w) x) = x"
    using assms by (simp add: append_int_def Let_def read_zeros read_digits_of)
qed

lemma month_days_bound: "1 \<le> m \<Longrightarrow> m \<le> 12 \<Longrightarrow> month_days y ! nat (m - 1) \<le> 31"
proof -
  assume "1 \<le> m" "m \<le> 12"
  then have "month_days y ! nat (m - 1) \<in> set (month_days y)" by (intro nth_mem) (simp add: month_days_def)
  then show ?thesis by (auto simp: month_days_def split: if_splits)
qed

lemma clock_fields:
  fixes s :: int
  assumes "0 \<le> s" "s < 86400"
  shows "0 \<le> s div 3600" "s div 3600 < 100" "0 \<le> s div 60 mod 60" "s div 60 mod 60 < 100"
    "0 \<le> s mod 60" "s mod 60 < 100" "s div 3600 * 3600 + s div 60 mod 60 * 60 + s mod 60 = s"
proof -
  have "s div 3600 = s div 60 div 60" by (simp flip: zdiv_zmult2_eq)
  then show "s div 3600 * 3600 + s div 60 mod 60 * 60 + s mod 60 = s"
    using div_mult_mod_eq [of "s div 60" 60] div_mult_mod_eq [of s 60] by linarith
  show "s div 60 mod 60 < 100" "s mod 60 < 100"
    using pos_mod_bound [of 60 "s div 60"] pos_mod_bound [of 60 s] by linarith+
  show "s div 3600 < 100" using assms by (simp add: div_less_iff_less_mult)
qed (use assms in \<open>simp_all add: pos_imp_zdiv_nonneg_iff\<close>)

lemma two_digits:
  assumes "0 \<le> x" "x < 100"
  shows "length (append_int 2 x) = 2" "read_digits (append_int 2 x) = x"
  using append_int_field [of x 1] assms by (simp_all add: numeral_eq_Suc)

lemma four_digits:
  assumes "0 \<le> x" "x \<le> 9999"
  shows "length (append_int 4 x) = 4" "read_digits (append_int 4 x) = x"
  using append_int_field [of x 3] assms by (simp_all add: numeral_eq_Suc)

lemma format_rfc3339_read:
  assumes "civil (t div 86400) = (y, m, d)" and "0 \<le> y" and "y \<le> 9999"
  shows "read_rfc3339 (format_rfc3339 t) = t"
proof -
  define s where "s = t mod 86400"
  have s: "0 \<le> s" "s < 86400" by (simp_all add: s_def)
  note h = clock_fields [OF s]
  have c: "valid_date y m d" "epoch_days y m d = t div 86400" using civil_days [OF assms(1)] by auto
  have md: "0 \<le> m" "m < 100" "0 \<le> d" "d < 100" using c(1) month_days_bound [of m y] by (auto simp: valid_date_def)
  note f = four_digits [OF assms(2,3)] two_digits [OF md(1,2)] two_digits [OF md(3,4)]
    two_digits [OF h(1,2)] two_digits [OF h(3,4)] two_digits [OF h(5,6)]
  have "format_rfc3339 t = append_int 4 y @ ''-'' @ append_int 2 m @ ''-'' @ append_int 2 d @ ''T'' @
      append_int 2 (s div 3600) @ '':'' @ append_int 2 (s div 60 mod 60) @ '':'' @ append_int 2 (s mod 60) @ ''Z''"
    by (simp only: format_rfc3339_def assms(1) s_def Let_def prod.case)
  then have "read_rfc3339 (format_rfc3339 t) =
      epoch_days y m d * 86400 + s div 3600 * 3600 + s div 60 mod 60 * 60 + s mod 60"
    by (simp add: read_rfc3339_def f)
  also have "\<dots> = t div 86400 * 86400 + s" using h(7) c(2) by simp
  also have "\<dots> = t" unfolding s_def by (rule div_mult_mod_eq)
  finally show ?thesis .
qed

end
