(* ===== verification/Mirror.thy ===== *)
theory Mirror
  imports Schedules Connection
begin

text \<open>
  Mirroring (\<open>internal/provider/backup_mirror.go\<close>): a Backup the operator creates for one of the
  provider's ScheduledBackups becomes an OpenEverest Backup, which SyncBackup then adopts.
\<close>

section \<open>Mirror\<close>

datatype backup_origin = BackupOriginTypeInstance string

record mirrored_backup =
  mb_name :: string
  mb_namespace :: string
  mb_origin :: backup_origin
  mb_class_ref :: string
  mb_storage_ref :: string
  mb_schedule_name :: string
  mb_parameters :: "opaque option"

text \<open>The object of the watch event; other kinds are not mirrored.\<close>

datatype watched_object = CNPGBackup cnpg_backup | OtherObject

text \<open>
  \<open>parent_label\<close> is \<open>ParentScheduledBackupLabelName\<close> of the operator; \<open>get_instance\<close> reads an
  Instance by namespace and name.
\<close>

definition Mirror ::
  "string \<Rightarrow> (string \<times> string \<Rightarrow> api_err + cnpg_instance) \<Rightarrow> watched_object \<Rightarrow> mirrored_backup option result" where
  "Mirror parent_label get_instance obj =
     (case obj of
        OtherObject \<Rightarrow> Inr None
      | CNPGBackup nb \<Rightarrow>
          let sbName = read_map (nb_labels nb) parent_label
          in if sbName = [] then Inr None
             else case nb_plugin nb of
               None \<Rightarrow> Inr None
             | Some pluginCfg \<Rightarrow>
                 if bp_name pluginCfg \<noteq> PluginName then Inr None
                 else
                   let storageName = read_map (bp_parameters pluginCfg) PluginParameterObjectStore
                   in if storageName = [] then Inr None
                      else case get_instance (nb_namespace nb, nb_cluster nb) of
                        Inl NotFound \<Rightarrow> Inr None
                      | Inl e \<Rightarrow> Inl (Wrap ''get parent Instance %q: %w'' [S (nb_cluster nb)] (Api e))
                      | Inr inst \<Rightarrow>
                          if in_provider_ref inst \<noteq> ProviderName then Inr None
                          else case in_backup inst of
                            None \<Rightarrow> Inr None
                          | Some b \<Rightarrow>
                              if bk_class_ref b = [] then Inr None
                              else case ScheduleForScheduledBackup (in_name inst) (in_backup inst) sbName of
                                None \<Rightarrow> Inr None
                              | Some schedule \<Rightarrow>
                                  Inr (Some \<lparr>mb_name = nb_name nb, mb_namespace = nb_namespace nb,
                                    mb_origin = BackupOriginTypeInstance (in_name inst),
                                    mb_class_ref = bk_class_ref b, mb_storage_ref = storageName,
                                    mb_schedule_name = bs_name schedule, mb_parameters = bs_parameters schedule\<rparr>))"

section \<open>Backups of the provider's own ScheduledBackups\<close>

text \<open>
  What the operator does with a ScheduledBackup of a namespace: the Backups it creates carry its
  name in a label, its plugin configuration and its cluster.
\<close>

definition produced_by :: "string \<Rightarrow> desired_backup \<Rightarrow> cnpg_backup \<Rightarrow> bool" where
  "produced_by parent_label sb nb \<longleftrightarrow>
     nb_labels nb parent_label = Some (fst sb) \<and> nb_plugin nb = Some (ss_plugin (snd sb)) \<and>
     nb_cluster nb = ss_cluster (snd sb)"

lemma scheduledBackupName_nonempty: "scheduledBackupName inst n \<noteq> []"
  by (simp add: scheduledBackupName_def Let_def)

lemma built_of:
  "list_all2 (built unmarshal name) xs ds \<Longrightarrow> d \<in> set ds \<Longrightarrow> \<exists>x\<in>set xs. built unmarshal name x d"
  by (induction rule: list_all2_induct) auto

lemma enabled_schedules_mem:
  "(storage, s) \<in> set (enabled_schedules b) \<Longrightarrow>
   s \<in> set (concat (map is_schedules (bk_storages b))) \<and> (\<exists>st\<in>set (bk_storages b). is_storage_ref st = storage)"
  by (auto simp: enabled_schedules_def)

lemma ScheduleForScheduledBackup_first:
  assumes "s \<in> set schedules" and "schedules = concat (map is_schedules (bk_storages b))"
    and "scheduledBackupName n (bs_name s) = sbName"
  obtains t where "ScheduleForScheduledBackup n (Some b) sbName = Some t"
    "List.find (\<lambda>t. scheduledBackupName n (bs_name t) = sbName) schedules = Some t"
    "distinct (map (\<lambda>t. scheduledBackupName n (bs_name t)) schedules) \<Longrightarrow> t = s"
proof -
  let ?P = "\<lambda>t. scheduledBackupName n (bs_name t) = sbName"
  obtain t where t: "List.find ?P schedules = Some t" using find_first [of s schedules ?P] assms by auto
  then have "t \<in> set schedules" "?P t" by (auto dest: find_SomeD)
  with assms have "t = s" if "distinct (map (\<lambda>t. scheduledBackupName n (bs_name t)) schedules)"
    using that by (auto simp: distinct_map inj_on_def)
  with t assms(2) show thesis by (intro that [of t]) (simp_all add: ScheduleForScheduledBackup_def)
qed

text \<open>C33: every Backup the operator creates for a ScheduledBackup of an Instance is mirrored as a
  Backup of that Instance and its backup class, in the storage the ScheduledBackup archives to,
  so that SyncBackup applies to it. It carries the first schedule of the Instance whose
  ScheduledBackup has that name; when no two schedules share a ScheduledBackup name, that is the very
  schedule the ScheduledBackup was built from. The API requires a storage reference to be non-empty.\<close>

theorem Mirror_scheduled:
  assumes build: "buildScheduledBackups unmarshal (in_name inst) (Some b) = Inr ds" "sb \<in> set ds"
    and nb: "produced_by parent_label sb nb" "get_instance (nb_namespace nb, in_name inst) = Inr inst"
    and inst: "in_provider_ref inst = ProviderName" "in_backup inst = Some b" "bk_enabled b" "bk_class_ref b \<noteq> []"
    and refs: "\<forall>st\<in>set (bk_storages b). is_storage_ref st \<noteq> []"
    and schedules: "schedules = concat (map is_schedules (bk_storages b))"
  shows "\<exists>storage s t. (storage, s) \<in> set (enabled_schedules b) \<and>
    fst sb = scheduledBackupName (in_name inst) (bs_name s) \<and> ss_plugin (snd sb) = PluginConfiguration storage \<and>
    List.find (\<lambda>t. scheduledBackupName (in_name inst) (bs_name t) = fst sb) schedules = Some t \<and>
    (distinct (map (\<lambda>t. scheduledBackupName (in_name inst) (bs_name t)) schedules) \<longrightarrow> t = s) \<and>
    Mirror parent_label get_instance (CNPGBackup nb) =
      Inr (Some \<lparr>mb_name = nb_name nb, mb_namespace = nb_namespace nb,
        mb_origin = BackupOriginTypeInstance (in_name inst), mb_class_ref = bk_class_ref b,
        mb_storage_ref = storage, mb_schedule_name = bs_name t, mb_parameters = bs_parameters t\<rparr>)"
proof -
  from built_of [OF buildScheduledBackups_built [OF build(1) inst(3)] build(2)] obtain storage s c cfg where
    s: "(storage, s) \<in> set (enabled_schedules b)" and sb: "sb = scheduled_backup (in_name inst) storage s c cfg"
    by auto
  note mem = enabled_schedules_mem [OF s]
  have name: "scheduledBackupName (in_name inst) (bs_name s) = fst sb" by (simp add: sb scheduled_backup_def)
  obtain t where found: "ScheduleForScheduledBackup (in_name inst) (Some b) (fst sb) = Some t"
    and t: "List.find (\<lambda>t. scheduledBackupName (in_name inst) (bs_name t) = fst sb) schedules = Some t"
      "distinct (map (\<lambda>t. scheduledBackupName (in_name inst) (bs_name t)) schedules) \<longrightarrow> t = s"
    using ScheduleForScheduledBackup_first [OF _ schedules name] mem schedules by blast
  have "storage \<noteq> []" "fst sb \<noteq> []" using mem refs scheduledBackupName_nonempty by (auto simp flip: name)
  then have "Mirror parent_label get_instance (CNPGBackup nb) =
      Inr (Some \<lparr>mb_name = nb_name nb, mb_namespace = nb_namespace nb,
        mb_origin = BackupOriginTypeInstance (in_name inst), mb_class_ref = bk_class_ref b,
        mb_storage_ref = storage, mb_schedule_name = bs_name t, mb_parameters = bs_parameters t\<rparr>)"
    using nb inst found
    by (simp add: Mirror_def produced_by_def sb scheduled_backup_def read_map_def PluginConfiguration_def)
  moreover have "ss_plugin (snd sb) = PluginConfiguration storage" by (simp add: sb scheduled_backup_def)
  ultimately show ?thesis using s name t by metis
qed

section \<open>A mirrored Backup\<close>

definition mirrored_instance :: cnpg_instance where
  "mirrored_instance = \<lparr>in_name = ''pg'', in_namespace = ''ns'', in_uid = ''uid'', in_deletion_timestamp = None,
     in_provider_ref = ProviderName, in_version = [], in_components = Map.empty,
     in_backup = Some daily_backup, in_data_source = None, in_topology_parameters = None\<rparr>"

definition produced_backup :: cnpg_backup where
  "produced_backup = (new_cnpg_backup ''pg-daily-1'' ''ns'')
     \<lparr>nb_labels := [''parent'' \<mapsto> ''pg-daily''], nb_cluster := ''pg'', nb_plugin := Some (PluginConfiguration ''s3'')\<rparr>"

theorem Mirror_scheduled_witness:
  "\<exists>m. Mirror ''parent'' (\<lambda>_. Inr mirrored_instance) (CNPGBackup produced_backup) = Inr (Some m) \<and>
     mb_schedule_name m = ''daily'' \<and> mb_storage_ref m = ''s3''"
proof -
  have "produced_by ''parent'' (''pg-daily'', daily_spec) produced_backup"
    by (simp add: produced_by_def produced_backup_def daily_spec_def scheduled_backup_def)
  note produced = this
  have inst: "in_name mirrored_instance = ''pg''" "in_backup mirrored_instance = Some daily_backup"
    "in_provider_ref mirrored_instance = ProviderName"
    by (simp_all add: mirrored_instance_def)
  have b: "bk_enabled daily_backup" "bk_class_ref daily_backup \<noteq> []" "\<forall>st\<in>set (bk_storages daily_backup). is_storage_ref st \<noteq> []"
    "[daily] = concat (map is_schedules (bk_storages daily_backup))"
    "enabled_schedules daily_backup = [(''s3'', daily)]" "bs_name daily = ''daily''"
    by (simp_all add: daily_backup_def daily_def enabled_schedules_def)
  have build: "buildScheduledBackups no_json (in_name mirrored_instance) (Some daily_backup) = Inr [(''pg-daily'', daily_spec)]"
    by (simp add: inst daily_build)
  obtain storage s t where m: "(storage, s) \<in> set (enabled_schedules daily_backup)"
      "List.find (\<lambda>t. scheduledBackupName ''pg'' (bs_name t) = ''pg-daily'') [daily] = Some t"
      "Mirror ''parent'' (\<lambda>_. Inr mirrored_instance) (CNPGBackup produced_backup) =
        Inr (Some \<lparr>mb_name = nb_name produced_backup, mb_namespace = nb_namespace produced_backup,
          mb_origin = BackupOriginTypeInstance ''pg'', mb_class_ref = bk_class_ref daily_backup,
          mb_storage_ref = storage, mb_schedule_name = bs_name t, mb_parameters = bs_parameters t\<rparr>)"
    using Mirror_scheduled [OF build _ produced _ inst(3,2) b(1-4), of "\<lambda>_. Inr mirrored_instance"]
    unfolding inst by auto
  have "t = daily" "storage = ''s3''"
    using m(1,2) b(6) by (simp_all add: b(5) daily_name)
  with m(3) b(6) show ?thesis by simp
qed

end
