(* ===== verification/Extension_Lifecycle.thy ===== *)
theory Extension_Lifecycle
  imports Extensions
begin

text \<open>
  The life of an Instance's extensions over many reconciliations: each accepted set of
  parameters is validated against the deployed Cluster and Database and then synced (the order
  of \<open>Provider.Validate\<close> and \<open>Provider.Sync\<close> in \<open>internal/provider/provider.go\<close>). A sync may
  stop after the Cluster, while a restore runs or because a later call failed, and the operator
  may change statuses at any time. Of the stored Cluster only the names of its extension images
  matter; the operator's webhook may fill in the rest.
\<close>

section \<open>The machine\<close>

record deployed =
  de_cluster :: "cluster option"
  de_database :: "database option"

definition nothing_deployed :: deployed where
  "nothing_deployed = \<lparr>de_cluster = None, de_database = None\<rparr>"

definition read_object :: "'a option \<Rightarrow> api_err + 'a" where
  "read_object x = (case x of None \<Rightarrow> Inl NotFound | Some y \<Rightarrow> Inr y)"

definition user_entries :: "custom_spec option \<Rightarrow> string set" where
  "user_entries custom =
     (case Option.bind custom cu_postgresql of None \<Rightarrow> {} | Some p \<Rightarrow> set (map ec_name (pc_extensions p)))"

text \<open>The extension checks of Provider.Validate, in their order.\<close>

definition accepted :: "deployed \<Rightarrow> custom_spec option \<Rightarrow> string \<Rightarrow> string \<Rightarrow> bool" where
  "accepted s custom ev iv \<longleftrightarrow>
     or_else (ValidateExtensions custom ev iv)
       (or_else (ValidateExtensionsNotDisabled (read_object (de_database s)) custom)
         (ValidateExtensionsAtCreation (read_object (de_cluster s)) custom)) = None"

inductive reconcile :: "custom_spec option \<Rightarrow> deployed \<Rightarrow> deployed \<Rightarrow> bool" where
  cluster_applied:
    "accepted s custom ev iv \<Longrightarrow>
     ResolveExtensionImages get fx cat custom ev iv = Inr images \<Longrightarrow>
     entry_names spec = user_entries custom \<Longrightarrow>
     entry_names (cl_spec pg) = entry_names (ApplyExtensions spec custom images) \<Longrightarrow>
     reconcile custom s (s\<lparr>de_cluster := Some pg\<rparr>)"
| database_applied:
    "accepted s custom ev iv \<Longrightarrow>
     ResolveExtensionImages get fx cat custom ev iv = Inr images \<Longrightarrow>
     entry_names spec = user_entries custom \<Longrightarrow>
     entry_names (cl_spec pg) = entry_names (ApplyExtensions spec custom images) \<Longrightarrow>
     BuildExtensionsDatabase name custom images = Some d \<Longrightarrow>
     db_spec db = d \<Longrightarrow>
     reconcile custom s (s\<lparr>de_cluster := Some pg, de_database := Some db\<rparr>)"
| operator_cluster:
    "de_cluster s = Some pg \<Longrightarrow> cl_spec pg' = cl_spec pg \<Longrightarrow>
     reconcile custom s (s\<lparr>de_cluster := Some pg'\<rparr>)"
| operator_database:
    "de_database s = Some db \<Longrightarrow> db_spec db' = db_spec db \<Longrightarrow>
     reconcile custom s (s\<lparr>de_database := Some db'\<rparr>)"

inductive_cases reconcileE: "reconcile custom s s'"

inductive history :: "custom_spec option list \<Rightarrow> deployed \<Rightarrow> deployed \<Rightarrow> bool" where
  history_nil: "history [] s s"
| history_snoc: "history cs s t \<Longrightarrow> reconcile c t u \<Longrightarrow> history (cs @ [c]) s u"

section \<open>Installed extensions\<close>

definition installed_sql :: "deployed \<Rightarrow> string set" where
  "installed_sql s =
     (case de_database s of None \<Rightarrow> {} | Some db \<Rightarrow> set (map xs_name (dp_extensions (db_spec db))))"

definition deployed_entries :: "deployed \<Rightarrow> string set" where
  "deployed_entries s = (case de_cluster s of None \<Rightarrow> {} | Some pg \<Rightarrow> entry_names (cl_spec pg))"

definition created_sql :: "custom_spec option \<Rightarrow> string set" where
  "created_sql custom = ex_sql_extension ` set (createdExtensions custom)"

text \<open>Only the provider writes the Database: it lists first-class extensions.\<close>

definition provider_database :: "deployed \<Rightarrow> bool" where
  "provider_database s \<longleftrightarrow> installed_sql s \<subseteq> ex_sql_extension ` set firstClassExtensions - {[]}"

lemma created_sql_first_class: "created_sql custom \<subseteq> ex_sql_extension ` set firstClassExtensions - {[]}"
  by (auto simp: created_sql_def set_created)

lemma accepted_keeps_installed:
  assumes "accepted s custom ev iv" "provider_database s"
  shows "installed_sql s \<subseteq> created_sql custom"
proof (cases "de_database s")
  case None
  then show ?thesis by (simp add: installed_sql_def)
next
  case (Some db)
  have "ValidateExtensionsNotDisabled (Inr db) custom = None"
    using assms(1) Some by (simp add: accepted_def read_object_def)
  then have "\<forall>e\<in>set firstClassExtensions. ex_sql_extension e \<noteq> [] \<and> ex_sql_extension e \<in> installed_sql s
       \<longrightarrow> ex_sql_extension e \<in> created_sql custom"
    by (simp add: NotDisabled_iff list_all_iff installed_sql_def created_sql_def Some)
  with assms(2) show ?thesis by (auto simp: provider_database_def)
qed

lemma reconcile_provider_database:
  "reconcile custom s s' \<Longrightarrow> provider_database s \<Longrightarrow> provider_database s'"
proof (induction rule: reconcile.induct)
  case (database_applied s custom ev iv get fx cat images spec pg name d db)
  have "set (map xs_name (dp_extensions d)) = created_sql custom"
    using created_names [OF database_applied.hyps(5)] by (simp add: created_sql_def flip: set_map)
  with database_applied.hyps(6) created_sql_first_class show ?case
    by (simp add: provider_database_def installed_sql_def)
qed (auto simp: provider_database_def installed_sql_def)

lemma reconcile_installed_mono:
  "reconcile custom s s' \<Longrightarrow> provider_database s \<Longrightarrow> installed_sql s \<subseteq> installed_sql s'"
proof (induction rule: reconcile.induct)
  case (database_applied s custom ev iv get fx cat images spec pg name d db)
  have "set (map xs_name (dp_extensions d)) = created_sql custom"
    using created_names [OF database_applied.hyps(5)] by (simp add: created_sql_def flip: set_map)
  with database_applied.hyps(6) accepted_keeps_installed [OF database_applied.hyps(1) database_applied.prems]
  show ?case by (simp add: installed_sql_def)
qed (auto simp: installed_sql_def)

lemma history_provider_database: "history cs s t \<Longrightarrow> provider_database s \<Longrightarrow> provider_database t"
  by (induction rule: history.induct) (auto intro: reconcile_provider_database)

lemma history_installed:
  assumes "history cs nothing_deployed s" and "history cs' s t"
  shows "installed_sql s \<subseteq> installed_sql t"
proof -
  have "provider_database nothing_deployed"
    by (simp add: provider_database_def installed_sql_def nothing_deployed_def)
  with assms(1) have start: "provider_database s" by (rule history_provider_database)
  from assms(2) start show ?thesis
  proof (induction rule: history.induct)
    case (history_snoc cs s t c u)
    then show ?case
      using reconcile_installed_mono history_provider_database by (meson subset_trans)
  qed simp
qed

text \<open>C1: whatever sequence of accepted parameter changes, syncs, interrupted syncs and operator
  updates happens, an SQL extension the provider has created stays listed in the Database: it
  is never dropped.\<close>

theorem installed_never_dropped:
  assumes "history cs nothing_deployed s" and "history cs' s t"
  shows "installed_sql s \<subseteq> installed_sql t"
  using assms by (rule history_installed)

section \<open>Creation-only extensions\<close>

definition creation_entries :: "string set" where
  "creation_entries = {''timescaledb-oss'', ''timescaledb'', ''pg-ivm'', ''age''}"

lemma creation_entry_row:
  "e \<in> set firstClassExtensions \<Longrightarrow> ex_catalog_entry e \<in> creation_entries \<Longrightarrow> creationOnly e"
proof -
  have "\<forall>e\<in>set firstClassExtensions. ex_catalog_entry e \<in> creation_entries \<longrightarrow> creationOnly e"
    by (simp add: all_first_class creation_entries_def creationOnly_def)
  then show "e \<in> set firstClassExtensions \<Longrightarrow> ex_catalog_entry e \<in> creation_entries \<Longrightarrow> creationOnly e"
    by blast
qed

text \<open>Parameters that leave these entries of \<open>postgresql.extensions\<close> to the toggles.\<close>

definition plain :: "custom_spec option \<Rightarrow> bool" where
  "plain custom \<longleftrightarrow> user_entries custom \<inter> creation_entries = {}"

text \<open>The entries the parameters of a history list under \<open>postgresql.extensions\<close> themselves.\<close>

definition listed :: "custom_spec option list \<Rightarrow> string set" where
  "listed cs = \<Union> (user_entries ` set cs)"

lemma listed_simps [simp]:
  "listed [] = {}" "listed (c # cs) = user_entries c \<union> listed cs" "listed (cs @ ds) = listed cs \<union> listed ds"
  by (simp_all add: listed_def)

lemma listed_plain: "list_all plain cs \<longleftrightarrow> listed cs \<inter> creation_entries = {}"
  by (induction cs) (auto simp: plain_def)

lemma accepted_creation_entry:
  assumes "accepted s custom ev iv" "de_cluster s \<noteq> None"
    and "n \<in> ex_catalog_entry ` set (wantedExtensions custom)" "n \<in> creation_entries"
  shows "n \<in> deployed_entries s"
proof -
  obtain pg where pg: "de_cluster s = Some pg" using assms(2) by blast
  have "ValidateExtensionsAtCreation (Inr pg) custom = None"
    using assms(1) by (simp add: accepted_def read_object_def pg)
  then have all: "\<forall>e\<in>set (enabledExtensions custom). creationOnly e \<longrightarrow> has_entry pg (ex_catalog_entry e)"
    by (simp add: AtCreation_iff list_all_iff)
  obtain e where e: "e \<in> set (enabledExtensions custom)" "n = ex_catalog_entry e"
    using assms(3) by (auto simp: wantedExtensions_def)
  then have "creationOnly e" using creation_entry_row assms(4) by (auto simp: set_enabled)
  with all e show ?thesis by (simp add: deployed_entries_def pg entry_names_def has_entry_def)
qed

lemma applied_creation_entries:
  assumes "accepted s custom ev iv" "ResolveExtensionImages get fx cat custom ev iv = Inr images"
    and "entry_names spec = user_entries custom"
    and "entry_names (cl_spec pg) = entry_names (ApplyExtensions spec custom images)"
    and "de_cluster s \<noteq> None"
  shows "entry_names (cl_spec pg) \<inter> creation_entries \<subseteq> deployed_entries s \<union> user_entries custom"
  using accepted_creation_entry [OF assms(1,5)] assms(3) entry_names_ApplyExtensions [OF assms(2)]
  by (auto simp: assms(4))

lemma reconcile_creation_entries:
  "reconcile custom s s' \<Longrightarrow> de_cluster s \<noteq> None \<Longrightarrow>
     de_cluster s' \<noteq> None \<and> deployed_entries s' \<inter> creation_entries \<subseteq> deployed_entries s \<union> user_entries custom"
proof (induction rule: reconcile.induct)
  case (cluster_applied s custom ev iv get fx cat images spec pg)
  have "entry_names (cl_spec pg) \<inter> creation_entries \<subseteq> deployed_entries s \<union> user_entries custom"
    by (rule applied_creation_entries [OF cluster_applied.hyps(1-4) cluster_applied.prems])
  then show ?case by (simp add: deployed_entries_def)
next
  case (database_applied s custom ev iv get fx cat images spec pg name d db)
  have "entry_names (cl_spec pg) \<inter> creation_entries \<subseteq> deployed_entries s \<union> user_entries custom"
    by (rule applied_creation_entries [OF database_applied.hyps(1-4) database_applied.prems])
  then show ?case by (simp add: deployed_entries_def)
qed (auto simp: deployed_entries_def)

lemma history_creation_entries:
  assumes "history cs s t" and "de_cluster s \<noteq> None"
  shows "de_cluster t \<noteq> None \<and> deployed_entries t \<inter> creation_entries \<subseteq> deployed_entries s \<union> listed cs"
  using assms
proof (induction rule: history.induct)
  case (history_snoc cs s t c u)
  then have "de_cluster t \<noteq> None" "deployed_entries t \<inter> creation_entries \<subseteq> deployed_entries s \<union> listed cs" by auto
  moreover have "de_cluster u \<noteq> None \<and> deployed_entries u \<inter> creation_entries \<subseteq> deployed_entries t \<union> user_entries c"
    using history_snoc by (intro reconcile_creation_entries) auto
  ultimately show ?case by auto
qed simp

text \<open>C16: while the user leaves the creation-only entries to the toggles, no history of accepted
  changes mounts a creation-only image (the two TimescaleDB editions, pg_ivm, AGE) on a Cluster
  that was created without it.\<close>

theorem creation_only_frozen:
  assumes "history cs s t" and "list_all plain cs" and "de_cluster s \<noteq> None"
  shows "de_cluster t \<noteq> None \<and> deployed_entries t \<inter> creation_entries \<subseteq> deployed_entries s"
  using history_creation_entries [OF assms(1,3)] assms(2) by (auto simp: listed_plain)

text \<open>The OSS edition installed and mounted, and not the other one.\<close>

definition runs_edition :: "string \<Rightarrow> string \<Rightarrow> deployed \<Rightarrow> bool" where
  "runs_edition this other s \<longleftrightarrow>
     provider_database s \<and> de_cluster s \<noteq> None \<and> ''timescaledb'' \<in> installed_sql s \<and>
     this \<in> deployed_entries s \<and> other \<notin> deployed_entries s"

lemma created_timescaledb:
  "''timescaledb'' \<in> created_sql custom \<longleftrightarrow>
     toggle_on custom es_timescaledb \<or> toggle_on custom es_timescaledb_community"
  unfolding created_sql_def created_mem by (simp add: ex_first_class)

lemma wanted_editions:
  "''timescaledb-oss'' \<in> ex_catalog_entry ` set (wantedExtensions custom) \<longleftrightarrow> toggle_on custom es_timescaledb"
  "''timescaledb'' \<in> ex_catalog_entry ` set (wantedExtensions custom) \<longleftrightarrow>
     toggle_on custom es_timescaledb_community"
  unfolding wanted_mem by (simp_all add: ex_first_class)

lemma accepted_edition:
  assumes "accepted s custom ev iv" "runs_edition this other s"
    and "(this, other) \<in> {(''timescaledb-oss'', ''timescaledb''), (''timescaledb'', ''timescaledb-oss'')}"
  shows "this \<in> ex_catalog_entry ` set (wantedExtensions custom)"
proof -
  have "''timescaledb'' \<in> created_sql custom"
    using accepted_keeps_installed [OF assms(1)] assms(2) by (auto simp: runs_edition_def)
  moreover have "other \<notin> ex_catalog_entry ` set (wantedExtensions custom)"
    using accepted_creation_entry [OF assms(1)] assms(2,3)
    by (auto simp: runs_edition_def creation_entries_def)
  ultimately show ?thesis using assms(3) by (auto simp: created_timescaledb wanted_editions)
qed

lemma reconcile_edition:
  assumes "reconcile custom s s'" "other \<notin> user_entries custom" "runs_edition this other s"
    and pair: "(this, other) \<in> {(''timescaledb-oss'', ''timescaledb''), (''timescaledb'', ''timescaledb-oss'')}"
  shows "runs_edition this other s'"
proof -
  have inv: "provider_database s'" "installed_sql s \<subseteq> installed_sql s'"
    "de_cluster s' \<noteq> None" "deployed_entries s' \<inter> creation_entries \<subseteq> deployed_entries s \<union> user_entries custom"
    using reconcile_provider_database [OF assms(1)] reconcile_installed_mono [OF assms(1)]
      reconcile_creation_entries [OF assms(1)] assms(3) by (auto simp: runs_edition_def)
  have "other \<in> creation_entries" using pair by (auto simp: creation_entries_def)
  with inv(4) assms(2,3) have "other \<notin> deployed_entries s'" by (auto simp: runs_edition_def)
  moreover have "this \<in> deployed_entries s'"
    using assms(1)
  proof (cases rule: reconcile.cases)
    case (cluster_applied ev iv get fx cat images spec pg)
    then show ?thesis
      using accepted_edition [OF _ assms(3) pair] entry_names_ApplyExtensions
      by (simp add: deployed_entries_def)
  next
    case (database_applied ev iv get fx cat images spec pg)
    then show ?thesis
      using accepted_edition [OF _ assms(3) pair] entry_names_ApplyExtensions
      by (simp add: deployed_entries_def)
  qed (use assms(3) in \<open>auto simp: runs_edition_def deployed_entries_def\<close>)
  ultimately show ?thesis using inv assms(3) by (auto simp: runs_edition_def)
qed

lemma history_edition:
  assumes "history cs s t" and "other \<notin> listed cs" and "runs_edition this other s"
    and "(this, other) \<in> {(''timescaledb-oss'', ''timescaledb''), (''timescaledb'', ''timescaledb-oss'')}"
  shows "runs_edition this other t"
  using assms
proof (induction rule: history.induct)
  case (history_snoc cs s t c u)
  then show ?case using reconcile_edition by (auto simp del: insert_iff)
qed simp


section \<open>A sample history\<close>

definition ts_on :: "custom_spec option" where
  "ts_on = with_extensions (no_extensions\<lparr>es_timescaledb := on\<rparr>)"

definition ts_vector_on :: "custom_spec option" where
  "ts_vector_on = with_extensions (no_extensions\<lparr>es_timescaledb := on, es_pgvector := on\<rparr>)"

definition ts_image :: extension_image where
  "ts_image = \<lparr>im_config = \<lparr>ec_name = ''timescaledb-oss'', ec_body = ''image''\<rparr>, im_sql_version = []\<rparr>"

definition sample_cluster :: "cluster_spec \<Rightarrow> cluster" where
  "sample_cluster spec = \<lparr>cl_name = ''pg'', cl_creation_timestamp = [], cl_spec = spec,
     cl_status = zero_cluster_status\<rparr>"

definition sample_database :: "database_spec \<Rightarrow> database" where
  "sample_database spec = \<lparr>db_generation = 1, db_spec = spec,
     db_status = \<lparr>ds_observed_generation = 0, ds_applied = None, ds_message = [], ds_extensions = []\<rparr>\<rparr>"

definition sample_synced :: "custom_spec option \<Rightarrow> deployed \<Rightarrow> deployed" where
  "sample_synced custom s = s\<lparr>
     de_cluster := Some (sample_cluster (ApplyExtensions zero_cluster_spec custom [''timescaledb-oss'' \<mapsto> ts_image])),
     de_database := Some (sample_database (the (BuildExtensionsDatabase ''pg'' custom [''timescaledb-oss'' \<mapsto> ts_image])))\<rparr>"

lemma ts_created:
  "createdExtensions ts_on = [ext_timescaledb]" "createdExtensions ts_vector_on = [ext_timescaledb, ext_pgvector]"
  "wantedExtensions ts_on = [ext_timescaledb]" "wantedExtensions ts_vector_on = [ext_timescaledb]"
  by (simp_all add: createdExtensions_def wantedExtensions_def enabledExtensions_def firstClassExtensions_def
      ext_enabled_toggle ts_on_def ts_vector_on_def sample_toggles)

lemma ts_resolve:
  assumes "custom \<in> {ts_on, ts_vector_on}"
  shows "ResolveExtensionImages (\<lambda>_. Inr \<lparr>ic_annotations = Map.empty, ic_spec = []\<rparr>) (\<lambda>_ _. [im_config ts_image])
     ''cat'' custom ''18.6'' [] = Inr [''timescaledb-oss'' \<mapsto> ts_image]"
  using assms
  by (auto simp: ResolveExtensionImages_def ts_created postgresMajor_def sample_versions atoi_examples ts_image_def)

lemma ts_database:
  assumes "custom \<in> {ts_on, ts_vector_on}"
  shows "\<exists>d. BuildExtensionsDatabase ''pg'' custom images = Some d"
  using assms by (auto simp: BuildExtensionsDatabase_def ts_created split: prod.split)

lemma ts_valid:
  assumes "custom \<in> {ts_on, ts_vector_on}"
  shows "ValidateExtensions custom ''18.6'' [] = None"
  using assms
  by (auto simp: ValidateExtensions_iff deployable_def ts_on_def ts_vector_on_def sample_toggles
      postgresMajor_def sample_versions)

lemma ts_user_entries:
  assumes "custom \<in> {ts_on, ts_vector_on}"
  shows "user_entries custom = {}"
  using assms by (auto simp: user_entries_def ts_on_def ts_vector_on_def with_extensions_def zero_custom_def)

lemma ts_reconcile:
  assumes c: "custom \<in> {ts_on, ts_vector_on}" and "accepted s custom ''18.6'' []"
  shows "reconcile custom s (sample_synced custom s)"
proof -
  obtain d where d: "BuildExtensionsDatabase ''pg'' custom [''timescaledb-oss'' \<mapsto> ts_image] = Some d"
    using ts_database [OF c] by blast
  have "entry_names zero_cluster_spec = user_entries custom"
    using ts_user_entries [OF c] by (simp add: entry_names_def zero_cluster_spec_def zero_postgres_def)
  then show ?thesis
    unfolding sample_synced_def
    by (rule reconcile.database_applied [OF assms(2) ts_resolve [OF c] _ _ d])
      (simp_all add: sample_cluster_def sample_database_def d)
qed

definition sample_start :: deployed where
  "sample_start = sample_synced ts_on nothing_deployed"

lemma sample_start_entries: "deployed_entries sample_start = {''timescaledb-oss''}"
  using entry_names_ApplyExtensions [OF ts_resolve [of ts_on]]
  by (simp add: sample_start_def sample_synced_def deployed_entries_def sample_cluster_def ts_created
      entry_names_def zero_cluster_spec_def zero_postgres_def)

lemma sample_start_installed: "installed_sql sample_start = {''timescaledb''}"
proof -
  obtain d where d: "BuildExtensionsDatabase ''pg'' ts_on [''timescaledb-oss'' \<mapsto> ts_image] = Some d"
    using ts_database [of ts_on] by blast
  with created_names [OF d] have "map xs_name (dp_extensions d) = [''timescaledb'']" by (simp add: ts_created)
  then have "set (map xs_name (dp_extensions d)) = {''timescaledb''}" by simp
  then show ?thesis
    by (simp add: sample_start_def sample_synced_def installed_sql_def sample_database_def d)
qed

lemma sample_history_1: "history [ts_on] nothing_deployed sample_start"
proof -
  have "accepted nothing_deployed ts_on ''18.6'' []"
    by (simp add: accepted_def ts_valid nothing_deployed_def read_object_def
        ValidateExtensionsNotDisabled_def ValidateExtensionsAtCreation_def)
  then have "reconcile ts_on nothing_deployed sample_start"
    unfolding sample_start_def by (intro ts_reconcile) simp
  from history_snoc [OF history_nil this] show ?thesis by simp
qed

lemma sample_history_2: "history [ts_vector_on] sample_start (sample_synced ts_vector_on sample_start)"
proof -
  obtain pg db where pg: "de_cluster sample_start = Some pg" and db: "de_database sample_start = Some db"
    by (simp add: sample_start_def sample_synced_def)
  have "ValidateExtensionsNotDisabled (Inr db) ts_vector_on = None"
    using sample_start_installed
    by (simp add: NotDisabled_iff list_all_iff installed_sql_def db ts_created)
  moreover have "ValidateExtensionsAtCreation (Inr pg) ts_vector_on = None"
    using sample_start_entries
    by (simp add: AtCreation_iff list_all_iff deployed_entries_def pg has_entry_def entry_names_def all_enabled
        all_first_class ts_vector_on_def sample_toggles creationOnly_def)
  ultimately have "accepted sample_start ts_vector_on ''18.6'' []"
    by (simp add: accepted_def ts_valid read_object_def pg db)
  then have "reconcile ts_vector_on sample_start (sample_synced ts_vector_on sample_start)"
    by (intro ts_reconcile) simp
  from history_snoc [OF history_nil this] show ?thesis by simp
qed

lemma sample_plain: "list_all plain [ts_vector_on]"
  by (simp add: plain_def ts_user_entries)

theorem installed_never_dropped_witness:
  "installed_sql sample_start \<subseteq> installed_sql (sample_synced ts_vector_on sample_start) \<and>
     ''timescaledb'' \<in> installed_sql sample_start"
  using installed_never_dropped [OF sample_history_1 sample_history_2] sample_start_installed by simp

theorem creation_only_frozen_witness:
  "de_cluster (sample_synced ts_vector_on sample_start) \<noteq> None \<and>
   deployed_entries (sample_synced ts_vector_on sample_start) \<inter> creation_entries \<subseteq> deployed_entries sample_start"
  by (rule creation_only_frozen [OF sample_history_2 sample_plain])
    (simp add: sample_start_def sample_synced_def)


section \<open>The gap in the creation-only check\<close>

definition age_on :: "opaque \<Rightarrow> custom_spec option" where
  "age_on body = Some (zero_custom\<lparr>cu_extensions := Some (no_extensions\<lparr>es_age := on\<rparr>),
     cu_postgresql := Some (zero_postgres\<lparr>pc_extensions := [\<lparr>ec_name = ''age'', ec_body = body\<rparr>]\<rparr>)\<rparr>)"

definition age_listed_only :: "opaque \<Rightarrow> custom_spec option" where
  "age_listed_only body = Some (zero_custom\<lparr>
     cu_postgresql := Some (zero_postgres\<lparr>pc_extensions := [\<lparr>ec_name = ''age'', ec_body = body\<rparr>]\<rparr>)\<rparr>)"

text \<open>Three Clusters' worth of syncs: without AGE, and after only listing its image.\<close>

definition cluster_without_age :: cluster where
  "cluster_without_age = sample_cluster (ApplyExtensions zero_cluster_spec (Some zero_custom) Map.empty)"

definition cluster_listing_age :: "opaque \<Rightarrow> cluster" where
  "cluster_listing_age body = sample_cluster (ApplyExtensions
     (zero_cluster_spec\<lparr>cs_postgres := zero_postgres\<lparr>pc_extensions := [\<lparr>ec_name = ''age'', ec_body = body\<rparr>]\<rparr>\<rparr>)
     (age_listed_only body) Map.empty)"

text \<open>C24: the creation-only check looks at names in the Cluster only. On a running Cluster
  without AGE, enabling it is rejected; but first listing an image named \<open>age\<close> under
  \<open>postgresql.extensions\<close> is accepted, and then the toggle is accepted too, although the
  bootstrap SQL of AGE has never run.\<close>

theorem creation_only_bypass:
  "ValidateExtensionsAtCreation (Inr cluster_without_age) (age_on body) \<noteq> None \<and>
   ValidateExtensionsAtCreation (Inr cluster_without_age) (age_listed_only body) = None \<and>
   ValidateExtensionsAtCreation (Inr (cluster_listing_age body)) (age_on body) = None \<and>
   cs_bootstrap (cl_spec (cluster_listing_age body)) = None"
proof -
  have none: "enabledExtensions (Some zero_custom) = []" "enabledExtensions (age_listed_only body) = []"
    by (simp_all add: enabledExtensions_def ext_enabled_toggle toggle_on_def zero_custom_def age_listed_only_def)
  have age: "enabledExtensions (age_on body) = [ext_age]"
    by (simp add: enabledExtensions_def firstClassExtensions_def ext_enabled_toggle toggle_on_def age_on_def
        no_extensions_def on_def zero_custom_def)
  show ?thesis
    by (simp add: cluster_without_age_def cluster_listing_age_def AtCreation_iff none age ApplyExtensions_def
        sample_cluster_def has_entry_def zero_cluster_spec_def zero_postgres_def creationOnly_def)
qed


end
