(* ===== verification/Roles.thy ===== *)
theory Roles
  imports Kube_Types
begin

text \<open>
  The readiness gate on managed PostgreSQL roles (\<open>internal/cnpg/roles.go\<close>). The range over
  the map of failures visits it in some order, which is the order of the list here.
\<close>

definition role_failure :: "string \<times> string list \<Rightarrow> msg" where
  "role_failure = (\<lambda>(role, errors).
     Fmt ''managed PostgreSQL role %q cannot be reconciled: %s'' [S role, S (join ''; '' errors)])"

definition awaiting_roles :: "string list \<Rightarrow> role_configuration list \<Rightarrow> string list" where
  "awaiting_roles reconciledRoles roles =
     map rc_name (filter (\<lambda>r. rc_name r \<notin> set reconciledRoles) roles)"

definition ManagedRolesStatus :: "cluster \<Rightarrow> 'd instance_status \<times> bool" where
  "ManagedRolesStatus pg =
     (case cs_managed (cl_spec pg) of
        None \<Rightarrow> (NoStatus, False)
      | Some managed \<Rightarrow>
          if length (mc_roles managed) = 0 then (NoStatus, False)
          else
            let roleStatus = st_managed_roles (cl_status pg);
                failureMessages = map role_failure (mr_cannot_reconcile roleStatus)
            in if length failureMessages > 0 then (Failed (Joined [CHR 0x0A] failureMessages), True)
               else
                 let reconciledRoles =
                       (case mr_by_status roleStatus RoleStatusReconciled of None \<Rightarrow> [] | Some rs \<Rightarrow> rs);
                     rolesAwaitingReconciliation = awaiting_roles reconciledRoles (mc_roles managed)
                 in if length rolesAwaitingReconciliation = 0 then (NoStatus, False)
                    else (Provisioning (Fmt ''waiting for managed PostgreSQL roles to be reconciled: %s''
                            [S (join '', '' rolesAwaitingReconciliation)]), True))"

section \<open>The gate\<close>

text \<open>Either no role is managed, or none has failed and each is reported as reconciled.\<close>

definition roles_reconciled :: "cluster \<Rightarrow> bool" where
  "roles_reconciled pg \<longleftrightarrow>
     (let roles = (case cs_managed (cl_spec pg) of None \<Rightarrow> [] | Some m \<Rightarrow> mc_roles m);
          status = st_managed_roles (cl_status pg)
      in roles = [] \<or>
         mr_cannot_reconcile status = [] \<and>
         list_all (\<lambda>r. \<exists>rs. mr_by_status status RoleStatusReconciled = Some rs \<and> rc_name r \<in> set rs) roles)"

lemma awaiting_none: "awaiting_roles rs roles = [] \<longleftrightarrow> list_all (\<lambda>r. rc_name r \<in> set rs) roles"
  by (auto simp: awaiting_roles_def filter_empty_conv list_all_iff)

interpretation roles_gate: readiness_gate "ManagedRolesStatus :: cluster \<Rightarrow> 'd instance_status \<times> bool" roles_reconciled
proof unfold_locales
  fix pg
  show "snd (ManagedRolesStatus pg :: 'd instance_status \<times> bool) \<longleftrightarrow> \<not> roles_reconciled pg"
    by (cases "mr_by_status (st_managed_roles (cl_status pg)) RoleStatusReconciled")
      (auto simp: ManagedRolesStatus_def roles_reconciled_def Let_def awaiting_none list_all_iff
        split: option.splits)
  show "snd (ManagedRolesStatus pg :: 'd instance_status \<times> bool) \<Longrightarrow>
      reports_waiting (fst (ManagedRolesStatus pg :: 'd instance_status \<times> bool))"
    by (auto simp: ManagedRolesStatus_def Let_def split: option.splits if_splits)
qed

text \<open>The role gate lets the Instance become Ready exactly when no managed role has failed
  and every managed role is reported as reconciled.\<close>

theorem ManagedRolesStatus_ready:
  "(case ManagedRolesStatus pg of (st, blocked) \<Rightarrow> if blocked then st else s) = Ready d \<longleftrightarrow>
     roles_reconciled pg \<and> s = Ready d"
  by (rule roles_gate.ready_only_if_open)

text \<open>A role that cannot be reconciled fails the Instance, with one line per failed role.\<close>

lemma ManagedRolesStatus_failed:
  "(\<exists>m. fst (ManagedRolesStatus pg :: 'd instance_status \<times> bool) = Failed m) \<longleftrightarrow>
     pred_option (\<lambda>m. mc_roles m \<noteq> []) (cs_managed (cl_spec pg)) \<and> cs_managed (cl_spec pg) \<noteq> None \<and>
     mr_cannot_reconcile (st_managed_roles (cl_status pg)) \<noteq> []"
  by (auto simp: ManagedRolesStatus_def Let_def split: option.splits)

end
