(* ===== verification/Restore.thy ===== *)
theory Restore
  imports Backup_Objects Go_Time
begin

text \<open>
  Restoring an Instance from a data source (\<open>internal/cnpg/barman/restore.go\<close>): the check of the
  source, the Backup it names, and the recovery section of the new Cluster. A nil pointer that
  the code dereferences is the error \<open>Panic\<close>.
\<close>

definition recoveryExternalClusterName :: string where
  "recoveryExternalClusterName = ''origin''"

definition ValidateDataSource :: "data_source option \<Rightarrow> err option" where
  "ValidateDataSource source =
     (case source of
        None \<Rightarrow> None
      | Some ds \<Rightarrow>
          if da_type ds = DataSourceTypeBackup
          then (if da_backup ds = None \<or> da_backup ds = Some []
                then Some (Errorf ''spec.dataSource.backup.backupRef.name is required'' [])
                else None)
          else if da_type ds = DataSourceTypePointInTime
          then (case da_point_in_time ds of
                  None \<Rightarrow> Some (Errorf ''spec.dataSource.pointInTime.source.storageRef.name is required'' [])
                | Some pitr \<Rightarrow>
                    if ps_storage_ref (pt_source pitr) = []
                    then Some (Errorf ''spec.dataSource.pointInTime.source.storageRef.name is required'' [])
                    else if pt_recovery_target pitr = RecoveryTargetDate \<and> pt_date pitr = None
                    then Some (Errorf ''spec.dataSource.pointInTime.date is required when recoveryTarget is date'' [])
                    else None)
          else Some (Errorf ''unsupported dataSource.type %q'' [S (da_type ds)]))"

text \<open>\<open>get_backup\<close> and \<open>get_cnpg\<close> read the two kinds of Backup by name.\<close>

definition resolveSourceBackup ::
  "(string \<Rightarrow> api_err + oe_backup) \<Rightarrow> (string \<Rightarrow> api_err + cnpg_backup) \<Rightarrow> data_source \<Rightarrow>
   (cnpg_backup \<times> string) result" where
  "resolveSourceBackup get_backup get_cnpg ds =
     (case da_backup ds of
        None \<Rightarrow> Inl (Panic ''ds.Backup'')
      | Some backupName \<Rightarrow>
          (case get_backup backupName of
             Inl NotFound \<Rightarrow> Inl (WaitFor ''source Backup %q not yet present'' [S backupName])
           | Inl e \<Rightarrow> Inl (BackupConfigError ''BackupResolutionFailed'' ''%v'' [E (Api e)])
           | Inr oeBackup \<Rightarrow>
               if ob_state oeBackup \<noteq> BackupStateSucceeded
               then Inl (WaitFor ''source Backup %q is in state %q, waiting for Succeeded''
                      [S backupName, state_arg (ob_state oeBackup)])
               else if ob_storage_ref oeBackup = []
               then Inl (BackupConfigError ''StorageRefMissing''
                      ''source Backup %q has no storageRef.name'' [S backupName])
               else
                 let cnpgBackupName = (case ob_operator_backup_ref oeBackup of
                       Some ref \<Rightarrow> if ref \<noteq> [] then ref else backupName | None \<Rightarrow> backupName)
                 in case get_cnpg cnpgBackupName of
                      Inl NotFound \<Rightarrow>
                        Inl (WaitFor ''CloudNativePG Backup %q not yet present'' [S cnpgBackupName])
                    | Inl e \<Rightarrow> Inl (Wrap ''get CloudNativePG Backup %q: %w'' [S cnpgBackupName] (Api e))
                    | Inr cnpgBackup \<Rightarrow>
                        if nb_phase cnpgBackup \<noteq> BackupPhaseCompleted
                        then Inl (WaitFor ''CloudNativePG Backup %q is not completed (phase=%q)''
                               [S cnpgBackupName, phase_arg (nb_phase cnpgBackup)])
                        else if nb_backup_id cnpgBackup = []
                        then Inl (Errorf ''CloudNativePG Backup %q has no Barman backup ID'' [S (nb_name cnpgBackup)])
                        else Inr (cnpgBackup, ob_storage_ref oeBackup)))"

text \<open>What to recover from: the object store, the server name in it, the target.\<close>

type_synonym recovery_source = "string \<times> string \<times> recovery_target option"

definition recovery_source ::
  "(string \<Rightarrow> api_err + oe_backup) \<Rightarrow> (string \<Rightarrow> api_err + cnpg_backup) \<Rightarrow> string \<Rightarrow> data_source \<Rightarrow>
   recovery_source result" where
  "recovery_source get_backup get_cnpg instanceName ds =
     (if da_type ds = DataSourceTypePointInTime
      then (case da_point_in_time ds of
              None \<Rightarrow> Inl (Panic ''ds.PointInTime'')
            | Some pitr \<Rightarrow>
                let objectStoreName = ps_storage_ref (pt_source pitr);
                    serverName = (case ps_instance_ref (pt_source pitr) of
                      Some ref \<Rightarrow> if ref \<noteq> [] then ref else instanceName | None \<Rightarrow> instanceName)
                in if pt_recovery_target pitr = RecoveryTargetDate
                   then (case pt_date pitr of
                           None \<Rightarrow> Inl (Panic ''pitr.Date'')
                         | Some date \<Rightarrow>
                             Inr (objectStoreName, serverName,
                               Some \<lparr>rt_backup_id = [], rt_target_time = format_rfc3339 date,
                                     rt_target_immediate = None\<rparr>))
                   else Inr (objectStoreName, serverName, None))
      else (case resolveSourceBackup get_backup get_cnpg ds of
              Inl e \<Rightarrow> Inl e
            | Inr (cnpgBackup, storeName) \<Rightarrow>
                let serverName = (if nb_server_name cnpgBackup \<noteq> [] then nb_server_name cnpgBackup
                                  else nb_cluster cnpgBackup)
                in if serverName = []
                   then Inl (Errorf ''CloudNativePG Backup %q has no server name (status.serverName / spec.cluster.name)''
                          [S (nb_name cnpgBackup)])
                   else Inr (storeName, serverName,
                          Some \<lparr>rt_backup_id = nb_backup_id cnpgBackup, rt_target_time = [],
                                rt_target_immediate = Some True\<rparr>)))"

text \<open>\<open>source\<close> is \<open>c.Instance().Spec.DataSource\<close>.\<close>

definition BuildRecoveryConfig ::
  "(string \<Rightarrow> api_err + oe_backup) \<Rightarrow> (string \<Rightarrow> api_err + cnpg_backup) \<Rightarrow> string \<Rightarrow> data_source option \<Rightarrow>
   custom_spec \<Rightarrow> (bootstrap_recovery \<times> external_cluster) result" where
  "BuildRecoveryConfig get_backup get_cnpg instanceName source custom =
     (case source of
        None \<Rightarrow> Inl (Panic ''ds'')
      | Some ds \<Rightarrow>
          (case recovery_source get_backup get_cnpg instanceName ds of
             Inl e \<Rightarrow> Inl e
           | Inr (objectStoreName, serverName, recoveryTarget) \<Rightarrow>
               let recovery = \<lparr>br_source = recoveryExternalClusterName, br_recovery_target = recoveryTarget,
                     br_database = [], br_owner = [], br_secret = None\<rparr>;
                   recovery' = (case Option.bind (cu_bootstrap custom) cb_initdb of
                     None \<Rightarrow> recovery
                   | Some initdb \<Rightarrow> recovery\<lparr>br_database := ib_database initdb, br_owner := ib_owner initdb,
                       br_secret := ib_secret initdb\<rparr>);
                   externalCluster = \<lparr>xc_name = recoveryExternalClusterName,
                     xc_plugin = Some \<lparr>pl_name = PluginName, pl_enabled = None, pl_is_wal_archiver = None,
                       pl_parameters = [PluginParameterObjectStore \<mapsto> objectStoreName,
                                        ''serverName'' \<mapsto> serverName]\<rparr>\<rparr>
               in Inr (recovery', externalCluster)))"


section \<open>Validated data sources\<close>

definition well_formed_source :: "data_source \<Rightarrow> bool" where
  "well_formed_source ds \<longleftrightarrow>
     (da_type ds = DataSourceTypeBackup \<and> (\<exists>n. n \<noteq> [] \<and> da_backup ds = Some n)) \<or>
     (da_type ds = DataSourceTypePointInTime \<and>
      (\<exists>p. da_point_in_time ds = Some p \<and> ps_storage_ref (pt_source p) \<noteq> [] \<and>
         (pt_recovery_target p = RecoveryTargetDate \<longrightarrow> pt_date p \<noteq> None)))"

lemma source_types: "DataSourceTypeBackup \<noteq> DataSourceTypePointInTime"
  by (simp add: DataSourceTypeBackup_def DataSourceTypePointInTime_def)

interpretation data_source_check: checker "\<lambda>ds. ValidateDataSource (Some ds)" well_formed_source
  by unfold_locales
    (use source_types in \<open>auto simp: ValidateDataSource_def well_formed_source_def split: option.splits\<close>)

lemma ValidateDataSource_iff [check_iffs]:
  "ValidateDataSource source = None \<longleftrightarrow> pred_option well_formed_source source"
  by (cases source) (simp_all add: data_source_check.check_iff ValidateDataSource_def [of None])

section \<open>Recovery\<close>

lemma resolveSourceBackup_ok:
  assumes "resolveSourceBackup get_backup get_cnpg ds = Inr (cb, store)"
  obtains name b where "da_backup ds = Some name" "get_backup name = Inr b" "ob_state b = BackupStateSucceeded"
    "store = ob_storage_ref b" "store \<noteq> []"
    "get_cnpg (case ob_operator_backup_ref b of Some ref \<Rightarrow> if ref \<noteq> [] then ref else name | None \<Rightarrow> name) = Inr cb"
    "nb_phase cb = BackupPhaseCompleted" "nb_backup_id cb \<noteq> []"
proof -
  obtain name where n: "da_backup ds = Some name"
    using assms by (cases "da_backup ds") (auto simp: resolveSourceBackup_def)
  obtain b where b: "get_backup name = Inr b"
    using assms n by (auto simp: resolveSourceBackup_def split: sum.splits api_err.splits)
  have s: "ob_state b = BackupStateSucceeded" "ob_storage_ref b \<noteq> []"
    using assms n b by (auto simp: resolveSourceBackup_def split: if_splits)
  let ?n = "case ob_operator_backup_ref b of Some ref \<Rightarrow> if ref \<noteq> [] then ref else name | None \<Rightarrow> name"
  obtain c where c: "get_cnpg ?n = Inr c"
    using assms n b s by (cases "get_cnpg ?n") (auto simp: resolveSourceBackup_def Let_def split: api_err.splits)
  then have "c = cb" "store = ob_storage_ref b" "nb_phase cb = BackupPhaseCompleted" "nb_backup_id cb \<noteq> []"
    using assms n b s by (auto simp: resolveSourceBackup_def Let_def split: if_splits)
  with n b s c show thesis by (intro that) auto
qed

lemma resolveSourceBackup_no_panic:
  "da_backup ds \<noteq> None \<Longrightarrow> resolveSourceBackup get_backup get_cnpg ds \<noteq> Inl (Panic m)"
  by (auto simp: resolveSourceBackup_def Let_def split: sum.splits api_err.splits if_splits)

text \<open>For a validated data source the recovery configuration never dereferences a nil
  pointer, whatever the API server answers.\<close>

theorem BuildRecoveryConfig_no_panic:
  assumes "ValidateDataSource (Some ds) = None"
  shows "BuildRecoveryConfig get_backup get_cnpg instanceName (Some ds) custom \<noteq> Inl (Panic m)"
proof -
  from assms have w: "well_formed_source ds" by (simp add: data_source_check.check_iff)
  have "recovery_source get_backup get_cnpg instanceName ds \<noteq> Inl (Panic m)"
    using w source_types resolveSourceBackup_no_panic
    by (auto simp: recovery_source_def well_formed_source_def Let_def split: sum.splits if_splits)
  then show ?thesis by (auto simp: BuildRecoveryConfig_def Let_def split: sum.splits)
qed

text \<open>The backup a data source of type Backup stands for.\<close>

definition source_backup ::
  "(string \<Rightarrow> api_err + oe_backup) \<Rightarrow> (string \<Rightarrow> api_err + cnpg_backup) \<Rightarrow> data_source \<Rightarrow>
   oe_backup \<Rightarrow> cnpg_backup \<Rightarrow> bool" where
  "source_backup get_backup get_cnpg ds b cb \<longleftrightarrow>
     (\<exists>name. da_backup ds = Some name \<and> get_backup name = Inr b \<and>
        get_cnpg (case ob_operator_backup_ref b of Some ref \<Rightarrow> if ref \<noteq> [] then ref else name | None \<Rightarrow> name) = Inr cb)"

definition plugin_of :: "external_cluster \<Rightarrow> string \<Rightarrow> string" where
  "plugin_of ext k = (case xc_plugin ext of None \<Rightarrow> [] | Some p \<Rightarrow> read_map (pl_parameters p) k)"

lemma BuildRecoveryConfig_parts:
  assumes "BuildRecoveryConfig get_backup get_cnpg instanceName (Some ds) custom = Inr (rec, ext)"
  obtains st sv t where "recovery_source get_backup get_cnpg instanceName ds = Inr (st, sv, t)"
    "br_source rec = xc_name ext" "br_recovery_target rec = t"
    "plugin_of ext PluginParameterObjectStore = st" "plugin_of ext ''serverName'' = sv"
  using assms
  by (auto simp: BuildRecoveryConfig_def Let_def plugin_of_def PluginParameterObjectStore_def
      split: sum.splits option.splits)

text \<open>C36: a Cluster restored from a Backup recovers, through the external cluster it defines,
  exactly that backup: the succeeded OpenEverest Backup's storage, the completed operator
  Backup's server and non-empty Barman ID, and it stops right there.\<close>

theorem BuildRecoveryConfig_backup:
  assumes "da_type ds = DataSourceTypeBackup"
    and "BuildRecoveryConfig get_backup get_cnpg instanceName (Some ds) custom = Inr (rec, ext)"
  shows "\<exists>b cb. source_backup get_backup get_cnpg ds b cb \<and> ob_state b = BackupStateSucceeded \<and>
    nb_phase cb = BackupPhaseCompleted \<and> nb_backup_id cb \<noteq> [] \<and>
    br_source rec = xc_name ext \<and>
    plugin_of ext PluginParameterObjectStore = ob_storage_ref b \<and> ob_storage_ref b \<noteq> [] \<and>
    plugin_of ext ''serverName'' = (if nb_server_name cb \<noteq> [] then nb_server_name cb else nb_cluster cb) \<and>
    plugin_of ext ''serverName'' \<noteq> [] \<and>
    br_recovery_target rec = Some \<lparr>rt_backup_id = nb_backup_id cb, rt_target_time = [], rt_target_immediate = Some True\<rparr>"
proof -
  obtain st sv t where p: "recovery_source get_backup get_cnpg instanceName ds = Inr (st, sv, t)"
    "br_source rec = xc_name ext" "br_recovery_target rec = t"
    "plugin_of ext PluginParameterObjectStore = st" "plugin_of ext ''serverName'' = sv"
    using BuildRecoveryConfig_parts [OF assms(2)] .
  obtain cb where r: "resolveSourceBackup get_backup get_cnpg ds = Inr (cb, st)"
    and v: "sv = (if nb_server_name cb \<noteq> [] then nb_server_name cb else nb_cluster cb)" "sv \<noteq> []"
      "t = Some \<lparr>rt_backup_id = nb_backup_id cb, rt_target_time = [], rt_target_immediate = Some True\<rparr>"
    using p(1) assms(1) source_types by (auto simp: recovery_source_def Let_def split: sum.splits if_splits)
  from r show ?thesis
  proof (rule resolveSourceBackup_ok)
    fix name b
    assume n: "da_backup ds = Some name" "get_backup name = Inr b" "ob_state b = BackupStateSucceeded"
      "st = ob_storage_ref b" "st \<noteq> []"
      "get_cnpg (case ob_operator_backup_ref b of Some ref \<Rightarrow> if ref \<noteq> [] then ref else name | None \<Rightarrow> name) = Inr cb"
      "nb_phase cb = BackupPhaseCompleted" "nb_backup_id cb \<noteq> []"
    then have "source_backup get_backup get_cnpg ds b cb" by (auto simp: source_backup_def)
    with n p v show ?thesis by (intro exI [of _ b] exI [of _ cb]) auto
  qed
qed

text \<open>C37: a point-in-time recovery to a date reads the requested storage and the named source
  Instance (or this one), and its target time, read back, is the requested second.\<close>

theorem BuildRecoveryConfig_date:
  assumes "da_type ds = DataSourceTypePointInTime" and "da_point_in_time ds = Some p"
    and "pt_recovery_target p = RecoveryTargetDate" and "pt_date p = Some date"
    and "civil (date div 86400) = (y, m, d)" and "0 \<le> y" and "y \<le> 9999"
  shows "\<exists>rec ext t. BuildRecoveryConfig get_backup get_cnpg instanceName (Some ds) custom = Inr (rec, ext) \<and>
    plugin_of ext PluginParameterObjectStore = ps_storage_ref (pt_source p) \<and>
    plugin_of ext ''serverName'' = (case ps_instance_ref (pt_source p) of
       Some ref \<Rightarrow> if ref \<noteq> [] then ref else instanceName | None \<Rightarrow> instanceName) \<and>
    br_recovery_target rec = Some t \<and> rt_backup_id t = [] \<and> read_rfc3339 (rt_target_time t) = date"
proof -
  obtain rec ext where b: "BuildRecoveryConfig get_backup get_cnpg instanceName (Some ds) custom = Inr (rec, ext)"
    using assms by (auto simp: BuildRecoveryConfig_def recovery_source_def Let_def)
  obtain st sv t where p: "recovery_source get_backup get_cnpg instanceName ds = Inr (st, sv, t)"
    "br_recovery_target rec = t" "plugin_of ext PluginParameterObjectStore = st" "plugin_of ext ''serverName'' = sv"
    using BuildRecoveryConfig_parts [OF b] .
  from p(1) assms(1-4) have "st = ps_storage_ref (pt_source p)"
    "sv = (case ps_instance_ref (pt_source p) of Some ref \<Rightarrow> if ref \<noteq> [] then ref else instanceName | None \<Rightarrow> instanceName)"
    "t = Some \<lparr>rt_backup_id = [], rt_target_time = format_rfc3339 date, rt_target_immediate = None\<rparr>"
    by (auto simp: recovery_source_def Let_def)
  with b p(2-4) format_rfc3339_read [OF assms(5-7)] show ?thesis by simp
qed

section \<open>Samples\<close>

definition from_backup :: data_source where
  "from_backup = \<lparr>da_type = DataSourceTypeBackup, da_backup = Some ''nightly'', da_point_in_time = None\<rparr>"

lemma sample_recovery:
  "BuildRecoveryConfig (\<lambda>_. Inr sample_oe_backup) (\<lambda>_. Inr sample_cnpg_backup) ''restored'' (Some from_backup) zero_custom =
     Inr (\<lparr>br_source = ''origin'',
       br_recovery_target = Some \<lparr>rt_backup_id = ''20260101T000000'', rt_target_time = [], rt_target_immediate = Some True\<rparr>,
       br_database = [], br_owner = [], br_secret = None\<rparr>,
      \<lparr>xc_name = ''origin'', xc_plugin = Some \<lparr>pl_name = PluginName, pl_enabled = None, pl_is_wal_archiver = None,
         pl_parameters = [PluginParameterObjectStore \<mapsto> ''s3'', ''serverName'' \<mapsto> ''pg'']\<rparr>\<rparr>)"
  by (simp add: BuildRecoveryConfig_def recovery_source_def resolveSourceBackup_def from_backup_def sample_oe_backup_def
      sample_cnpg_backup_def new_cnpg_backup_def DataSourceTypeBackup_def DataSourceTypePointInTime_def zero_custom_def
      recoveryExternalClusterName_def)

theorem BuildRecoveryConfig_no_panic_witness:
  "\<forall>m. BuildRecoveryConfig (\<lambda>_. Inl NotFound) (\<lambda>_. Inl NotFound) ''restored'' (Some from_backup) zero_custom \<noteq> Inl (Panic m)"
  by (intro allI BuildRecoveryConfig_no_panic) (simp add: ValidateDataSource_def from_backup_def)

theorem BuildRecoveryConfig_backup_witness:
  "\<exists>b cb. source_backup (\<lambda>_. Inr sample_oe_backup) (\<lambda>_. Inr sample_cnpg_backup) from_backup b cb \<and> nb_backup_id cb \<noteq> []"
  using BuildRecoveryConfig_backup [OF _ sample_recovery] by (auto simp: from_backup_def)

definition to_date :: data_source where
  "to_date = \<lparr>da_type = DataSourceTypePointInTime, da_backup = None,
     da_point_in_time = Some \<lparr>pt_source = \<lparr>ps_storage_ref = ''s3'', ps_instance_ref = Some ''pg''\<rparr>,
       pt_recovery_target = RecoveryTargetDate, pt_date = Some 951827696\<rparr>\<rparr>"

text \<open>29 February 2000, 12:34:56.\<close>

lemma sample_civil: "civil (951827696 div 86400) = (2000, 2, 29)"
  by code_simp

theorem BuildRecoveryConfig_date_witness:
  "\<exists>rec ext t. BuildRecoveryConfig (\<lambda>_. Inl NotFound) (\<lambda>_. Inl NotFound) ''restored'' (Some to_date) zero_custom = Inr (rec, ext) \<and>
     br_recovery_target rec = Some t \<and> read_rfc3339 (rt_target_time t) = 951827696"
  using BuildRecoveryConfig_date [of to_date _ 951827696, OF _ _ _ _ sample_civil,
      where get_backup = "\<lambda>_. Inl NotFound" and get_cnpg = "\<lambda>_. Inl NotFound" and instanceName = "''restored''" and custom = zero_custom]
  by (fastforce simp: to_date_def)

end
