(* ===== verification/Pooler.thy ===== *)
theory Pooler
  imports Connection Backup_Types Api
begin

text \<open>
  The proxy component (\<open>internal/provider/pooler.go\<close>): its validation, the Pooler it becomes,
  the gate that keeps the Instance from being Ready before PgBouncer serves, and the map from
  the operator's Deployment back to the Instance.
\<close>

section \<open>Types\<close>

record pgbouncer_parameters =
  pb_pool_mode :: string

record pooler_spec =
  po_cluster :: string
  po_type :: string
  po_instances :: "int option"
  po_pool_mode :: string
  po_parameters :: "string gomap"
  po_labels :: "string gomap"
  po_containers :: "(string \<times> resource_requirements) list"

datatype pooler_phase = PoolerPhaseActive | PoolerPhaseFailed | OtherPoolerPhase string

record pooler =
  pr_name :: string
  pr_spec :: pooler_spec
  pr_phase :: pooler_phase
  pr_phase_reason :: string

fun pooler_phase_arg :: "pooler_phase \<Rightarrow> fmt_arg" where
  "pooler_phase_arg PoolerPhaseActive = K ''PoolerPhaseActive''"
| "pooler_phase_arg PoolerPhaseFailed = K ''PoolerPhaseFailed''"
| "pooler_phase_arg (OtherPoolerPhase s) = S s"

definition ComponentProxy :: string where
  "ComponentProxy = ''proxy''"

definition ComponentTypePgbouncer :: string where
  "ComponentTypePgbouncer = ''pgbouncer''"

text \<open>The modes as \<open>definition/components/types.go\<close> and \<open>pooler_test.go\<close> give them, and the type rw.\<close>

definition PgBouncerPoolModeSession :: string where
  "PgBouncerPoolModeSession = ''session''"

definition PgBouncerPoolModeTransaction :: string where
  "PgBouncerPoolModeTransaction = ''transaction''"

definition PoolerTypeRW :: string where
  "PoolerTypeRW = ''rw''"

definition poolerNameSuffix :: string where
  "poolerNameSuffix = ''-pooler''"

definition pgbouncerContainerName :: string where
  "pgbouncerContainerName = ''pgbouncer''"

definition pgbouncerClientTLSSSLMode :: string where
  "pgbouncerClientTLSSSLMode = ''client_tls_sslmode''"

definition poolerName :: "string \<Rightarrow> string" where
  "poolerName inst = inst @ poolerNameSuffix"

section \<open>Validation\<close>

text \<open>\<open>decode\<close> is \<open>DecodeComponentParameters\<close> into a zero \<open>PgBouncerParameters\<close>.\<close>

definition proxyParameters ::
  "(opaque \<Rightarrow> err + pgbouncer_parameters) \<Rightarrow> component_spec \<Rightarrow> pgbouncer_parameters result" where
  "proxyParameters decode proxy =
     (if co_parameters proxy = None \<or> co_parameters proxy = Some [] then Inr \<lparr>pb_pool_mode = []\<rparr>
      else case decode (the (co_parameters proxy)) of
             Inl e \<Rightarrow> Inl (Wrap ''failed to decode proxy parameters: %w'' [] e)
           | Inr params \<Rightarrow> Inr params)"

text \<open>\<open>dns_1035\<close> is \<open>validation.IsDNS1035Label\<close>.\<close>

definition validateProxy ::
  "quantity_ops \<Rightarrow> (string \<Rightarrow> string list) \<Rightarrow> (opaque \<Rightarrow> err + pgbouncer_parameters) \<Rightarrow> cnpg_instance \<Rightarrow> err option" where
  "validateProxy Q dns_1035 decode self =
     (case in_components self ComponentProxy of
        None \<Rightarrow> None
      | Some proxy \<Rightarrow>
          if co_type proxy \<noteq> [] \<and> co_type proxy \<noteq> ComponentTypePgbouncer
          then Some (Errorf ''proxy type %q is not supported: use %q'' [S (co_type proxy), S ComponentTypePgbouncer])
          else if length (dns_1035 (poolerName (in_name self))) > 0
          then Some (Errorf ''proxy name %q is not a valid Service name: %s''
                 [S (poolerName (in_name self)), S (hd (dns_1035 (poolerName (in_name self))))])
          else if (case co_replicas proxy of None \<Rightarrow> False | Some n \<Rightarrow> n < 1)
          then Some (Errorf ''proxy replicas must be at least 1'' [])
          else
            (case proxyParameters decode proxy of
               Inl e \<Rightarrow> Some e
             | Inr params \<Rightarrow>
                 if pb_pool_mode params \<notin> {[], PgBouncerPoolModeSession, PgBouncerPoolModeTransaction}
                 then Some (Errorf ''proxy poolMode %q is invalid: CloudNativePG accepts %q or %q''
                        [S (pb_pool_mode params), S PgBouncerPoolModeSession, S PgBouncerPoolModeTransaction])
                 else if co_resources proxy \<noteq> None
                 then map_option (Wrap ''proxy: %w'' []) (ValidateResources Q (co_resources proxy))
                 else None))"

section \<open>The Pooler\<close>

text \<open>\<open>labels\<close> is \<open>c.PodLabels\<close> of the proxy component.\<close>

definition buildPooler ::
  "string gomap \<Rightarrow> string \<Rightarrow> component_spec \<Rightarrow> pgbouncer_parameters \<Rightarrow> bool \<Rightarrow> pooler_spec" where
  "buildPooler labels name proxy params requireTLS =
     \<lparr>po_cluster = name, po_type = PoolerTypeRW,
      po_instances = Some (case co_replicas proxy of None \<Rightarrow> 1 | Some n \<Rightarrow> n),
      po_pool_mode = pb_pool_mode params,
      po_parameters = (if requireTLS then [pgbouncerClientTLSSSLMode \<mapsto> ''require''] else Map.empty),
      po_labels = labels,
      po_containers = (case co_resources proxy of None \<Rightarrow> [] | Some r \<Rightarrow> [(pgbouncerContainerName, r)])\<rparr>"

record 'w pooler_api =
  pa_poolers :: "('w, pooler_spec, pooler) api"
  pa_exists :: "string \<Rightarrow> 'w \<Rightarrow> api_err + bool"
  pa_labels :: "string gomap"
  pa_decode :: "opaque \<Rightarrow> err + pgbouncer_parameters"

definition deletePooler :: "'w pooler_api \<Rightarrow> string \<Rightarrow> ('w, unit) eff" where
  "deletePooler A name w =
     (case pa_exists A (poolerName name) w of
        Inl e \<Rightarrow> (Inl (Api e), w)
      | Inr False \<Rightarrow> (Inr (), w)
      | Inr True \<Rightarrow>
          (case ap_delete (pa_poolers A) (poolerName name) w of
             (Some e, w') \<Rightarrow> (Inl (Api e), w')
           | (None, w') \<Rightarrow> (Inr (), w')))"

definition syncPooler :: "'w pooler_api \<Rightarrow> cnpg_instance \<Rightarrow> bool \<Rightarrow> ('w, unit) eff" where
  "syncPooler A self requireTLS w =
     (case in_components self ComponentProxy of
        None \<Rightarrow> deletePooler A (in_name self) w
      | Some proxy \<Rightarrow>
          (case proxyParameters (pa_decode A) proxy of
             Inl e \<Rightarrow> (Inl e, w)
           | Inr params \<Rightarrow>
               (case ap_apply (pa_poolers A) (poolerName (in_name self))
                       (buildPooler (pa_labels A) (in_name self) proxy params requireTLS) w of
                  (Some e, w') \<Rightarrow> (Inl (Api e), w')
                | (None, w') \<Rightarrow> (Inr (), w'))))"

section \<open>The gate\<close>

text \<open>The read results: of the Pooler, and of the Deployment the number of ready replicas.\<close>

definition waiting_for_pooler :: "pooler \<Rightarrow> msg" where
  "waiting_for_pooler pooler =
     (let message = (if pr_phase pooler \<noteq> OtherPoolerPhase []
            then Fmt ''%s (%s)'' [S ''waiting for the CloudNativePG pooler'', pooler_phase_arg (pr_phase pooler)]
            else Raw ''waiting for the CloudNativePG pooler'')
      in if pr_phase_reason pooler \<noteq> [] then Joined '': '' [message, Raw (pr_phase_reason pooler)] else message)"

definition point_to_pooler :: "int \<Rightarrow> string \<Rightarrow> string \<Rightarrow> connection_details \<Rightarrow> connection_details" where
  "point_to_pooler bouncer_port name namespace details =
     (let host = serviceHost name namespace; port = itoa bouncer_port
      in details\<lparr>cd_host := host, cd_port := port,
           cd_uri := postgresURI (cd_username details) (cd_password details) host port
             (read_map (cd_properties details) ''database'') (read_map (cd_properties details) ''sslmode'')\<rparr>)"

definition poolerBlocksReady ::
  "int \<Rightarrow> (string \<Rightarrow> api_err + pooler) \<Rightarrow> (string \<Rightarrow> api_err + int) \<Rightarrow> cnpg_instance \<Rightarrow> connection_details \<Rightarrow>
   err + (connection_details instance_status \<times> bool \<times> connection_details)" where
  "poolerBlocksReady bouncer_port get_pooler get_deployment self details =
     (if in_components self ComponentProxy = None then Inr (NoStatus, False, details)
      else case get_pooler (poolerName (in_name self)) of
        Inl NotFound \<Rightarrow> Inr (Provisioning (Raw ''waiting for the CloudNativePG pooler''), True, details)
      | Inl e \<Rightarrow> Inl (Wrap ''failed to get the CloudNativePG pooler: %w'' [] (Api e))
      | Inr pooler \<Rightarrow>
          if pr_phase pooler = PoolerPhaseFailed
          then Inr (Failed (if pr_phase_reason pooler \<noteq> []
                      then Joined '': '' [Fmt ''%s'' [pooler_phase_arg (pr_phase pooler)], Raw (pr_phase_reason pooler)]
                      else Fmt ''%s'' [pooler_phase_arg (pr_phase pooler)]), True, details)
          else if pr_phase pooler \<noteq> PoolerPhaseActive
          then Inr (Provisioning (waiting_for_pooler pooler), True, details)
          else
            let want = (case po_instances (pr_spec pooler) of None \<Rightarrow> 1 | Some n \<Rightarrow> n)
            in case get_deployment (pr_name pooler) of
                 Inl NotFound \<Rightarrow> Inr (Provisioning (Raw ''waiting for the PgBouncer deployment''), True, details)
               | Inl e \<Rightarrow> Inl (Wrap ''failed to get the PgBouncer deployment: %w'' [] (Api e))
               | Inr ready \<Rightarrow>
                   if ready < want
                   then Inr (Provisioning (Fmt ''waiting for PgBouncer pods (%d/%d ready)'' [I ready, I want]), True, details)
                   else Inr (NoStatus, False, point_to_pooler bouncer_port (pr_name pooler) (in_namespace self) details))"

section \<open>The watch\<close>

text \<open>
  The labels of the operator's objects: \<open>utils.ClusterLabelName\<close> and \<open>utils.PodRoleLabelName\<close>
  (\<open>podmonitor_test.go\<close>); the value of \<open>utils.PodRolePooler\<close> is an argument. A request is a
  namespace and a name.
\<close>

definition ClusterLabelName :: string where
  "ClusterLabelName = ''cnpg.io/cluster''"

definition PodRoleLabelName :: string where
  "PodRoleLabelName = ''cnpg.io/podRole''"

definition instanceOfPoolerDeployment ::
  "string \<Rightarrow> string gomap \<Rightarrow> string \<Rightarrow> string \<Rightarrow> (string \<times> string) list" where
  "instanceOfPoolerDeployment pod_role_pooler labels namespace name =
     (if read_map labels PodRoleLabelName \<noteq> pod_role_pooler then []
      else
        let cl = read_map labels ClusterLabelName
        in if cl = [] \<or> name \<noteq> poolerName cl then [] else [(namespace, cl)])"

section \<open>What validation guarantees\<close>

text \<open>The Pooler built from a validated proxy runs, in a mode the operator accepts.\<close>

definition pooler_valid :: "pooler_spec \<Rightarrow> bool" where
  "pooler_valid p \<longleftrightarrow>
     po_type p = PoolerTypeRW \<and> (\<exists>n\<ge>1. po_instances p = Some n) \<and>
     po_pool_mode p \<in> {[], PgBouncerPoolModeSession, PgBouncerPoolModeTransaction} \<and>
     list_all (\<lambda>c. fst c = pgbouncerContainerName) (po_containers p)"

lemma validateProxy_build:
  assumes "validateProxy Q dns_1035 decode self = None" "in_components self ComponentProxy = Some proxy"
  shows "\<exists>params. proxyParameters decode proxy = Inr params \<and>
    (\<forall>labels requireTLS. pooler_valid (buildPooler labels (in_name self) proxy params requireTLS))"
  using assms
  by (auto simp: validateProxy_def pooler_valid_def buildPooler_def split: if_splits sum.splits option.splits)

lemma buildPooler_fields:
  "po_cluster (buildPooler labels name proxy params tls) = name"
  "po_parameters (buildPooler labels name proxy params tls) ''client_tls_sslmode'' = Some ''require'' \<longleftrightarrow> tls"
  by (simp_all add: buildPooler_def pgbouncerClientTLSSSLMode_def)

text \<open>After a successful sync of a validated Instance the Pooler exists exactly when the
  Instance has a proxy; it fronts this Cluster, runs at least one pod in a mode the operator
  accepts, and refuses plaintext clients when TLS is required.\<close>

theorem syncPooler_converges:
  assumes laws: "api_laws view (\<lambda>s x. pr_spec x = s) (pa_poolers A)"
    and exists_ok: "\<And>n w b. pa_exists A n w = Inr b \<Longrightarrow> b = (view w n \<noteq> None)"
    and valid: "validateProxy Q dns_1035 (pa_decode A) self = None"
    and run: "syncPooler A self requireTLS w = (Inr (), w')"
  shows "(case in_components self ComponentProxy of
       None \<Rightarrow> view w' = (view w)(poolerName (in_name self) := None)
     | Some proxy \<Rightarrow>
         \<exists>p. view w' = (view w)(poolerName (in_name self) \<mapsto> p) \<and> pooler_valid (pr_spec p) \<and>
           po_cluster (pr_spec p) = in_name self \<and>
           (po_parameters (pr_spec p) ''client_tls_sslmode'' = Some ''require'' \<longleftrightarrow> requireTLS))"
proof (cases "in_components self ComponentProxy")
  case None
  have "view w' = (view w)(poolerName (in_name self) := None)"
    using run None exists_ok [of "poolerName (in_name self)" w] api_delete_ok [OF laws, of "poolerName (in_name self)" w]
    by (auto simp: syncPooler_def deletePooler_def fun_eq_iff split: sum.splits bool.splits prod.splits option.splits)
  with None show ?thesis by simp
next
  case (Some proxy)
  from validateProxy_build [OF valid Some] obtain params where
    params: "proxyParameters (pa_decode A) proxy = Inr params"
    and ok: "\<And>labels tls. pooler_valid (buildPooler labels (in_name self) proxy params tls)" by blast
  have "ap_apply (pa_poolers A) (poolerName (in_name self))
     (buildPooler (pa_labels A) (in_name self) proxy params requireTLS) w = (None, w')"
    using run Some params by (auto simp: syncPooler_def split: prod.splits option.splits)
  from api_apply_ok [OF laws this] obtain p where
    "pr_spec p = buildPooler (pa_labels A) (in_name self) proxy params requireTLS"
    "view w' = (view w)(poolerName (in_name self) \<mapsto> p)" by blast
  with ok [of "pa_labels A" requireTLS] show ?thesis
    unfolding Some option.case by (intro exI [of _ p]) (simp add: buildPooler_fields)
qed

text \<open>When the gate is open, and what it then publishes.\<close>

lemma poolerBlocksReady_cases:
  "poolerBlocksReady bp gp gd self d = Inr (st, blocked, d') \<Longrightarrow>
     (blocked \<longrightarrow> reports_waiting st \<and> d' = d) \<and>
     (\<not> blocked \<longrightarrow>
        (case in_components self ComponentProxy of
           None \<Rightarrow> d' = d
         | Some proxy \<Rightarrow>
             \<exists>p ready. gp (poolerName (in_name self)) = Inr p \<and> pr_phase p = PoolerPhaseActive \<and>
               gd (pr_name p) = Inr ready \<and> (case po_instances (pr_spec p) of None \<Rightarrow> 1 | Some n \<Rightarrow> n) \<le> ready \<and>
               d' = point_to_pooler bp (pr_name p) (in_namespace self) d))"
  by (auto simp: poolerBlocksReady_def Let_def not_less
      split: if_splits sum.splits api_err.splits option.splits)

text \<open>Pointing consistent details at the Pooler keeps them consistent.\<close>

lemma point_to_pooler_consistent:
  assumes "uri_consistent d" "plain_name (serviceHost name namespace)" "plain_name (itoa bp)"
    and "cd_properties d ''database'' = Some database" "database = [] \<or> hd database \<noteq> CHR ''/''"
  shows "uri_consistent (point_to_pooler bp name namespace d)"
  using assms read_postgresURI [OF assms(2,3,5)]
  by (auto simp: uri_consistent_def point_to_pooler_def Let_def read_map_def)

lemma point_to_pooler_fields [simp]:
  "cd_host (point_to_pooler bp name namespace d) = serviceHost name namespace"
  "cd_username (point_to_pooler bp name namespace d) = cd_username d"
  "cd_password (point_to_pooler bp name namespace d) = cd_password d"
  "cd_properties (point_to_pooler bp name namespace d) = cd_properties d"
  by (simp_all add: point_to_pooler_def Let_def)

text \<open>
  The watch: the Deployment the gate reads is mapped to the Instance whose status it decides,
  and a Deployment is mapped to no other Instance.
\<close>

lemma instanceOfPoolerDeployment_iff:
  "(ns', inst) \<in> set (instanceOfPoolerDeployment role labels ns name) \<longleftrightarrow>
     ns' = ns \<and> inst \<noteq> [] \<and> name = poolerName inst \<and>
     read_map labels PodRoleLabelName = role \<and> read_map labels ClusterLabelName = inst"
  by (auto simp: instanceOfPoolerDeployment_def Let_def)

section \<open>Samples\<close>

definition sample_proxy :: component_spec where
  "sample_proxy = \<lparr>co_type = ''pgbouncer'', co_version = [], co_image = [], co_replicas = Some 2, co_storage = None,
     co_resources = None, co_scheduling_policy = None, co_parameters = Some ''transaction''\<rparr>"

definition proxied_instance :: cnpg_instance where
  "proxied_instance = \<lparr>in_name = ''pg'', in_namespace = ''ns'', in_uid = ''uid'', in_deletion_timestamp = None,
     in_provider_ref = ProviderName, in_version = [], in_components = [ComponentProxy \<mapsto> sample_proxy],
     in_backup = None, in_data_source = None, in_topology_parameters = None\<rparr>"

definition stored_pooler :: "pooler_spec \<Rightarrow> pooler" where
  "stored_pooler s = \<lparr>pr_name = ''pg-pooler'', pr_spec = s, pr_phase = PoolerPhaseActive, pr_phase_reason = []\<rparr>"

definition sample_pooler_api :: "((string \<times> pooler) list) pooler_api" where
  "sample_pooler_api = \<lparr>pa_poolers = list_store stored_pooler, pa_exists = (\<lambda>n w. Inr (map_of w n \<noteq> None)),
     pa_labels = Map.empty, pa_decode = (\<lambda>raw. Inr \<lparr>pb_pool_mode = raw\<rparr>)\<rparr>"

lemma sample_pooler_laws:
  "api_laws map_of (\<lambda>s x. pr_spec x = s) (pa_poolers sample_pooler_api)"
  "pa_exists sample_pooler_api n w = Inr b \<Longrightarrow> b = (map_of w n \<noteq> None)"
proof -
  have "\<And>s x. x = stored_pooler s \<Longrightarrow> pr_spec x = s" by (simp add: stored_pooler_def)
  then show "api_laws map_of (\<lambda>s x. pr_spec x = s) (pa_poolers sample_pooler_api)"
    using list_store_laws [of stored_pooler] unfolding api_laws_def sample_pooler_api_def by (simp, metis)
qed (simp add: sample_pooler_api_def)

lemma sample_proxy_valid: "validateProxy Q (\<lambda>n. []) (pa_decode sample_pooler_api) proxied_instance = None"
  by (simp add: validateProxy_def proxied_instance_def sample_proxy_def sample_pooler_api_def proxyParameters_def
      PgBouncerPoolModeTransaction_def ComponentTypePgbouncer_def)

theorem syncPooler_converges_witness:
  "\<exists>p. map_of (snd (syncPooler sample_pooler_api proxied_instance True [])) ''pg-pooler'' = Some p \<and>
     pooler_valid (pr_spec p) \<and> po_parameters (pr_spec p) ''client_tls_sslmode'' = Some ''require''"
proof -
  have "syncPooler sample_pooler_api proxied_instance True [] =
      (Inr (), snd (syncPooler sample_pooler_api proxied_instance True []))"
    by (simp add: syncPooler_def proxied_instance_def sample_proxy_def sample_pooler_api_def proxyParameters_def list_store_def)
  from syncPooler_converges [OF sample_pooler_laws sample_proxy_valid [of undefined] this]
  show ?thesis by (auto simp: proxied_instance_def poolerName_def poolerNameSuffix_def)
qed

end
