(* ===== verification/Scheduling.thy ===== *)
theory Scheduling
  imports Pooler
begin

text \<open>
  Placement of the instance pods (\<open>internal/provider/scheduling.go\<close>). \<open>spread\<close> is the
  runtime's \<open>TopologySpreadConstraints\<close>.
\<close>

text \<open>The value of \<open>utils.PodRoleInstance\<close> (\<open>podmonitor_test.go\<close>, \<open>scheduling_test.go\<close>).\<close>

definition PodRoleInstance :: string where
  "PodRoleInstance = ''instance''"

definition instance_pod_labels :: "string \<Rightarrow> string gomap" where
  "instance_pod_labels name = [ClusterLabelName \<mapsto> name, PodRoleLabelName \<mapsto> PodRoleInstance]"

definition place :: "scheduling_policy \<Rightarrow> affinity_configuration \<Rightarrow> affinity_configuration" where
  "place policy a =
     (let a = (if length (sp_node_selector policy) > 0 then a\<lparr>af_node_selector := sp_node_selector policy\<rparr> else a);
          a = (if length (sp_tolerations policy) > 0 then a\<lparr>af_tolerations := sp_tolerations policy\<rparr> else a)
      in case sp_affinity policy of
           None \<Rightarrow> a
         | Some p \<Rightarrow> a\<lparr>af_enable_pod_anti_affinity := Some False, af_node_affinity := pa_node_affinity p,
                       af_additional_pod_affinity := pa_pod_affinity p,
                       af_additional_pod_anti_affinity := pa_pod_anti_affinity p\<rparr>)"

definition applyScheduling ::
  "(scheduling_policy \<Rightarrow> string gomap \<Rightarrow> opaque) \<Rightarrow> string \<Rightarrow> cluster_spec \<Rightarrow> scheduling_policy option \<Rightarrow> cluster_spec" where
  "applyScheduling spread name spec policy =
     (case policy of
        None \<Rightarrow> spec
      | Some p \<Rightarrow> spec\<lparr>cs_scheduler_name := sp_scheduler_name p, cs_affinity := place p (cs_affinity spec),
                       cs_topology_spread := spread p (instance_pod_labels name)\<rparr>)"

text \<open>Everything but the placement is left alone.\<close>

lemma applyScheduling_frame [simp, frames]:
  "cs_postgres (applyScheduling spread name spec policy) = cs_postgres spec"
  "cs_bootstrap (applyScheduling spread name spec policy) = cs_bootstrap spec"
  "cs_managed (applyScheduling spread name spec policy) = cs_managed spec"
  "cs_plugins (applyScheduling spread name spec policy) = cs_plugins spec"
  "cs_instances (applyScheduling spread name spec policy) = cs_instances spec"
  "cs_resources (applyScheduling spread name spec policy) = cs_resources spec"
  "cs_storage (applyScheduling spread name spec policy) = cs_storage spec"
  "cs_image_pull_policy (applyScheduling spread name spec policy) = cs_image_pull_policy spec"
  "cs_external_clusters (applyScheduling spread name spec policy) = cs_external_clusters spec"
  by (simp_all add: applyScheduling_def split: option.splits)

text \<open>The user's own affinity parameters survive: validation lets no policy touch them.\<close>

lemma applyScheduling_validated:
  "ValidateScheduling policy custom = None \<Longrightarrow> cu_affinity custom = Some a \<Longrightarrow> cs_affinity spec = a \<Longrightarrow>
   cs_affinity (applyScheduling spread name spec policy) = a"
  by (auto simp: ValidateScheduling_def applyScheduling_def place_def split: option.splits if_splits)

end
