(* ===== verification/Pod_Monitor.thy ===== *)
theory Pod_Monitor
  imports Scheduling
begin

text \<open>
  Prometheus monitoring (\<open>internal/provider/podmonitor.go\<close>, with its parameters in
  \<open>definition/topologies/replicaSet/types.go\<close>): validation, and the PodMonitor that scrapes
  the instance pods.
\<close>

section \<open>Parameters\<close>

record prometheus_parameters =
  pp_enabled :: bool
  pp_pod_monitor_labels :: "string gomap option"

record monitoring_parameters =
  mp_prometheus :: "prometheus_parameters option"

record replica_set_topology_parameters =
  tp_monitoring :: "monitoring_parameters option"

definition no_prometheus :: prometheus_parameters where
  "no_prometheus = \<lparr>pp_enabled = False, pp_pod_monitor_labels = None\<rparr>"

definition podMonitorSuffix :: string where
  "podMonitorSuffix = ''-metrics''"

definition metricsPortName :: string where
  "metricsPortName = ''metrics''"

definition podMonitorName :: "string \<Rightarrow> string" where
  "podMonitorName inst = inst @ podMonitorSuffix"

text \<open>
  \<open>decode\<close> is \<open>DecodeTopologyParameters\<close>; the parameters of the Instance are \<open>None\<close> when they,
  or their raw form, are nil.
\<close>

definition prometheusParameters ::
  "(opaque \<Rightarrow> err + replica_set_topology_parameters) \<Rightarrow> cnpg_instance \<Rightarrow> prometheus_parameters result" where
  "prometheusParameters decode self =
     (case in_topology_parameters self of
        None \<Rightarrow> Inr no_prometheus
      | Some raw \<Rightarrow>
          (case decode raw of
             Inl e \<Rightarrow> Inl (Wrap ''failed to decode topology parameters: %w'' [] e)
           | Inr params \<Rightarrow>
               (case Option.bind (tp_monitoring params) mp_prometheus of
                  None \<Rightarrow> Inr no_prometheus
                | Some p \<Rightarrow> Inr p)))"

text \<open>\<open>validate_labels\<close> is \<open>ValidateLabels\<close> followed by \<open>ToAggregate\<close>, nil without errors.\<close>

definition validatePrometheus ::
  "(opaque \<Rightarrow> err + replica_set_topology_parameters) \<Rightarrow> (string gomap option \<Rightarrow> err option) \<Rightarrow>
   cnpg_instance \<Rightarrow> custom_spec \<Rightarrow> err option" where
  "validatePrometheus decode validate_labels self custom =
     (case prometheusParameters decode self of
        Inl e \<Rightarrow> Some e
      | Inr prometheus \<Rightarrow>
          if \<not> pp_enabled prometheus then None
          else or_else (validate_labels (pp_pod_monitor_labels prometheus))
            (if pred_option mo_enable_pod_monitor (cu_monitoring custom) \<and> cu_monitoring custom \<noteq> None
             then Some (Errorf ''monitoring.prometheus.enabled already creates a PodMonitor; unset spec.components.engine.parameters.monitoring.enablePodMonitor'' [])
             else None))"

section \<open>The PodMonitor\<close>

record pod_monitor_tls =
  pt_ca_secret :: string
  pt_ca_key :: string
  pt_server_name :: string
  pt_insecure_skip_verify :: bool

text \<open>An endpoint's scheme is HTTPS exactly when it has TLS settings.\<close>

record pod_monitor =
  pm_labels :: "string gomap"
  pm_match_labels :: "string gomap"
  pm_endpoints :: "(string \<times> pod_monitor_tls option) list"

text \<open>
  \<open>meta_labels\<close> are the labels of \<open>c.ObjectMeta\<close>, which tie an object to its Instance;
  \<open>ca_cert_key\<close> is \<open>certs.CACertKey\<close>.
\<close>

definition buildPodMonitor ::
  "cluster_methods \<Rightarrow> string \<Rightarrow> string gomap \<Rightarrow> cluster \<Rightarrow> string gomap option \<Rightarrow> pod_monitor" where
  "buildPodMonitor M ca_cert_key meta_labels pg extraLabels =
     \<lparr>pm_labels = (case extraLabels of None \<Rightarrow> Map.empty | Some m \<Rightarrow> m) ++ meta_labels,
      pm_match_labels = instance_pod_labels (cl_name pg),
      pm_endpoints = [(metricsPortName,
        if cm_metrics_tls M pg
        then Some \<lparr>pt_ca_secret = cm_server_ca_secret M pg, pt_ca_key = ca_cert_key,
                   pt_server_name = cm_rw_service M pg, pt_insecure_skip_verify = True\<rparr>
        else None)]\<rparr>"

record 'w pod_monitor_api =
  pq_monitors :: "('w, pod_monitor, pod_monitor) api"
  pq_decode :: "opaque \<Rightarrow> err + replica_set_topology_parameters"
  pq_labels :: "string gomap"
  pq_ca_cert_key :: string

definition syncPodMonitor ::
  "cluster_methods \<Rightarrow> 'w pod_monitor_api \<Rightarrow> cnpg_instance \<Rightarrow> cluster \<Rightarrow> ('w, unit) eff" where
  "syncPodMonitor M A self pg w =
     (case prometheusParameters (pq_decode A) self of
        Inl e \<Rightarrow> (Inl e, w)
      | Inr prometheus \<Rightarrow>
          if \<not> pp_enabled prometheus
          then (case ap_delete (pq_monitors A) (podMonitorName (in_name self)) w of
                  (None, w') \<Rightarrow> (Inr (), w')
                | (Some NoMatch, w') \<Rightarrow> (Inr (), w')
                | (Some e, w') \<Rightarrow> (Inl (Wrap ''failed to delete PodMonitor: %w'' [] (Api e)), w'))
          else (case ap_apply (pq_monitors A) (podMonitorName (in_name self))
                       (buildPodMonitor M (pq_ca_cert_key A) (pq_labels A) pg (pp_pod_monitor_labels prometheus)) w of
                  (None, w') \<Rightarrow> (Inr (), w')
                | (Some NoMatch, w') \<Rightarrow> (Inr (), w')
                | (Some e, w') \<Rightarrow> (Inl (Wrap ''failed to apply PodMonitor: %w'' [] (Api e)), w')))"

text \<open>Extra labels never override the labels that tie the PodMonitor to its Instance.\<close>

lemma buildPodMonitor_labels:
  "meta_labels k = Some v \<Longrightarrow> pm_labels (buildPodMonitor M key meta_labels pg extra) k = Some v"
  by (simp add: buildPodMonitor_def)

lemma monitor_converges:
  assumes laws: "api_laws view (=) (pq_monitors A)"
    and params: "prometheusParameters (pq_decode A) self = Inr prometheus"
  shows "((\<forall>n s w. fst (ap_apply (pq_monitors A) n s w) \<noteq> Some NoMatch \<and> fst (ap_delete (pq_monitors A) n w) \<noteq> Some NoMatch) \<and>
      syncPodMonitor M A self pg w = (Inr (), w') \<longrightarrow>
      (if pp_enabled prometheus
       then \<exists>m. view w' = (view w)(podMonitorName (in_name self) \<mapsto> m) \<and>
              pm_match_labels m = instance_pod_labels (cl_name pg) \<and> pq_labels A \<subseteq>\<^sub>m pm_labels m
       else view w' = (view w)(podMonitorName (in_name self) := None))) \<and>
    ((\<forall>n s w. ap_apply (pq_monitors A) n s w = (Some NoMatch, w) \<and> ap_delete (pq_monitors A) n w = (Some NoMatch, w)) \<longrightarrow>
      syncPodMonitor M A self pg w = (Inr (), w))"
proof (intro conjI impI)
  assume "(\<forall>n s w. fst (ap_apply (pq_monitors A) n s w) \<noteq> Some NoMatch \<and> fst (ap_delete (pq_monitors A) n w) \<noteq> Some NoMatch) \<and>
      syncPodMonitor M A self pg w = (Inr (), w')"
  then have crd: "ap_apply (pq_monitors A) n s w \<noteq> (Some NoMatch, w')" "ap_delete (pq_monitors A) n w \<noteq> (Some NoMatch, w')"
      and run: "syncPodMonitor M A self pg w = (Inr (), w')" for n s
    by (metis fst_conv)+
  show "if pp_enabled prometheus
       then \<exists>m. view w' = (view w)(podMonitorName (in_name self) \<mapsto> m) \<and>
              pm_match_labels m = instance_pod_labels (cl_name pg) \<and> pq_labels A \<subseteq>\<^sub>m pm_labels m
       else view w' = (view w)(podMonitorName (in_name self) := None)"
  proof (cases "pp_enabled prometheus")
    case True
    let ?m = "buildPodMonitor M (pq_ca_cert_key A) (pq_labels A) pg (pp_pod_monitor_labels prometheus)"
    have "ap_apply (pq_monitors A) (podMonitorName (in_name self)) ?m w = (None, w')"
      using run params True crd by (auto simp: syncPodMonitor_def split: prod.splits option.splits api_err.splits)
    from api_apply_ok [OF laws this] True show ?thesis
      by (auto simp: buildPodMonitor_def map_le_def)
  next
    case False
    then have "ap_delete (pq_monitors A) (podMonitorName (in_name self)) w = (None, w')"
      using run params crd by (auto simp: syncPodMonitor_def split: prod.splits option.splits api_err.splits)
    from api_delete_ok [OF laws this] False show ?thesis by simp
  qed
next
  assume "\<forall>n s w. ap_apply (pq_monitors A) n s w = (Some NoMatch, w) \<and> ap_delete (pq_monitors A) n w = (Some NoMatch, w)"
  with params show "syncPodMonitor M A self pg w = (Inr (), w)"
    by (simp add: syncPodMonitor_def)
qed

text \<open>C32: with the Prometheus Operator installed, after a successful sync the PodMonitor exists
  exactly when Prometheus monitoring is on, it selects the pods of this Cluster, and no label
  of the user replaces one that ties it to its Instance; without it the sync changes nothing
  and still succeeds.\<close>

theorem syncPodMonitor_converges:
  assumes laws: "api_laws view (=) (pq_monitors A)"
    and params: "prometheusParameters (pq_decode A) self = Inr prometheus"
  shows "((\<forall>n s w. fst (ap_apply (pq_monitors A) n s w) \<noteq> Some NoMatch \<and> fst (ap_delete (pq_monitors A) n w) \<noteq> Some NoMatch) \<and>
      syncPodMonitor M A self pg w = (Inr (), w') \<longrightarrow>
      (if pp_enabled prometheus
       then \<exists>m. view w' = (view w)(podMonitorName (in_name self) \<mapsto> m) \<and>
              pm_match_labels m = instance_pod_labels (cl_name pg) \<and> pq_labels A \<subseteq>\<^sub>m pm_labels m
       else view w' = (view w)(podMonitorName (in_name self) := None))) \<and>
    ((\<forall>n s w. ap_apply (pq_monitors A) n s w = (Some NoMatch, w) \<and> ap_delete (pq_monitors A) n w = (Some NoMatch, w)) \<longrightarrow>
      syncPodMonitor M A self pg w = (Inr (), w))"
  using assms by (rule monitor_converges)

section \<open>A monitored Instance\<close>

definition monitored_instance :: cnpg_instance where
  "monitored_instance = proxied_instance\<lparr>in_topology_parameters := Some ''on''\<rparr>"

definition sample_monitor_api :: "((string \<times> pod_monitor) list) pod_monitor_api" where
  "sample_monitor_api = \<lparr>pq_monitors = list_store (\<lambda>s. s),
     pq_decode = (\<lambda>raw. Inr \<lparr>tp_monitoring = Some \<lparr>mp_prometheus = Some \<lparr>pp_enabled = (raw = ''on''),
        pp_pod_monitor_labels = Some [''release'' \<mapsto> ''kube'', ''instance'' \<mapsto> ''mine'']\<rparr>\<rparr>\<rparr>),
     pq_labels = [''instance'' \<mapsto> ''pg''], pq_ca_cert_key = ''ca.crt''\<rparr>"

theorem syncPodMonitor_converges_witness:
  "\<exists>m. map_of (snd (syncPodMonitor sample_methods sample_monitor_api monitored_instance published_cluster [])) ''pg-metrics''
     = Some m \<and> pm_labels m ''instance'' = Some ''pg''"
proof -
  let ?p = "\<lparr>pp_enabled = True, pp_pod_monitor_labels = Some [''release'' \<mapsto> ''kube'', ''instance'' \<mapsto> ''mine'']\<rparr>"
  have laws: "api_laws map_of (=) (pq_monitors sample_monitor_api)"
    using list_store_laws [of "\<lambda>s :: pod_monitor. s"] unfolding sample_monitor_api_def api_laws_def by simp
  have params: "prometheusParameters (pq_decode sample_monitor_api) monitored_instance = Inr ?p"
    by (simp add: prometheusParameters_def monitored_instance_def sample_monitor_api_def)
  have run: "syncPodMonitor sample_methods sample_monitor_api monitored_instance published_cluster [] =
      (Inr (), snd (syncPodMonitor sample_methods sample_monitor_api monitored_instance published_cluster []))"
    by (simp add: syncPodMonitor_def params) (simp add: sample_monitor_api_def list_store_def)
  have crd: "\<forall>n s w. fst (ap_apply (pq_monitors sample_monitor_api) n s w) \<noteq> Some NoMatch \<and>
      fst (ap_delete (pq_monitors sample_monitor_api) n w) \<noteq> Some NoMatch"
    by (simp add: sample_monitor_api_def list_store_def)
  obtain m where m: "map_of (snd (syncPodMonitor sample_methods sample_monitor_api monitored_instance published_cluster [])) =
      (map_of [])(podMonitorName (in_name monitored_instance) \<mapsto> m)" "pq_labels sample_monitor_api \<subseteq>\<^sub>m pm_labels m"
    using syncPodMonitor_converges [OF laws params, THEN conjunct1, rule_format, OF conjI [OF crd run]] by auto
  then show ?thesis
    by (auto simp: podMonitorName_def podMonitorSuffix_def monitored_instance_def proxied_instance_def
        sample_monitor_api_def map_le_def)
qed

end
