(* ===== verification/Provider.thy ===== *)
theory Provider
  imports Extension_Lifecycle Roles Restore Backups Pod_Monitor
begin

text \<open>
  The provider (\<open>internal/provider/provider.go\<close>): Validate, Sync and Status of an Instance,
  composed of the operations of the other theories. Everything the code reads or writes outside
  the process is a field of a record of functions on the state of the API server.
\<close>

section \<open>New\<close>

definition DefaultExtensionCatalog :: string where
  "DefaultExtensionCatalog = ''provider-cloudnative-pg-extensions''"

definition ComponentEngine :: string where
  "ComponentEngine = ''engine''"

datatype watched_kind =
    WatchedCluster | WatchedDatabase | WatchedPooler | WatchedObjectStore | WatchedScheduledBackup
  | WatchedBackup | WatchedJob | WatchedDeployment

datatype watch_config = WatchOwned watched_kind | WatchExternal watched_kind

record provider =
  pd_extension_catalog :: string
  pd_name :: string
  pd_watches :: "watch_config list"

text \<open>\<open>env\<close> is the value of the environment variable EXTENSION_CATALOG.\<close>

definition NewProvider :: "string \<Rightarrow> provider" where
  "NewProvider env =
     \<lparr>pd_extension_catalog = (if env = [] then DefaultExtensionCatalog else env),
      pd_name = ProviderName,
      pd_watches = [WatchOwned WatchedCluster, WatchOwned WatchedDatabase, WatchOwned WatchedPooler,
        WatchExternal WatchedDeployment, WatchOwned WatchedObjectStore, WatchOwned WatchedScheduledBackup]\<rparr>"

definition BackupWatches :: "watch_config list" where
  "BackupWatches = [WatchOwned WatchedBackup, WatchOwned WatchedJob]"

definition RestoreWatches :: "watch_config list" where
  "RestoreWatches = []"

definition OperatorBackupType :: watched_kind where
  "OperatorBackupType = WatchedBackup"

section \<open>What the handlers call\<close>

record ('w, 'o) provider_api =
  pv_methods :: cluster_methods
  pv_quantity :: quantity_ops
  pv_dns_subdomain :: "string \<Rightarrow> string list"
  pv_dns_1035 :: "string \<Rightarrow> string list"
  pv_dns_label :: "string \<Rightarrow> string list"
  pv_size_or_nil :: "storage_configuration \<Rightarrow> quantity option"
  pv_try_decode :: "component_spec \<Rightarrow> bool \<times> custom_spec"
  pv_decode :: "component_spec \<Rightarrow> custom_spec \<Rightarrow> err + custom_spec"
  pv_unmarshal :: "opaque \<Rightarrow> err + backup_config"
  pv_validate_labels :: "string gomap option \<Rightarrow> err option"
  pv_find_extensions :: "image_catalog \<Rightarrow> int \<Rightarrow> extension_configuration list"
  pv_catalog :: "string \<Rightarrow> 'w \<Rightarrow> api_err + image_catalog"
  pv_cluster :: "string \<Rightarrow> 'w \<Rightarrow> api_err + cluster"
  pv_database :: "string \<Rightarrow> 'w \<Rightarrow> api_err + database"
  pv_secret :: "string \<Rightarrow> 'w \<Rightarrow> api_err + string gomap"
  pv_pooler :: "string \<Rightarrow> 'w \<Rightarrow> api_err + pooler"
  pv_deployment :: "string \<Rightarrow> 'w \<Rightarrow> api_err + int"
  pv_oe_backup :: "string \<Rightarrow> 'w \<Rightarrow> api_err + oe_backup"
  pv_cnpg_backup :: "string \<Rightarrow> 'w \<Rightarrow> api_err + cnpg_backup"
  pv_provider_spec :: "'w \<Rightarrow> api_err + opaque"
  pv_image_for_version :: "opaque \<Rightarrow> string \<Rightarrow> string \<Rightarrow> string"
  pv_default_image :: "opaque \<Rightarrow> string \<Rightarrow> string"
  pv_pod_labels :: "string \<Rightarrow> string gomap"
  pv_spread :: "scheduling_policy \<Rightarrow> string gomap \<Rightarrow> opaque"
  pv_bouncer_port :: int
  pv_reconcile_data_source :: "('w, bool) eff"
  pv_data_source_done :: "'w \<Rightarrow> bool option"
  pv_apply_cluster :: "string \<Rightarrow> cluster_spec \<Rightarrow> 'w \<Rightarrow> (api_err + cluster) \<times> 'w"
  pv_apply_database :: "string \<Rightarrow> database_spec \<Rightarrow> 'w \<Rightarrow> api_err option \<times> 'w"
  pv_storage :: "'w storage_api"
  pv_scheduled :: "('w, scheduled_backup_spec, 'o) api"
  pv_controlled :: "'o \<Rightarrow> bool"
  pv_monitors :: "'w pod_monitor_api"
  pv_poolers :: "'w pooler_api"

text \<open>\<open>if c.TryDecodeComponentParameters(engine, &custom) { err = c.DecodeComponentParameters(engine, &custom) }\<close>.\<close>

definition decode_custom :: "('w, 'o) provider_api \<Rightarrow> component_spec \<Rightarrow> custom_spec result" where
  "decode_custom A engine =
     (case pv_try_decode A engine of
        (False, custom) \<Rightarrow> Inr custom
      | (True, custom) \<Rightarrow> pv_decode A engine custom)"

definition decoded :: "('w, 'o) provider_api \<Rightarrow> component_spec \<Rightarrow> custom_spec result" where
  "decoded A engine =
     (case decode_custom A engine of
        Inl e \<Rightarrow> Inl (Wrap ''failed to decode component custom spec: %w'' [] e)
      | Inr custom \<Rightarrow> Inr custom)"

definition resolve_images ::
  "('w, 'o) provider_api \<Rightarrow> string \<Rightarrow> cnpg_instance \<Rightarrow> component_spec \<Rightarrow> custom_spec \<Rightarrow> 'w \<Rightarrow> extension_images result" where
  "resolve_images A catalog self engine custom w =
     ResolveExtensionImages (\<lambda>n. pv_catalog A n w) (pv_find_extensions A) catalog (Some custom)
       (co_version engine) (in_version self)"

definition error_of :: "'a result \<Rightarrow> err option" where
  "error_of r = (case r of Inl e \<Rightarrow> Some e | Inr a \<Rightarrow> None)"

section \<open>Validate\<close>

definition validate_parameters ::
  "('w, 'o) provider_api \<Rightarrow> string \<Rightarrow> cnpg_instance \<Rightarrow> component_spec \<Rightarrow> custom_spec \<Rightarrow> 'w \<Rightarrow> err option" where
  "validate_parameters A catalog self engine custom w =
     or_else (ValidateCustomSpec (pv_quantity A) (pv_dns_subdomain A) (pv_size_or_nil A) custom)
    (or_else (ValidateSynchronous engine custom)
    (or_else (ValidateScheduling (co_scheduling_policy engine) custom)
    (or_else (ValidateExtensions (Some custom) (co_version engine) (in_version self))
    (or_else (error_of (resolve_images A catalog self engine custom w))
    (or_else (ValidateExtensionsNotDisabled (pv_database A (ExtensionsDatabaseName (in_name self)) w) (Some custom))
    (or_else (ValidateExtensionsAtCreation (pv_cluster A (in_name self) w) (Some custom))
    (or_else (validatePrometheus (pq_decode (pv_monitors A)) (pv_validate_labels A) self custom)
    (or_else (validateProxy (pv_quantity A) (pv_dns_1035 A) (pa_decode (pv_poolers A)) self)
       (ValidateDataSource (in_data_source self))))))))))"

definition Validate :: "('w, 'o) provider_api \<Rightarrow> string \<Rightarrow> cnpg_instance \<Rightarrow> 'w \<Rightarrow> err option" where
  "Validate A catalog self w =
     (case in_components self ComponentEngine of
        None \<Rightarrow> Some (Errorf ''engine component is required'' [])
      | Some engine \<Rightarrow>
          or_else (ValidateEngine (pv_quantity A) engine)
         (or_else (ValidateSchedules (pv_dns_label A) (pv_unmarshal A) (in_backup self))
           (case decoded A engine of
              Inl e \<Rightarrow> Some e
            | Inr custom \<Rightarrow> validate_parameters A catalog self engine custom w)))"

section \<open>The Cluster\<close>

definition cluster_storage :: "quantity_ops \<Rightarrow> component_storage \<Rightarrow> custom_spec \<Rightarrow> storage_configuration" where
  "cluster_storage Q st custom =
     \<lparr>sc_size = q_string Q (ct_size st),
      sc_storage_class = (case ct_storage_class st of None \<Rightarrow> None | Some c \<Rightarrow> if c \<noteq> [] then Some c else None),
      sc_pvc_template = cu_pvc_template custom,
      sc_resize_in_use = cu_resize_in_use_volumes custom\<rparr>"

definition cpu_and_memory :: "quantity gomap \<Rightarrow> quantity gomap" where
  "cpu_and_memory rl = [''cpu'' \<mapsto> rl_cpu rl, ''memory'' \<mapsto> rl_memory rl]"

definition buildClusterSpec :: "quantity_ops \<Rightarrow> component_spec \<Rightarrow> custom_spec \<Rightarrow> cluster_spec result" where
  "buildClusterSpec Q engine custom =
     (case co_storage engine of
        None \<Rightarrow> Inl (Panic ''engine.Storage'')
      | Some st \<Rightarrow>
          (case co_replicas engine of
             None \<Rightarrow> Inl (Panic ''engine.Replicas'')
           | Some replicas \<Rightarrow>
               (case co_resources engine of
                  None \<Rightarrow> Inl (Panic ''engine.Resources'')
                | Some r \<Rightarrow>
                    Inr (zero_cluster_spec\<lparr>cs_instances := replicas,
                      cs_priority_class_name := cu_priority_class_name custom,
                      cs_storage := cluster_storage Q st custom,
                      cs_wal_storage := cu_wal_storage custom,
                      cs_resources := \<lparr>rr_requests = cpu_and_memory (rr_requests r),
                                       rr_limits = cpu_and_memory (rr_limits r)\<rparr>\<rparr>))))"

text \<open>\<open>if x != nil { s = set(x) }\<close>.\<close>

definition when_set :: "'a option \<Rightarrow> ('a \<Rightarrow> 's \<Rightarrow> 's) \<Rightarrow> 's \<Rightarrow> 's" where
  "when_set x f s = (case x of None \<Rightarrow> s | Some a \<Rightarrow> f a s)"

definition apply_parameters ::
  "('w, 'o) provider_api \<Rightarrow> string \<Rightarrow> component_spec \<Rightarrow> custom_spec \<Rightarrow> cluster_spec \<Rightarrow> cluster_spec" where
  "apply_parameters A name engine custom s =
     (let s = when_set (cu_postgresql custom) (\<lambda>p s. s\<lparr>cs_postgres := p\<rparr>) s;
          s = ApplyRequireTLS s custom;
          s = when_set (cu_managed custom) (\<lambda>m s. s\<lparr>cs_managed := Some m\<rparr>) s;
          s = when_set (cu_affinity custom) (\<lambda>a s. s\<lparr>cs_affinity := a\<rparr>) s;
          s = applyScheduling (pv_spread A) name s (co_scheduling_policy engine)
      in when_set (cu_bootstrap custom)
           (\<lambda>b s. s\<lparr>cs_bootstrap := Some \<lparr>bo_initdb = cb_initdb b, bo_recovery = None\<rparr>\<rparr>) s)"

definition engine_image :: "('w, 'o) provider_api \<Rightarrow> component_spec \<Rightarrow> 'w \<Rightarrow> string result" where
  "engine_image A engine w =
     (if co_image engine \<noteq> [] then Inr (co_image engine)
      else case pv_provider_spec A w of
             Inl e \<Rightarrow> Inl (Api e)
           | Inr spec \<Rightarrow>
               let name = (if co_version engine \<noteq> []
                     then pv_image_for_version A spec ComponentEngine (co_version engine) else [])
               in Inr (if name = [] then pv_default_image A spec ComponentEngine else name))"

text \<open>\<open>corev1.PullIfNotPresent\<close>.\<close>

definition PullIfNotPresent :: string where
  "PullIfNotPresent = ''IfNotPresent''"

definition apply_image :: "('w, 'o) provider_api \<Rightarrow> string \<Rightarrow> custom_spec \<Rightarrow> cluster_spec \<Rightarrow> cluster_spec" where
  "apply_image A image_name custom s =
     (let s = s\<lparr>cs_image_name := image_name\<rparr>;
          s = (if cs_image_pull_policy s = [] then s\<lparr>cs_image_pull_policy := PullIfNotPresent\<rparr> else s);
          s = when_set (cu_certificates custom) (\<lambda>c s. s\<lparr>cs_certificates := Some c\<rparr>) s;
          s = when_set (cu_monitoring custom) (\<lambda>m s. s\<lparr>cs_monitoring := Some m\<rparr>) s
      in s\<lparr>cs_inherited_labels := Some (pv_pod_labels A ComponentEngine)\<rparr>)"

definition recover ::
  "('w, 'o) provider_api \<Rightarrow> cnpg_instance \<Rightarrow> custom_spec \<Rightarrow> cluster_spec \<Rightarrow> 'w \<Rightarrow> cluster_spec result" where
  "recover A self custom s w =
     (if in_data_source self = None then Inr s
      else case BuildRecoveryConfig (\<lambda>n. pv_oe_backup A n w) (\<lambda>n. pv_cnpg_backup A n w) (in_name self)
                  (in_data_source self) custom of
             Inl e \<Rightarrow> Inl e
           | Inr (recovery, externalCluster) \<Rightarrow>
               Inr (s\<lparr>cs_bootstrap := Some \<lparr>bo_initdb = None, bo_recovery = Some recovery\<rparr>,
                      cs_external_clusters := [externalCluster]\<rparr>))"

text \<open>The Cluster of Sync before its plugins, with the extension images.\<close>

definition desired_cluster ::
  "('w, 'o) provider_api \<Rightarrow> string \<Rightarrow> cnpg_instance \<Rightarrow> component_spec \<Rightarrow> custom_spec \<Rightarrow> 'w \<Rightarrow>
   (cluster_spec \<times> extension_images) result" where
  "desired_cluster A catalog self engine custom w =
     bind_result (buildClusterSpec (pv_quantity A) engine custom) (\<lambda>base.
     bind_result (engine_image A engine w) (\<lambda>image_name.
     bind_result (resolve_images A catalog self engine custom w) (\<lambda>images.
       let s = apply_image A image_name custom (apply_parameters A (in_name self) engine custom base)
       in bind_result (recover A self custom (ApplyExtensions s (Some custom) images) w) (\<lambda>s.
          Inr (s, images)))))"

section \<open>Sync\<close>

text \<open>A component the Instance does not have is the zero value.\<close>

definition zero_component :: component_spec where
  "zero_component = \<lparr>co_type = [], co_version = [], co_image = [], co_replicas = None, co_storage = None,
     co_resources = None, co_scheduling_policy = None, co_parameters = None\<rparr>"

definition engine_of :: "cnpg_instance \<Rightarrow> component_spec" where
  "engine_of self = (case in_components self ComponentEngine of None \<Rightarrow> zero_component | Some e \<Rightarrow> e)"

definition apply_cluster ::
  "('w, 'o) provider_api \<Rightarrow> string \<Rightarrow> cluster_spec \<Rightarrow> ('w, cluster) eff" where
  "apply_cluster A name s w =
     (case pv_apply_cluster A name s w of
        (Inl e, w') \<Rightarrow> (Inl (Api e), w')
      | (Inr pg, w') \<Rightarrow> (Inr pg, w'))"

definition Sync :: "('w, 'o) provider_api \<Rightarrow> string \<Rightarrow> cnpg_instance \<Rightarrow> ('w, unit) eff" where
  "Sync A catalog self w0 =
     (case pv_reconcile_data_source A w0 of
        (Inl e, w) \<Rightarrow> (Inl (Wrap ''reconcile data source: %w'' [] e), w)
      | (Inr done, w) \<Rightarrow>
          let engine = engine_of self
          in bind_eff (reads (\<lambda>w. decoded A engine)) (\<lambda>custom.
             bind_eff (reads (desired_cluster A catalog self engine custom)) (\<lambda>(s, images).
             bind_eff (SyncBackupInfrastructure (pv_storage A) self) (\<lambda>plugins.
             bind_eff (apply_cluster A (in_name self)
                 (if length plugins > 0 then s\<lparr>cs_plugins := plugins\<rparr> else s)) (\<lambda>pg.
             bind_eff (syncPodMonitor (pv_methods A) (pv_monitors A) self pg) (\<lambda>_.
             bind_eff (syncPooler (pv_poolers A) self (cu_require_tls custom = Some True)) (\<lambda>_.
               if \<not> done then ret ()
               else bind_eff (SyncExtensionsDatabase (pv_apply_database A) (in_name self) (Some custom) images) (\<lambda>_.
                 SyncScheduledBackups (pv_scheduled A) (pv_controlled A) (pv_unmarshal A)
                   (in_name self) (in_backup self)))))))) w)"

definition Cleanup :: "unit result" where
  "Cleanup = Inr ()"

section \<open>Status\<close>

definition failing_phases :: "cluster_phase list" where
  "failing_phases =
     [PhaseUnrecoverable, PhaseFailurePlugin, PhaseUnknownPlugin, PhaseCannotCreateClusterObjects,
      PhaseImageCatalogError, PhaseArchitectureBinaryMissing, PhaseDefinitionInvalid]"

definition failedClusterStatus :: "cluster \<Rightarrow> 'd instance_status \<times> bool" where
  "failedClusterStatus pg =
     (if st_phase (cl_status pg) \<in> set failing_phases
      then (Failed (phase_message (st_phase (cl_status pg)) (st_phase_reason (cl_status pg))), True)
      else (NoStatus, False))"

definition initializingMessage :: "cluster_methods \<Rightarrow> cluster \<Rightarrow> msg" where
  "initializingMessage M pg =
     (case cm_find_condition M (st_conditions (cl_status pg)) ConditionInitialized of
        None \<Rightarrow> Raw ''waiting for CloudNativePG cluster to initialize''
      | Some c \<Rightarrow>
          if cn_message c \<noteq> [] then Raw (cn_message c)
          else if cn_reason c \<noteq> [] then Raw (cn_reason c)
          else Raw ''waiting for CloudNativePG cluster to initialize'')"

text \<open>The guard of the ready branch.\<close>

definition all_ready :: "cluster_methods \<Rightarrow> cluster \<Rightarrow> bool" where
  "all_ready M pg \<longleftrightarrow>
     (case cm_find_condition M (st_conditions (cl_status pg)) ConditionClusterReady of
        None \<Rightarrow> False
      | Some c \<Rightarrow> cn_status c = ConditionTrue \<and> st_instances (cl_status pg) > 0 \<and>
          st_ready_instances (cl_status pg) = st_instances (cl_status pg))"

definition ready_status ::
  "('w, 'o) provider_api \<Rightarrow> cnpg_instance \<Rightarrow> cluster \<Rightarrow> 'w \<Rightarrow> connection_details instance_status result" where
  "ready_status A self pg w =
     (case ManagedRolesStatus pg of (roleStatus, blocked) \<Rightarrow>
      if blocked then Inr roleStatus
      else case decode_custom A (engine_of self) of
        Inl e \<Rightarrow> Inr (Provisioning (Fmt ''failed to decode component custom spec: %v'' [E e]))
      | Inr custom \<Rightarrow>
          (case ExtensionsStatus (pv_database A (ExtensionsDatabaseName (in_name self)) w) (Some custom) of
             (extStatus, blocked) \<Rightarrow>
           if blocked then Inr extStatus
           else case connectionDetails (pv_methods A) (\<lambda>n. pv_secret A n w) (in_namespace self) pg of
             None \<Rightarrow> Inr (Provisioning (Raw ''waiting to get CloudNativePG credentials secret''))
           | Some details \<Rightarrow>
               (case poolerBlocksReady (pv_bouncer_port A) (\<lambda>n. pv_pooler A n w) (\<lambda>n. pv_deployment A n w) self details of
                  Inl e \<Rightarrow> Inl e
                | Inr (status, blocked, details) \<Rightarrow> if blocked then Inr status else Inr (Ready details))))"

definition running_status ::
  "('w, 'o) provider_api \<Rightarrow> cnpg_instance \<Rightarrow> 'w \<Rightarrow> connection_details instance_status result" where
  "running_status A self w =
     (case pv_cluster A (in_name self) w of
        Inl e \<Rightarrow> Inr (Pending (Raw ''Waiting to get CloudNativePG cluster resource''))
      | Inr pg \<Rightarrow>
          (case failedClusterStatus pg of (status, failed) \<Rightarrow>
           if failed then Inr status
           else if all_ready (pv_methods A) pg then ready_status A self pg w
           else if \<not> cm_is_initialized (pv_methods A) pg then Inr (Initializing (initializingMessage (pv_methods A) pg))
           else if st_instances (cl_status pg) > 0
           then Inr (Provisioning (Fmt ''waiting for CloudNativePG cluster to be ready (%d/%d instances ready)''
                  [I (st_ready_instances (cl_status pg)), I (st_instances (cl_status pg))]))
           else Inr (Provisioning (Raw ''waiting for CloudNativePG cluster to be ready''))))"

definition Status ::
  "('w, 'o) provider_api \<Rightarrow> cnpg_instance \<Rightarrow> 'w \<Rightarrow> connection_details instance_status result" where
  "Status A self w =
     (case in_data_source self of
        None \<Rightarrow> running_status A self w
      | Some ds \<Rightarrow>
          if pv_data_source_done A w \<noteq> Some True
          then Inr (Restoring (Raw
            (if da_type ds = DataSourceTypePointInTime then ''point-in-time recovery in progress''
             else if da_type ds = DataSourceTypeBackup then ''restoring from backup''
             else ''restore in progress'')))
          else running_status A self w)"

end
