(* ===== verification/Provider_Samples.thy ===== *)
theory Provider_Samples
  imports Provider
begin

text \<open>
  A sample Instance with TimescaleDB on a sample API server that stores a Cluster and its
  extensions Database; other objects are answered and forgotten.
\<close>

definition idle_api :: "('w, 's, 'x) api" where
  "idle_api = \<lparr>ap_get = (\<lambda>n w. Inl NotFound), ap_list = (\<lambda>w. Inr []),
     ap_apply = (\<lambda>n s w. (None, w)), ap_delete = (\<lambda>n w. (None, w))\<rparr>"

definition sample_engine :: component_spec where
  "sample_engine = zero_component\<lparr>co_version := ''18.6'', co_replicas := Some 3,
     co_storage := Some \<lparr>ct_size = 10 ^ 19, ct_storage_class = None\<rparr>, co_resources := Some sample_resources\<rparr>"

definition engine_instance :: cnpg_instance where
  "engine_instance = \<lparr>in_name = ''pg'', in_namespace = ''ns'', in_uid = ''uid'', in_deletion_timestamp = None,
     in_provider_ref = ProviderName, in_version = [], in_components = [ComponentEngine \<mapsto> sample_engine],
     in_backup = None, in_data_source = None, in_topology_parameters = None\<rparr>"

text \<open>
  A provider on an API server whose Cluster and Database are read by \<open>get\<close> and updated by \<open>upd\<close>,
  with the given calls on the other kinds of objects.
\<close>

definition provider_on ::
  "('w \<Rightarrow> deployed) \<Rightarrow> ((deployed \<Rightarrow> deployed) \<Rightarrow> 'w \<Rightarrow> 'w) \<Rightarrow> 'w storage_api \<Rightarrow>
   ('w, scheduled_backup_spec, 'o) api \<Rightarrow> ('o \<Rightarrow> bool) \<Rightarrow> 'w pod_monitor_api \<Rightarrow> 'w pooler_api \<Rightarrow> bool \<Rightarrow>
   ('w, 'o) provider_api" where
  "provider_on get upd storage scheduled controlled monitors poolers restored = \<lparr>
     pv_methods = sample_methods, pv_quantity = sample_quantities,
     pv_dns_subdomain = (\<lambda>_. []), pv_dns_1035 = (\<lambda>_. []), pv_dns_label = (\<lambda>_. []),
     pv_size_or_nil = (\<lambda>_. None),
     pv_try_decode = (\<lambda>_. (True, zero_custom)), pv_decode = (\<lambda>_ _. Inr (the ts_on)),
     pv_unmarshal = no_json, pv_validate_labels = (\<lambda>_. None),
     pv_find_extensions = (\<lambda>_ _. [im_config ts_image]),
     pv_catalog = (\<lambda>_ _. Inr \<lparr>ic_annotations = Map.empty, ic_spec = []\<rparr>),
     pv_cluster = (\<lambda>_ w. read_object (de_cluster (get w))), pv_database = (\<lambda>_ w. read_object (de_database (get w))),
     pv_secret = (\<lambda>n _. sample_secret n), pv_pooler = (\<lambda>_ _. Inl NotFound), pv_deployment = (\<lambda>_ _. Inl NotFound),
     pv_oe_backup = (\<lambda>_ _. Inl NotFound), pv_cnpg_backup = (\<lambda>_ _. Inl NotFound),
     pv_provider_spec = (\<lambda>_. Inr []), pv_image_for_version = (\<lambda>_ _ v. ''postgresql:'' @ v),
     pv_default_image = (\<lambda>_ _. ''postgresql''), pv_pod_labels = (\<lambda>_. Map.empty), pv_spread = (\<lambda>_ _. []),
     pv_bouncer_port = 5432,
     pv_reconcile_data_source = (\<lambda>w. (Inr restored, w)), pv_data_source_done = (\<lambda>_. Some restored),
     pv_apply_cluster = (\<lambda>_ s w. (Inr (sample_cluster s), upd (\<lambda>d. d\<lparr>de_cluster := Some (sample_cluster s)\<rparr>) w)),
     pv_apply_database = (\<lambda>_ db w. (None, upd (\<lambda>d. d\<lparr>de_database := Some (sample_database db)\<rparr>) w)),
     pv_storage = storage, pv_scheduled = scheduled, pv_controlled = controlled,
     pv_monitors = monitors, pv_poolers = poolers\<rparr>"

definition idle_storage :: "'w storage_api" where
  "idle_storage = \<lparr>sa_storage = (\<lambda>_ _. Inl NotFound), sa_credentials = (\<lambda>_ _. Inl NotFound),
     sa_secret = (\<lambda>_ _. Inl NotFound), sa_instances = (\<lambda>_. Inr []), sa_stores = idle_api\<rparr>"

definition idle_monitors :: "'w pod_monitor_api" where
  "idle_monitors = \<lparr>pq_monitors = idle_api, pq_decode = (\<lambda>_. Inr \<lparr>tp_monitoring = None\<rparr>), pq_labels = Map.empty,
     pq_ca_cert_key = []\<rparr>"

definition idle_poolers :: "'w pooler_api" where
  "idle_poolers = \<lparr>pa_poolers = idle_api, pa_exists = (\<lambda>_ _. Inr False), pa_labels = Map.empty,
     pa_decode = (\<lambda>_. Inr \<lparr>pb_pool_mode = []\<rparr>)\<rparr>"

abbreviation sample_provider :: "bool \<Rightarrow> (deployed, unit) provider_api" where
  "sample_provider \<equiv> provider_on (\<lambda>w. w) (\<lambda>f w. f w) idle_storage idle_api (\<lambda>_. True) idle_monitors idle_poolers"

lemmas sample_provider_def = provider_on_def idle_storage_def idle_monitors_def idle_poolers_def

lemma sample_engine_of [simp]: "engine_of engine_instance = sample_engine"
  by (simp add: engine_of_def engine_instance_def)

lemma sample_decoded [simp]:
  "decode_custom (provider_on g u st sc c mo po b) e = Inr (the ts_on)"
  "decoded (provider_on g u st sc c mo po b) e = Inr (the ts_on)"
  by (simp_all add: decode_custom_def decoded_def provider_on_def)

lemma ts_on_Some [simp]: "Some (the ts_on) = ts_on"
  by (simp add: ts_on_def with_extensions_def)

lemma sample_resources_valid: "ValidateResources sample_quantities (Some sample_resources) = None"
  by code_simp

lemma sample_engine_valid: "ValidateEngine sample_quantities sample_engine = None"
  using sample_resources_valid
  by (simp add: ValidateEngine_def sample_engine_def zero_component_def sample_quantities_def)

lemma sample_custom:
  "cu_postgresql (the ts_on) = None" "cu_affinity (the ts_on) = None" "cu_require_tls (the ts_on) = None"
  "cu_bootstrap (the ts_on) = None" "cu_managed (the ts_on) = None" "cu_monitoring (the ts_on) = None"
  "cu_certificates (the ts_on) = None" "cu_wal_storage (the ts_on) = None" "cu_priority_class_name (the ts_on) = []"
  by (simp_all add: ts_on_def with_extensions_def zero_custom_def)

lemma sample_images:
  "resolve_images (provider_on g u st sc c mo po b) ''cat'' engine_instance sample_engine (the ts_on) w = Inr [''timescaledb-oss'' \<mapsto> ts_image]"
  using ts_resolve [of ts_on]
  by (simp add: resolve_images_def sample_provider_def sample_engine_def zero_component_def engine_instance_def)

lemma sample_valid_on:
  assumes "g w = nothing_deployed"
  shows "Validate (provider_on g u st sc c mo po b) ''cat'' engine_instance w = None"
proof -
  have "in_components engine_instance ComponentEngine = Some sample_engine"
    by (simp add: engine_instance_def)
  moreover have "validate_parameters (provider_on g u st sc c mo po b) ''cat'' engine_instance sample_engine
      (the ts_on) w = None"
    unfolding validate_parameters_def sample_images ts_on_Some
    using ts_valid [of ts_on] assms
    by (simp add: sample_custom sample_provider_def engine_instance_def error_of_def nothing_deployed_def read_object_def
        ValidateExtensionsNotDisabled_def ValidateExtensionsAtCreation_def ValidateCustomSpec_def ValidateSynchronous_def
        ValidateScheduling_def validatePrometheus_def prometheusParameters_def no_prometheus_def validateProxy_def
        ValidateDataSource_def sample_engine_def zero_component_def ComponentEngine_def ComponentProxy_def)
  ultimately show ?thesis
    using sample_engine_valid
    by (simp add: Validate_def ValidateSchedules_def) (simp add: sample_provider_def engine_instance_def)
qed

lemma sample_valid: "Validate (sample_provider b) ''cat'' engine_instance nothing_deployed = None"
  by (rule sample_valid_on) simp

end
