(* ===== verification/Provider_Status.thy ===== *)
theory Provider_Status
  imports Provider_Samples
begin

text \<open>
  When an Instance is Ready, and what it then publishes: the gates of Status composed.
\<close>

section \<open>Status\<close>

text \<open>A gate before a computation that may fail: the form of the gates of Status.\<close>

context readiness_gate
begin

lemma result_ready:
  "(case gate x of (st, blocked) \<Rightarrow> if blocked then Inr st else r) = (Inr (Ready d) :: 'd instance_status result) \<longleftrightarrow>
     open_for x \<and> r = Inr (Ready d)"
  using blocks_iff [of x] blocked_reports [of x] by (cases "fst (gate x)") (auto split: prod.splits)

end

definition no_failure :: "cluster \<Rightarrow> bool" where
  "no_failure pg \<longleftrightarrow> st_phase (cl_status pg) \<notin> set failing_phases"

interpretation phase_gate: readiness_gate "failedClusterStatus :: cluster \<Rightarrow> 'd instance_status \<times> bool" no_failure
  by unfold_locales (auto simp: failedClusterStatus_def no_failure_def split: if_splits)

text \<open>What a Ready Instance has behind it.\<close>

definition serving ::
  "('w, 'o) provider_api \<Rightarrow> cnpg_instance \<Rightarrow> 'w \<Rightarrow> cluster \<Rightarrow> custom_spec \<Rightarrow> bool" where
  "serving A self w pg custom \<longleftrightarrow>
     (in_data_source self = None \<or> pv_data_source_done A w = Some True) \<and>
     pv_cluster A (in_name self) w = Inr pg \<and> no_failure pg \<and> all_ready (pv_methods A) pg \<and> roles_reconciled pg \<and>
     decode_custom A (engine_of self) = Inr custom \<and>
     extensions_ready (pv_database A (ExtensionsDatabaseName (in_name self)) w, Some custom)"

definition published ::
  "('w, 'o) provider_api \<Rightarrow> cnpg_instance \<Rightarrow> 'w \<Rightarrow> cluster \<Rightarrow> connection_details \<Rightarrow> bool" where
  "published A self w pg d \<longleftrightarrow>
     (\<exists>details. connectionDetails (pv_methods A) (\<lambda>n. pv_secret A n w) (in_namespace self) pg = Some details \<and>
        (case in_components self ComponentProxy of
           None \<Rightarrow> d = details
         | Some proxy \<Rightarrow>
             \<exists>p ready. pv_pooler A (poolerName (in_name self)) w = Inr p \<and> pr_phase p = PoolerPhaseActive \<and>
               pv_deployment A (pr_name p) w = Inr ready \<and>
               (case po_instances (pr_spec p) of None \<Rightarrow> 1 | Some n \<Rightarrow> n) \<le> ready \<and>
               d = point_to_pooler (pv_bouncer_port A) (pr_name p) (in_namespace self) details))"

lemma poolerBlocksReady_open:
  "(\<exists>st. poolerBlocksReady bp gp gd self d = Inr (st, False, d')) \<longleftrightarrow>
     (case in_components self ComponentProxy of
        None \<Rightarrow> d' = d
      | Some proxy \<Rightarrow>
          \<exists>p ready. gp (poolerName (in_name self)) = Inr p \<and> pr_phase p = PoolerPhaseActive \<and>
            gd (pr_name p) = Inr ready \<and> (case po_instances (pr_spec p) of None \<Rightarrow> 1 | Some n \<Rightarrow> n) \<le> ready \<and>
            d' = point_to_pooler bp (pr_name p) (in_namespace self) d)"
  by (auto simp: poolerBlocksReady_def Let_def not_less split: if_splits sum.splits api_err.splits option.splits)

lemma pooler_result:
  "(case poolerBlocksReady bp gp gd self d of Inl e \<Rightarrow> Inl e
    | Inr (status, blocked, d) \<Rightarrow> if blocked then Inr status else Inr (Ready d)) = Inr (Ready d') \<longleftrightarrow>
   (\<exists>st. poolerBlocksReady bp gp gd self d = Inr (st, False, d'))"
proof (cases "poolerBlocksReady bp gp gd self d")
  case (Inr r)
  obtain st b d1 where r: "r = (st, b, d1)" by (cases r)
  show ?thesis
    using poolerBlocksReady_cases [of bp gp gd self d st b d1] Inr r by (cases st) auto
qed simp

lemma ready_status_iff:
  "ready_status A self pg w = Inr (Ready d) \<longleftrightarrow>
     roles_reconciled pg \<and>
     (\<exists>custom. decode_custom A (engine_of self) = Inr custom \<and>
        extensions_ready (pv_database A (ExtensionsDatabaseName (in_name self)) w, Some custom) \<and>
        published A self w pg d)"
proof (cases "decode_custom A (engine_of self)")
  case (Inr custom)
  note gate = extensions_gate.result_ready
    [where x = "(pv_database A (ExtensionsDatabaseName (in_name self)) w, Some custom)", unfolded fst_conv snd_conv]
  show ?thesis
  proof (cases "connectionDetails (pv_methods A) (\<lambda>n. pv_secret A n w) (in_namespace self) pg")
    case (Some details)
    have "published A self w pg d \<longleftrightarrow>
        (\<exists>st. poolerBlocksReady (pv_bouncer_port A) (\<lambda>n. pv_pooler A n w) (\<lambda>n. pv_deployment A n w) self details
           = Inr (st, False, d))"
      unfolding published_def Some poolerBlocksReady_open by auto
    then show ?thesis
      unfolding ready_status_def roles_gate.result_ready Inr sum.case gate Some option.case pooler_result by auto
  qed (unfold ready_status_def roles_gate.result_ready Inr sum.case gate option.case published_def, simp)
qed (simp add: ready_status_def roles_gate.result_ready)

lemma running_status_iff:
  "running_status A self w = Inr (Ready d) \<longleftrightarrow>
     (\<exists>pg. pv_cluster A (in_name self) w = Inr pg \<and> no_failure pg \<and> all_ready (pv_methods A) pg \<and>
        ready_status A self pg w = Inr (Ready d))"
proof (cases "pv_cluster A (in_name self) w")
  case (Inr pg)
  show ?thesis unfolding running_status_def Inr sum.case phase_gate.result_ready by auto
qed (simp add: running_status_def)

lemma Status_ready_raw:
  "Status A self w = Inr (Ready d) \<longleftrightarrow> (\<exists>pg custom. serving A self w pg custom \<and> published A self w pg d)"
proof -
  have "Status A self w = Inr (Ready d) \<longleftrightarrow>
      (in_data_source self = None \<or> pv_data_source_done A w = Some True) \<and> running_status A self w = Inr (Ready d)"
    by (auto simp: Status_def split: option.splits)
  then show ?thesis
    unfolding running_status_iff ready_status_iff serving_def by blast
qed

text \<open>C6: an Instance is Ready exactly when its restore is done, the Cluster has not failed and all
  its instances are ready, every managed role and every enabled extension is in place, the
  credentials can be read, and the pooler of a proxied Instance serves with enough pods. Any
  other state reports something else.\<close>

theorem Status_ready:
  "Status A self w = Inr (Ready d) \<longleftrightarrow> (\<exists>pg custom. serving A self w pg custom \<and> published A self w pg d)"
  by (rule Status_ready_raw)

section \<open>What a Ready Instance publishes\<close>

lemma digits_plain: "digits_of n \<noteq> [] \<and> list_all unreserved (digits_of n)"
proof (induction n rule: digits_of.induct)
  case (1 n)
  have d: "unreserved (''0123456789'' ! k)" if "k < 10" for k
  proof -
    have "\<forall>k<10. unreserved (''0123456789'' ! k)" by code_simp
    with that show ?thesis by blast
  qed
  show ?case
  proof (cases "n < 10")
    case True
    then show ?thesis using d [of n] by (simp add: digits_of.simps [of n])
  next
    case False
    then show ?thesis using 1 d [of "n mod 10"] by (simp add: digits_of.simps [of n])
  qed
qed

lemma plain_itoa: "0 \<le> n \<Longrightarrow> plain_name (itoa n)"
  using digits_plain [of "nat n"] by (simp add: plain_name_def itoa_def append_int_def Let_def)

lemma plain_poolerName: "plain_name inst \<Longrightarrow> plain_name (poolerName inst)"
  by (simp add: plain_name_def poolerName_def poolerNameSuffix_def unreserved_def letter_or_digit_def less_eq_char_def)

text \<open>Names are plain, and a Pooler read by name has that name.\<close>

definition plain_instance :: "('w, 'o) provider_api \<Rightarrow> cnpg_instance \<Rightarrow> 'w \<Rightarrow> bool" where
  "plain_instance A self w \<longleftrightarrow>
     plain_name (in_name self) \<and> plain_name (in_namespace self) \<and> 0 \<le> pv_bouncer_port A \<and>
     (\<forall>n p. pv_pooler A n w = Inr p \<longrightarrow> pr_name p = n) \<and>
     (\<forall>pg. pv_cluster A (in_name self) w = Inr pg \<longrightarrow>
        plain_connection (pv_methods A) (\<lambda>n. pv_secret A n w) (in_namespace self) pg)"

text \<open>What the details of a Cluster say about themselves.\<close>

lemma details_consistent:
  assumes "connectionDetails M get_secret namespace pg = Some d" "plain_connection M get_secret namespace pg"
  shows "uri_consistent d \<and> cd_properties d ''sslmode'' = Some sslModeRequire \<and>
    (\<exists>database. cd_properties d ''database'' = Some database \<and> (database = [] \<or> hd database \<noteq> CHR ''/''))"
  using assms(1)
proof (rule connectionDetails_SomeD)
  fix secretName database data
  assume d: "connectionIdentity M pg = Some (secretName, database)" "get_secret secretName = Inr data"
    "cd_host d = serviceHost (cm_rw_service M pg) namespace" "cd_port d = connectionPort M data"
    "cd_uri d = postgresURI (cd_username d) (cd_password d) (cd_host d) (cd_port d) database sslModeRequire"
    "cd_properties d ''database'' = Some database" "cd_properties d ''sslmode'' = Some sslModeRequire"
  have "plain_name (cd_host d)" "plain_name (cd_port d)" "database = [] \<or> hd database \<noteq> CHR ''/''"
    using assms(2) d plain_serviceHost
    by (auto simp: plain_connection_def connectionIdentity_def split: if_splits)
  with read_postgresURI [OF this] d show ?thesis by (simp add: uri_consistent_def)
qed

text \<open>C13: what a Ready Instance publishes can be used: the URI decodes to the other published
  fields, it asks for TLS, and the host is the pooler's Service when the Instance has a proxy and
  the read-write Service of the Cluster otherwise.\<close>

theorem Ready_details:
  assumes "Status A self w = Inr (Ready d)" "plain_instance A self w"
  shows "uri_consistent d \<and> cd_properties d ''sslmode'' = Some ''require'' \<and>
    (\<exists>pg. pv_cluster A (in_name self) w = Inr pg \<and>
       cd_host d = serviceHost (if in_components self ComponentProxy = None then cm_rw_service (pv_methods A) pg
                                else poolerName (in_name self)) (in_namespace self))"
proof -
  from assms(1) obtain pg details where pg: "pv_cluster A (in_name self) w = Inr pg"
    and cd: "connectionDetails (pv_methods A) (\<lambda>n. pv_secret A n w) (in_namespace self) pg = Some details"
    and d: "in_components self ComponentProxy = None \<Longrightarrow> d = details"
      "in_components self ComponentProxy \<noteq> None \<Longrightarrow> \<exists>p. pv_pooler A (poolerName (in_name self)) w = Inr p \<and>
          d = point_to_pooler (pv_bouncer_port A) (pr_name p) (in_namespace self) details"
    unfolding Status_ready_raw serving_def published_def by (auto split: option.splits)
  note plain = assms(2) [unfolded plain_instance_def]
  have ok: "uri_consistent details \<and> cd_properties details ''sslmode'' = Some sslModeRequire \<and>
    (\<exists>database. cd_properties details ''database'' = Some database \<and> (database = [] \<or> hd database \<noteq> CHR ''/''))"
    using details_consistent [OF cd] plain pg by blast
  show ?thesis
  proof (cases "in_components self ComponentProxy")
    case None
    have "cd_host details = serviceHost (cm_rw_service (pv_methods A) pg) (in_namespace self)"
      using cd by (rule connectionDetails_SomeD)
    with None d(1) ok pg show ?thesis by (simp add: sslModeRequire_def)
  next
    case (Some proxy)
    then obtain p where p: "pv_pooler A (poolerName (in_name self)) w = Inr p"
      "d = point_to_pooler (pv_bouncer_port A) (poolerName (in_name self)) (in_namespace self) details"
      using d(2) plain by fastforce
    have "uri_consistent d"
      unfolding p(2)
      using ok plain plain_poolerName plain_serviceHost plain_itoa by (blast intro: point_to_pooler_consistent)
    with Some p ok pg show ?thesis by (simp add: sslModeRequire_def)
  qed
qed

section \<open>A Ready Instance\<close>

definition ready_cluster_status :: cluster_status where
  "ready_cluster_status = zero_cluster_status\<lparr>st_instances := 3, st_ready_instances := 3,
     st_conditions := [\<lparr>cn_type = ConditionClusterReady, cn_status = ConditionTrue, cn_reason = [], cn_message = [],
        cn_last_transition = []\<rparr>]\<rparr>"

definition ready_world :: deployed where
  "ready_world = \<lparr>de_cluster = Some (published_cluster\<lparr>cl_status := ready_cluster_status\<rparr>),
     de_database = Some ((sample_database \<lparr>dp_name = ''app'', dp_owner = ''app'', dp_cluster = ''pg'', dp_reclaim_policy = [],
        dp_extensions = []\<rparr>)\<lparr>db_status := \<lparr>ds_observed_generation = 1, ds_applied = Some True,
        ds_message = [], ds_extensions = []\<rparr>\<rparr>)\<rparr>"

lemma sample_plain_instance: "plain_instance (sample_provider True) engine_instance ready_world"
proof -
  have "plain_connection sample_methods sample_secret ''ns'' (published_cluster\<lparr>cl_status := ready_cluster_status\<rparr>)"
    using published_plain by (simp add: plain_connection_def sample_methods_def published_cluster_def)
  then show ?thesis
    by (simp add: plain_instance_def sample_provider_def engine_instance_def ready_world_def read_object_def plain_name_def
        unreserved_def letter_or_digit_def less_eq_char_def)
qed

lemma sample_ready: "\<exists>d. Status (sample_provider True) engine_instance ready_world = Inr (Ready d)"
proof -
  let ?pg = "published_cluster\<lparr>cl_status := ready_cluster_status\<rparr>"
  have "serving (sample_provider True) engine_instance ready_world ?pg (the ts_on)"
    by (simp add: serving_def)
      (simp add: sample_provider_def engine_instance_def ready_world_def read_object_def no_failure_def all_ready_def
        roles_reconciled_def extensions_ready_def sample_database_def published_cluster_def ready_cluster_status_def
        zero_cluster_status_def zero_cluster_spec_def failing_phases_def sample_methods_def list_all_iff)
  moreover obtain d where "connectionDetails sample_methods sample_secret ''ns'' ?pg = Some d"
  proof -
    have "connectionDetails sample_methods sample_secret ''ns'' pg \<noteq> None" for pg
      by (simp add: connectionDetails_def connectionIdentity_def sample_methods_def sample_secret_def read_map_def Let_def)
    with that show thesis by blast
  qed
  then have "published (sample_provider True) engine_instance ready_world ?pg d"
    by (simp add: published_def engine_instance_def ComponentEngine_def ComponentProxy_def) (simp add: sample_provider_def)
  ultimately show ?thesis unfolding Status_ready_raw by blast
qed

theorem Ready_details_witness:
  "\<exists>d. Status (sample_provider True) engine_instance ready_world = Inr (Ready d) \<and> uri_consistent d \<and>
     cd_properties d ''sslmode'' = Some ''require''"
  using sample_ready Ready_details [OF _ sample_plain_instance] by blast

section \<open>Restores that never fail\<close>

text \<open>C35: a restore is reported as running although the phase of its Cluster stops reconciliation
  exactly for the three terminal phases SyncRestore leaves out: an unknown plugin, a missing
  architecture binary, and an invalid definition.\<close>

theorem stuck_restores:
  "(\<exists>s. SyncRestore find_condition (Inr pg) = Inr s \<and> rs_state s = RestoreStateRunning \<and>
      snd (failedClusterStatus pg :: connection_details instance_status \<times> bool)) \<longleftrightarrow>
   \<not> cluster_recovered find_condition (cl_status pg) \<and>
   st_phase (cl_status pg) \<in> {PhaseUnknownPlugin, PhaseArchitectureBinaryMissing, PhaseDefinitionInvalid}"
  by (auto simp: SyncRestore_def cluster_recovered_def failedClusterStatus_def failing_phases_def
      restore_failing_phases_def Let_def split: option.splits if_splits)

end
