(* ===== verification/Provider_Safety.thy ===== *)
theory Provider_Safety
  imports Provider_Samples
begin

text \<open>
  Sync and nil pointers: what Sync dereferences without a check, Validate has found to be there.
\<close>

section \<open>No nil pointer is dereferenced\<close>

definition calm :: "'a result \<Rightarrow> bool" where
  "calm r \<longleftrightarrow> (\<forall>m. r \<noteq> Inl (Panic m))"

lemma calm_simps [simp]: "calm (Inr a)" "calm (Inl e :: 'a result) \<longleftrightarrow> (\<forall>m. e \<noteq> Panic m)"
  by (simp_all add: calm_def)

lemma retention_calm: "checkSharedRetention A self n r w \<noteq> Some (Panic m)"
  by (auto simp: checkSharedRetention_def Let_def split: sum.splits api_err.splits if_splits)

lemma endpoint_calm: "endpointCARef A n url w = r \<Longrightarrow> calm r"
  by (auto simp: endpointCARef_def Let_def split: sum.splits api_err.splits)

lemma resolve_storage_calm: "resolve_storage A n w = r \<Longrightarrow> calm r"
  by (auto simp: resolve_storage_def split: sum.splits api_err.splits option.splits)

lemma store_for_calm: "store_for A self strg w = r \<Longrightarrow> calm r"
  by (auto simp: store_for_def Let_def retention_calm dest: endpoint_calm resolve_storage_calm
      split: sum.splits option.splits)

lemma sync_stores_calm: "sync_stores A self strgs w = (r, w') \<Longrightarrow> calm r"
proof (induction strgs arbitrary: w)
  case (Cons strg strgs)
  then show ?case
    using store_for_calm [of A self strg w] by (auto split: sum.splits prod.splits option.splits)
qed auto

lemma infrastructure_calm: "SyncBackupInfrastructure A self w = (r, w') \<Longrightarrow> calm r"
  by (auto simp: SyncBackupInfrastructure_def Let_def dest!: sync_stores_calm
      split: option.splits prod.splits sum.splits if_splits)

lemma monitor_calm: "syncPodMonitor M A self pg w = (r, w') \<Longrightarrow> calm r"
  by (auto simp: syncPodMonitor_def prometheusParameters_def
      split: sum.splits option.splits prod.splits api_err.splits if_splits)

lemma pooler_calm: "syncPooler A self tls w = (r, w') \<Longrightarrow> calm r"
  by (auto simp: syncPooler_def deletePooler_def proxyParameters_def
      split: sum.splits option.splits prod.splits bool.splits if_splits)

lemma database_calm: "SyncExtensionsDatabase f name custom images w = (r, w') \<Longrightarrow> calm r"
  by (auto simp: SyncExtensionsDatabase_def split: option.splits prod.splits)

lemma apply_desired_calm: "apply_desired A ds keep w = (r, w') \<Longrightarrow> calm r"
  by (induction ds arbitrary: keep w) (auto split: prod.splits option.splits)

lemma delete_stale_calm: "delete_stale A controlled keep sbs w = (r, w') \<Longrightarrow> calm r"
  by (induction sbs arbitrary: w) (auto split: prod.splits option.splits if_splits)

lemma scheduled_calm: "SyncScheduledBackups A controlled um name backup w = (r, w') \<Longrightarrow> calm r"
  by (auto simp: SyncScheduledBackups_def dest!: apply_desired_calm delete_stale_calm
      split: prod.splits sum.splits)

lemma resolve_loop_calm: "resolve_loop cat major n catalog entries es images = r \<Longrightarrow> calm r"
  by (induction es arbitrary: images) (auto split: option.splits)

lemma images_calm: "resolve_images A catalog self engine custom w = r \<Longrightarrow> calm r"
  using resolve_loop_calm
  by (auto simp: resolve_images_def ResolveExtensionImages_def Let_def split: prod.splits option.splits sum.splits if_splits)

lemma image_calm: "engine_image A engine w = r \<Longrightarrow> calm r"
  by (auto simp: engine_image_def Let_def split: sum.splits if_splits)

lemma decoded_calm: "decoded A engine = r \<Longrightarrow> calm r"
  by (cases "decode_custom A engine") (auto simp: decoded_def)

lemma apply_cluster_calm: "apply_cluster A name s w = (r, w') \<Longrightarrow> calm r"
  by (auto simp: apply_cluster_def split: prod.splits sum.splits)

lemmas calls_calm = infrastructure_calm [OF prod.collapse [symmetric]] monitor_calm [OF prod.collapse [symmetric]]
  pooler_calm [OF prod.collapse [symmetric]] database_calm [OF prod.collapse [symmetric]]
  scheduled_calm [OF prod.collapse [symmetric]] apply_cluster_calm [OF prod.collapse [symmetric]] decoded_calm [OF refl]

lemma bind_eff_calm:
  assumes "calm (fst (c w))" "\<And>a w'. calm (fst (f a w'))"
  shows "calm (fst (bind_eff c f w))"
proof (cases "c w")
  case (Pair r w')
  with assms show ?thesis by (cases r) (auto simp: bind_eff_def)
qed

lemma bind_result_calm:
  assumes "calm r" "\<And>a. r = Inr a \<Longrightarrow> calm (f a)"
  shows "calm (bind_result r f)"
  using assms by (cases r) auto

text \<open>What validation rules out.\<close>

lemma engine_complete:
  "ValidateEngine Q engine = None \<Longrightarrow>
   \<exists>st n r. co_storage engine = Some st \<and> co_replicas engine = Some n \<and> 1 \<le> n \<and> co_resources engine = Some r"
  by (auto simp: ValidateEngine_def split: option.splits if_splits)

lemma build_no_panic: "ValidateEngine Q' engine = None \<Longrightarrow> \<exists>s. buildClusterSpec Q engine custom = Inr s"
  by (drule engine_complete) (auto simp: buildClusterSpec_def)

lemma Validate_None:
  assumes "Validate A catalog self w = None"
  obtains engine custom where "in_components self ComponentEngine = Some engine" "engine_of self = engine"
    "ValidateEngine (pv_quantity A) engine = None" "ValidateSchedules (pv_dns_label A) (pv_unmarshal A) (in_backup self) = None"
    "decoded A engine = Inr custom" "validate_parameters A catalog self engine custom w = None"
  using assms by (auto simp: Validate_def engine_of_def split: option.splits sum.splits)

lemma recover_calm:
  assumes "ValidateDataSource (in_data_source self) = None"
  shows "calm (recover A self custom s w)"
  using BuildRecoveryConfig_no_panic assms
  by (cases "in_data_source self") (auto simp: recover_def split: sum.splits prod.splits)

lemma desired_calm:
  assumes "ValidateEngine Q engine = None" "ValidateDataSource (in_data_source self) = None"
  shows "calm (desired_cluster A catalog self engine custom w)"
proof -
  obtain base where "buildClusterSpec (pv_quantity A) engine custom = Inr base"
    using build_no_panic [OF assms(1)] by blast
  then show ?thesis
    using image_calm [OF refl] images_calm [OF refl] recover_calm [OF assms(2)]
    by (auto simp: desired_cluster_def Let_def intro!: bind_result_calm)
qed

text \<open>C5: Sync never dereferences a nil pointer for an Instance that passed Validate, whatever the
  API server answers then: the replicas, storage and resources of the engine and the data
  source it reads without a check are there.\<close>

theorem validated_sync_no_panic:
  assumes "Validate A catalog self w = None"
  shows "fst (Sync A catalog self w') \<noteq> Inl (Panic m)"
  using assms
proof (rule Validate_None)
  fix engine custom
  assume v: "engine_of self = engine" "ValidateEngine (pv_quantity A) engine = None"
    and p: "validate_parameters A catalog self engine custom w = None"
  have ds: "ValidateDataSource (in_data_source self) = None"
    using p by (simp add: validate_parameters_def)
  note calm = calls_calm desired_calm [OF v(2) ds]
  have "calm (fst (Sync A catalog self w'))"
    unfolding Sync_def v(1) Let_def
    by (auto intro!: bind_eff_calm simp: calm split: prod.splits sum.splits)
  then show ?thesis by (simp add: calm_def)
qed

theorem validated_sync_no_panic_witness:
  "fst (Sync (sample_provider True) ''cat'' engine_instance (snd (Sync (sample_provider True) ''cat'' engine_instance nothing_deployed)))
     \<noteq> Inl (Panic ''engine.Replicas'')"
  by (rule validated_sync_no_panic [OF sample_valid])

end
