(* ===== verification/Provider_Sync.thy ===== *)
theory Provider_Sync
  imports Provider_Safety
begin

text \<open>
  What Sync does: it refines the machine of \<open>Extension_Lifecycle\<close>, and the Cluster it applies
  is the one the parameters ask for.
\<close>

section \<open>Sync as a step of the extension life cycle\<close>

text \<open>
  What Sync relies on of the API server, over a view of the Cluster and the extensions Database:
  reads tell the truth, an applied object is stored with the extensions it was given, a call
  that fails has its effect or none, and the calls on other objects leave the two alone.
\<close>

definition quiet :: "('w \<Rightarrow> 'v) \<Rightarrow> ('w, 's, 'x) api \<Rightarrow> bool" where
  "quiet view B \<longleftrightarrow> (\<forall>n s w. view (snd (ap_apply B n s w)) = view w \<and> view (snd (ap_delete B n w)) = view w)"

definition truthful :: "('w \<Rightarrow> deployed) \<Rightarrow> ('w, 'o) provider_api \<Rightarrow> cnpg_instance \<Rightarrow> bool" where
  "truthful view A self \<longleftrightarrow>
     (\<forall>w e. pv_cluster A (in_name self) w = Inl e \<longrightarrow> e = NotFound \<longrightarrow> de_cluster (view w) = None) \<and>
     (\<forall>w pg. pv_cluster A (in_name self) w = Inr pg \<longrightarrow> de_cluster (view w) = Some pg) \<and>
     (\<forall>w e. pv_database A (ExtensionsDatabaseName (in_name self)) w = Inl e \<longrightarrow> e = NotFound \<longrightarrow>
        de_database (view w) = None) \<and>
     (\<forall>w db. pv_database A (ExtensionsDatabaseName (in_name self)) w = Inr db \<longrightarrow> de_database (view w) = Some db)"

definition stores_cluster :: "('w \<Rightarrow> deployed) \<Rightarrow> ('w, 'o) provider_api \<Rightarrow> cnpg_instance \<Rightarrow> bool" where
  "stores_cluster view A self \<longleftrightarrow>
     (\<forall>s w r w'. pv_apply_cluster A (in_name self) s w = (r, w') \<longrightarrow>
        (r \<in> range Inl \<and> view w' = view w) \<or>
        (\<exists>pg. entry_names (cl_spec pg) = entry_names s \<and> view w' = (view w)\<lparr>de_cluster := Some pg\<rparr>))"

definition stores_database :: "('w \<Rightarrow> deployed) \<Rightarrow> ('w, 'o) provider_api \<Rightarrow> cnpg_instance \<Rightarrow> bool" where
  "stores_database view A self \<longleftrightarrow>
     (\<forall>d w. view (snd (pv_apply_database A (ExtensionsDatabaseName (in_name self)) d w)) = view w \<or>
        (\<exists>db. db_spec db = d \<and>
           view (snd (pv_apply_database A (ExtensionsDatabaseName (in_name self)) d w)) = (view w)\<lparr>de_database := Some db\<rparr>))"

definition deployment_laws :: "('w \<Rightarrow> deployed) \<Rightarrow> ('w, 'o) provider_api \<Rightarrow> cnpg_instance \<Rightarrow> bool" where
  "deployment_laws view A self \<longleftrightarrow>
     truthful view A self \<and> stores_cluster view A self \<and> stores_database view A self \<and>
     (\<forall>w. view (snd (pv_reconcile_data_source A w)) = view w) \<and>
     quiet view (sa_stores (pv_storage A)) \<and> quiet view (pv_scheduled A) \<and>
     quiet view (pq_monitors (pv_monitors A)) \<and> quiet view (pa_poolers (pv_poolers A))"

text \<open>The calls on other objects.\<close>

lemma quiet_apply: "quiet view B \<Longrightarrow> ap_apply B n s w = (r, w') \<Longrightarrow> view w' = view w"
  unfolding quiet_def by (metis snd_conv)

lemma quiet_delete: "quiet view B \<Longrightarrow> ap_delete B n w = (r, w') \<Longrightarrow> view w' = view w"
  unfolding quiet_def by (metis snd_conv)

lemma sync_stores_quiet:
  assumes "quiet view (sa_stores A)"
  shows "sync_stores A self strgs w = (r, w') \<Longrightarrow> view w' = view w"
proof (induction strgs arbitrary: w)
  case (Cons strg strgs)
  then show ?case
    using quiet_apply [OF assms] by (auto split: sum.splits prod.splits option.splits)
qed simp

lemma infrastructure_quiet:
  "quiet view (sa_stores A) \<Longrightarrow> SyncBackupInfrastructure A self w = (r, w') \<Longrightarrow> view w' = view w"
  by (auto simp: SyncBackupInfrastructure_def Let_def dest: sync_stores_quiet
      split: option.splits prod.splits sum.splits if_splits)

lemma monitor_quiet:
  "quiet view (pq_monitors A) \<Longrightarrow> syncPodMonitor M A self pg w = (r, w') \<Longrightarrow> view w' = view w"
  by (auto simp: syncPodMonitor_def dest: quiet_apply quiet_delete
      split: sum.splits option.splits prod.splits api_err.splits if_splits)

lemma pooler_quiet:
  "quiet view (pa_poolers A) \<Longrightarrow> syncPooler A self tls w = (r, w') \<Longrightarrow> view w' = view w"
  by (auto simp: syncPooler_def deletePooler_def dest: quiet_apply quiet_delete
      split: sum.splits option.splits prod.splits bool.splits if_splits)

lemma apply_desired_quiet:
  assumes "quiet view A"
  shows "apply_desired A ds keep w = (r, w') \<Longrightarrow> view w' = view w"
proof (induction ds arbitrary: keep w)
  case (Cons d ds)
  then show ?case using quiet_apply [OF assms] by (cases d) (auto split: prod.splits option.splits; metis)
qed simp

lemma delete_stale_quiet:
  assumes "quiet view A"
  shows "delete_stale A controlled keep sbs w = (r, w') \<Longrightarrow> view w' = view w"
proof (induction sbs arbitrary: w)
  case (Cons d sbs)
  then show ?case using quiet_delete [OF assms] by (cases d) (auto split: prod.splits option.splits if_splits; metis)
qed simp

lemma scheduled_quiet:
  assumes "quiet view A" "SyncScheduledBackups A controlled um name backup w = (r, w')"
  shows "view w' = view w"
proof (cases "buildScheduledBackups um name backup")
  case (Inr ds)
  obtain k w1 where k: "apply_desired A ds [] w = (k, w1)" by (cases "apply_desired A ds [] w")
  with Inr assms(2) apply_desired_quiet [OF assms(1) k] delete_stale_quiet [OF assms(1)] show ?thesis
    by (auto simp: SyncScheduledBackups_def split: sum.splits)
qed (use assms in \<open>simp add: SyncScheduledBackups_def\<close>)

text \<open>The entries of the Cluster before the extensions are applied are the user's.\<close>

lemma when_set_simps [simp]: "when_set None f s = s" "when_set (Some a) f s = f a s"
  by (simp_all add: when_set_def)

lemma ApplyRequireTLS_entries [simp]: "entry_names (ApplyRequireTLS s custom) = entry_names s"
  by (simp add: ApplyRequireTLS_def entry_names_def)

lemma build_postgres: "buildClusterSpec Q engine custom = Inr s \<Longrightarrow> cs_postgres s = zero_postgres"
  by (auto simp: buildClusterSpec_def zero_cluster_spec_def split: option.splits)

lemma apply_parameters_postgres:
  "cs_postgres (apply_parameters A name engine custom s) =
     cs_postgres (ApplyRequireTLS (when_set (cu_postgresql custom) (\<lambda>p s. s\<lparr>cs_postgres := p\<rparr>) s) custom)"
  by (simp add: apply_parameters_def Let_def when_set_def split: option.splits)

lemma apply_image_postgres: "cs_postgres (apply_image A image_name custom s) = cs_postgres s"
  by (simp add: apply_image_def Let_def when_set_def split: option.splits)

lemma recover_postgres: "recover A self custom s w = Inr t \<Longrightarrow> cs_postgres t = cs_postgres s"
  by (auto simp: recover_def split: if_splits sum.splits prod.splits)

lemma desired_entries:
  assumes "desired_cluster A catalog self engine custom w = Inr (s, images)"
  shows "\<exists>base. entry_names base = user_entries (Some custom) \<and>
    ResolveExtensionImages (\<lambda>n. pv_catalog A n w) (pv_find_extensions A) catalog (Some custom)
       (co_version engine) (in_version self) = Inr images \<and>
    cs_postgres s = cs_postgres (ApplyExtensions base (Some custom) images)"
proof -
  from assms obtain b image_name where b: "buildClusterSpec (pv_quantity A) engine custom = Inr b"
    and r: "resolve_images A catalog self engine custom w = Inr images"
    and s: "recover A self custom (ApplyExtensions (apply_image A image_name custom
        (apply_parameters A (in_name self) engine custom b)) (Some custom) images) w = Inr s"
    by (auto simp: desired_cluster_def Let_def)
  let ?base = "apply_image A image_name custom (apply_parameters A (in_name self) engine custom b)"
  have "entry_names ?base = user_entries (Some custom)"
    using build_postgres [OF b]
    by (cases "cu_postgresql custom")
      (simp_all add: entry_names_def apply_image_postgres apply_parameters_postgres ApplyRequireTLS_def
        user_entries_def zero_postgres_def)
  with r recover_postgres [OF s] show ?thesis
    by (intro exI [of _ ?base]) (simp add: resolve_images_def)
qed

lemma Validate_accepted:
  assumes "truthful view A self" "Validate A catalog self w = None"
  shows "\<exists>custom. decoded A (engine_of self) = Inr custom \<and>
    accepted (view w) (Some custom) (co_version (engine_of self)) (in_version self)"
  using assms(2)
proof (rule Validate_None)
  fix engine custom
  assume e: "engine_of self = engine" "decoded A engine = Inr custom"
    and p: "validate_parameters A catalog self engine custom w = None"
  have "pv_database A (ExtensionsDatabaseName (in_name self)) w = read_object (de_database (view w))"
    using p assms(1)
    by (cases "pv_database A (ExtensionsDatabaseName (in_name self)) w")
      (auto simp: truthful_def validate_parameters_def ValidateExtensionsNotDisabled_def read_object_def split: api_err.splits)
  moreover have "pv_cluster A (in_name self) w = read_object (de_cluster (view w))"
    using p assms(1)
    by (cases "pv_cluster A (in_name self) w")
      (auto simp: truthful_def validate_parameters_def ValidateExtensionsAtCreation_def read_object_def split: api_err.splits)
  ultimately show ?thesis
    using p e by (simp add: accepted_def validate_parameters_def)
qed


lemma bind_eff_cases:
  assumes "bind_eff c f w = (r, w')"
  obtains e where "c w = (Inl e, w')" "r = Inl e"
  | a w1 where "c w = (Inr a, w1)" "f a w1 = (r, w')"
  using assms by (cases "c w") (auto simp: bind_eff_def split: sum.splits)

lemma database_effect:
  "SyncExtensionsDatabase f name custom images w = (r, w') \<Longrightarrow>
   w' = w \<or> (\<exists>d. BuildExtensionsDatabase name custom images = Some d \<and> w' = snd (f (ExtensionsDatabaseName name) d w))"
  by (auto simp: SyncExtensionsDatabase_def split: option.splits prod.splits)

text \<open>Sync after the Cluster is stored: at most the Database changes.\<close>

definition sync_rest ::
  "('w, 'o) provider_api \<Rightarrow> cnpg_instance \<Rightarrow> custom_spec \<Rightarrow> extension_images \<Rightarrow> bool \<Rightarrow> cluster \<Rightarrow> ('w, unit) eff" where
  "sync_rest A self custom images finished pg =
     bind_eff (syncPodMonitor (pv_methods A) (pv_monitors A) self pg) (\<lambda>_.
     bind_eff (syncPooler (pv_poolers A) self (cu_require_tls custom = Some True)) (\<lambda>_.
       if \<not> finished then ret ()
       else bind_eff (SyncExtensionsDatabase (pv_apply_database A) (in_name self) (Some custom) images) (\<lambda>_.
         SyncScheduledBackups (pv_scheduled A) (pv_controlled A) (pv_unmarshal A)
           (in_name self) (in_backup self))))"

lemma Sync_split:
  "Sync A catalog self w0 =
     (case pv_reconcile_data_source A w0 of
        (Inl e, w) \<Rightarrow> (Inl (Wrap ''reconcile data source: %w'' [] e), w)
      | (Inr finished, w) \<Rightarrow>
          bind_eff (reads (\<lambda>w. decoded A (engine_of self))) (\<lambda>custom.
          bind_eff (reads (desired_cluster A catalog self (engine_of self) custom)) (\<lambda>(s, images).
          bind_eff (SyncBackupInfrastructure (pv_storage A) self) (\<lambda>plugins.
          bind_eff (apply_cluster A (in_name self)
              (if length plugins > 0 then s\<lparr>cs_plugins := plugins\<rparr> else s))
            (sync_rest A self custom images finished)))) w)"
  unfolding Sync_def sync_rest_def Let_def by (rule refl)

lemma sync_rest_view:
  assumes laws: "deployment_laws view A self" and run: "sync_rest A self custom images finished pg w = (r, w')"
  shows "view w' = view w \<or>
    (\<exists>d db. BuildExtensionsDatabase (in_name self) (Some custom) images = Some d \<and> db_spec db = d \<and>
       view w' = (view w)\<lparr>de_database := Some db\<rparr>)"
proof -
  have q: "quiet view (pv_scheduled A)" "quiet view (pq_monitors (pv_monitors A))" "quiet view (pa_poolers (pv_poolers A))"
    using laws by (simp_all add: deployment_laws_def)
  have db: "view w2 = view w1 \<or>
      (\<exists>d db. BuildExtensionsDatabase (in_name self) (Some custom) images = Some d \<and> db_spec db = d \<and>
         view w2 = (view w1)\<lparr>de_database := Some db\<rparr>)"
    if "SyncExtensionsDatabase (pv_apply_database A) (in_name self) (Some custom) images w1 = (x, w2)" for x w1 w2
    using database_effect [OF that] laws unfolding deployment_laws_def stores_database_def by blast
  show ?thesis
    using run unfolding sync_rest_def
    by (elim bind_eff_cases) (auto split: if_splits elim!: bind_eff_cases
        dest!: monitor_quiet [OF q(2)] pooler_quiet [OF q(3)] scheduled_quiet [OF q(1)] db)
qed

text \<open>Storing the Cluster and the rest of Sync: one step of the machine.\<close>

lemma cluster_then_rest:
  assumes laws: "deployment_laws view A self" and acc: "accepted (view w) (Some custom) ev iv"
    and images: "ResolveExtensionImages get fx catalog (Some custom) ev iv = Inr images"
    and base: "entry_names base = user_entries (Some custom)"
      "entry_names s = entry_names (ApplyExtensions base (Some custom) images)"
    and run: "bind_eff (apply_cluster A (in_name self) s) (sync_rest A self custom images finished) w = (r, w')"
  shows "view w' = view w \<or> reconcile (Some custom) (view w) (view w')"
proof -
  obtain rc w1 where rc: "pv_apply_cluster A (in_name self) s w = (rc, w1)"
    by (cases "pv_apply_cluster A (in_name self) s w")
  have effect: "(rc \<in> range Inl \<and> view w1 = view w) \<or>
      (\<exists>pg. entry_names (cl_spec pg) = entry_names s \<and> view w1 = (view w)\<lparr>de_cluster := Some pg\<rparr>)"
    using laws rc unfolding deployment_laws_def stores_cluster_def by blast
  have step: "reconcile (Some custom) (view w) ((view w)\<lparr>de_cluster := Some pg\<rparr>)"
    if "entry_names (cl_spec pg) = entry_names s" for pg
    using acc images base that by (intro reconcile.cluster_applied) simp_all
  show ?thesis
  proof (cases rc)
    case (Inl e)
    then have "w' = w1" using run rc by (simp add: bind_eff_def apply_cluster_def)
    with effect step show ?thesis by auto
  next
    case (Inr pg0)
    with effect obtain pg where pg: "entry_names (cl_spec pg) = entry_names s"
      "view w1 = (view w)\<lparr>de_cluster := Some pg\<rparr>" by auto
    have "sync_rest A self custom images finished pg0 w1 = (r, w')"
      using run rc Inr by (simp add: bind_eff_def apply_cluster_def)
    from sync_rest_view [OF laws this] show ?thesis
    proof (elim disjE exE conjE)
      fix d db
      assume d: "BuildExtensionsDatabase (in_name self) (Some custom) images = Some d" "db_spec db = d"
        and v: "view w' = (view w1)\<lparr>de_database := Some db\<rparr>"
      have "reconcile (Some custom) (view w) ((view w)\<lparr>de_cluster := Some pg, de_database := Some db\<rparr>)"
        using acc images base pg(1) d by (intro reconcile.database_applied) simp_all
      with v pg(2) show ?thesis by simp
    qed (use step pg in simp)
  qed
qed

lemma Sync_step:
  assumes laws: "deployment_laws view A self" and run: "Sync A catalog self w = (r, w')"
    and custom: "decoded A (engine_of self) = Inr custom"
    and acc: "accepted (view w) (Some custom) (co_version (engine_of self)) (in_version self)"
  shows "view w' = view w \<or> reconcile (Some custom) (view w) (view w')"
proof (cases "pv_reconcile_data_source A w")
  case (Pair r0 w1)
  have w1: "view w1 = view w" using laws Pair unfolding deployment_laws_def by (metis snd_conv)
  have quiet: "quiet view (sa_stores (pv_storage A))" using laws by (simp add: deployment_laws_def)
  show ?thesis
  proof (cases "\<exists>finished s images. r0 = Inr finished \<and>
      desired_cluster A catalog self (engine_of self) custom w1 = Inr (s, images)")
    case False
    then have "w' = w1"
      using run Pair custom
      by (auto simp: Sync_split bind_eff_def split: sum.splits prod.splits)
    with w1 show ?thesis by simp
  next
    case True
    then obtain finished s images where r0: "r0 = Inr finished"
      and s: "desired_cluster A catalog self (engine_of self) custom w1 = Inr (s, images)" by blast
    from desired_entries [OF s] obtain base where base: "entry_names base = user_entries (Some custom)"
      "ResolveExtensionImages (\<lambda>n. pv_catalog A n w1) (pv_find_extensions A) catalog (Some custom)
        (co_version (engine_of self)) (in_version self) = Inr images"
      "cs_postgres s = cs_postgres (ApplyExtensions base (Some custom) images)" by blast
    have "bind_eff (SyncBackupInfrastructure (pv_storage A) self) (\<lambda>plugins.
        bind_eff (apply_cluster A (in_name self) (if length plugins > 0 then s\<lparr>cs_plugins := plugins\<rparr> else s))
          (sync_rest A self custom images finished)) w1 = (r, w')"
      using run Pair r0 custom s by (simp add: Sync_split bind_eff_def)
    then show ?thesis
    proof (rule bind_eff_cases)
      fix plugins w2
      assume w2: "SyncBackupInfrastructure (pv_storage A) self w1 = (Inr plugins, w2)"
        and rest: "bind_eff (apply_cluster A (in_name self) (if length plugins > 0 then s\<lparr>cs_plugins := plugins\<rparr> else s))
          (sync_rest A self custom images finished) w2 = (r, w')"
      let ?s = "if length plugins > 0 then s\<lparr>cs_plugins := plugins\<rparr> else s"
      have v: "view w2 = view w" using infrastructure_quiet [OF quiet w2] w1 by simp
      have "entry_names ?s = entry_names (ApplyExtensions base (Some custom) images)"
        using base(3) by (simp add: entry_names_def)
      from cluster_then_rest [OF laws _ base(2,1) this rest] acc show ?thesis by (simp add: v)
    qed (use w1 infrastructure_quiet [OF quiet] in auto)
  qed
qed

text \<open>C3: Sync refines the abstract machine of the extension life cycle: from a validated state,
  however far it gets, it leaves the Cluster and the extensions Database as they are or makes
  one step of the machine, so no accepted sync drops an extension the Database lists.\<close>

theorem Sync_refines_reconcile:
  assumes laws: "deployment_laws view A self"
    and valid: "Validate A catalog self w0 = None" "view w0 = view w"
    and run: "Sync A catalog self w = (r, w')"
  shows "\<exists>custom. decoded A (engine_of self) = Inr custom \<and>
    (view w' = view w \<or> reconcile (Some custom) (view w) (view w')) \<and>
    (provider_database (view w) \<longrightarrow> installed_sql (view w) \<subseteq> installed_sql (view w'))"
proof -
  from Validate_accepted [of view A self catalog w0] laws valid obtain custom where
    custom: "decoded A (engine_of self) = Inr custom"
    and acc: "accepted (view w) (Some custom) (co_version (engine_of self)) (in_version self)"
    by (auto simp: deployment_laws_def)
  with custom Sync_step [OF laws run custom acc] reconcile_installed_mono show ?thesis by fastforce
qed

lemma sample_deployment_laws: "deployment_laws (\<lambda>w. w) (sample_provider True) engine_instance"
  unfolding deployment_laws_def
proof (intro conjI)
  show "stores_cluster (\<lambda>w. w) (sample_provider True) engine_instance"
    unfolding stores_cluster_def
  proof (intro allI impI disjI2)
    fix s w r w'
    assume "pv_apply_cluster (sample_provider True) (in_name engine_instance) s w = (r, w')"
    then show "\<exists>pg. entry_names (cl_spec pg) = entry_names s \<and> w' = w\<lparr>de_cluster := Some pg\<rparr>"
      by (intro exI [of _ "sample_cluster s"]) (simp add: sample_provider_def, simp add: sample_cluster_def)
  qed
  show "stores_database (\<lambda>w. w) (sample_provider True) engine_instance"
    unfolding stores_database_def
  proof (intro allI disjI2)
    fix d w
    show "\<exists>db. db_spec db = d \<and> snd (pv_apply_database (sample_provider True)
        (ExtensionsDatabaseName (in_name engine_instance)) d w) = w\<lparr>de_database := Some db\<rparr>"
      by (intro exI [of _ "sample_database d"]) (simp add: sample_provider_def sample_database_def)
  qed
qed (auto simp: truthful_def quiet_def sample_provider_def idle_api_def read_object_def split: option.splits)

theorem Sync_refines_reconcile_witness:
  "snd (Sync (sample_provider True) ''cat'' engine_instance nothing_deployed) = nothing_deployed \<or>
   reconcile ts_on nothing_deployed (snd (Sync (sample_provider True) ''cat'' engine_instance nothing_deployed))"
proof -
  from Sync_refines_reconcile [OF sample_deployment_laws sample_valid refl prod.collapse [symmetric]] show ?thesis
    using ts_on_Some by auto
qed

section \<open>The Cluster that is applied\<close>

definition user_postgres :: "custom_spec \<Rightarrow> postgres_configuration" where
  "user_postgres custom = (case cu_postgresql custom of None \<Rightarrow> zero_postgres | Some p \<Rightarrow> p)"

lemma outside_fields:
  assumes "outside_extensions t = outside_extensions s"
  shows "cs_instances t = cs_instances s" "cs_priority_class_name t = cs_priority_class_name s"
    "cs_storage t = cs_storage s" "cs_wal_storage t = cs_wal_storage s" "cs_resources t = cs_resources s"
    "cs_managed t = cs_managed s" "cs_affinity t = cs_affinity s" "cs_scheduler_name t = cs_scheduler_name s"
    "cs_topology_spread t = cs_topology_spread s" "cs_image_name t = cs_image_name s"
    "cs_image_pull_policy t = cs_image_pull_policy s" "cs_certificates t = cs_certificates s"
    "cs_monitoring t = cs_monitoring s" "cs_inherited_labels t = cs_inherited_labels s" "cs_plugins t = cs_plugins s"
    "cs_external_clusters t = cs_external_clusters s"
  using assms by (cases s; cases t; simp add: outside_extensions_def)+

text \<open>What the data source changes: nothing, or the bootstrap and the external clusters.\<close>

lemma recover_cases:
  assumes "recover A self custom s w = Inr t"
  obtains "in_data_source self = None" "t = s"
  | recovery origin where "in_data_source self \<noteq> None"
      "BuildRecoveryConfig (\<lambda>n. pv_oe_backup A n w) (\<lambda>n. pv_cnpg_backup A n w) (in_name self)
         (in_data_source self) custom = Inr (recovery, origin)"
      "t = s\<lparr>cs_bootstrap := Some \<lparr>bo_initdb = None, bo_recovery = Some recovery\<rparr>, cs_external_clusters := [origin]\<rparr>"
  using assms by (auto simp: recover_def split: if_splits sum.splits prod.splits)

lemma case_same [simp]: "(case x of None \<Rightarrow> c | Some a \<Rightarrow> c) = c"
  by (cases x) simp_all

lemma when_set_frame: "(\<And>a t. f (g a t) = f t) \<Longrightarrow> f (when_set x g s) = f s"
  by (cases x) simp_all

lemma RequireTLS_fields [simp]:
  "cs_instances (ApplyRequireTLS s custom) = cs_instances s"
  "cs_priority_class_name (ApplyRequireTLS s custom) = cs_priority_class_name s"
  "cs_storage (ApplyRequireTLS s custom) = cs_storage s" "cs_wal_storage (ApplyRequireTLS s custom) = cs_wal_storage s"
  "cs_resources (ApplyRequireTLS s custom) = cs_resources s" "cs_managed (ApplyRequireTLS s custom) = cs_managed s"
  "cs_affinity (ApplyRequireTLS s custom) = cs_affinity s" "cs_scheduler_name (ApplyRequireTLS s custom) = cs_scheduler_name s"
  "cs_topology_spread (ApplyRequireTLS s custom) = cs_topology_spread s"
  "cs_image_pull_policy (ApplyRequireTLS s custom) = cs_image_pull_policy s"
  "cs_certificates (ApplyRequireTLS s custom) = cs_certificates s" "cs_monitoring (ApplyRequireTLS s custom) = cs_monitoring s"
  "cs_plugins (ApplyRequireTLS s custom) = cs_plugins s" "cs_bootstrap (ApplyRequireTLS s custom) = cs_bootstrap s"
  "cs_external_clusters (ApplyRequireTLS s custom) = cs_external_clusters s"
  by (simp_all add: ApplyRequireTLS_def)

lemmas when_set_frames = when_set_frame [of cs_instances] when_set_frame [of cs_priority_class_name]
  when_set_frame [of cs_storage] when_set_frame [of cs_wal_storage] when_set_frame [of cs_resources]
  when_set_frame [of cs_managed] when_set_frame [of cs_affinity] when_set_frame [of cs_scheduler_name]
  when_set_frame [of cs_topology_spread] when_set_frame [of cs_image_name] when_set_frame [of cs_image_pull_policy]
  when_set_frame [of cs_certificates] when_set_frame [of cs_monitoring] when_set_frame [of cs_plugins]
  when_set_frame [of cs_bootstrap] when_set_frame [of cs_external_clusters]

lemma when_set_fields:
  "cs_managed (when_set x (\<lambda>m s. s\<lparr>cs_managed := Some m\<rparr>) s) = (case x of None \<Rightarrow> cs_managed s | Some m \<Rightarrow> Some m)"
  "cs_affinity (when_set y (\<lambda>a s. s\<lparr>cs_affinity := a\<rparr>) s) = (case y of None \<Rightarrow> cs_affinity s | Some a \<Rightarrow> a)"
  "cs_certificates (when_set c (\<lambda>c s. s\<lparr>cs_certificates := Some c\<rparr>) s) = (case c of None \<Rightarrow> cs_certificates s | Some c \<Rightarrow> Some c)"
  "cs_monitoring (when_set m (\<lambda>m s. s\<lparr>cs_monitoring := Some m\<rparr>) s) = (case m of None \<Rightarrow> cs_monitoring s | Some m \<Rightarrow> Some m)"
  "cs_bootstrap (when_set b (\<lambda>b s. s\<lparr>cs_bootstrap := Some \<lparr>bo_initdb = cb_initdb b, bo_recovery = None\<rparr>\<rparr>) s) =
     (case b of None \<Rightarrow> cs_bootstrap s | Some b \<Rightarrow> Some \<lparr>bo_initdb = cb_initdb b, bo_recovery = None\<rparr>)"
  by (simp_all add: when_set_def split: option.split)

lemma applyScheduling_fields:
  "cs_priority_class_name (applyScheduling sp n s policy) = cs_priority_class_name s"
  "cs_wal_storage (applyScheduling sp n s policy) = cs_wal_storage s"
  "cs_certificates (applyScheduling sp n s policy) = cs_certificates s"
  "cs_monitoring (applyScheduling sp n s policy) = cs_monitoring s"
  "cs_scheduler_name (applyScheduling sp n s policy) = (case policy of None \<Rightarrow> cs_scheduler_name s | Some p \<Rightarrow> sp_scheduler_name p)"
  "cs_topology_spread (applyScheduling sp n s policy) =
     (case policy of None \<Rightarrow> cs_topology_spread s | Some p \<Rightarrow> sp p (instance_pod_labels n))"
  "cs_affinity (applyScheduling sp n s policy) = (case policy of None \<Rightarrow> cs_affinity s | Some p \<Rightarrow> place p (cs_affinity s))"
  by (simp_all add: applyScheduling_def split: option.split)

text \<open>The fields of the Cluster before the extensions are applied.\<close>

lemma image_fields:
  "cs_instances (apply_image A img custom s) = cs_instances s"
  "cs_priority_class_name (apply_image A img custom s) = cs_priority_class_name s"
  "cs_storage (apply_image A img custom s) = cs_storage s" "cs_wal_storage (apply_image A img custom s) = cs_wal_storage s"
  "cs_resources (apply_image A img custom s) = cs_resources s" "cs_managed (apply_image A img custom s) = cs_managed s"
  "cs_affinity (apply_image A img custom s) = cs_affinity s"
  "cs_scheduler_name (apply_image A img custom s) = cs_scheduler_name s"
  "cs_topology_spread (apply_image A img custom s) = cs_topology_spread s"
  "cs_plugins (apply_image A img custom s) = cs_plugins s" "cs_bootstrap (apply_image A img custom s) = cs_bootstrap s"
  "cs_external_clusters (apply_image A img custom s) = cs_external_clusters s"
  "cs_image_name (apply_image A img custom s) = img"
  "cs_image_pull_policy (apply_image A img custom s) =
     (if cs_image_pull_policy s = [] then ''IfNotPresent'' else cs_image_pull_policy s)"
  "cs_certificates (apply_image A img custom s) = (case cu_certificates custom of None \<Rightarrow> cs_certificates s | Some c \<Rightarrow> Some c)"
  "cs_monitoring (apply_image A img custom s) = (case cu_monitoring custom of None \<Rightarrow> cs_monitoring s | Some c \<Rightarrow> Some c)"
  "cs_inherited_labels (apply_image A img custom s) = Some (pv_pod_labels A ComponentEngine)"
  by (simp_all add: apply_image_def Let_def when_set_frames when_set_fields PullIfNotPresent_def split: option.split)

lemma parameters_fields:
  "cs_instances (apply_parameters A name engine custom s) = cs_instances s"
  "cs_priority_class_name (apply_parameters A name engine custom s) = cs_priority_class_name s"
  "cs_storage (apply_parameters A name engine custom s) = cs_storage s"
  "cs_wal_storage (apply_parameters A name engine custom s) = cs_wal_storage s"
  "cs_resources (apply_parameters A name engine custom s) = cs_resources s"
  "cs_plugins (apply_parameters A name engine custom s) = cs_plugins s"
  "cs_image_pull_policy (apply_parameters A name engine custom s) = cs_image_pull_policy s"
  "cs_certificates (apply_parameters A name engine custom s) = cs_certificates s"
  "cs_monitoring (apply_parameters A name engine custom s) = cs_monitoring s"
  "cs_external_clusters (apply_parameters A name engine custom s) = cs_external_clusters s"
  "cs_managed (apply_parameters A name engine custom s) = (case cu_managed custom of None \<Rightarrow> cs_managed s | Some m \<Rightarrow> Some m)"
  "cs_bootstrap (apply_parameters A name engine custom s) =
     (case cu_bootstrap custom of None \<Rightarrow> cs_bootstrap s | Some b \<Rightarrow> Some \<lparr>bo_initdb = cb_initdb b, bo_recovery = None\<rparr>)"
  "cs_scheduler_name (apply_parameters A name engine custom s) =
     (case co_scheduling_policy engine of None \<Rightarrow> cs_scheduler_name s | Some p \<Rightarrow> sp_scheduler_name p)"
  "cs_topology_spread (apply_parameters A name engine custom s) =
     (case co_scheduling_policy engine of None \<Rightarrow> cs_topology_spread s | Some p \<Rightarrow> pv_spread A p (instance_pod_labels name))"
  "cs_affinity (apply_parameters A name engine custom s) =
     (let a = (case cu_affinity custom of None \<Rightarrow> cs_affinity s | Some a \<Rightarrow> a)
      in case co_scheduling_policy engine of None \<Rightarrow> a | Some p \<Rightarrow> place p a)"
  by (simp_all add: apply_parameters_def Let_def when_set_frames when_set_fields applyScheduling_fields split: option.split)

lemma build_fields:
  assumes "buildClusterSpec Q engine custom = Inr b"
  obtains st r where "co_storage engine = Some st" "co_resources engine = Some r" "co_replicas engine = Some (cs_instances b)"
    "cs_priority_class_name b = cu_priority_class_name custom" "cs_storage b = cluster_storage Q st custom"
    "cs_wal_storage b = cu_wal_storage custom" "cs_managed b = None" "cs_certificates b = None" "cs_monitoring b = None"
    "cs_resources b = \<lparr>rr_requests = cpu_and_memory (rr_requests r), rr_limits = cpu_and_memory (rr_limits r)\<rparr>"
    "cs_affinity b = zero_affinity" "cs_scheduler_name b = []" "cs_topology_spread b = []" "cs_bootstrap b = None"
    "cs_image_pull_policy b = []" "cs_external_clusters b = []" "cs_plugins b = []"
  using assms by (auto simp: buildClusterSpec_def zero_cluster_spec_def split: option.splits)

text \<open>The fields whose value is copied from the parameters or the component as it is.\<close>

definition copies_parameters ::
  "('w, 'o) provider_api \<Rightarrow> component_spec \<Rightarrow> custom_spec \<Rightarrow> cluster_spec \<Rightarrow> bool" where
  "copies_parameters A engine custom s \<longleftrightarrow>
     cs_priority_class_name s = cu_priority_class_name custom \<and> cs_wal_storage s = cu_wal_storage custom \<and>
     cs_managed s = cu_managed custom \<and> cs_certificates s = cu_certificates custom \<and>
     cs_monitoring s = cu_monitoring custom \<and> cs_image_pull_policy s = ''IfNotPresent'' \<and>
     (co_image engine \<noteq> [] \<longrightarrow> cs_image_name s = co_image engine) \<and>
     (\<exists>st. co_storage engine = Some st \<and> sc_size (cs_storage s) = q_string (pv_quantity A) (ct_size st) \<and>
        sc_storage_class (cs_storage s) = (if ct_storage_class st = Some [] then None else ct_storage_class st)) \<and>
     sc_pvc_template (cs_storage s) = cu_pvc_template custom \<and>
     sc_resize_in_use (cs_storage s) = cu_resize_in_use_volumes custom \<and>
     (\<exists>r. co_resources engine = Some r \<and>
        rr_requests (cs_resources s) = [''cpu'' \<mapsto> rl_cpu (rr_requests r), ''memory'' \<mapsto> rl_memory (rr_requests r)] \<and>
        rr_limits (cs_resources s) = [''cpu'' \<mapsto> rl_cpu (rr_limits r), ''memory'' \<mapsto> rl_memory (rr_limits r)]) \<and>
     cs_inherited_labels s = Some (pv_pod_labels A ComponentEngine)"

text \<open>Where the instance pods are placed: the user's affinity, changed only by a scheduling policy.\<close>

definition placed :: "('w, 'o) provider_api \<Rightarrow> string \<Rightarrow> component_spec \<Rightarrow> custom_spec \<Rightarrow> cluster_spec \<Rightarrow> bool" where
  "placed A name engine custom s \<longleftrightarrow>
     (case co_scheduling_policy engine of
        None \<Rightarrow> cs_scheduler_name s = [] \<and> cs_topology_spread s = [] \<and>
          cs_affinity s = (case cu_affinity custom of None \<Rightarrow> zero_affinity | Some a \<Rightarrow> a)
      | Some p \<Rightarrow> cs_scheduler_name s = sp_scheduler_name p \<and>
          cs_topology_spread s = pv_spread A p [ClusterLabelName \<mapsto> name, PodRoleLabelName \<mapsto> ''instance''] \<and>
          cs_affinity s = (case cu_affinity custom of None \<Rightarrow> place p zero_affinity | Some a \<Rightarrow> a))"

text \<open>The initdb of the parameters, with the grant AGE needs appended when AGE is enabled.\<close>

definition requested_initdb :: "custom_spec \<Rightarrow> cluster_bootstrap option" where
  "requested_initdb custom =
     (let user = Option.bind (cu_bootstrap custom) cb_initdb;
          initdb = (case user of None \<Rightarrow> zero_initdb | Some i \<Rightarrow> i);
          owner = (if ib_owner initdb = [] then ''app'' else ib_owner initdb);
          grant = ''ALTER DEFAULT PRIVILEGES FOR ROLE postgres GRANT USAGE ON SCHEMAS TO '' @ quoteIdentifier owner;
          sql = ib_post_init_application_sql initdb
      in if toggle_on (Some custom) es_age
         then Some \<lparr>bo_initdb = Some (initdb\<lparr>ib_post_init_application_sql := (if grant \<in> set sql then sql else sql @ [grant])\<rparr>),
                    bo_recovery = None\<rparr>
         else if cu_bootstrap custom = None then None else Some \<lparr>bo_initdb = user, bo_recovery = None\<rparr>)"

lemma placed_base:
  assumes "buildClusterSpec (pv_quantity A) engine custom = Inr b" "ValidateScheduling (co_scheduling_policy engine) custom = None"
  shows "placed A name engine custom (apply_image A img custom (apply_parameters A name engine custom b))"
  using assms(1)
proof (rule build_fields)
  assume zero: "cs_affinity b = zero_affinity" "cs_scheduler_name b = []" "cs_topology_spread b = []"
  have "place p a = a" if "co_scheduling_policy engine = Some p" "cu_affinity custom = Some a" for p a
    using assms(2) that by (auto simp: ValidateScheduling_def place_def split: if_splits)
  with zero show ?thesis
    by (cases "cu_affinity custom")
      (simp_all add: placed_def image_fields parameters_fields Let_def instance_pod_labels_def PodRoleInstance_def
        split: option.split)
qed

lemma copied_base:
  assumes "buildClusterSpec (pv_quantity A) engine custom = Inr b" "engine_image A engine w = Inr img"
  shows "copies_parameters A engine custom (apply_image A img custom (apply_parameters A name engine custom b))"
proof -
  have "co_image engine \<noteq> [] \<longrightarrow> img = co_image engine" using assms(2) by (auto simp: engine_image_def)
  with assms(1) show ?thesis
    by (elim build_fields)
      (simp add: copies_parameters_def image_fields parameters_fields cluster_storage_def cpu_and_memory_def
        split: option.split)
qed

lemma bootstrap_base:
  assumes "buildClusterSpec (pv_quantity A) engine custom = Inr b"
  shows "cs_bootstrap (ApplyExtensions (apply_image A img custom (apply_parameters A name engine custom b)) (Some custom) images)
     = requested_initdb custom"
proof -
  have "cs_bootstrap b = None" using assms by (rule build_fields)
  then show ?thesis
    by (cases "cu_bootstrap custom")
      (simp_all add: ApplyExtensions_bootstrap requested_initdb_def add_bootstrap_sql_def image_fields parameters_fields Let_def
        age_bootstrap_sql_def applicationDatabaseIdentity_def append_new_def postgresSuperuser_def DefaultApplicationUserName_def zero_initdb_def split: option.split)
qed

lemma desired_parts:
  assumes "desired_cluster A catalog self engine custom w = Inr (s, images)"
  obtains b img where "buildClusterSpec (pv_quantity A) engine custom = Inr b" "engine_image A engine w = Inr img"
    "recover A self custom (ApplyExtensions (apply_image A img custom
       (apply_parameters A (in_name self) engine custom b)) (Some custom) images) w = Inr s"
  using assms by (auto simp: desired_cluster_def Let_def)

text \<open>What neither the extensions nor a data source change.\<close>

lemma ApplyExtensions_outside: "outside_extensions (ApplyExtensions s custom images) = outside_extensions s"
  using ApplyExtensions_extends [of s custom images] by (simp add: extends_spec_def)

lemmas extensions_fields = outside_fields [OF ApplyExtensions_outside]

lemma fields_kept:
  assumes "recover A self custom (ApplyExtensions base (Some custom) images) w = Inr s"
  shows "copies_parameters B engine custom s = copies_parameters B engine custom base"
    "placed B name engine custom s = placed B name engine custom base"
    "cs_instances s = cs_instances base" "cs_plugins s = cs_plugins base"
    "cs_postgres s = cs_postgres (ApplyExtensions base (Some custom) images)"
proof -
  let ?t = "ApplyExtensions base (Some custom) images"
  obtain b x where s: "s = ?t\<lparr>cs_bootstrap := b, cs_external_clusters := x\<rparr>"
    using assms
  proof (rule recover_cases)
    assume "s = ?t"
    then show thesis by (intro that [of "cs_external_clusters ?t" "cs_bootstrap ?t"]) simp
  qed (rule that)
  show "copies_parameters B engine custom s = copies_parameters B engine custom base"
    "placed B name engine custom s = placed B name engine custom base"
    by (cases "co_scheduling_policy engine"; simp add: s copies_parameters_def placed_def extensions_fields)+
  show "cs_instances s = cs_instances base" "cs_plugins s = cs_plugins base" "cs_postgres s = cs_postgres ?t"
    by (simp_all add: s extensions_fields)
qed

lemma desired_copied:
  assumes "desired_cluster A catalog self engine custom w = Inr (s, images)"
  shows "copies_parameters A engine custom s" "co_replicas engine = Some (cs_instances s)" "cs_plugins s = []"
    "ValidateScheduling (co_scheduling_policy engine) custom = None \<Longrightarrow> placed A (in_name self) engine custom s"
proof -
  obtain b img where b: "buildClusterSpec (pv_quantity A) engine custom = Inr b" and img: "engine_image A engine w = Inr img"
    and r: "recover A self custom (ApplyExtensions (apply_image A img custom
       (apply_parameters A (in_name self) engine custom b)) (Some custom) images) w = Inr s"
    using assms by (rule desired_parts)
  note kept = fields_kept [OF r]
  show "copies_parameters A engine custom s" using copied_base [OF b img] by (simp only: kept)
  show "ValidateScheduling (co_scheduling_policy engine) custom = None \<Longrightarrow> placed A (in_name self) engine custom s"
    using placed_base [OF b] by (simp only: kept)
  from b show "co_replicas engine = Some (cs_instances s)" "cs_plugins s = []"
    by (elim build_fields, simp add: kept image_fields parameters_fields)+
qed

text \<open>The bootstrap: that of the parameters, or recovery from the data source alone.\<close>

lemma desired_bootstrap:
  assumes "desired_cluster A catalog self engine custom w = Inr (s, images)"
  shows "if in_data_source self = None then cs_bootstrap s = requested_initdb custom \<and> cs_external_clusters s = []
    else \<exists>recovery origin. BuildRecoveryConfig (\<lambda>n. pv_oe_backup A n w) (\<lambda>n. pv_cnpg_backup A n w) (in_name self)
        (in_data_source self) custom = Inr (recovery, origin) \<and>
      cs_bootstrap s = Some \<lparr>bo_initdb = None, bo_recovery = Some recovery\<rparr> \<and> cs_external_clusters s = [origin]"
proof -
  obtain b img where b: "buildClusterSpec (pv_quantity A) engine custom = Inr b"
    and r: "recover A self custom (ApplyExtensions (apply_image A img custom
       (apply_parameters A (in_name self) engine custom b)) (Some custom) images) w = Inr s"
    using assms by (rule desired_parts)
  have "cs_external_clusters b = []" using b by (rule build_fields)
  then show ?thesis
    by (rule_tac recover_cases [OF r]) (simp_all add: bootstrap_base [OF b] extensions_fields image_fields parameters_fields)
qed

text \<open>The PostgreSQL configuration: the user's, behind the TLS rule, with what the extensions add.\<close>

lemma desired_postgres:
  assumes "desired_cluster A catalog self engine custom w = Inr (s, images)"
  shows "pg_le ((user_postgres custom)\<lparr>pc_pg_hba := (if cu_require_tls custom = Some True
      then [''hostnossl all all all reject''] else []) @ pc_pg_hba (user_postgres custom)\<rparr>) (cs_postgres s)"
proof -
  obtain b img where b: "buildClusterSpec (pv_quantity A) engine custom = Inr b"
    and r: "recover A self custom (ApplyExtensions (apply_image A img custom
       (apply_parameters A (in_name self) engine custom b)) (Some custom) images) w = Inr s"
    using assms by (rule desired_parts)
  have "cs_postgres (apply_image A img custom (apply_parameters A (in_name self) engine custom b)) =
      (user_postgres custom)\<lparr>pc_pg_hba := (if cu_require_tls custom = Some True
      then [''hostnossl all all all reject''] else []) @ pc_pg_hba (user_postgres custom)\<rparr>"
    using build_postgres [OF b]
    by (cases "cu_postgresql custom")
      (simp_all add: apply_image_postgres apply_parameters_postgres user_postgres_def ApplyRequireTLS_def RejectNonTLSRule_def)
  then show ?thesis
    unfolding fields_kept(5) [OF r] using ApplyExtensions_extends by (metis extends_spec_def)
qed

text \<open>C10: the Cluster of a validated Instance is the one its parameters ask for: at least one
  instance, as many as replicas; with requireTLS the rule that rejects unencrypted connections
  comes before every rule of the user, and without it the rules are the user's; synchronous
  replication is exactly the user's setting, and it can be satisfied by the other instances and the
  listed standbys; the rest of the user's PostgreSQL configuration is kept, the extensions only
  add to it; placement, storage, resources, image, roles, certificates and monitoring are those
  of the parameters and the component. A new Instance is bootstrapped by exactly the initdb of its
  parameters, with the grant of AGE appended when AGE is enabled; one with a data source by
  its recovery alone, so no bootstrap SQL of an extension is left.\<close>

theorem validated_cluster:
  assumes valid: "Validate A catalog self w0 = None" "decoded A (engine_of self) = Inr custom"
    and s: "desired_cluster A catalog self (engine_of self) custom w = Inr (s, images)"
  shows "(1 \<le> cs_instances s \<and> co_replicas (engine_of self) = Some (cs_instances s)) \<and>
    pc_pg_hba (cs_postgres s) = (if cu_require_tls custom = Some True then [''hostnossl all all all reject''] else [])
      @ pc_pg_hba (user_postgres custom) \<and>
    pc_synchronous (cs_postgres s) = pc_synchronous (user_postgres custom) \<and>
    (case pc_synchronous (cs_postgres s) of None \<Rightarrow> True
     | Some sync \<Rightarrow> 1 \<le> sy_number sync \<and>
         sy_number sync < cs_instances s + int (length (sy_standby_names_pre sync @ sy_standby_names_post sync))) \<and>
    pg_le ((user_postgres custom)\<lparr>pc_pg_hba := pc_pg_hba (cs_postgres s)\<rparr>) (cs_postgres s) \<and>
    (\<forall>a. cu_affinity custom = Some a \<longrightarrow> cs_affinity s = a) \<and> placed A (in_name self) (engine_of self) custom s \<and>
    copies_parameters A (engine_of self) custom s \<and>
    (if in_data_source self = None then cs_bootstrap s = requested_initdb custom \<and> cs_external_clusters s = []
     else \<exists>recovery origin. BuildRecoveryConfig (\<lambda>n. pv_oe_backup A n w) (\<lambda>n. pv_cnpg_backup A n w) (in_name self)
         (in_data_source self) custom = Inr (recovery, origin) \<and>
       cs_bootstrap s = Some \<lparr>bo_initdb = None, bo_recovery = Some recovery\<rparr> \<and> cs_external_clusters s = [origin])"
  using valid(1)
proof (rule Validate_None)
  fix engine custom'
  assume e: "engine_of self = engine" "decoded A engine = Inr custom'" "ValidateEngine (pv_quantity A) engine = None"
    and p: "validate_parameters A catalog self engine custom' w0 = None"
  have c: "custom' = custom" using e valid(2) by simp
  have "ValidateScheduling (co_scheduling_policy engine) custom = None" "ValidateSynchronous engine custom = None"
    using p c by (simp_all add: validate_parameters_def)
  note checks = this
  have sync: "enough_standbys (engine, custom)" using synchronous.check_iff [of "(engine, custom)"] checks(2) by simp
  note copied = desired_copied [OF s] and pg = desired_postgres [OF s]
  have n: "1 \<le> cs_instances s" using engine_complete [OF e(3)] copied(2) e(1) by auto
  have pinned: "pc_pg_hba (cs_postgres s) = (if cu_require_tls custom = Some True then [''hostnossl all all all reject''] else [])
      @ pc_pg_hba (user_postgres custom)" "pc_synchronous (cs_postgres s) = pc_synchronous (user_postgres custom)"
    using pg by (simp_all add: pg_le_def)
  have enough: "case pc_synchronous (user_postgres custom) of None \<Rightarrow> True
     | Some sync \<Rightarrow> 1 \<le> sy_number sync \<and>
         sy_number sync < cs_instances s + int (length (sy_standby_names_pre sync @ sy_standby_names_post sync))"
    using sync copied(2) e(1)
    by (cases "cu_postgresql custom")
      (auto simp: enough_standbys_def user_postgres_def zero_postgres_def split: option.splits)
  have pl: "placed A (in_name self) (engine_of self) custom s" using copied(4) checks(1) e(1) by simp
  then have aff: "\<forall>a. cu_affinity custom = Some a \<longrightarrow> cs_affinity s = a"
    by (auto simp: placed_def split: option.splits)
  show ?thesis
    using n copied(1,2) pinned(2) enough pg aff pl desired_bootstrap [OF s] unfolding pinned by blast
qed

lemma sample_desired:
  "\<exists>s. desired_cluster (provider_on g u st sc c mo po b) ''cat'' engine_instance sample_engine (the ts_on) w
     = Inr (s, [''timescaledb-oss'' \<mapsto> ts_image])"
proof -
  let ?A = "provider_on g u st sc c mo po b"
  have no_source: "in_data_source engine_instance = None" by (simp add: engine_instance_def)
  have "pv_quantity ?A = sample_quantities" by (simp add: provider_on_def)
  then obtain s where "buildClusterSpec (pv_quantity ?A) sample_engine (the ts_on) = Inr s"
    using build_no_panic [OF sample_engine_valid] by metis
  moreover have "\<exists>n. engine_image ?A sample_engine w = Inr n"
    by (simp add: engine_image_def Let_def provider_on_def sample_engine_def zero_component_def)
  ultimately show ?thesis
    using no_source by (auto simp: desired_cluster_def sample_images Let_def recover_def)
qed

theorem validated_cluster_witness:
  "\<exists>s. desired_cluster (sample_provider True) ''cat'' engine_instance sample_engine (the ts_on) nothing_deployed
     = Inr (s, [''timescaledb-oss'' \<mapsto> ts_image]) \<and> cs_instances s = 3 \<and> cs_bootstrap s = None \<and>
     pc_synchronous (cs_postgres s) = None"
proof -
  let ?A = "sample_provider True"
  obtain s where s: "desired_cluster ?A ''cat'' engine_instance sample_engine (the ts_on) nothing_deployed
     = Inr (s, [''timescaledb-oss'' \<mapsto> ts_image])"
    by (rule exE [OF sample_desired])
  have fields: "in_data_source engine_instance = None" "engine_of engine_instance = sample_engine"
    "decoded ?A (engine_of engine_instance) = Inr (the ts_on)"
    by (simp_all add: engine_instance_def engine_of_def)
  have ts: "cu_bootstrap (the ts_on) = None" "\<not> toggle_on (Some (the ts_on)) es_age" "cu_postgresql (the ts_on) = None"
    by (simp_all add: ts_on_def with_extensions_def zero_custom_def toggle_on_def no_extensions_def)
  have "requested_initdb (the ts_on) = None" "user_postgres (the ts_on) = zero_postgres"
    using ts by (simp_all add: requested_initdb_def user_postgres_def Let_def)
  then have "co_replicas sample_engine = Some (cs_instances s) \<and> cs_bootstrap s = None \<and> pc_synchronous (cs_postgres s) = None"
    using validated_cluster [OF sample_valid fields(3), where w = nothing_deployed and s = s] s
    by (simp add: fields zero_postgres_def)
  with s show ?thesis by (simp add: sample_engine_def)
qed

section \<open>While a restore runs\<close>

text \<open>C12: while the restore is not done, Sync makes no call on the extensions Database or the
  ScheduledBackups: its effect and its result do not depend on what those calls would do.\<close>

theorem restore_defers_database:
  assumes "pv_reconcile_data_source A w = (Inr False, w1)"
  shows "Sync (A\<lparr>pv_apply_database := f, pv_scheduled := g, pv_controlled := h\<rparr>) catalog self w = Sync A catalog self w"
proof -
  let ?A = "A\<lparr>pv_apply_database := f, pv_scheduled := g, pv_controlled := h\<rparr>"
  have d: "decoded ?A = decoded A"
    by (rule ext) (simp add: decoded_def decode_custom_def split: prod.split bool.split sum.split)
  have sel: "pv_catalog ?A = pv_catalog A" "pv_find_extensions ?A = pv_find_extensions A"
    "pv_provider_spec ?A = pv_provider_spec A" "pv_image_for_version ?A = pv_image_for_version A"
    "pv_default_image ?A = pv_default_image A" "pv_pod_labels ?A = pv_pod_labels A" "pv_spread ?A = pv_spread A"
    "pv_oe_backup ?A = pv_oe_backup A" "pv_cnpg_backup ?A = pv_cnpg_backup A" by simp_all
  have parts: "resolve_images ?A = resolve_images A" "engine_image ?A = engine_image A"
    "apply_parameters ?A = apply_parameters A" "apply_image ?A = apply_image A" "recover ?A = recover A"
    unfolding fun_eq_iff resolve_images_def engine_image_def apply_parameters_def apply_image_def recover_def sel
    by (intro allI refl)+
  have c: "desired_cluster ?A = desired_cluster A"
    by (intro ext) (simp add: desired_cluster_def parts)
  have a: "apply_cluster ?A = apply_cluster A" by (simp add: apply_cluster_def fun_eq_iff)
  show ?thesis unfolding Sync_def d c a by (simp add: assms)
qed

theorem restore_defers_database_witness:
  "Sync ((sample_provider False)\<lparr>pv_apply_database := (\<lambda>n d w. (Some NotFound, w)), pv_scheduled := idle_api,
      pv_controlled := (\<lambda>_. False)\<rparr>) ''cat'' engine_instance nothing_deployed
   = Sync (sample_provider False) ''cat'' engine_instance nothing_deployed"
  by (rule restore_defers_database) (simp add: sample_provider_def)

end
