(* ===== verification/Provider_Converges.thy ===== *)
theory Provider_Converges
  imports Provider_Sync
begin

text \<open>
  What a successful Sync leaves behind: every kind of object the provider manages is in sync
  with the parameters of the Instance, and no call of the Sync undoes an earlier one. The last
  section is an API server that meets the laws the theorem relies on.
\<close>

section \<open>The stored objects\<close>

text \<open>
  What a Sync writes, as the API server stores it: the Cluster and the extensions Database of the
  Instance, and by name the ObjectStores, ScheduledBackups, PodMonitors and Poolers of its
  namespace.
\<close>

record 'o observed =
  ob_cluster :: "cluster option"
  ob_database :: "database option"
  ob_stores :: "string \<rightharpoonup> object_store"
  ob_scheduled :: "string \<rightharpoonup> 'o"
  ob_monitors :: "string \<rightharpoonup> pod_monitor"
  ob_poolers :: "string \<rightharpoonup> pooler"

text \<open>
  What Sync relies on: the calls on each kind obey the laws of \<open>api_laws\<close> and leave the other
  kinds alone, a Cluster or Database that is applied is stored as \<open>admits\<close> allows (the
  operator's webhook may fill in defaults) or with the given specification, and reading the
  state of the restore writes none of these.
\<close>

definition own_kind ::
  "('w \<Rightarrow> 'v) \<Rightarrow> ('w \<Rightarrow> string \<rightharpoonup> 'x) \<Rightarrow> ('s \<Rightarrow> 'x \<Rightarrow> bool) \<Rightarrow> ('w, 's, 'x) api \<Rightarrow> bool" where
  "own_kind others own applied B \<longleftrightarrow> api_laws own applied B \<and> quiet others B"

definition server_laws ::
  "('w \<Rightarrow> 'o observed) \<Rightarrow> (cluster_spec \<Rightarrow> cluster \<Rightarrow> bool) \<Rightarrow> (scheduled_backup_spec \<Rightarrow> 'o \<Rightarrow> bool) \<Rightarrow>
   ('w, 'o) provider_api \<Rightarrow> cnpg_instance \<Rightarrow> bool" where
  "server_laws view admits applied A self \<longleftrightarrow>
     own_kind (\<lambda>w. (view w)\<lparr>ob_stores := Map.empty\<rparr>) (\<lambda>w. ob_stores (view w))
       (\<lambda>s x. oj_spec x = s) (sa_stores (pv_storage A)) \<and>
     own_kind (\<lambda>w. (view w)\<lparr>ob_scheduled := Map.empty\<rparr>) (\<lambda>w. ob_scheduled (view w)) applied (pv_scheduled A) \<and>
     own_kind (\<lambda>w. (view w)\<lparr>ob_monitors := Map.empty\<rparr>) (\<lambda>w. ob_monitors (view w)) (=) (pq_monitors (pv_monitors A)) \<and>
     own_kind (\<lambda>w. (view w)\<lparr>ob_poolers := Map.empty\<rparr>) (\<lambda>w. ob_poolers (view w))
       (\<lambda>s x. pr_spec x = s) (pa_poolers (pv_poolers A)) \<and>
     (\<forall>n w b. pa_exists (pv_poolers A) n w = Inr b \<longrightarrow> b = (ob_poolers (view w) n \<noteq> None)) \<and>
     (\<forall>s w pg w'. pv_apply_cluster A (in_name self) s w = (Inr pg, w') \<longrightarrow>
        admits s pg \<and> view w' = (view w)\<lparr>ob_cluster := Some pg\<rparr>) \<and>
     (\<forall>d w w'. pv_apply_database A (ExtensionsDatabaseName (in_name self)) d w = (None, w') \<longrightarrow>
        (\<exists>db. db_spec db = d \<and> view w' = (view w)\<lparr>ob_database := Some db\<rparr>)) \<and>
     (\<forall>w. view (snd (pv_reconcile_data_source A w)) = view w)"

lemma database_ok:
  "server_laws view admits applied A self \<Longrightarrow>
   SyncExtensionsDatabase (pv_apply_database A) (in_name self) custom images w = (Inr (), w') \<Longrightarrow>
   (case BuildExtensionsDatabase (in_name self) custom images of
      None \<Rightarrow> view w' = view w
    | Some d \<Rightarrow> \<exists>db. db_spec db = d \<and> view w' = (view w)\<lparr>ob_database := Some db\<rparr>)"
  by (auto simp: server_laws_def SyncExtensionsDatabase_def split: option.splits prod.splits)

lemma apply_cluster_ok:
  "server_laws view admits applied A self \<Longrightarrow> apply_cluster A (in_name self) s w = (Inr pg, w') \<Longrightarrow>
   admits s pg \<and> view w' = (view w)\<lparr>ob_cluster := Some pg\<rparr>"
  by (auto simp: server_laws_def apply_cluster_def split: sum.splits prod.splits)

lemma bind_okE:
  assumes "bind_eff c f w = (Inr b, w')"
  obtains a w1 where "c w = (Inr a, w1)" "f a w1 = (Inr b, w')"
  using assms by (rule bind_eff_cases) simp_all

text \<open>The calls of a Sync that succeeds, in their order.\<close>

lemma Sync_calls:
  assumes "Sync A catalog self w0 = (Inr (), w)" "pv_reconcile_data_source A w0 = (Inr True, w1)"
  obtains custom s images plugins w2 pg w3 w4 w5 w6 where
    "decoded A (engine_of self) = Inr custom"
    "desired_cluster A catalog self (engine_of self) custom w1 = Inr (s, images)"
    "SyncBackupInfrastructure (pv_storage A) self w1 = (Inr plugins, w2)"
    "apply_cluster A (in_name self) (if length plugins > 0 then s\<lparr>cs_plugins := plugins\<rparr> else s) w2 = (Inr pg, w3)"
    "syncPodMonitor (pv_methods A) (pv_monitors A) self pg w3 = (Inr (), w4)"
    "syncPooler (pv_poolers A) self (cu_require_tls custom = Some True) w4 = (Inr (), w5)"
    "SyncExtensionsDatabase (pv_apply_database A) (in_name self) (Some custom) images w5 = (Inr (), w6)"
    "SyncScheduledBackups (pv_scheduled A) (pv_controlled A) (pv_unmarshal A) (in_name self) (in_backup self) w6
       = (Inr (), w)"
proof -
  have run: "bind_eff (reads (\<lambda>w. decoded A (engine_of self))) (\<lambda>custom.
          bind_eff (reads (desired_cluster A catalog self (engine_of self) custom)) (\<lambda>(s, images).
          bind_eff (SyncBackupInfrastructure (pv_storage A) self) (\<lambda>plugins.
          bind_eff (apply_cluster A (in_name self)
              (if length plugins > 0 then s\<lparr>cs_plugins := plugins\<rparr> else s))
            (sync_rest A self custom images True)))) w1 = (Inr (), w)"
    using assms unfolding Sync_split by simp
  from run obtain custom where custom: "decoded A (engine_of self) = Inr custom"
    and run: "bind_eff (reads (desired_cluster A catalog self (engine_of self) custom)) (\<lambda>(s, images).
          bind_eff (SyncBackupInfrastructure (pv_storage A) self) (\<lambda>plugins.
          bind_eff (apply_cluster A (in_name self) (if length plugins > 0 then s\<lparr>cs_plugins := plugins\<rparr> else s))
            (sync_rest A self custom images True))) w1 = (Inr (), w)"
    by (rule bind_okE) (simp only: eff_simps prod.inject)
  from run obtain s images where desired: "desired_cluster A catalog self (engine_of self) custom w1 = Inr (s, images)"
    and run: "bind_eff (SyncBackupInfrastructure (pv_storage A) self) (\<lambda>plugins.
          bind_eff (apply_cluster A (in_name self) (if length plugins > 0 then s\<lparr>cs_plugins := plugins\<rparr> else s))
            (sync_rest A self custom images True)) w1 = (Inr (), w)"
    by (rule bind_okE) (auto simp only: eff_simps prod.inject split: prod.splits)
  from run obtain plugins w2 where stores: "SyncBackupInfrastructure (pv_storage A) self w1 = (Inr plugins, w2)"
    and run: "bind_eff (apply_cluster A (in_name self) (if length plugins > 0 then s\<lparr>cs_plugins := plugins\<rparr> else s))
            (sync_rest A self custom images True) w2 = (Inr (), w)"
    by (rule bind_okE)
  from run obtain pg w3 where pg: "apply_cluster A (in_name self)
      (if length plugins > 0 then s\<lparr>cs_plugins := plugins\<rparr> else s) w2 = (Inr pg, w3)"
    and run: "sync_rest A self custom images True pg w3 = (Inr (), w)"
    by (rule bind_okE)
  from run obtain w4 w5 w6 where
    "syncPodMonitor (pv_methods A) (pv_monitors A) self pg w3 = (Inr (), w4)"
    "syncPooler (pv_poolers A) self (cu_require_tls custom = Some True) w4 = (Inr (), w5)"
    "SyncExtensionsDatabase (pv_apply_database A) (in_name self) (Some custom) images w5 = (Inr (), w6)"
    "SyncScheduledBackups (pv_scheduled A) (pv_controlled A) (pv_unmarshal A) (in_name self) (in_backup self) w6
       = (Inr (), w)"
    unfolding sync_rest_def by (elim bind_okE) (simp only: not_True_eq_False if_False, elim bind_okE, simp)
  with custom desired stores pg show thesis by (rule that)
qed

section \<open>Every kind in sync\<close>

text \<open>What is in sync after a successful Sync, per kind of object.\<close>

definition database_in_sync :: "'o observed \<Rightarrow> 'o observed \<Rightarrow> string \<Rightarrow> custom_spec \<Rightarrow> extension_images \<Rightarrow> bool" where
  "database_in_sync o0 o1 name custom images \<longleftrightarrow>
     (case BuildExtensionsDatabase name (Some custom) images of
        None \<Rightarrow> ob_database o1 = ob_database o0
      | Some d \<Rightarrow> \<exists>db. ob_database o1 = Some db \<and> db_spec db = d)"

definition stores_in_sync :: "'o observed \<Rightarrow> cnpg_instance \<Rightarrow> cluster_spec \<Rightarrow> bool" where
  "stores_in_sync o1 self s \<longleftrightarrow>
     (\<forall>b. in_backup self = Some b \<and> bk_enabled b \<and> bk_storages b \<noteq> [] \<longrightarrow>
        cs_plugins s = [\<lparr>pl_name = PluginName, pl_enabled = Some True, pl_is_wal_archiver = Some True,
          pl_parameters = [PluginParameterObjectStore \<mapsto> is_storage_ref (hd (bk_storages b))]\<rparr>] \<and>
        (\<forall>n\<in>is_storage_ref ` set (bk_storages b). \<exists>strg\<in>set (bk_storages b). \<exists>x.
           is_storage_ref strg = n \<and> ob_stores o1 n = Some x \<and>
           storageRetentionPolicy strg = Inr (os_retention_policy (oj_spec x))))"

definition scheduled_in_sync ::
  "(scheduled_backup_spec \<Rightarrow> 'o \<Rightarrow> bool) \<Rightarrow> ('o \<Rightarrow> bool) \<Rightarrow> 'o observed \<Rightarrow> (string \<times> scheduled_backup_spec) list \<Rightarrow> bool" where
  "scheduled_in_sync applied controlled o1 ds \<longleftrightarrow>
     (\<forall>n\<in>fst ` set ds. \<exists>s x. (n, s) \<in> set ds \<and> ob_scheduled o1 n = Some x \<and> applied s x) \<and>
     (\<forall>n x. ob_scheduled o1 n = Some x \<and> controlled x \<longrightarrow> n \<in> fst ` set ds)"

definition pooler_in_sync :: "'o observed \<Rightarrow> cnpg_instance \<Rightarrow> bool \<Rightarrow> bool" where
  "pooler_in_sync o1 self tls \<longleftrightarrow>
     (case in_components self ComponentProxy of
        None \<Rightarrow> ob_poolers o1 (poolerName (in_name self)) = None
      | Some proxy \<Rightarrow> \<exists>p. ob_poolers o1 (poolerName (in_name self)) = Some p \<and> pooler_valid (pr_spec p) \<and>
          po_cluster (pr_spec p) = in_name self \<and>
          (po_parameters (pr_spec p) ''client_tls_sslmode'' = Some ''require'' \<longleftrightarrow> tls))"

definition monitor_in_sync :: "'o observed \<Rightarrow> cnpg_instance \<Rightarrow> prometheus_parameters \<Rightarrow> bool" where
  "monitor_in_sync o1 self prometheus \<longleftrightarrow>
     (ob_monitors o1 (podMonitorName (in_name self)) \<noteq> None) = pp_enabled prometheus"

text \<open>Frames: what a call on another kind of object keeps.\<close>

lemma other_kinds:
  "x\<lparr>ob_stores := a\<rparr> = y\<lparr>ob_stores := b\<rparr> \<Longrightarrow> ob_cluster x = ob_cluster y \<and> ob_database x = ob_database y \<and>
     ob_scheduled x = ob_scheduled y \<and> ob_monitors x = ob_monitors y \<and> ob_poolers x = ob_poolers y"
  "x\<lparr>ob_scheduled := c\<rparr> = y\<lparr>ob_scheduled := d\<rparr> \<Longrightarrow> ob_cluster x = ob_cluster y \<and> ob_database x = ob_database y \<and>
     ob_stores x = ob_stores y \<and> ob_monitors x = ob_monitors y \<and> ob_poolers x = ob_poolers y"
  "x\<lparr>ob_monitors := e\<rparr> = y\<lparr>ob_monitors := f\<rparr> \<Longrightarrow> ob_cluster x = ob_cluster y \<and> ob_database x = ob_database y \<and>
     ob_stores x = ob_stores y \<and> ob_scheduled x = ob_scheduled y \<and> ob_poolers x = ob_poolers y"
  "x\<lparr>ob_poolers := g\<rparr> = y\<lparr>ob_poolers := h\<rparr> \<Longrightarrow> ob_cluster x = ob_cluster y \<and> ob_database x = ob_database y \<and>
     ob_stores x = ob_stores y \<and> ob_scheduled x = ob_scheduled y \<and> ob_monitors x = ob_monitors y"
  by (cases x; cases y; simp)+

lemma own_kinds:
  assumes "server_laws view admits applied A self"
  shows "quiet (\<lambda>w. (view w)\<lparr>ob_stores := Map.empty\<rparr>) (sa_stores (pv_storage A))"
    "quiet (\<lambda>w. (view w)\<lparr>ob_scheduled := Map.empty\<rparr>) (pv_scheduled A)"
    "quiet (\<lambda>w. (view w)\<lparr>ob_monitors := Map.empty\<rparr>) (pq_monitors (pv_monitors A))"
    "quiet (\<lambda>w. (view w)\<lparr>ob_poolers := Map.empty\<rparr>) (pa_poolers (pv_poolers A))"
  using assms by (simp_all add: server_laws_def own_kind_def)

lemmas call_frames = infrastructure_quiet [OF own_kinds(1), THEN other_kinds(1)]
  scheduled_quiet [OF own_kinds(2), THEN other_kinds(2)] monitor_quiet [OF own_kinds(3), THEN other_kinds(3)]
  pooler_quiet [OF own_kinds(4), THEN other_kinds(4)]

text \<open>Each kind after its own call.\<close>

lemma stores_converge:
  assumes laws: "server_laws view admits applied A self"
    and run: "SyncBackupInfrastructure (pv_storage A) self w = (Inr plugins, w')" "ob_stores o1 = ob_stores (view w')"
  shows "stores_in_sync o1 self (if length plugins > 0 then s\<lparr>cs_plugins := plugins\<rparr> else s)"
proof -
  have api: "api_laws (\<lambda>w. ob_stores (view w)) (\<lambda>s x. oj_spec x = s) (sa_stores (pv_storage A))"
    using laws by (simp add: server_laws_def own_kind_def)
  have spec: "stores_spec (\<lambda>s x. oj_spec x = s)" by (simp add: stores_spec_def)
  show ?thesis
    unfolding stores_in_sync_def
  proof (intro allI impI, elim conjE)
    fix b assume b: "in_backup self = Some b" "bk_enabled b" "bk_storages b \<noteq> []"
    from infrastructure_stores [OF api spec b run(1)]
    show "cs_plugins (if length plugins > 0 then s\<lparr>cs_plugins := plugins\<rparr> else s) =
        [\<lparr>pl_name = PluginName, pl_enabled = Some True, pl_is_wal_archiver = Some True,
          pl_parameters = [PluginParameterObjectStore \<mapsto> is_storage_ref (hd (bk_storages b))]\<rparr>] \<and>
      (\<forall>n\<in>is_storage_ref ` set (bk_storages b). \<exists>strg\<in>set (bk_storages b). \<exists>x.
         is_storage_ref strg = n \<and> ob_stores o1 n = Some x \<and>
         storageRetentionPolicy strg = Inr (os_retention_policy (oj_spec x)))"
      unfolding run(2) by (auto; blast)
  qed
qed

lemma scheduled_converge:
  assumes laws: "server_laws view admits applied A self"
    and run: "SyncScheduledBackups (pv_scheduled A) (pv_controlled A) u name b w = (Inr (), w')"
  shows "\<exists>ds. buildScheduledBackups u name b = Inr ds \<and>
    scheduled_in_sync applied (pv_controlled A) (view w') ds"
proof -
  obtain ds where ds: "buildScheduledBackups u name b = Inr ds"
    using run by (auto simp: SyncScheduledBackups_def split: sum.splits)
  have "api_laws (\<lambda>w. ob_scheduled (view w)) applied (pv_scheduled A)"
    using laws by (simp add: server_laws_def own_kind_def)
  from scheduled_converges [OF this ds run] have in_sync:
    "\<forall>n\<in>fst ` set ds. \<exists>s x. (n, s) \<in> set ds \<and> ob_scheduled (view w') n = Some x \<and> applied s x"
    and stale: "\<And>n. n \<notin> fst ` set ds \<Longrightarrow> ob_scheduled (view w') n =
      (case ob_scheduled (view w) n of Some x \<Rightarrow> if pv_controlled A x then None else Some x | None \<Rightarrow> None)"
    by blast+
  have "n \<in> fst ` set ds" if "ob_scheduled (view w') n = Some x" "pv_controlled A x" for n x
  proof (rule ccontr)
    assume "n \<notin> fst ` set ds"
    with stale that show False by (cases "ob_scheduled (view w) n") (auto split: if_splits)
  qed
  with ds in_sync show ?thesis by (auto simp: scheduled_in_sync_def)
qed

lemma pooler_converge:
  assumes laws: "server_laws view admits applied A self"
    and valid: "validateProxy Q dns_1035 (pa_decode (pv_poolers A)) self = None"
    and run: "syncPooler (pv_poolers A) self tls w = (Inr (), w')" "ob_poolers o1 = ob_poolers (view w')"
  shows "pooler_in_sync o1 self tls"
proof -
  have "api_laws (\<lambda>w. ob_poolers (view w)) (\<lambda>s x. pr_spec x = s) (pa_poolers (pv_poolers A))"
    "\<And>n w b. pa_exists (pv_poolers A) n w = Inr b \<Longrightarrow> b = (ob_poolers (view w) n \<noteq> None)"
    using laws by (simp_all add: server_laws_def own_kind_def)
  from syncPooler_converges [OF this valid run(1)] show ?thesis
    unfolding pooler_in_sync_def run(2) by (cases "in_components self ComponentProxy") auto
qed

lemma monitor_converge:
  assumes laws: "server_laws view admits applied A self"
    and crd: "\<And>n s w. fst (ap_apply (pq_monitors (pv_monitors A)) n s w) \<noteq> Some NoMatch \<and>
      fst (ap_delete (pq_monitors (pv_monitors A)) n w) \<noteq> Some NoMatch"
    and run: "syncPodMonitor M (pv_monitors A) self pg w = (Inr (), w')" "ob_monitors o1 = ob_monitors (view w')"
  shows "\<exists>prometheus. prometheusParameters (pq_decode (pv_monitors A)) self = Inr prometheus \<and>
    monitor_in_sync o1 self prometheus"
proof -
  obtain p where p: "prometheusParameters (pq_decode (pv_monitors A)) self = Inr p"
    using run(1) by (auto simp: syncPodMonitor_def split: sum.splits)
  have "api_laws (\<lambda>w. ob_monitors (view w)) (=) (pq_monitors (pv_monitors A))"
    using laws by (simp add: server_laws_def own_kind_def)
  note laws' = this
  have crd': "\<forall>n s w. fst (ap_apply (pq_monitors (pv_monitors A)) n s w) \<noteq> Some NoMatch \<and>
      fst (ap_delete (pq_monitors (pv_monitors A)) n w) \<noteq> Some NoMatch" using crd by blast
  from mp [OF conjunct1 [OF monitor_converges [OF laws' p]] conjI [OF crd' run(1)]] have
    "if pp_enabled p then \<exists>m. ob_monitors (view w') = (ob_monitors (view w))(podMonitorName (in_name self) \<mapsto> m)
     else ob_monitors (view w') = (ob_monitors (view w))(podMonitorName (in_name self) := None)"
    by (auto split: if_splits)
  then have "(ob_monitors (view w') (podMonitorName (in_name self)) \<noteq> None) = pp_enabled p"
    by (metis fun_upd_same option.distinct(1))
  with p run(2) show ?thesis by (simp add: monitor_in_sync_def)
qed


section \<open>A server that stores every kind\<close>

record server =
  sv_deployed :: deployed
  sv_stores :: "(string \<times> object_store) list"
  sv_scheduled :: "(string \<times> scheduled_backup_spec) list"
  sv_monitors :: "(string \<times> pod_monitor) list"
  sv_poolers :: "(string \<times> pooler) list"

definition observe :: "server \<Rightarrow> scheduled_backup_spec observed" where
  "observe w = \<lparr>ob_cluster = de_cluster (sv_deployed w), ob_database = de_database (sv_deployed w),
     ob_stores = map_of (sv_stores w), ob_scheduled = map_of (sv_scheduled w),
     ob_monitors = map_of (sv_monitors w), ob_poolers = map_of (sv_poolers w)\<rparr>"

definition store_in ::
  "('w \<Rightarrow> (string \<times> 'x) list) \<Rightarrow> (((string \<times> 'x) list \<Rightarrow> (string \<times> 'x) list) \<Rightarrow> 'w \<Rightarrow> 'w) \<Rightarrow> ('s \<Rightarrow> 'x) \<Rightarrow>
   ('w, 's, 'x) api" where
  "store_in get upd put = \<lparr>
     ap_get = (\<lambda>n w. ap_get (list_store put) n (get w)), ap_list = (\<lambda>w. ap_list (list_store put) (get w)),
     ap_apply = (\<lambda>n s w. (None, upd (\<lambda>xs. snd (ap_apply (list_store put) n s xs)) w)),
     ap_delete = (\<lambda>n w. (None, upd (\<lambda>xs. snd (ap_delete (list_store put) n xs)) w))\<rparr>"

lemma store_in_laws:
  fixes put :: "'s \<Rightarrow> 'x"
  assumes lens: "\<And>f w. get (upd f w) = f (get w)" and put: "\<And>s. applied s (put s)"
  shows "api_laws (\<lambda>w. map_of (get w)) applied (store_in get upd put)"
proof -
  have step: "\<And>n s xs. map_of (snd (ap_apply (list_store put) n s xs)) = (map_of xs)(n \<mapsto> put s)"
    "\<And>n xs. map_of (snd (ap_delete (list_store put) n xs)) = (map_of xs)(n := None)"
    by (simp_all add: list_store_def map_of_filter_ne)
  note laws = list_store_laws [of put]
  have stored: "\<exists>x. applied s x \<and> m(n \<mapsto> put s) = m(n \<mapsto> x)" for s n and m :: "string \<rightharpoonup> 'x"
    using put by blast
  have list: "set xs = {(n, x). map_of (get w) n = Some x}" if "ap_list (list_store put) (get w) = Inr xs" for w xs
    by (rule api_list_ok [OF laws that])
  have get: "case ap_get (list_store put) n (get w) of Inr x \<Rightarrow> map_of (get w) n = Some x
      | Inl NotFound \<Rightarrow> map_of (get w) n = None | Inl _ \<Rightarrow> True" for n w
    by (simp add: list_store_def split: option.split)
  show ?thesis
    unfolding api_laws_def using list get stored by (simp add: store_in_def lens step)
qed

definition server_provider :: "(server, scheduled_backup_spec) provider_api" where
  "server_provider = provider_on sv_deployed sv_deployed_update
     (idle_storage\<lparr>sa_stores := store_in sv_stores sv_stores_update (\<lambda>s. \<lparr>oj_name = [], oj_spec = s\<rparr>)\<rparr>)
     (store_in sv_scheduled sv_scheduled_update (\<lambda>s. s)) (\<lambda>_. True)
     (idle_monitors\<lparr>pq_monitors := store_in sv_monitors sv_monitors_update (\<lambda>s. s)\<rparr>)
     (idle_poolers\<lparr>pa_poolers := store_in sv_poolers sv_poolers_update stored_pooler,
        pa_exists := (\<lambda>n w. Inr (map_of (sv_poolers w) n \<noteq> None))\<rparr>) True"

lemma server_provider_laws:
  "server_laws observe (\<lambda>s pg. pg = sample_cluster s) (=) server_provider engine_instance"
proof -
  have quiet_in: "quiet others (store_in get upd put)" if "\<And>f w. others (upd f w) = others w"
    for others :: "server \<Rightarrow> scheduled_backup_spec observed" and get :: "server \<Rightarrow> (string \<times> 'y) list" and upd
      and put :: "'s \<Rightarrow> 'y"
    using that by (simp add: quiet_def store_in_def)
  have "\<And>s. pr_spec (stored_pooler s) = s" by (simp add: stored_pooler_def)
  then show ?thesis
    unfolding server_laws_def own_kind_def
    by (intro conjI)
      (auto simp: server_provider_def provider_on_def observe_def sample_database_def intro!: store_in_laws quiet_in)
qed

definition sample_scheduled :: scheduled_backup_spec where
  "sample_scheduled = \<lparr>ss_schedule = ''0 0 2 * * *'', ss_cluster = ''pg'', ss_owner_reference = ''self'',
     ss_method = ''plugin'', ss_plugin = \<lparr>bp_name = PluginName, bp_parameters = Map.empty\<rparr>, ss_target = []\<rparr>"

definition sample_pooler :: pooler_spec where
  "sample_pooler = buildPooler Map.empty ''pg'' sample_proxy \<lparr>pb_pool_mode = ''transaction''\<rparr> False"

text \<open>A server left behind by an Instance that had a proxy and another schedule.\<close>

definition stale_server :: "scheduled_backup_spec \<Rightarrow> pooler \<Rightarrow> server" where
  "stale_server sb p = \<lparr>sv_deployed = nothing_deployed, sv_stores = [], sv_scheduled = [(''pg-old'', sb)],
     sv_monitors = [], sv_poolers = [(''pg-pooler'', p)]\<rparr>"

lemma stale_sync:
  "\<exists>w. Sync server_provider ''cat'' engine_instance (stale_server sb p) = (Inr (), w)"
proof -
  obtain s where s: "desired_cluster server_provider ''cat'' engine_instance sample_engine (the ts_on) (stale_server sb p)
     = Inr (s, [''timescaledb-oss'' \<mapsto> ts_image])"
    unfolding server_provider_def by (rule exE [OF sample_desired])
  have d: "decoded server_provider sample_engine = Inr (the ts_on)"
    unfolding server_provider_def by simp
  obtain db where db: "BuildExtensionsDatabase ''pg'' ts_on [''timescaledb-oss'' \<mapsto> ts_image] = Some db"
    using ts_database [of ts_on] by blast
  have fields: "in_name engine_instance = ''pg''" "in_backup engine_instance = None"
    "in_components engine_instance ComponentProxy = None" "in_topology_parameters engine_instance = None"
    by (simp_all add: engine_instance_def ComponentEngine_def ComponentProxy_def)
  have calls: "pv_reconcile_data_source server_provider = (\<lambda>w. (Inr True, w))"
    "pv_apply_cluster server_provider n c = (\<lambda>w. (Inr (sample_cluster c),
       sv_deployed_update (\<lambda>x. x\<lparr>de_cluster := Some (sample_cluster c)\<rparr>) w))"
    "pv_apply_database server_provider n y = (\<lambda>w. (None,
       sv_deployed_update (\<lambda>x. x\<lparr>de_database := Some (sample_database y)\<rparr>) w))"
    "ap_delete (pv_scheduled server_provider) n =
       (\<lambda>w. (None, sv_scheduled_update (\<lambda>xs. snd (ap_delete (list_store (\<lambda>s. s)) n xs)) w))"
    "ap_list (pv_scheduled server_provider) = (\<lambda>w. ap_list (list_store (\<lambda>s. s)) (sv_scheduled w))"
    "ap_delete (pq_monitors (pv_monitors server_provider)) n =
       (\<lambda>w. (None, sv_monitors_update (\<lambda>xs. snd (ap_delete (list_store (\<lambda>s. s)) n xs)) w))"
    "ap_delete (pa_poolers (pv_poolers server_provider)) n =
       (\<lambda>w. (None, sv_poolers_update (\<lambda>xs. snd (ap_delete (list_store stored_pooler) n xs)) w))"
    "pa_exists (pv_poolers server_provider) = (\<lambda>n w. Inr (map_of (sv_poolers w) n \<noteq> None))"
    "pv_controlled server_provider x" for n c y x
    by (simp_all add: server_provider_def provider_on_def store_in_def)
  have stale: "sv_poolers (stale_server sb p) = [(''pg-pooler'', p)]" "sv_scheduled (stale_server sb p) = [(''pg-old'', sb)]"
    by (simp_all add: stale_server_def)
  show ?thesis
    by (simp add: Sync_def bind_eff_def d s db fields calls SyncBackupInfrastructure_def apply_cluster_def syncPodMonitor_def
        prometheusParameters_def no_prometheus_def syncPooler_def deletePooler_def SyncExtensionsDatabase_def
        SyncScheduledBackups_def buildScheduledBackups_def list_store_def stale poolerName_def poolerNameSuffix_def)
qed


end
