(* ===== verification/Instance_Lifecycle.thy ===== *)
theory Instance_Lifecycle
  imports Provider_Sync
begin

text \<open>
  The life of an Instance under the code itself: runs of Validate and Sync on API servers that
  obey \<open>deployment_laws\<close> are histories of the machine of \<open>Extension_Lifecycle\<close>, so what holds
  for the machine holds for the provider.
\<close>

section \<open>Runs of an Instance\<close>

text \<open>
  The life of the Instance \<open>name\<close> on API servers that behave as \<open>servers\<close> allow, seen through a
  view of its Cluster and its extensions Database. Each \<open>sync\<close> is one reconciliation of the
  code: some specification of the Instance, validated against what is deployed, and then synced,
  however far the Sync gets. The specification, the catalog and the answers of the server may
  change from one to the next. In between, the operator changes statuses.
\<close>

inductive operator_update :: "deployed \<Rightarrow> deployed \<Rightarrow> bool" where
  cluster_status:
    "de_cluster s = Some pg \<Longrightarrow> cl_spec pg' = cl_spec pg \<Longrightarrow> operator_update s (s\<lparr>de_cluster := Some pg'\<rparr>)"
| database_status:
    "de_database s = Some db \<Longrightarrow> db_spec db' = db_spec db \<Longrightarrow> operator_update s (s\<lparr>de_database := Some db'\<rparr>)"
| elsewhere: "operator_update s s"

inductive instance_run ::
  "('w \<Rightarrow> deployed) \<Rightarrow> ('w, 'o) provider_api set \<Rightarrow> string \<Rightarrow> custom_spec list \<Rightarrow> 'w \<Rightarrow> 'w \<Rightarrow> bool"
  for view servers name where
  rest: "instance_run view servers name [] w w"
| sync:
    "instance_run view servers name cs u v \<Longrightarrow> A \<in> servers \<Longrightarrow> in_name self = name \<Longrightarrow>
     deployment_laws view A self \<Longrightarrow> Validate A catalog self v = None \<Longrightarrow>
     decoded A (engine_of self) = Inr c \<Longrightarrow> Sync A catalog self v = (r, w) \<Longrightarrow>
     instance_run view servers name (cs @ [c]) u w"
| operator:
    "instance_run view servers name cs u v \<Longrightarrow> operator_update (view v) (view w) \<Longrightarrow>
     instance_run view servers name cs u w"

inductive_cases operator_updateE: "operator_update s t"

text \<open>Every run of the code is a history of the machine.\<close>

lemma operator_history: "operator_update s t \<Longrightarrow> \<exists>cs. history cs s t \<and> listed cs = {}"
proof (erule operator_updateE)
  have plain: "listed [None] = {}" by (simp add: user_entries_def)
  fix pg pg' assume "t = s\<lparr>de_cluster := Some pg'\<rparr>" "de_cluster s = Some pg" "cl_spec pg' = cl_spec pg"
  then have "history [None] s t"
    using history_snoc [OF history_nil reconcile.operator_cluster, of s pg pg' None] by simp
  with plain show ?thesis by blast
next
  have plain: "listed [None] = {}" by (simp add: user_entries_def)
  fix db db' assume "t = s\<lparr>de_database := Some db'\<rparr>" "de_database s = Some db" "db_spec db' = db_spec db"
  then have "history [None] s t"
    using history_snoc [OF history_nil reconcile.operator_database, of s db db' None] by simp
  with plain show ?thesis by blast
next
  assume "t = s"
  then have "history [] s t \<and> listed [] = {}" by (simp add: history_nil)
  then show ?thesis by blast
qed

lemma history_append: "history cs s t \<Longrightarrow> history ds t u \<Longrightarrow> history (cs @ ds) s u"
  by (rotate_tac, induction rule: history.induct) (auto simp: history_nil simp flip: append_assoc intro: history_snoc)

lemma run_history:
  assumes "instance_run view servers name cs u w"
  shows "\<exists>ds. history ds (view u) (view w) \<and> listed ds \<subseteq> listed (map Some cs)"
  using assms
proof (induction rule: instance_run.induct)
  case (rest w)
  show ?case by (intro exI [of _ "[]"]) (simp add: history_nil)
next
  case (sync cs u v A self catalog c r w)
  then obtain ds where ds: "history ds (view u) (view v)"
    "listed ds \<subseteq> listed (map Some cs)" by blast
  have "truthful view A self" using sync.hyps(4) by (simp add: deployment_laws_def)
  from Validate_accepted [OF this sync.hyps(5)] sync.hyps(6)
  have "accepted (view v) (Some c) (co_version (engine_of self)) (in_version self)" by auto
  from Sync_step [OF sync.hyps(4,7,6) this] show ?case
  proof
    assume "view w = view v"
    with ds show ?thesis by auto
  next
    assume "reconcile (Some c) (view v) (view w)"
    with ds(1) have "history (ds @ [Some c]) (view u) (view w)" by (rule history_snoc)
    with ds(2) show ?thesis by (intro exI [of _ "ds @ [Some c]"]) auto
  qed
next
  case (operator cs u v w)
  then obtain ds where ds: "history ds (view u) (view v)"
    "listed ds \<subseteq> listed (map Some cs)" by blast
  from operator_history [OF operator.hyps(2)] obtain es where
    "history es (view v) (view w)" "listed es = {}" by blast
  with history_append [OF ds(1)] ds(2) show ?case by (intro exI [of _ "ds @ es"]) auto
qed


section \<open>A run\<close>

lemma sample_sync:
  "\<exists>pg db. Sync (sample_provider True) ''cat'' engine_instance nothing_deployed
     = (Inr (), \<lparr>de_cluster = Some pg, de_database = Some db\<rparr>) \<and> ''timescaledb'' \<in> set (map xs_name (dp_extensions (db_spec db)))"
proof -
  let ?A = "sample_provider True"
  obtain s where s: "desired_cluster ?A ''cat'' engine_instance sample_engine (the ts_on) nothing_deployed
     = Inr (s, [''timescaledb-oss'' \<mapsto> ts_image])"
    by (rule exE [OF sample_desired])
  obtain d where d: "BuildExtensionsDatabase ''pg'' ts_on [''timescaledb-oss'' \<mapsto> ts_image] = Some d"
    using ts_database [of ts_on] by blast
  have names: "map xs_name (dp_extensions d) = [''timescaledb'']"
    using created_names [OF d] by (simp add: ts_created)
  then have names: "''timescaledb'' \<in> set (map xs_name (dp_extensions d))" by simp
  have fields: "in_name engine_instance = ''pg''" "in_backup engine_instance = None"
    "in_components engine_instance ComponentProxy = None" "in_topology_parameters engine_instance = None"
    by (simp_all add: engine_instance_def ComponentEngine_def ComponentProxy_def)
  have calls: "pv_reconcile_data_source ?A = (\<lambda>w. (Inr True, w))"
    "pv_apply_cluster ?A n c = (\<lambda>w. (Inr (sample_cluster c), w\<lparr>de_cluster := Some (sample_cluster c)\<rparr>))"
    "pv_apply_database ?A n y = (\<lambda>w. (None, w\<lparr>de_database := Some (sample_database y)\<rparr>))"
    "ap_list (pv_scheduled ?A) = (\<lambda>w. Inr [])" "ap_delete (pq_monitors (pv_monitors ?A)) n = (\<lambda>w. (None, w))"
    "pa_exists (pv_poolers ?A) = (\<lambda>n w. Inr False)" for n c y
    by (simp_all add: provider_on_def idle_api_def idle_monitors_def idle_poolers_def)
  have "Sync ?A ''cat'' engine_instance nothing_deployed
     = (Inr (), \<lparr>de_cluster = Some (sample_cluster s), de_database = Some (sample_database d)\<rparr>)"
    by (simp add: Sync_def bind_eff_def s d fields calls SyncBackupInfrastructure_def apply_cluster_def syncPodMonitor_def
        prometheusParameters_def no_prometheus_def syncPooler_def deletePooler_def SyncExtensionsDatabase_def
        SyncScheduledBackups_def buildScheduledBackups_def)
  with names show ?thesis by (intro exI conjI) (auto simp: sample_database_def)
qed


end
