(* ===== verification/Spec2Isabelle.thy ===== *)
theory Spec2Isabelle
  imports Deletion_Job Mirror Provider_Status Provider_Converges Instance_Lifecycle Sha256_Vector
begin

text \<open>
  CloudNativePG provider for OpenEverest: a verification library.

  The program. \<open>provider-cloudnative-pg\<close> turns an OpenEverest Instance into the objects of the
  CloudNativePG operator. A runtime, which is not part of the repository, calls the provider:
  Validate on an admission, Sync and Status on every reconciliation, SyncBackup, CleanupBackup,
  SyncRestore and CleanupRestore for Backups and Restores, Mirror for the Backups the operator
  creates. The provider keeps no state. Everything it knows it reads from the API server, and its
  only effects are the objects it applies and deletes there: a Cluster, a Database that creates
  SQL extensions, a Pooler, a PodMonitor, Barman ObjectStores, ScheduledBackups, operator Backups
  and a Job that deletes the data of a backup.

  How it is modelled. An operation is a function on the state \<open>'w\<close> of the API server, of type
  \<open>('w, 'a) eff\<close>, that is \<open>'w \<Rightarrow> (err + 'a) \<times> 'w\<close>, or a pure function where the code only reads.
  Errors are values of the datatype \<open>err\<close> with the format strings of the source; a nil
  dereference is the error \<open>Panic\<close>. Code outside the repository is a parameter: calls of the
  runtime and of the API server are fields of records of functions (\<open>api\<close>, \<open>storage_api\<close>,
  \<open>sync_backup_api\<close>, \<open>cleanup_api\<close>, \<open>pooler_api\<close>, \<open>pod_monitor_api\<close>, \<open>provider_api\<close>), the
  methods of the operator's Cluster are \<open>cluster_methods\<close>, the arithmetic of quantities is
  \<open>quantity_ops\<close>, JSON decoding and label and name validation are arguments. What the theorems
  rely on of these is a named hypothesis (\<open>api_laws\<close>, \<open>deployment_laws\<close>, \<open>server_laws\<close>,
  \<open>faithful\<close>, \<open>responsive\<close>), and each has a concrete instance that meets it. Fields the code only
  copies are \<open>opaque\<close>. The functions of Go's standard library that decide something are modelled
  and executable: \<open>strings\<close> and \<open>strconv\<close>, SHA-256 and hexadecimal encoding, RFC 3339 time,
  URL escaping.

  The parts.

  \<^item> Ground: \<open>Prelude\<close> (errors, effects, the locale \<open>checker\<close> of a validator), \<open>Go_Strings\<close>,
    \<open>Sha256\<close>, \<open>Sha256_Vector\<close>, \<open>Go_Time\<close>, \<open>Go_Url\<close>, \<open>Api\<close> (one kind of object on the API
    server), \<open>Kube_Types\<close>, \<open>Backup_Types\<close>, \<open>Backup_Objects\<close> (the data, and the locale
    \<open>readiness_gate\<close> of a status gate).
  \<^item> Extensions (\<open>internal/cnpg/extensions.go\<close>): \<open>Versions\<close> has the comparison of PostgreSQL
    versions and shows that it is a total order on their numeric components; \<open>Extensions\<close> has the
    table of first-class extensions and every function over it, with the declarative rules that
    validation amounts to, soundness of the image resolution, idempotence of their application,
    the order of the SQL extensions, and the quoting of identifiers; \<open>Extension_Lifecycle\<close> is
    the machine of validated syncs over time, in which no installed extension is dropped, no
    TimescaleDB edition is switched, and no creation-only extension is added.
  \<^item> Validation (\<open>internal/cnpg/validate.go\<close>, \<open>tls.go\<close>, \<open>definition/components/types.go\<close>):
    \<open>Validation\<close>; each check is an interpretation of \<open>checker\<close> and so equivalent to a
    declarative predicate.
  \<^item> Names: \<open>Names\<close>; the names of ScheduledBackups and deletion Jobs, as instances of the locale
    \<open>bounded_name\<close>, are bounded and well formed, and how far they are distinct.
  \<^item> Backups (\<open>internal/cnpg/barman\<close>, \<open>internal/provider/backup.go\<close>, \<open>backup_delete.go\<close>,
    \<open>backup_mirror.go\<close>): \<open>Barman_Plugin\<close>, \<open>Schedules\<close> (cron conversion, retention, the sync of
    ScheduledBackups), \<open>Object_Stores\<close> (ObjectStores shared by Instances and the guard on their
    retention), \<open>Restore\<close> (recovery configuration), \<open>Backups\<close> (SyncBackup, SyncRestore),
    \<open>Backup_Cleanup\<close> (the deletion Job and CleanupBackup), \<open>Deletion_Lifecycle\<close> (its
    interleavings with the operator, the Job and others: no data is orphaned, and the cleanup
    ends), \<open>Deletion_Job\<close> (the Job deletes the backup it is for, with the credentials of the
    ObjectStore), \<open>Mirror\<close>.
  \<^item> Gates and connections: \<open>Roles\<close> (\<open>internal/cnpg/roles.go\<close>), \<open>Connection\<close>, \<open>Pooler\<close>,
    \<open>Pod_Monitor\<close>, \<open>Scheduling\<close> (the files of \<open>internal/provider\<close> of these names).
  \<^item> The provider (\<open>internal/provider/provider.go\<close>): \<open>Provider\<close> composes all of the above into
    New, Validate, Sync, Status and Cleanup. \<open>Provider_Safety\<close> shows that Sync dereferences no nil
    pointer once Validate has passed, \<open>Provider_Sync\<close> that Sync refines the machine of
    \<open>Extension_Lifecycle\<close>, what Cluster it applies, and what it leaves alone during a restore,
    \<open>Instance_Lifecycle\<close> that the results on the machine hold for every run of the code,
    \<open>Provider_Converges\<close> that a successful Sync leaves every kind of object in sync,
    \<open>Provider_Status\<close> that an Instance is Ready exactly when all gates are open, and what it then
    publishes. \<open>Provider_Samples\<close> holds the sample Instance and API server of their witnesses.

  Bounds and termination. No operation needs fuel: the loops of the code range over lists and
  maps and are structural recursions or folds, the year loop of \<open>Go_Time\<close> has a measure. A Go
  \<open>int\<close> is an \<open>int\<close>, except where its width decides something: \<open>strconv.Atoi\<close> and \<open>ParseUint\<close>
  saturate and report the range error, SHA-256 works on 32-bit words, CPU quantities are limited
  to int64. A map the code ranges over is a list of its entries in the order of the iteration,
  and what is shown holds for every order.

  Assumptions. A call to the API server is atomic and its reads are fresh within a
  reconciliation; the stale reads of the runtime's cache are not modelled, but other actors
  between two reconciliations are, in the two life cycles.

  Not modelled. \<open>cmd/provider/main.go\<close> starts the process and hands the provider to the
  runtime; \<open>internal/provider/rbac.go\<close>, \<open>definition/types.go\<close> and \<open>gen.go\<close> hold markers and
  directives for generators; the registration of API schemes and logging have no effect on the
  objects. The Helm chart, the manifests and the tests are not code of the provider. The fields
  of CloudNativePG's types that the provider never reads or writes are absent from the records.
\<close>

end
